(* ===== verification/Prelude.thy ===== *)
theory Prelude
  imports Main "HOL-Library.Word"
begin

text \<open>
  Shared ground of the development: the Python exceptions the modelled scripts raise or see, the
  result type that carries them, bit patterns for the two float widths, Python slices and
  dictionaries, and the generic list lemmas the components use. The collection \<open>float_ops\<close> gathers
  the unfolding equations of the float operations; \<open>result_splits\<close> are the case splits of a call's
  outcome.
\<close>

named_theorems float_ops

lemmas result_splits = prod.splits sum.splits

section \<open>Errors as values\<close>

text \<open>
  One constructor per exception class that the sources raise themselves or that a call they make
  is documented to raise. \<open>RequestError\<close> stands for any exception of the \<open>requests\<close> package
  (connection refused, timeout); \<open>HTTPError\<close> is the one of \<open>Response.raise_for_status\<close>, with the
  status code that caused it; \<open>ResponseError\<close> is the one of the \<open>redis\<close> package, \<open>RpcError\<close> (status and
  details) the one of the \<open>grpc\<close> package, \<open>DecodeError\<close> the one of the \<open>protobuf\<close> package.
\<close>

datatype py_error =
    RuntimeError string
  | ValueError string
  | TypeError string
  | KeyError string
  | IndexError string
  | AttributeError string
  | OverflowError string
  | StructError string
  | ConnectionError string
  | ZeroDivisionError
  | HTTPError nat
  | RequestError string
  | ResponseError string
  | RpcError string string
  | DecodeError string
  | NotImplementedError string
  | AssertionError string
  | SystemExit string
  | AlreadyExists

type_synonym 'a result = "py_error + 'a"

primrec rbind :: "'a result \<Rightarrow> ('a \<Rightarrow> 'b result) \<Rightarrow> 'b result" where
  "rbind (Inl e) f = Inl e"
| "rbind (Inr x) f = f x"

primrec mapr :: "('a \<Rightarrow> 'b result) \<Rightarrow> 'a list \<Rightarrow> 'b list result" where
  "mapr f [] = Inr []"
| "mapr f (x # xs) = rbind (f x) (\<lambda>y. rbind (mapr f xs) (\<lambda>ys. Inr (y # ys)))"

lemma rbind_Inr_iff [simp]: "rbind m f = Inr y \<longleftrightarrow> (\<exists>x. m = Inr x \<and> f x = Inr y)"
  by (cases m) auto

lemma rbind_Inl_iff [simp]: "rbind m f = Inl e \<longleftrightarrow> m = Inl e \<or> (\<exists>x. m = Inr x \<and> f x = Inl e)"
  by (cases m) auto

lemma mapr_Inr_map: "(\<And>x. x \<in> set xs \<Longrightarrow> f x = Inr (g x)) \<Longrightarrow> mapr f xs = Inr (map g xs)"
  by (induction xs) auto

lemma mapr_length: "mapr f xs = Inr ys \<Longrightarrow> length ys = length xs"
  by (induction xs arbitrary: ys) auto

lemma mapr_Inr_nth: "mapr f xs = Inr ys \<Longrightarrow> i < length xs \<Longrightarrow> f (xs ! i) = Inr (ys ! i)"
proof (induction xs arbitrary: ys i)
  case Nil
  then show ?case by simp
next
  case (Cons x xs)
  then show ?case by (cases i) auto
qed

lemma mapr_Inr_set: "mapr f xs = Inr ys \<Longrightarrow> y \<in> set ys \<Longrightarrow> \<exists>x \<in> set xs. f x = Inr y"
  by (induction xs arbitrary: ys) auto

lemma mapr_returns: "(\<And>x. x \<in> set xs \<Longrightarrow> \<exists>y. f x = Inr y) \<Longrightarrow> \<exists>ys. mapr f xs = Inr ys"
  by (induction xs) force+

lemma enumerate_mem: "(i, x) \<in> set (enumerate n xs) \<Longrightarrow> x \<in> set xs"
  by (simp add: enumerate_eq_zip set_zip_rightD)

section \<open>Machine values\<close>

text \<open>
  A byte is an \<open>8 word\<close>. Floats are kept as their IEEE-754 bit patterns: a Python float (and a
  numpy float64) is an \<open>f64\<close>, a numpy float32 an \<open>f32\<close>. Nothing in the client computes with
  them; it only moves, narrows and widens them.
\<close>

type_synonym byte = "8 word"
type_synonym bytes = "byte list"
type_synonym f32 = "32 word"
type_synonym f64 = "64 word"

section \<open>Python slices and dictionaries\<close>

text \<open>\<open>xs[a:b]\<close> for non-negative bounds: out-of-range bounds are clipped, never an error.\<close>

definition py_slice :: "'a list \<Rightarrow> nat \<Rightarrow> nat \<Rightarrow> 'a list" where
  "py_slice xs a b = take (b - a) (drop a xs)"

lemma length_py_slice [simp]: "length (py_slice xs a b) = min (b - a) (length xs - a)"
  by (simp add: py_slice_def min.commute)

lemma py_slice_all [simp]: "length xs \<le> b \<Longrightarrow> py_slice xs 0 b = xs"
  by (simp add: py_slice_def)

lemma py_slice_append: "a \<le> b \<Longrightarrow> b \<le> c \<Longrightarrow> py_slice xs a b @ py_slice xs b c = py_slice xs a c"
proof -
  assume ab: "a \<le> b" and bc: "b \<le> c"
  have "py_slice xs a c = take ((b - a) + (c - b)) (drop a xs)"
    using ab bc by (simp add: py_slice_def)
  also have "\<dots> = py_slice xs a b @ take (c - b) (drop (b - a) (drop a xs))"
    by (simp add: take_add py_slice_def)
  finally show ?thesis
    using ab by (simp add: py_slice_def)
qed

lemma py_slice_map: "py_slice (map f xs) a b = map f (py_slice xs a b)"
  by (simp add: py_slice_def take_map drop_map)

lemma py_slice_zip: "py_slice (zip xs ys) a b = zip (py_slice xs a b) (py_slice ys a b)"
  by (simp add: py_slice_def take_zip drop_zip)

lemma py_slice_middle: "length a = i \<Longrightarrow> length b = j - i \<Longrightarrow> py_slice (a @ b @ c) i j = b"
  by (simp add: py_slice_def)

lemma set_slice_subset: "set (py_slice xs a b) \<subseteq> set xs"
  by (auto simp: py_slice_def dest: in_set_takeD in_set_dropD)

lemma list_all_slice: "list_all P xs \<Longrightarrow> list_all P (py_slice xs a b)"
  using set_slice_subset by (fastforce simp: list_all_iff)

text \<open>
  A dictionary is an association list in insertion order, as Python's are; \<open>d[k]\<close> raises
  \<open>KeyError\<close> and \<open>d.get(k)\<close> is \<open>map_of\<close>.
\<close>

definition dict_item :: "(string \<times> 'v) list \<Rightarrow> string \<Rightarrow> 'v result" where
  "dict_item d k = (case map_of d k of None \<Rightarrow> Inl (KeyError k) | Some v \<Rightarrow> Inr v)"

lemma dict_item_Inr [simp]: "map_of d k = Some v \<Longrightarrow> dict_item d k = Inr v"
  by (simp add: dict_item_def)

lemma dict_item_None [simp]: "map_of d k = None \<Longrightarrow> dict_item d k = Inl (KeyError k)"
  by (simp add: dict_item_def)

text \<open>\<open>xs[i]\<close> for a non-negative index.\<close>

definition row_at :: "'a list \<Rightarrow> nat \<Rightarrow> 'a result" where
  "row_at xs i = (if i < length xs then Inr (xs ! i) else Inl (IndexError ''index is out of bounds''))"

end
