(* ===== verification/Bytes.thy ===== *)
theory Bytes
  imports Prelude
begin

text \<open>
  Big-endian integers as \<open>struct.pack\<close> and \<open>struct.unpack\<close> handle them, and the interface the wire
  formats are built on: a \<open>stream_codec\<close> writes a value and reads it back from the front of a
  longer byte string. Vectors, rows, payload blobs and hit lists are sequences of such values, so
  what holds of a counted sequence is proved once, in the locale, and used through its
  interpretations on the fixed-width integers here and on the composite records of the wire.
\<close>

section \<open>Big-endian numbers\<close>

fun be_bytes :: "nat \<Rightarrow> nat \<Rightarrow> bytes" where
  "be_bytes 0 x = []"
| "be_bytes (Suc n) x = be_bytes n (x div 256) @ [of_nat x]"

definition be_nat :: "bytes \<Rightarrow> nat" where
  "be_nat bs = foldl (\<lambda>a b. 256 * a + unat b) 0 bs"

lemma length_be_bytes [simp]: "length (be_bytes n x) = n"
  by (induction n arbitrary: x) auto

lemma be_nat_Nil [simp]: "be_nat [] = 0"
  by (simp add: be_nat_def)

lemma be_nat_snoc [simp]: "be_nat (bs @ [b]) = 256 * be_nat bs + unat b"
  by (simp add: be_nat_def)

lemma unat_byte_of_nat: "unat (of_nat x :: byte) = x mod 256"
  by (simp add: unat_of_nat)

lemma be_nat_be_bytes: "be_nat (be_bytes n x) = x mod 256 ^ n"
proof (induction n arbitrary: x)
  case 0
  then show ?case by simp
next
  case (Suc n)
  then show ?case
    by (simp add: unat_byte_of_nat mod_mult2_eq)
qed

lemma be_bytes_be_nat: "be_bytes (length bs) (be_nat bs) = bs"
proof (induction bs rule: rev_induct)
  case Nil
  then show ?case by simp
next
  case (snoc b bs)
  have b: "unat b < 256"
    using unsigned_less [of b] by simp
  then have "(256 * be_nat bs + unat b) div 256 = be_nat bs"
    by simp
  moreover have "(of_nat (256 * be_nat bs + unat b) :: byte) = b"
    by (rule word_unat_eq_iff [THEN iffD2]) (use b in \<open>simp only: unat_byte_of_nat, simp\<close>)
  ultimately show ?case
    using snoc by simp
qed

lemma be_nat_less: "be_nat bs < 256 ^ length bs"
proof -
  have "be_nat bs = be_nat bs mod 256 ^ length bs"
    using be_nat_be_bytes [of "length bs" "be_nat bs"] by (simp add: be_bytes_be_nat)
  then show ?thesis
    by (metis mod_less_divisor zero_less_numeral zero_less_power)
qed

lemma be_bytes_inject: "x < 256 ^ n \<Longrightarrow> y < 256 ^ n \<Longrightarrow> be_bytes n x = be_bytes n y \<Longrightarrow> x = y"
  by (metis be_nat_be_bytes mod_less)

section \<open>struct.pack and struct.unpack\<close>

text \<open>
  \<open>pack_uint n x\<close> is \<open>struct.pack\<close> of one unsigned big-endian item of \<open>n\<close> bytes (\<open>B\<close>, \<open>H\<close>, \<open>I\<close>, \<open>Q\<close>
  for 1, 2, 4, 8): a Python int outside the item's range is a \<open>struct.error\<close>. \<open>unpack_uint n\<close> is
  \<open>struct.unpack\<close> of one such item, whose buffer must have exactly that many bytes.
\<close>

definition pack_uint :: "nat \<Rightarrow> int \<Rightarrow> bytes result" where
  "pack_uint n x =
     (if 0 \<le> x \<and> x < 256 ^ n then Inr (be_bytes n (nat x))
      else Inl (StructError ''argument out of range''))"

definition unpack_uint :: "nat \<Rightarrow> bytes \<Rightarrow> nat result" where
  "unpack_uint n bs =
     (if length bs = n then Inr (be_nat bs)
      else Inl (StructError ''unpack requires a buffer of the format's size''))"

lemma pack_uint_nat [simp]: "x < 256 ^ n \<Longrightarrow> pack_uint n (int x) = Inr (be_bytes n x)"
proof -
  assume "x < 256 ^ n"
  then have "int x < int (256 ^ n)"
    by (simp only: of_nat_less_iff)
  then show ?thesis
    by (simp add: pack_uint_def)
qed

lemma pack_uint_InrD: "pack_uint n x = Inr bs \<Longrightarrow> 0 \<le> x \<and> nat x < 256 ^ n \<and> bs = be_bytes n (nat x)"
  by (auto simp: pack_uint_def nat_less_iff split: if_splits)

lemma pack_uint_InlD: "pack_uint n x = Inl e \<Longrightarrow> x < 0 \<or> 256 ^ n \<le> x"
  by (auto simp: pack_uint_def split: if_splits)

lemma unpack_pack: "x < 256 ^ n \<Longrightarrow> unpack_uint n (be_bytes n x) = Inr x"
  by (simp add: unpack_uint_def be_nat_be_bytes)

section \<open>Codecs on a byte stream\<close>

text \<open>Reading \<open>n\<close> values one after the other, each from what the one before left.\<close>

fun decode_n :: "(bytes \<Rightarrow> ('a \<times> bytes) option) \<Rightarrow> nat \<Rightarrow> bytes \<Rightarrow> ('a list \<times> bytes) option" where
  "decode_n dec 0 bs = Some ([], bs)"
| "decode_n dec (Suc n) bs =
     (case dec bs of
        None \<Rightarrow> None
      | Some (x, bs1) \<Rightarrow>
          (case decode_n dec n bs1 of
             None \<Rightarrow> None
           | Some (xs, bs2) \<Rightarrow> Some (x # xs, bs2)))"

locale stream_codec =
  fixes enc :: "'a \<Rightarrow> bytes"
    and dec :: "bytes \<Rightarrow> ('a \<times> bytes) option"
    and valid :: "'a \<Rightarrow> bool"
  assumes dec_enc: "valid x \<Longrightarrow> dec (enc x @ rest) = Some (x, rest)"
begin

lemma decode_n_enc:
  "list_all valid xs \<Longrightarrow> decode_n dec (length xs) (concat (map enc xs) @ rest) = Some (xs, rest)"
  by (induction xs) (simp_all add: dec_enc)

lemma enc_prefix_free:
  assumes "valid x" "valid y" "enc x @ r = enc y @ s"
  shows "x = y \<and> r = s"
proof -
  have "dec (enc y @ s) = Some (x, r)"
    using dec_enc [OF assms(1), of r] unfolding assms(3) .
  then show ?thesis
    unfolding dec_enc [OF assms(2)] by simp
qed

lemma enc_seq_prefix_free:
  assumes "list_all valid xs" "list_all valid ys" "length xs = length ys"
    and "concat (map enc xs) @ r = concat (map enc ys) @ s"
  shows "xs = ys \<and> r = s"
proof -
  have "decode_n dec (length ys) (concat (map enc ys) @ s) = Some (xs, r)"
    using decode_n_enc [OF assms(1), of r] unfolding assms(3,4) .
  then show ?thesis
    unfolding decode_n_enc [OF assms(2)] by simp
qed

end

text \<open>A codec whose images all have the same width: a counted sequence has a known size.\<close>

locale fixed_codec = stream_codec enc dec valid
  for enc :: "'a \<Rightarrow> bytes" and dec and valid +
  fixes width :: nat
  assumes enc_width: "valid x \<Longrightarrow> length (enc x) = width"
begin

lemma length_concat_enc: "list_all valid xs \<Longrightarrow> length (concat (map enc xs)) = length xs * width"
  by (induction xs) (simp_all add: enc_width)

end

subsection \<open>Fixed-width items\<close>

definition take_uint :: "nat \<Rightarrow> bytes \<Rightarrow> (nat \<times> bytes) option" where
  "take_uint n bs = (if n \<le> length bs then Some (be_nat (take n bs), drop n bs) else None)"

definition enc_f32 :: "f32 \<Rightarrow> bytes" where
  "enc_f32 v = be_bytes 4 (unat v)"

definition take_f32 :: "bytes \<Rightarrow> (f32 \<times> bytes) option" where
  "take_f32 bs = map_option (\<lambda>(x, rest). (of_nat x, rest)) (take_uint 4 bs)"

definition enc_u64 :: "64 word \<Rightarrow> bytes" where
  "enc_u64 v = be_bytes 8 (unat v)"

definition take_u64 :: "bytes \<Rightarrow> (64 word \<times> bytes) option" where
  "take_u64 bs = map_option (\<lambda>(x, rest). (of_nat x, rest)) (take_uint 8 bs)"

lemma take_uint_be_bytes: "x < 256 ^ n \<Longrightarrow> take_uint n (be_bytes n x @ rest) = Some (x, rest)"
  by (simp add: take_uint_def be_nat_be_bytes)

interpretation u32_codec: fixed_codec "be_bytes 4" "take_uint 4" "\<lambda>x. x < 2 ^ 32" 4
  by unfold_locales (simp_all add: take_uint_be_bytes)

interpretation f32_codec: fixed_codec enc_f32 take_f32 "\<lambda>_. True" 4
proof unfold_locales
  fix v :: f32 and rest :: bytes
  have "unat v < 256 ^ 4"
    using unsigned_less [of v] by simp
  then show "take_f32 (enc_f32 v @ rest) = Some (v, rest)"
    by (simp add: take_f32_def enc_f32_def take_uint_be_bytes)
qed (simp add: enc_f32_def)

interpretation u64_codec: fixed_codec enc_u64 take_u64 "\<lambda>_. True" 8
proof unfold_locales
  fix v :: "64 word" and rest :: bytes
  have "unat v < 256 ^ 8"
    using unsigned_less [of v] by simp
  then show "take_u64 (enc_u64 v @ rest) = Some (v, rest)"
    by (simp add: take_u64_def enc_u64_def take_uint_be_bytes)
qed (simp add: enc_u64_def)

end
