(* ===== verification/Py_Text.thy ===== *)
theory Py_Text
  imports Prelude
begin

text \<open>
  The string operations of Python the scripts use. A \<open>str\<close> is a \<open>string\<close> whose characters are
  code points below 256 (the sources only build and inspect such text; a \<open>char\<close> has eight bits).
  Decimal printing and \<open>int(...)\<close> parsing are inverse to each other, which is what lets an id
  travel as text and come back.
\<close>

section \<open>Decimal numbers\<close>

definition digit_char :: "nat \<Rightarrow> char" where
  "digit_char d = char_of (48 + d)"

fun dec_nat :: "nat \<Rightarrow> string" where
  "dec_nat n = (if n < 10 then [digit_char n] else dec_nat (n div 10) @ [digit_char (n mod 10)])"

declare dec_nat.simps [simp del]

definition str_int :: "int \<Rightarrow> string" where
  "str_int i = (if i < 0 then CHR ''-'' # dec_nat (nat (- i)) else dec_nat (nat i))"

definition char_digit :: "char \<Rightarrow> nat option" where
  "char_digit c = (let n = of_char c in if 48 \<le> n \<and> n < 58 then Some (n - 48) else None)"

text \<open>
  The digits of \<open>int(s)\<close>: at least one digit, single underscores allowed between two digits.
  \<open>read_digits ok acc s\<close> has read \<open>acc\<close>; \<open>ok\<close> says that the last character was a digit.
\<close>

fun read_digits :: "bool \<Rightarrow> nat \<Rightarrow> string \<Rightarrow> nat option" where
  "read_digits ok acc [] = (if ok then Some acc else None)"
| "read_digits ok acc (c # cs) =
     (if c = CHR ''_'' then (if ok then read_digits False acc cs else None)
      else (case char_digit c of
              None \<Rightarrow> None
            | Some d \<Rightarrow> read_digits True (10 * acc + d) cs))"

definition is_space :: "char \<Rightarrow> bool" where
  "is_space c = (let n = (of_char c :: nat) in
     (9 \<le> n \<and> n \<le> 13) \<or> (28 \<le> n \<and> n \<le> 32) \<or> n = 133 \<or> n = 160)"

definition strip :: "string \<Rightarrow> string" where
  "strip s = rev (dropWhile is_space (rev (dropWhile is_space s)))"

definition int_of_str :: "string \<Rightarrow> int result" where
  "int_of_str s =
     (let t = strip s;
          neg = (t \<noteq> [] \<and> hd t = CHR ''-'');
          u = (if t \<noteq> [] \<and> (hd t = CHR ''-'' \<or> hd t = CHR ''+'') then tl t else t)
      in case read_digits False 0 u of
           None \<Rightarrow> Inl (ValueError ''invalid literal for int() with base 10'')
         | Some n \<Rightarrow> Inr (if neg then - int n else int n))"

lemma of_char_digit_char [simp]: "d < 10 \<Longrightarrow> of_char (digit_char d) = 48 + d"
  by (simp add: digit_char_def)

lemma char_digit_digit_char [simp]: "d < 10 \<Longrightarrow> char_digit (digit_char d) = Some d"
  by (simp add: char_digit_def)

lemma digit_char_inject: "d < 10 \<Longrightarrow> e < 10 \<Longrightarrow> digit_char d = digit_char e \<Longrightarrow> d = e"
  by (metis char_digit_digit_char option.inject)

definition is_digit :: "char \<Rightarrow> bool" where
  "is_digit c \<longleftrightarrow> 48 \<le> (of_char c :: nat) \<and> (of_char c :: nat) < 58"

lemma is_digit_digit_char [simp]: "d < 10 \<Longrightarrow> is_digit (digit_char d)"
  by (simp add: is_digit_def)

lemma is_digit_neq:
  "is_digit c \<Longrightarrow> c \<noteq> CHR ''_'' \<and> c \<noteq> CHR ''-'' \<and> c \<noteq> CHR ''+'' \<and> \<not> is_space c"
  by (auto simp: is_digit_def is_space_def Let_def)

lemma digit_char_neq:
  assumes "d < 10"
  shows "digit_char d \<noteq> CHR ''_''" "digit_char d \<noteq> CHR ''-''" "digit_char d \<noteq> CHR ''+''"
    "\<not> is_space (digit_char d)"
  using is_digit_neq [OF is_digit_digit_char [OF assms]] by simp_all

lemma dec_nat_digits: "list_all is_digit (dec_nat n)"
proof (induction n rule: dec_nat.induct)
  case (1 n)
  then show ?case
    by (cases "n < 10") (simp_all add: dec_nat.simps [of n])
qed

lemma dec_nat_not_Nil [simp]: "dec_nat n \<noteq> []"
  by (subst dec_nat.simps) simp

lemma read_digits_dec_nat:
  "read_digits ok acc (dec_nat n @ cs) = read_digits True (acc * 10 ^ length (dec_nat n) + n) cs"
proof (induction n arbitrary: ok acc cs rule: dec_nat.induct)
  case (1 n)
  show ?case
  proof (cases "n < 10")
    case True
    then show ?thesis
      by (simp add: dec_nat.simps [of n] digit_char_neq mult.commute)
  next
    case False
    have "read_digits ok acc (dec_nat n @ cs) =
      read_digits True (acc * 10 ^ length (dec_nat (n div 10)) + n div 10) (digit_char (n mod 10) # cs)"
      using False "1.IH" [of ok acc "digit_char (n mod 10) # cs"] by (simp add: dec_nat.simps [of n])
    also have "\<dots> = read_digits True (10 * (acc * 10 ^ length (dec_nat (n div 10)) + n div 10) + n mod 10) cs"
      by (simp add: digit_char_neq)
    also have "10 * (acc * 10 ^ length (dec_nat (n div 10)) + n div 10) + n mod 10
        = acc * 10 ^ length (dec_nat n) + n"
      using False by (simp add: dec_nat.simps [of n] algebra_simps)
    finally show ?thesis .
  qed
qed

lemma read_digits_dec_nat_all [simp]: "read_digits False 0 (dec_nat n) = Some n"
  using read_digits_dec_nat [of False 0 n "[]"] by simp

lemma dec_nat_inject: "dec_nat m = dec_nat n \<Longrightarrow> m = n"
  by (metis option.inject read_digits_dec_nat_all)

lemma length_dec_nat: "n < 10 ^ Suc m \<Longrightarrow> length (dec_nat n) \<le> Suc m"
proof (induction m arbitrary: n)
  case 0
  then show ?case by (simp add: dec_nat.simps)
next
  case (Suc m)
  from Suc.prems have "n div 10 < 10 ^ Suc m"
    by (simp add: less_mult_imp_div_less mult.commute)
  then have "length (dec_nat (n div 10)) \<le> Suc m"
    by (rule Suc.IH)
  then show ?case
    by (simp add: dec_nat.simps [of n])
qed

lemma strip_digits: "list_all is_digit s \<Longrightarrow> s \<noteq> [] \<Longrightarrow> strip s = s \<and> strip (CHR ''-'' # s) = CHR ''-'' # s"
proof -
  assume d: "list_all is_digit s" and ne: "s \<noteq> []"
  have sp: "\<not> is_space (hd s)" "\<not> is_space (last s)" "\<not> is_space (CHR ''-'')"
    using d ne is_digit_neq by (auto simp: list_all_iff is_space_def)
  have "dropWhile is_space s = s" "dropWhile is_space (rev s) = rev s"
    using sp ne by (simp_all add: dropWhile_eq_self_iff hd_rev)
  moreover have "dropWhile is_space (rev s @ [CHR ''-'']) = rev s @ [CHR ''-'']"
    using sp ne by (simp add: dropWhile_eq_self_iff hd_append hd_rev)
  ultimately show ?thesis
    using sp by (simp add: strip_def)
qed

lemma int_of_str_str_int: "int_of_str (str_int i) = Inr i"
proof -
  let ?n = "nat \<bar>i\<bar>"
  have s: "strip (dec_nat ?n) = dec_nat ?n" "strip (CHR ''-'' # dec_nat ?n) = CHR ''-'' # dec_nat ?n"
    using strip_digits [OF dec_nat_digits dec_nat_not_Nil] by blast+
  have "is_digit (hd (dec_nat ?n))"
    using dec_nat_digits [of ?n] by (auto simp: list_all_iff)
  then have "hd (dec_nat ?n) \<noteq> CHR ''-''" "hd (dec_nat ?n) \<noteq> CHR ''+''"
    by (simp_all add: is_digit_neq)
  with s show ?thesis
    by (cases "i < 0") (simp_all add: int_of_str_def str_int_def Let_def)
qed

lemma str_int_inject: "str_int i = str_int j \<Longrightarrow> i = j"
  by (metis int_of_str_str_int sum.inject(2))

section \<open>The repr of a text\<close>

definition hex_char :: "nat \<Rightarrow> char" where
  "hex_char d = (if d < 10 then char_of (48 + d) else char_of (87 + d))"

text \<open>
  \<open>repr(s)\<close>: single quotes, unless the text has one and no double quote; backslashes, the quote and what is not
  printable (of the first 256 characters) are escaped.
\<close>

definition repr_str :: "string \<Rightarrow> string" where
  "repr_str s =
     (let q = (if CHR 0x27 \<in> set s \<and> CHR 0x22 \<notin> set s then CHR 0x22 else CHR 0x27);
          bs = CHR 0x5C
      in q # concat (map (\<lambda>c.
           (let n = (of_char c :: nat)
            in if c = q \<or> c = bs then [bs, c]
               else if n = 10 then [bs, CHR ''n'']
               else if n = 13 then [bs, CHR ''r'']
               else if n = 9 then [bs, CHR ''t'']
               else if 32 \<le> n \<and> n \<le> 126 \<or> 161 \<le> n \<and> n \<noteq> 173 then [c]
               else [bs, CHR ''x'', hex_char (n div 16), hex_char (n mod 16)])) s) @ [q])"

section \<open>Joining, stripping, searching\<close>

fun join :: "'a list \<Rightarrow> 'a list list \<Rightarrow> 'a list" where
  "join sep [] = []"
| "join sep [s] = s"
| "join sep (s # t # ss) = s @ sep @ join sep (t # ss)"

text \<open>\<open>s.rstrip("/")\<close> for the one-character argument the client uses.\<close>

definition rstrip_char :: "char \<Rightarrow> string \<Rightarrow> string" where
  "rstrip_char c s = rev (dropWhile (\<lambda>x. x = c) (rev s))"

text \<open>\<open>sub in s\<close> on strings.\<close>

fun contains :: "string \<Rightarrow> string \<Rightarrow> bool" where
  "contains sub [] = (sub = [])"
| "contains sub (c # cs) = (take (length sub) (c # cs) = sub \<or> contains sub cs)"

definition lower_char :: "char \<Rightarrow> char" where
  "lower_char c =
     (let n = (of_char c :: nat)
      in if (65 \<le> n \<and> n \<le> 90) \<or> (192 \<le> n \<and> n \<le> 222 \<and> n \<noteq> 215) then char_of (n + 32) else c)"

definition lower :: "string \<Rightarrow> string" where
  "lower s = map lower_char s"

text \<open>\<open>s.split(c)\<close> at every occurrence of one character.\<close>

fun split_char :: "char \<Rightarrow> string \<Rightarrow> string list" where
  "split_char c [] = [[]]"
| "split_char c (x # xs) =
     (if x = c then [] # split_char c xs
      else (case split_char c xs of
              [] \<Rightarrow> [[x]]
            | w # ws \<Rightarrow> (x # w) # ws))"

text \<open>\<open>s.split()\<close>: the words between runs of whitespace.\<close>

definition split_ws :: "string \<Rightarrow> string list" where
  "split_ws s = filter (\<lambda>x. x \<noteq> []) (split_char (CHR '' '') (map (\<lambda>c. if is_space c then CHR '' '' else c) s))"

lemma split_char_none: "c \<notin> set s \<Longrightarrow> split_char c s = [s]"
  by (induction s) auto

lemma split_char_first: "c \<notin> set s \<Longrightarrow> split_char c (s @ c # t) = s # split_char c t"
  by (induction s) auto

text \<open>\<open>s.replace(c, t)\<close> for a one-character pattern.\<close>

definition replace_char :: "char \<Rightarrow> string \<Rightarrow> string \<Rightarrow> string" where
  "replace_char c t s = concat (map (\<lambda>x. if x = c then t else [x]) s)"

lemma contains_iff: "contains sub s \<longleftrightarrow> (\<exists>a b. s = a @ sub @ b)"
proof (induction s)
  case Nil
  then show ?case by auto
next
  case (Cons c cs)
  have "take (length sub) (c # cs) = sub \<longleftrightarrow> (\<exists>b. c # cs = sub @ b)"
    (is "?l = ?r")
  proof
    assume ?l
    then have "c # cs = sub @ drop (length sub) (c # cs)"
      by (metis append_take_drop_id)
    then show ?r by blast
  next
    assume ?r
    then obtain b where "c # cs = sub @ b" by blast
    then show ?l by simp
  qed
  moreover have "(\<exists>a b. c # cs = a @ sub @ b) \<longleftrightarrow> (\<exists>b. c # cs = sub @ b) \<or> (\<exists>a b. cs = a @ sub @ b)"
    by (auto simp: Cons_eq_append_conv)
  ultimately show ?case
    using Cons by simp
qed

lemma rstrip_char_last: "rstrip_char c s \<noteq> [] \<Longrightarrow> last (rstrip_char c s) \<noteq> c"
  using hd_dropWhile [of "\<lambda>x. x = c" "rev s"] by (auto simp: rstrip_char_def last_rev)

lemma rstrip_char_append: "\<exists>n. s = rstrip_char c s @ replicate n c"
proof -
  let ?t = "takeWhile (\<lambda>x. x = c) (rev s)"
  have "rev s = ?t @ dropWhile (\<lambda>x. x = c) (rev s)"
    by simp
  then have "s = rstrip_char c s @ rev ?t"
    by (metis rev_append rev_rev_ident rstrip_char_def)
  moreover have "?t = replicate (length ?t) c"
    by (metis (mono_tags, lifting) replicate_eqI set_takeWhileD)
  ultimately show ?thesis
    by (metis rev_replicate)
qed

section \<open>Encoding text as bytes\<close>

definition utf8_char :: "char \<Rightarrow> bytes" where
  "utf8_char c =
     (let n = (of_char c :: nat)
      in if n < 128 then [of_nat n] else [of_nat (192 + n div 64), of_nat (128 + n mod 64)])"

text \<open>\<open>s.encode()\<close>.\<close>

definition encode :: "string \<Rightarrow> bytes" where
  "encode s = concat (map utf8_char s)"

definition is_ascii :: "string \<Rightarrow> bool" where
  "is_ascii s = list_all (\<lambda>c. (of_char c :: nat) < 128) s"

lemma is_ascii_append [simp]: "is_ascii (s @ t) \<longleftrightarrow> is_ascii s \<and> is_ascii t"
  by (simp add: is_ascii_def)

lemma is_ascii_dec_nat [simp]: "is_ascii (dec_nat n)"
  using dec_nat_digits [of n] by (fastforce simp: is_ascii_def list_all_iff is_digit_def)

lemma is_ascii_str_int [simp]: "is_ascii (str_int i)"
  using is_ascii_dec_nat by (simp add: str_int_def is_ascii_def)

lemma encode_append [simp]: "encode (s @ t) = encode s @ encode t"
  by (simp add: encode_def)

lemma encode_Nil [simp]: "encode [] = []"
  by (simp add: encode_def)

lemma length_encode_ascii: "is_ascii s \<Longrightarrow> length (encode s) = length s"
  by (induction s) (simp_all add: encode_def is_ascii_def utf8_char_def)

lemma encode_eq_Nil [simp]: "encode s = [] \<longleftrightarrow> s = []"
  by (cases s) (simp_all add: encode_def utf8_char_def Let_def)

end
