(* ===== verification/Json.thy ===== *)
theory Json
  imports Py_Text
begin

text \<open>
  The Python values that configurations and HTTP bodies are made of, which are the JSON values:
  one datatype serves for configuration dictionaries, request bodies and decoded responses.
  \<open>dumps\<close> is \<open>json.dumps\<close> with its two separators as arguments and the text of a float (Python's
  \<open>float.__repr__\<close>) as a parameter; the values the client prints itself hold no float.
\<close>

datatype json =
    JNull
  | JBool bool
  | JInt int
  | JFloat f64
  | JStr string
  | JList "json list"
  | JObj "(string \<times> json) list"

type_synonym pydict = "(string \<times> json) list"

text \<open>The truth value Python gives such a value in an \<open>if\<close> or an \<open>or\<close>: both zeros are false.\<close>

fun truthy :: "json \<Rightarrow> bool" where
  "truthy JNull = False"
| "truthy (JBool b) = b"
| "truthy (JInt i) = (i \<noteq> 0)"
| "truthy (JFloat x) = (x \<noteq> 0 \<and> x \<noteq> 2 ^ 63)"
| "truthy (JStr s) = (s \<noteq> [])"
| "truthy (JList xs) = (xs \<noteq> [])"
| "truthy (JObj kvs) = (kvs \<noteq> [])"

text \<open>\<open>int(x)\<close> of a float: truncation towards zero; infinities and NaNs raise.\<close>

definition f64_trunc :: "f64 \<Rightarrow> int result" where
  "f64_trunc x =
     (let s = bit x 63;
          e = unat (take_bit 11 (drop_bit 52 x));
          f = unat (take_bit 52 x)
      in if e = 2047 then
           (if f = 0 then Inl (OverflowError ''cannot convert float infinity to integer'')
            else Inl (ValueError ''cannot convert float NaN to integer''))
         else
           (let m = (if e = 0 then f else 2 ^ 52 + f);
                k = (if e = 0 then 1 else e);
                a = (if 1075 \<le> k then m * 2 ^ (k - 1075) else m div 2 ^ (1075 - k))
            in Inr (if s then - int a else int a)))"

text \<open>\<open>int(v)\<close> of a decoded JSON value.\<close>

fun py_int :: "json \<Rightarrow> int result" where
  "py_int (JInt i) = Inr i"
| "py_int (JBool b) = Inr (if b then 1 else 0)"
| "py_int (JFloat x) = f64_trunc x"
| "py_int (JStr s) = int_of_str s"
| "py_int _ = Inl (TypeError ''int() argument must be a string or a real number'')"

section \<open>Printing\<close>

text \<open>The escapes of \<open>json.dumps\<close> with its default \<open>ensure_ascii=True\<close>.\<close>

definition json_esc :: "char \<Rightarrow> string" where
  "json_esc c =
     (let n = (of_char c :: nat); bs = CHR 0x5C
      in if n = 34 then [bs, CHR 0x22]
         else if n = 92 then [bs, bs]
         else if n = 10 then [bs, CHR ''n'']
         else if n = 13 then [bs, CHR ''r'']
         else if n = 9 then [bs, CHR ''t'']
         else if n = 12 then [bs, CHR ''f'']
         else if n = 8 then [bs, CHR ''b'']
         else if 32 \<le> n \<and> n \<le> 126 then [c]
         else [bs, CHR ''u'', CHR ''0'', CHR ''0'', hex_char (n div 16), hex_char (n mod 16)])"

definition json_str :: "string \<Rightarrow> string" where
  "json_str s = CHR 0x22 # concat (map json_esc s) @ [CHR 0x22]"

function dumps :: "(f64 \<Rightarrow> string) \<Rightarrow> string \<Rightarrow> string \<Rightarrow> json \<Rightarrow> string" where
  "dumps fr isep ksep JNull = ''null''"
| "dumps fr isep ksep (JBool b) = (if b then ''true'' else ''false'')"
| "dumps fr isep ksep (JInt i) = str_int i"
| "dumps fr isep ksep (JFloat x) = fr x"
| "dumps fr isep ksep (JStr s) = json_str s"
| "dumps fr isep ksep (JList xs) = ''['' @ join isep (map (dumps fr isep ksep) xs) @ '']''"
| "dumps fr isep ksep (JObj kvs) =
     ''{'' @ join isep (map (\<lambda>kv. json_str (fst kv) @ ksep @ dumps fr isep ksep (snd kv)) kvs) @ ''}''"
  by pat_completeness auto
termination
proof (relation "measure (\<lambda>(_, _, _, j). size j)", goal_cases)
  case (3 fr isep ksep kvs kv)
  obtain k v where kv: "kv = (k, v)" by (cases kv)
  then have "size v < Suc (size_list (size_prod (\<lambda>_. 0) size) kvs)"
    using 3 by (induction kvs) auto
  then show ?case using kv by simp
qed (auto simp: less_Suc_eq_le size_list_estimation')

text \<open>The two separator styles: \<open>json.dumps(x)\<close> as called, and the compact form without spaces.\<close>

definition json_dumps :: "(f64 \<Rightarrow> string) \<Rightarrow> json \<Rightarrow> string" where
  "json_dumps fr j = dumps fr '', '' '': '' j"

definition json_compact :: "(f64 \<Rightarrow> string) \<Rightarrow> json \<Rightarrow> string" where
  "json_compact fr j = dumps fr '','' '':'' j"

fun float_free :: "json \<Rightarrow> bool" where
  "float_free (JFloat x) = False"
| "float_free (JList xs) = (\<forall>x \<in> set xs. float_free x)"
| "float_free (JObj kvs) = (\<forall>kv \<in> set kvs. float_free (snd kv))"
| "float_free _ = True"

lemma dumps_float_free: "float_free j \<Longrightarrow> dumps fr isep ksep j = dumps fr' isep ksep j"
proof (induction fr isep ksep j rule: dumps.induct)
  case (6 fr isep ksep xs)
  then show ?case by (auto intro!: arg_cong [where f = "join isep"])
next
  case (7 fr isep ksep kvs)
  then show ?case by (auto intro!: arg_cong [where f = "join isep"])
qed auto

end
