(* ===== verification/Float_Bits.thy ===== *)
theory Float_Bits
  imports Prelude
begin

text \<open>
  IEEE-754 conversions between the two float widths, on bit patterns: widening is exact,
  narrowing rounds to nearest with ties to even, overflows to infinity and makes NaNs quiet, as a
  C cast between \<open>double\<close> and \<open>float\<close> does. \<open>struct.pack\<close> with code \<open>f\<close> and the reference instance of
  numpy use them. The round trip through the wider format is the identity on everything but NaNs.
\<close>

definition f32_sign :: "f32 \<Rightarrow> nat" where
  "f32_sign x = unat x div 2 ^ 31"

definition f32_exp :: "f32 \<Rightarrow> nat" where
  "f32_exp x = unat x div 2 ^ 23 mod 2 ^ 8"

definition f32_frac :: "f32 \<Rightarrow> nat" where
  "f32_frac x = unat x mod 2 ^ 23"

definition f64_sign :: "f64 \<Rightarrow> nat" where
  "f64_sign x = unat x div 2 ^ 63"

definition f64_exp :: "f64 \<Rightarrow> nat" where
  "f64_exp x = unat x div 2 ^ 52 mod 2 ^ 11"

definition f64_frac :: "f64 \<Rightarrow> nat" where
  "f64_frac x = unat x mod 2 ^ 52"

definition mk_f32 :: "nat \<Rightarrow> nat \<Rightarrow> f32" where
  "mk_f32 s body = of_nat (s * 2 ^ 31 + body)"

definition mk_f64 :: "nat \<Rightarrow> nat \<Rightarrow> nat \<Rightarrow> f64" where
  "mk_f64 s e f = of_nat (s * 2 ^ 63 + e * 2 ^ 52 + f)"

text \<open>Position of the highest set bit of a positive number.\<close>

fun top_bit :: "nat \<Rightarrow> nat" where
  "top_bit n = (if n < 2 then 0 else Suc (top_bit (n div 2)))"

declare top_bit.simps [simp del]

text \<open>\<open>m / 2 ^ s\<close> rounded to the nearest integer, ties to even.\<close>

definition round_shift :: "nat \<Rightarrow> nat \<Rightarrow> nat" where
  "round_shift m s =
     (if s = 0 then m
      else (let q = m div 2 ^ s; r = m mod 2 ^ s; h = 2 ^ (s - 1)
            in if r > h \<or> (r = h \<and> odd q) then q + 1 else q))"

definition f32_to_f64 :: "f32 \<Rightarrow> f64" where
  "f32_to_f64 x =
     (let s = f32_sign x; e = f32_exp x; f = f32_frac x
      in if e = 255 then mk_f64 s 2047 (if f = 0 then 0 else f * 2 ^ 29)
         else if e = 0 then
           (if f = 0 then mk_f64 s 0 0
            else (let k = top_bit f in mk_f64 s (k + 874) ((f - 2 ^ k) * 2 ^ (52 - k))))
         else mk_f64 s (e + 896) (f * 2 ^ 29))"

text \<open>
  In the normal case the rounded significand keeps its hidden bit, which is why the exponent field
  is added one too low: a carry out of the significand then lands in the exponent, up to infinity.
\<close>

definition f64_to_f32 :: "f64 \<Rightarrow> f32" where
  "f64_to_f32 x =
     (let s = f64_sign x; e = f64_exp x; f = f64_frac x
      in if e = 2047 then
           mk_f32 s (255 * 2 ^ 23 + (if f = 0 then 0 else 2 ^ 22 + (f div 2 ^ 29) mod 2 ^ 22))
         else if e = 0 then mk_f32 s 0
         else if e > 1150 then mk_f32 s (255 * 2 ^ 23)
         else if e \<ge> 897 then mk_f32 s ((e - 897) * 2 ^ 23 + round_shift (2 ^ 52 + f) 29)
         else if e < 872 then mk_f32 s 0
         else mk_f32 s (round_shift (2 ^ 52 + f) (29 + (897 - e))))"

definition f32_is_nan :: "f32 \<Rightarrow> bool" where
  "f32_is_nan x \<longleftrightarrow> f32_exp x = 255 \<and> f32_frac x \<noteq> 0"

definition f32_is_inf :: "f32 \<Rightarrow> bool" where
  "f32_is_inf x \<longleftrightarrow> f32_exp x = 255 \<and> f32_frac x = 0"

definition f64_is_inf :: "f64 \<Rightarrow> bool" where
  "f64_is_inf x \<longleftrightarrow> f64_exp x = 2047 \<and> f64_frac x = 0"

section \<open>Fields\<close>

lemma unat_f32_bound: "unat (x :: f32) < 2 ^ 32"
  using unsigned_less [of x] by simp

lemma f32_fields: "unat x = f32_sign x * 2 ^ 31 + f32_exp x * 2 ^ 23 + f32_frac x"
proof -
  have "unat x = unat x div 2 ^ 23 * 2 ^ 23 + f32_frac x"
    unfolding f32_frac_def by simp
  moreover have "unat x div 2 ^ 23 = unat x div 2 ^ 23 div 2 ^ 8 * 2 ^ 8 + f32_exp x"
    unfolding f32_exp_def by simp
  moreover have "unat x div 2 ^ 23 div 2 ^ 8 = f32_sign x"
    unfolding f32_sign_def by (simp add: div_mult2_eq [symmetric])
  ultimately show ?thesis
    by simp
qed

lemma f32_bounds: "f32_sign x < 2" "f32_exp x < 256" "f32_frac x < 2 ^ 23"
proof -
  show "f32_sign x < 2"
    using unat_f32_bound [of x] unfolding f32_sign_def by (simp add: div_less_iff_less_mult)
qed (simp_all add: f32_exp_def f32_frac_def)

lemma mk_f32_fields: "mk_f32 (f32_sign x) (f32_exp x * 2 ^ 23 + f32_frac x) = x"
proof -
  have "mk_f32 (f32_sign x) (f32_exp x * 2 ^ 23 + f32_frac x) = of_nat (unat x)"
    unfolding mk_f32_def by (subst f32_fields) (simp add: add.assoc)
  then show ?thesis by simp
qed

lemma mk_f64_fields:
  assumes "s < 2" "e < 2048" "f < 2 ^ 52"
  shows "f64_sign (mk_f64 s e f) = s" "f64_exp (mk_f64 s e f) = e" "f64_frac (mk_f64 s e f) = f"
proof -
  have b: "s * 2 ^ 63 + e * 2 ^ 52 + f < 2 ^ 64"
    using assms by simp
  then have u: "unat (mk_f64 s e f) = s * 2 ^ 63 + e * 2 ^ 52 + f"
    unfolding mk_f64_def by (subst unat_of_nat) simp
  show "f64_sign (mk_f64 s e f) = s"
    unfolding f64_sign_def u using assms by simp
  show "f64_frac (mk_f64 s e f) = f"
  proof -
    have "s * 2 ^ 63 + e * 2 ^ 52 + f = f + 2 ^ 52 * (s * 2 ^ 11 + e)"
      by simp
    then show ?thesis
      unfolding f64_frac_def u using assms(3) by (metis mod_less mod_mult_self2)
  qed
  have "(s * 2 ^ 63 + e * 2 ^ 52 + f) div 2 ^ 52 = s * 2 ^ 11 + e"
    using assms by simp
  then show "f64_exp (mk_f64 s e f) = e"
    unfolding f64_exp_def u using assms by simp
qed

lemma top_bit_bounds: "0 < n \<Longrightarrow> 2 ^ top_bit n \<le> n \<and> n < 2 ^ Suc (top_bit n)"
proof (induction n rule: top_bit.induct)
  case (1 n)
  show ?case
  proof (cases "n < 2")
    case True
    with "1.prems" show ?thesis by (simp add: top_bit.simps [of n])
  next
    case False
    then have "2 ^ top_bit (n div 2) \<le> n div 2 \<and> n div 2 < 2 ^ Suc (top_bit (n div 2))"
      using "1.IH" by simp
    then have "2 * 2 ^ top_bit (n div 2) \<le> n \<and> n < 2 * (2 * 2 ^ top_bit (n div 2))"
      unfolding power_Suc by (elim conjE, intro conjI; arith)
    with False show ?thesis by (simp add: top_bit.simps [of n])
  qed
qed

lemma round_shift_exact [simp]: "round_shift (m * 2 ^ s) s = m"
  by (simp add: round_shift_def Let_def)

section \<open>The round trip\<close>

lemma f64_to_f32_widened:
  assumes "\<not> f32_is_nan x"
  shows "f64_to_f32 (f32_to_f64 x) = x"
proof -
  let ?s = "f32_sign x" and ?e = "f32_exp x" and ?f = "f32_frac x"
  note b = f32_bounds [of x]
  have x: "mk_f32 ?s (?e * 2 ^ 23 + ?f) = x"
    by (rule mk_f32_fields)
  consider (inf) "?e = 255" "?f = 0" | (zero) "?e = 0" "?f = 0" | (sub) "?e = 0" "0 < ?f"
    | (norm) "0 < ?e" "?e < 255"
    using assms b by (fastforce simp: f32_is_nan_def)
  then show ?thesis
  proof cases
    case inf
    with x b show ?thesis
      by (simp add: f32_to_f64_def f64_to_f32_def Let_def mk_f64_fields)
  next
    case zero
    with x b show ?thesis
      by (simp add: f32_to_f64_def f64_to_f32_def Let_def mk_f64_fields)
  next
    case sub
    let ?k = "top_bit ?f"
    have k: "2 ^ ?k \<le> ?f" "?f < 2 ^ Suc ?k"
      using top_bit_bounds [OF sub(2)] by auto
    then have k23: "?k < 23"
      using b(3) by (meson le_less_trans nat_power_less_imp_less zero_less_numeral)
    have two: "2 ^ ?k * 2 ^ (52 - ?k) = (2 ^ 52 :: nat)"
      using k23 by (simp add: power_add [symmetric])
    have "2 ^ ?k * 2 ^ (52 - ?k) \<le> ?f * 2 ^ (52 - ?k)"
      using k(1) by (rule mult_right_mono) simp
    then have m: "2 ^ 52 + (?f - 2 ^ ?k) * 2 ^ (52 - ?k) = ?f * 2 ^ (52 - ?k)"
      unfolding diff_mult_distrib two by linarith
    have "(?f - 2 ^ ?k) * 2 ^ (52 - ?k) < 2 ^ ?k * 2 ^ (52 - ?k)"
      using k by (intro mult_strict_right_mono) auto
    also have "\<dots> = 2 ^ 52"
      by (rule two)
    finally have fr: "(?f - 2 ^ ?k) * 2 ^ (52 - ?k) < 2 ^ 52" .
    have sh: "29 + (897 - (?k + 874)) = 52 - ?k"
      using k23 by simp
    show ?thesis
      using sub k23 x b(1) fr m
      by (simp add: f32_to_f64_def f64_to_f32_def Let_def mk_f64_fields sh)
  next
    case norm
    have "?f * 2 ^ 29 < 2 ^ 52"
      using b(3) by simp
    moreover have "round_shift (2 ^ 52 + ?f * 2 ^ 29) 29 = 2 ^ 23 + ?f"
      using round_shift_exact [of "2 ^ 23 + ?f" 29] by simp
    moreover have "mk_f32 ?s ((?e - 1) * 2 ^ 23 + (2 ^ 23 + ?f)) = mk_f32 ?s (?e * 2 ^ 23 + ?f)"
      using norm by (cases ?e) (simp_all add: ac_simps)
    ultimately show ?thesis
      using norm x b(1)
      by (simp add: f32_to_f64_def f64_to_f32_def Let_def mk_f64_fields)
  qed
qed

lemma mk_f32_frac:
  assumes "s < 2" "e < 256" "f < 2 ^ 23"
  shows "f32_frac (mk_f32 s (e * 2 ^ 23 + f)) = f"
proof -
  have "unat (mk_f32 s (e * 2 ^ 23 + f)) = f + 2 ^ 23 * (s * 2 ^ 8 + e)"
    unfolding mk_f32_def using assms by (subst unat_of_nat) simp
  then show ?thesis
    unfolding f32_frac_def using assms(3) by (metis mod_less mod_mult_self2)
qed

text \<open>Widening and narrowing makes an infinity only from one: a widened float32 can always be packed.\<close>

lemma widened_inf: "f32_is_inf (f64_to_f32 (f32_to_f64 x)) \<Longrightarrow> f64_is_inf (f32_to_f64 x)"
proof (cases "f32_is_nan x")
  case True
  note b = f32_bounds [of x]
  let ?q = "2 ^ 22 + f32_frac x mod 2 ^ 22"
  have "f64_to_f32 (f32_to_f64 x) = mk_f32 (f32_sign x) (255 * 2 ^ 23 + ?q)"
    using True b by (simp add: f32_is_nan_def f32_to_f64_def f64_to_f32_def Let_def mk_f64_fields)
  moreover have "f32_frac (mk_f32 (f32_sign x) (255 * 2 ^ 23 + ?q)) = ?q"
    using b(1) by (intro mk_f32_frac) simp_all
  moreover assume "f32_is_inf (f64_to_f32 (f32_to_f64 x))"
  ultimately show ?thesis
    by (simp add: f32_is_inf_def)
next
  case False
  assume "f32_is_inf (f64_to_f32 (f32_to_f64 x))"
  with False have "f32_exp x = 255" "f32_frac x = 0"
    by (simp_all add: f64_to_f32_widened f32_is_inf_def)
  then show ?thesis
    using f32_bounds(1) [of x] by (simp add: f32_to_f64_def f64_is_inf_def Let_def mk_f64_fields)
qed

end
