(* ===== verification/Wire.thy ===== *)
theory Wire
  imports Bytes Json Float_Bits
begin

unbundle bit_operations_syntax

text \<open>
  The module-level part of \<open>vectordbbench/rostam/rostam.py\<close>: the two binary framings the client
  writes (\<open>RVB1\<close> for bulk loads, \<open>RVQ1\<close> for queries), the JSON body it falls back to, and the input
  conversions. numpy is not part of the repository: what the code calls of it is the record
  \<open>numpy\<close>, an argument of every definition that uses it, and \<open>numpy_spec\<close> states the documented
  behaviour of those calls. The decoders at the end are the layouts that the source's comments
  document, read from the receiver's side; the encoders are proved against them.
\<close>

section \<open>numpy as a parameter\<close>

text \<open>
  A float32 array as the client sees it: one-dimensional (what an empty list becomes) or
  two-dimensional with its number of columns. A query row is a numpy float32 row or a Python
  sequence of floats; ids come as a numpy array or a sequence of ints.
\<close>

datatype nd32 = Nd1 "f32 list" | Nd2 nat "f32 list list"

datatype vec = NdVec "f32 list" | PyVec "f64 list"

datatype id_seq = NdIds "int list" | PyIds "int list"

text \<open>
  \<open>np_f32\<close>: cast of one float64 to float32. \<open>np_f64\<close>: one float32 element through \<open>tolist\<close>.
  \<open>np_matrix\<close>: \<open>np.ascontiguousarray(rows, dtype=np.float32)\<close> of a list of rows.
  \<open>np_store_ids n ids\<close>: \<open>rec["id"] = ids\<close> for a record array of \<open>n\<close> rows with a \<open>">u8"\<close> column.
  \<open>np_f4_tobytes\<close>: \<open>tobytes()\<close> of a \<open>">f4"\<close> row. \<open>np_rec_tobytes\<close>: \<open>tobytes()\<close> of the record array
  with dtype \<open>[("id", ">u8"), ("vec", ">f4", (dim,))]\<close>.
\<close>

record numpy =
  np_f32 :: "f64 \<Rightarrow> f32"
  np_f64 :: "f32 \<Rightarrow> f64"
  np_matrix :: "f64 list list \<Rightarrow> nd32 result"
  np_store_ids :: "nat \<Rightarrow> int list \<Rightarrow> 64 word list result"
  np_f4_tobytes :: "f32 list \<Rightarrow> bytes"
  np_rec_tobytes :: "(64 word \<times> f32 list) list \<Rightarrow> bytes"

definition u64_id :: "int \<Rightarrow> bool" where
  "u64_id i \<longleftrightarrow> 0 \<le> i \<and> i < 2 ^ 64"

definition rectangular :: "nat \<Rightarrow> 'a list list \<Rightarrow> bool" where
  "rectangular d rows = list_all (\<lambda>r. length r = d) rows"

definition enc_row :: "64 word \<times> f32 list \<Rightarrow> bytes" where
  "enc_row r = enc_u64 (fst r) @ concat (map enc_f32 (snd r))"

definition numpy_spec :: "numpy \<Rightarrow> bool" where
  "numpy_spec np \<longleftrightarrow>
     (\<forall>x. f32_is_nan x \<or> np_f32 np (np_f64 np x) = x) \<and>
     np_matrix np [] = Inr (Nd1 []) \<and>
     (\<forall>d rows. rows \<noteq> [] \<longrightarrow> rectangular d rows \<longrightarrow>
        np_matrix np rows = Inr (Nd2 d (map (map (np_f32 np)) rows))) \<and>
     (\<forall>ids. list_all u64_id ids \<longrightarrow> np_store_ids np (length ids) ids = Inr (map word_of_int ids)) \<and>
     (\<forall>n ids. length ids \<noteq> n \<longrightarrow> length ids \<noteq> 1 \<longrightarrow>
        (\<exists>e. np_store_ids np n ids = Inl e \<and> (list_all u64_id ids \<longrightarrow> (\<exists>msg. e = ValueError msg)))) \<and>
     (\<forall>v. np_f4_tobytes np v = concat (map enc_f32 v)) \<and>
     (\<forall>rs. np_rec_tobytes np rs = concat (map enc_row rs))"

section \<open>Constants and input conversions\<close>

definition bulk_magic :: bytes where
  "bulk_magic = encode ''RVB1''"

definition bulk_flag_payloads :: nat where
  "bulk_flag_payloads = push_bit 0 1"

definition bulk_flag_upsert :: nat where
  "bulk_flag_upsert = push_bit 1 1"

definition binary_unsupported :: "nat list" where
  "binary_unsupported = [400, 404, 415]"

definition query_magic :: bytes where
  "query_magic = encode ''RVQ1''"

definition query_flag_filter :: nat where
  "query_flag_filter = push_bit 0 1"

definition as_f32 :: "numpy \<Rightarrow> f64 list list \<Rightarrow> nd32 result" where
  "as_f32 np embeddings = np_matrix np embeddings"

definition as_f4 :: "numpy \<Rightarrow> vec \<Rightarrow> f32 list" where
  "as_f4 np q = (case q of NdVec v \<Rightarrow> v | PyVec xs \<Rightarrow> map (np_f32 np) xs)"

definition to_list :: "numpy \<Rightarrow> vec \<Rightarrow> f64 list" where
  "to_list np q = (case q of NdVec v \<Rightarrow> map (np_f64 np) v | PyVec xs \<Rightarrow> xs)"

definition to_ints :: "id_seq \<Rightarrow> int list" where
  "to_ints xs = (case xs of NdIds is \<Rightarrow> is | PyIds is \<Rightarrow> is)"

definition nd_slice :: "nd32 \<Rightarrow> nat \<Rightarrow> nat \<Rightarrow> nd32" where
  "nd_slice r a b = (case r of Nd1 v \<Rightarrow> Nd1 (py_slice v a b) | Nd2 d rows \<Rightarrow> Nd2 d (py_slice rows a b))"

section \<open>The query frame\<close>

definition query_body :: "numpy \<Rightarrow> vec \<Rightarrow> int \<Rightarrow> bytes \<Rightarrow> bytes result" where
  "query_body np query k filter_blob =
     (let q = as_f4 np query;
          flags = (if filter_blob \<noteq> [] then query_flag_filter else 0)
      in rbind (pack_uint 4 (int flags)) (\<lambda>fl.
         rbind (pack_uint 4 k) (\<lambda>kb.
         rbind (pack_uint 4 (int (length q))) (\<lambda>db.
         rbind (pack_uint 1 0) (\<lambda>rc.
         rbind (pack_uint 1 0) (\<lambda>opa.
         rbind (pack_uint 2 0) (\<lambda>res.
         rbind (pack_uint 8 0) (\<lambda>stale.
           (let out = query_magic @ fl @ kb @ db @ rc @ opa @ res @ stale @ np_f4_tobytes np q
            in if filter_blob \<noteq> [] then
                 rbind (pack_uint 4 (int (length filter_blob))) (\<lambda>lb. Inr (out @ lb @ filter_blob))
               else Inr out)))))))))"

section \<open>The bulk frame\<close>

text \<open>\<open>b'{"id":{"kind":"int","int":%d}}' % i\<close>\<close>

definition payload_blob :: "int \<Rightarrow> bytes" where
  \<open>payload_blob i = encode (''{"id":{"kind":"int","int":'' @ str_int i @ ''}}'')\<close>

text \<open>The payload section: per id the length of its blob and the blob.\<close>

primrec pack_payloads :: "int list \<Rightarrow> bytes result" where
  "pack_payloads [] = Inr []"
| "pack_payloads (i # is) =
     rbind (pack_uint 4 (int (length (payload_blob i)))) (\<lambda>lb.
     rbind (pack_payloads is) (\<lambda>rest. Inr (lb @ payload_blob i @ rest)))"

definition binary_body :: "numpy \<Rightarrow> int list \<Rightarrow> nd32 \<Rightarrow> bool \<Rightarrow> bool \<Rightarrow> bytes result" where
  "binary_body np ids rows upsert payloads =
     (case rows of
        Nd1 _ \<Rightarrow> Inl (ValueError ''not enough values to unpack (expected 2, got 1)'')
      | Nd2 dim rs \<Rightarrow>
          (let n = length rs;
               flags0 = (if payloads then 0 OR bulk_flag_payloads else 0);
               flags = (if upsert then flags0 OR bulk_flag_upsert else flags0)
           in rbind (pack_uint 4 (int flags)) (\<lambda>fl.
              rbind (pack_uint 4 (int n)) (\<lambda>nb.
              rbind (pack_uint 4 (int dim)) (\<lambda>db.
              rbind (np_store_ids np n ids) (\<lambda>idcol.
              rbind (if payloads then pack_payloads ids else Inr []) (\<lambda>pays.
                Inr (bulk_magic @ fl @ nb @ db @ np_rec_tobytes np (zip idcol rs) @ pays))))))))"

section \<open>The JSON body\<close>

text \<open>\<open>rows.tolist()\<close>: floats for a one-dimensional array, lists of floats for a matrix.\<close>

definition nd_tolist :: "numpy \<Rightarrow> nd32 \<Rightarrow> json list" where
  "nd_tolist np rows =
     (case rows of
        Nd1 v \<Rightarrow> map (\<lambda>x. JFloat (np_f64 np x)) v
      | Nd2 _ rs \<Rightarrow> map (\<lambda>r. JList (map (\<lambda>x. JFloat (np_f64 np x)) r)) rs)"

definition id_metadata :: "int \<Rightarrow> json" where
  "id_metadata i = JObj [(''id'', JObj [(''kind'', JStr ''int''), (''int'', JInt i)])]"

definition json_body :: "numpy \<Rightarrow> int list \<Rightarrow> nd32 \<Rightarrow> bool \<Rightarrow> bool \<Rightarrow> json" where
  "json_body np ids rows payloads upsert =
     (let vecs = nd_tolist np rows;
          points =
            (if payloads then
               map (\<lambda>(i, v). JObj [(''id'', JInt i), (''vector'', v), (''metadata'', id_metadata i)])
                 (zip ids vecs)
             else map (\<lambda>(i, v). JObj [(''id'', JInt i), (''vector'', v)]) (zip ids vecs));
          body = [(''points'', JList points)]
      in JObj (if upsert then body @ [(''upsert'', JBool True)] else body))"

end
