(* ===== verification/Config.thy ===== *)
theory Config
  imports Json
begin

text \<open>
  \<open>vectordbbench/rostam/config.py\<close> and \<open>cli.py\<close>: the connection settings and the index parameters
  of the client, the dictionaries they are turned into, and the command-line entry that builds
  both. \<open>SecretStr\<close> of pydantic is its text (an empty secret is false, as its length is 0); the
  metric enumeration belongs to VectorDBBench, of which the code names two members.
\<close>

section \<open>Connection settings\<close>

record rostam_config =
  cfg_url :: string
  cfg_api_key :: "string option"
  cfg_load_path :: string
  cfg_binary_wire :: bool
  cfg_binary_query :: bool

definition default_config :: rostam_config where
  "default_config =
     \<lparr>cfg_url = ''http://127.0.0.1:8080'', cfg_api_key = None, cfg_load_path = ''bulk'',
      cfg_binary_wire = True, cfg_binary_query = True\<rparr>"

definition to_dict :: "rostam_config \<Rightarrow> pydict" where
  "to_dict c =
     [(''url'', JStr (cfg_url c)),
      (''api_key'', (case cfg_api_key c of
                       None \<Rightarrow> JNull
                     | Some k \<Rightarrow> if k \<noteq> [] then JStr k else JNull)),
      (''load_path'', JStr (cfg_load_path c)),
      (''binary_wire'', JBool (cfg_binary_wire c)),
      (''binary_query'', JBool (cfg_binary_query c))]"

section \<open>Index parameters\<close>

datatype metric_type = L2 | IP | OtherMetric string

record hnsw_config =
  metric_type :: "metric_type option"
  hnsw_m :: int
  ef_construction :: int
  ef_search :: int
  quant :: string

definition default_hnsw :: hnsw_config where
  "default_hnsw = \<lparr>metric_type = None, hnsw_m = 16, ef_construction = 200, ef_search = 64, quant = []\<rparr>"

definition parse_metric :: "hnsw_config \<Rightarrow> string" where
  "parse_metric c =
     (if metric_type c = Some L2 then ''l2''
      else if metric_type c = Some IP then ''dot''
      else ''cosine'')"

definition index_param :: "hnsw_config \<Rightarrow> pydict" where
  "index_param c =
     [(''metric'', JStr (parse_metric c)),
      (''m'', JInt (hnsw_m c)),
      (''ef_construction'', JInt (ef_construction c)),
      (''ef_search'', JInt (ef_search c)),
      (''quant'', JStr (quant c))]"

definition search_param :: "hnsw_config \<Rightarrow> pydict" where
  "search_param c = []"

section \<open>The command line\<close>

text \<open>The options with their defaults, and the command: what it hands to VectorDBBench's \<open>run\<close>.\<close>

definition cli_defaults :: pydict where
  "cli_defaults =
     [(''url'', JStr ''http://127.0.0.1:8080''), (''m'', JInt 16), (''ef_construction'', JInt 200),
      (''ef_search'', JInt 64), (''quant'', JStr [])]"

fun opt_str :: "json \<Rightarrow> string result" where
  "opt_str (JStr s) = Inr s"
| "opt_str _ = Inl (ValueError ''Input should be a valid string'')"

fun opt_int :: "json \<Rightarrow> int result" where
  "opt_int (JInt i) = Inr i"
| "opt_int _ = Inl (ValueError ''Input should be a valid integer'')"

definition rostam_hnsw_command :: "pydict \<Rightarrow> (rostam_config \<times> hnsw_config) result" where
  "rostam_hnsw_command ps =
     rbind (rbind (dict_item ps ''url'') opt_str) (\<lambda>u.
     rbind (rbind (dict_item ps ''m'') opt_int) (\<lambda>m.
     rbind (rbind (dict_item ps ''ef_construction'') opt_int) (\<lambda>efc.
     rbind (rbind (dict_item ps ''ef_search'') opt_int) (\<lambda>efs.
     rbind (rbind (dict_item ps ''quant'') opt_str) (\<lambda>q.
       Inr (default_config\<lparr>cfg_url := u\<rparr>,
            default_hnsw\<lparr>hnsw_m := m, ef_construction := efc, ef_search := efs, quant := q\<rparr>))))))"

end
