(* ===== verification/Client.thy ===== *)
theory Client
  imports Wire Config
begin

text \<open>
  The class \<open>Rostam\<close> of \<open>vectordbbench/rostam/rostam.py\<close>. Its attributes are the record \<open>rostam\<close>; each
  method is a function from the object (and the world) to the object after the call and the value
  it returns or the exception it raises. The \<open>requests\<close> package, the network and the server are
  one parameter, a \<open>transport\<close>: given the world, the session and a request it yields the next world
  and a response or an exception.
\<close>

section \<open>HTTP as a parameter\<close>

datatype http_body = NoBody | JsonBody json | RawBody bytes

record request =
  rq_method :: string
  rq_url :: string
  rq_headers :: "(string \<times> string) list"
  rq_body :: http_body
  rq_timeout :: nat

text \<open>A response: its code, its text, what \<open>json()\<close> gives and what \<open>raise_for_status()\<close> raises.\<close>

record response =
  status_code :: nat
  resp_text :: string
  resp_json :: "json result"
  resp_raises :: "py_error option"

record session =
  sess_headers :: "(string \<times> string) list"

type_synonym 'w transport = "'w \<Rightarrow> session \<Rightarrow> request \<Rightarrow> 'w \<times> response result"

section \<open>The object\<close>

record rostam =
  dim :: int
  collection_name :: string
  base :: string
  api_key :: json
  load_path :: string
  query_filter :: "json option"
  binary :: bool
  binary_proven :: bool
  binary_query :: bool
  binary_query_proven :: bool
  filter_blob :: bytes
  active_session :: "session option"

definition insert_batch :: nat where
  "insert_batch = 1000"

definition binary_headers :: "(string \<times> string) list" where
  "binary_headers = [(''Content-Type'', ''application/octet-stream'')]"

definition load_paths :: "string list" where
  "load_paths = [''bulk'', ''payload'', ''batch'']"

text \<open>
  The text of a truthy api key in the f-string of its header. \<open>RostamConfig.to_dict\<close> yields text or
  \<open>None\<close>; ints and booleans are printed too, the last case (float, list, dict) has no such source.
\<close>

fun key_text :: "json \<Rightarrow> string" where
  "key_text (JStr s) = s"
| "key_text (JInt i) = str_int i"
| "key_text (JBool b) = (if b then ''True'' else ''False'')"
| "key_text _ = []"

definition new_session :: "rostam \<Rightarrow> session" where
  "new_session r =
     \<lparr>sess_headers = (if truthy (api_key r) then [(''Authorization'', ''Bearer '' @ key_text (api_key r))] else [])\<rparr>"

definition sess :: "rostam \<Rightarrow> session" where
  "sess r = (case active_session r of Some s \<Rightarrow> s | None \<Rightarrow> new_session r)"

definition init_enter :: "rostam \<Rightarrow> rostam" where
  "init_enter r = r\<lparr>active_session := Some (new_session r)\<rparr>"

definition init_exit :: "rostam \<Rightarrow> rostam \<times> unit result" where
  "init_exit r =
     (case active_session r of
        None \<Rightarrow> (r, Inl (AttributeError ''close''))
      | Some _ \<Rightarrow> (r\<lparr>active_session := None\<rparr>, Inr ()))"

definition url :: "rostam \<Rightarrow> string list \<Rightarrow> string" where
  "url r parts = join ''/'' ([base r, ''v1'', ''collections''] @ parts)"

definition post_json :: "string \<Rightarrow> json \<Rightarrow> nat \<Rightarrow> request" where
  "post_json u j t = \<lparr>rq_method = ''POST'', rq_url = u, rq_headers = [], rq_body = JsonBody j, rq_timeout = t\<rparr>"

definition post_raw :: "string \<Rightarrow> bytes \<Rightarrow> nat \<Rightarrow> request" where
  "post_raw u b t = \<lparr>rq_method = ''POST'', rq_url = u, rq_headers = binary_headers, rq_body = RawBody b, rq_timeout = t\<rparr>"

section \<open>Creation\<close>

definition create_config :: "int \<Rightarrow> pydict \<Rightarrow> json result" where
  "create_config d idx =
     rbind (dict_item idx ''metric'') (\<lambda>metric.
     rbind (dict_item idx ''m'') (\<lambda>m.
     rbind (dict_item idx ''ef_construction'') (\<lambda>efc.
     rbind (dict_item idx ''ef_search'') (\<lambda>efs.
       (let cfg = [(''dim'', JInt d), (''metric'', metric), (''m'', m),
                   (''ef_construction'', efc), (''ef_search'', efs)]
        in case map_of idx ''quant'' of
             None \<Rightarrow> Inr (JObj cfg)
           | Some q \<Rightarrow> Inr (JObj (if truthy q then cfg @ [(''quant'', q)] else cfg)))))))"

definition create :: "'w transport \<Rightarrow> 'w \<Rightarrow> rostam \<Rightarrow> session \<Rightarrow> int \<Rightarrow> pydict \<Rightarrow> 'w \<times> unit result" where
  "create send w r s d idx =
     (case create_config d idx of
        Inl e \<Rightarrow> (w, Inl e)
      | Inr cfg \<Rightarrow>
          (case send w s (post_json (url r []) (JObj [(''name'', JStr (collection_name r)), (''config'', cfg)]) 120) of
             (w', Inl e) \<Rightarrow> (w', Inl e)
           | (w', Inr resp) \<Rightarrow>
               (w', if status_code resp = 200 \<or> status_code resp = 201 then Inr ()
                    else if status_code resp = 409 \<or> contains ''exist'' (lower (resp_text resp)) then Inl AlreadyExists
                    else Inl (RuntimeError (''create collection failed: '' @
                                dec_nat (status_code resp) @ '' '' @ resp_text resp)))))"

definition load_path_of :: "pydict \<Rightarrow> json" where
  "load_path_of db = (case map_of db ''load_path'' of
                        None \<Rightarrow> JStr ''bulk''
                      | Some v \<Rightarrow> if truthy v then v else JStr ''bulk'')"

definition flag_of :: "pydict \<Rightarrow> string \<Rightarrow> bool" where
  "flag_of db k = (case map_of db k of None \<Rightarrow> True | Some v \<Rightarrow> truthy v)"

text \<open>
  The \<open>!r\<close> of a load path in the text of its error. \<open>RostamConfig\<close> has text there; ints and booleans are printed
  too, the last case (float, list, dict) has no such source.
\<close>

fun path_repr :: "json \<Rightarrow> string" where
  "path_repr (JStr s) = repr_str s"
| "path_repr (JInt i) = str_int i"
| "path_repr (JBool b) = (if b then ''True'' else ''False'')"
| "path_repr _ = []"

text \<open>The attributes as the constructor sets them, before any request.\<close>

definition rostam_fields :: "int \<Rightarrow> pydict \<Rightarrow> string \<Rightarrow> rostam result" where
  "rostam_fields d db coll =
     rbind (dict_item db ''url'') (\<lambda>u.
       case u of
         JStr us \<Rightarrow>
           (let bad = Inl (RuntimeError (''unknown load_path '' @ path_repr (load_path_of db)))
            in case load_path_of db of
              JStr lp \<Rightarrow>
                if lp \<in> set load_paths then
                  Inr \<lparr>dim = d, collection_name = coll, base = rstrip_char (CHR ''/'') us,
                       api_key = (case map_of db ''api_key'' of None \<Rightarrow> JNull | Some k \<Rightarrow> k),
                       load_path = lp, query_filter = None,
                       binary = flag_of db ''binary_wire'', binary_proven = False,
                       binary_query = flag_of db ''binary_query'', binary_query_proven = False,
                       filter_blob = [], active_session = None\<rparr>
                else bad
            | _ \<Rightarrow> bad)
       | _ \<Rightarrow> Inl (AttributeError ''rstrip''))"

definition delete_request :: "rostam \<Rightarrow> request" where
  "delete_request r =
     \<lparr>rq_method = ''DELETE'', rq_url = url r [collection_name r], rq_headers = [], rq_body = NoBody, rq_timeout = 60\<rparr>"

definition drop_collection :: "'w transport \<Rightarrow> 'w \<Rightarrow> rostam \<Rightarrow> session \<Rightarrow> bool \<Rightarrow> 'w \<times> unit result" where
  "drop_collection send w r s drop_old =
     (if drop_old then
        (case send w s (delete_request r) of
           (w', Inl e) \<Rightarrow> (w', Inl e)
         | (w', Inr _) \<Rightarrow> (w', Inr ()))
      else (w, Inr ()))"

definition rostam_init ::
  "'w transport \<Rightarrow> 'w \<Rightarrow> int \<Rightarrow> pydict \<Rightarrow> hnsw_config \<Rightarrow> string \<Rightarrow> bool \<Rightarrow> 'w \<times> rostam result" where
  "rostam_init send w d db case_config coll drop_old =
     (case rostam_fields d db coll of
        Inl e \<Rightarrow> (w, Inl e)
      | Inr r \<Rightarrow>
          (let s = new_session r;
               idx = index_param case_config
           in case drop_collection send w r s drop_old of
                (w1, Inl e) \<Rightarrow> (w1, Inl e)
              | (w1, Inr _) \<Rightarrow>
                  (case create send w1 r s d idx of
                     (w2, Inr _) \<Rightarrow> (w2, Inr r)
                   | (w2, Inl AlreadyExists) \<Rightarrow> (w2, if drop_old then Inl AlreadyExists else Inr r)
                   | (w2, Inl e) \<Rightarrow> (w2, Inl e))))"

section \<open>Load\<close>

text \<open>
  One iteration of the loop of \<open>insert_embeddings\<close>: the chunk that starts at \<open>start\<close>. It goes on,
  returns a count with an error, or raises (which the surrounding \<open>try\<close> turns into a count of 0).
\<close>

datatype step_out = Continue | Return int "py_error option" | Raise py_error

definition insert_failed :: "nat \<Rightarrow> response \<Rightarrow> py_error" where
  "insert_failed start resp =
     RuntimeError (''insert failed @'' @ dec_nat start @ '': '' @ dec_nat (status_code resp) @ '' '' @ resp_text resp)"

definition send_json_chunk ::
  "'w transport \<Rightarrow> session \<Rightarrow> string \<Rightarrow> nat \<Rightarrow> json \<Rightarrow> rostam \<Rightarrow> 'w \<Rightarrow> 'w \<times> rostam \<times> step_out" where
  "send_json_chunk send s u start body r w =
     (case send w s (post_json u body 600) of
        (w', Inl e) \<Rightarrow> (w', r, Raise e)
      | (w', Inr resp) \<Rightarrow>
          (w', r, if status_code resp \<noteq> 200 then Return (int start) (Some (insert_failed start resp)) else Continue))"

definition insert_step ::
  "numpy \<Rightarrow> 'w transport \<Rightarrow> session \<Rightarrow> string \<Rightarrow> bool \<Rightarrow> bool \<Rightarrow> int list \<Rightarrow> nd32 \<Rightarrow> nat \<Rightarrow> rostam \<Rightarrow> 'w
    \<Rightarrow> 'w \<times> rostam \<times> step_out" where
  "insert_step np send s u inline payload_path metadata rows start r w =
     (let end = min (start + insert_batch) (length metadata);
          ids = py_slice metadata start end;
          chunk = nd_slice rows start end;
          body = json_body np ids chunk payload_path inline
      in if binary r then
           (case binary_body np ids chunk inline payload_path of
              Inl e \<Rightarrow> (w, r, Raise e)
            | Inr bs \<Rightarrow>
                (case send w s (post_raw u bs 600) of
                   (w', Inl e) \<Rightarrow> (w', r, Raise e)
                 | (w', Inr resp) \<Rightarrow>
                     (if status_code resp \<in> set binary_unsupported \<and> \<not> binary_proven r then
                        send_json_chunk send s u start body (r\<lparr>binary := False\<rparr>) w'
                      else if status_code resp \<noteq> 200 then
                        (w', r, Return (int start) (Some (insert_failed start resp)))
                      else (w', r\<lparr>binary_proven := True\<rparr>, Continue))))
         else send_json_chunk send s u start body r w)"

function insert_loop ::
  "numpy \<Rightarrow> 'w transport \<Rightarrow> session \<Rightarrow> string \<Rightarrow> bool \<Rightarrow> bool \<Rightarrow> int list \<Rightarrow> nd32 \<Rightarrow> nat \<Rightarrow> rostam \<Rightarrow> 'w
    \<Rightarrow> 'w \<times> rostam \<times> int \<times> py_error option" where
  "insert_loop np send s u inline payload_path metadata rows start r w =
     (if start < length metadata then
        (case insert_step np send s u inline payload_path metadata rows start r w of
           (w', r', Continue) \<Rightarrow>
             insert_loop np send s u inline payload_path metadata rows (start + insert_batch) r' w'
         | (w', r', Return c e) \<Rightarrow> (w', r', c, e)
         | (w', r', Raise e) \<Rightarrow> (w', r', 0, Some e))
      else (w, r, int (length metadata), None))"
  by pat_completeness auto
termination
  by (relation "measure (\<lambda>(_, _, _, _, _, _, metadata, _, start, _, _). length metadata - start)")
    (auto simp: insert_batch_def)

declare insert_loop.simps [simp del]

definition points_url :: "rostam \<Rightarrow> string list \<Rightarrow> string" where
  "points_url r parts = url r ([collection_name r, ''points''] @ parts)"

definition insert_embeddings ::
  "numpy \<Rightarrow> 'w transport \<Rightarrow> rostam \<Rightarrow> 'w \<Rightarrow> f64 list list \<Rightarrow> id_seq
    \<Rightarrow> 'w \<times> rostam \<times> (int \<times> py_error option) result" where
  "insert_embeddings np send r w embeddings metadata =
     (let ids = to_ints metadata;
          s = sess r;
          inline = (load_path r = ''batch'');
          payload_path = (load_path r \<in> set [''payload'', ''batch'']);
          u = (if inline then points_url r [''batch''] else points_url r [''bulk''])
      in case as_f32 np embeddings of
           Inl e \<Rightarrow> (w, r, Inl e)
         | Inr rows \<Rightarrow>
             (case insert_loop np send s u inline payload_path ids rows 0 r w of
                (w', r', out) \<Rightarrow> (w', r', Inr out)))"

definition optimize :: "'w transport \<Rightarrow> rostam \<Rightarrow> 'w \<Rightarrow> 'w \<times> unit result" where
  "optimize send r w =
     (if load_path r = ''batch'' then (w, Inr ())
      else (case send w (sess r) (post_json (points_url r [''bulk'', ''build'']) (JObj []) (24 * 3600)) of
              (w', Inl e) \<Rightarrow> (w', Inl e)
            | (w', Inr resp) \<Rightarrow>
                (w', if status_code resp \<noteq> 200
                     then Inl (RuntimeError (''bulk build failed: '' @ dec_nat (status_code resp) @ '' '' @ resp_text resp))
                     else Inr ())))"

section \<open>Query\<close>

text \<open>The filters of VectorDBBench, with the fields the client reads and the text \<open>str()\<close> gives.\<close>

datatype filter_op = NonFilter | NumGE | StrEqual

record vdb_filter =
  flt_type :: filter_op
  int_field :: string
  int_value :: json
  flt_text :: string

definition num_ge_json :: "string \<Rightarrow> int \<Rightarrow> json" where
  "num_ge_json field v =
     JObj [(''op'', JStr ''gte''), (''field'', JStr field),
           (''value'', JObj [(''kind'', JStr ''int''), (''int'', JInt v)])]"

definition prepare_filter :: "(f64 \<Rightarrow> string) \<Rightarrow> rostam \<Rightarrow> vdb_filter \<Rightarrow> rostam \<times> unit result" where
  "prepare_filter fr r f =
     (if flt_type f = NonFilter then (r\<lparr>query_filter := None, filter_blob := []\<rparr>, Inr ())
      else if flt_type f = NumGE then
        (if load_path r = ''bulk'' then
           (r, Inl (RuntimeError ''Rostam filter cases require load_path='payload' (or 'batch'); load_path='bulk' stores no payload to filter on''))
         else (case py_int (int_value f) of
                 Inl e \<Rightarrow> (r, Inl e)
               | Inr v \<Rightarrow>
                   (let q = num_ge_json (int_field f) v
                    in (r\<lparr>query_filter := Some q, filter_blob := encode (json_dumps fr q)\<rparr>, Inr ()))))
      else (r, Inl (RuntimeError (''unsupported filter for Rostam: '' @ flt_text f))))"

definition hit_id :: "json \<Rightarrow> int result" where
  "hit_id h = (case h of
                 JObj kvs \<Rightarrow> rbind (dict_item kvs ''id'') py_int
               | _ \<Rightarrow> Inl (TypeError ''indices must be integers''))"

text \<open>\<open>[int(h["id"]) for h in body.get("results", [])]\<close> on the decoded body.\<close>

definition result_ids :: "json \<Rightarrow> int list result" where
  "result_ids j =
     (case j of
        JObj kvs \<Rightarrow>
          (case map_of kvs ''results'' of
             None \<Rightarrow> Inr []
           | Some v \<Rightarrow>
               (case v of
                  JList hs \<Rightarrow> mapr hit_id hs
                | JObj kvs' \<Rightarrow> mapr hit_id (map (\<lambda>kv. JStr (fst kv)) kvs')
                | JStr s \<Rightarrow> mapr hit_id (map (\<lambda>c. JStr [c]) s)
                | _ \<Rightarrow> Inl (TypeError ''object is not iterable'')))
      | _ \<Rightarrow> Inl (AttributeError ''get''))"

text \<open>\<open>r.raise_for_status()\<close>, then the ids of \<open>r.json()\<close>.\<close>

definition checked_ids :: "response \<Rightarrow> int list result" where
  "checked_ids resp =
     (case resp_raises resp of Some e \<Rightarrow> Inl e | None \<Rightarrow> rbind (resp_json resp) result_ids)"

definition query_json :: "numpy \<Rightarrow> vec \<Rightarrow> int \<Rightarrow> json option \<Rightarrow> json" where
  "query_json np q k flt =
     JObj ([(''query'', JList (map JFloat (to_list np q))), (''k'', JInt k)] @
           (case flt of None \<Rightarrow> [] | Some f \<Rightarrow> [(''filter'', f)]))"

definition search_json ::
  "numpy \<Rightarrow> 'w transport \<Rightarrow> rostam \<Rightarrow> 'w \<Rightarrow> vec \<Rightarrow> int \<Rightarrow> 'w \<times> int list result" where
  "search_json np send r w q k =
     (case send w (sess r) (post_json (points_url r [''search'']) (query_json np q k (query_filter r)) 120) of
        (w', Inl e) \<Rightarrow> (w', Inl e)
      | (w', Inr resp) \<Rightarrow> (w', checked_ids resp))"

definition search_embedding ::
  "numpy \<Rightarrow> 'w transport \<Rightarrow> rostam \<Rightarrow> 'w \<Rightarrow> vec \<Rightarrow> int \<Rightarrow> 'w \<times> rostam \<times> int list result" where
  "search_embedding np send r w q k =
     (if binary_query r then
        (case query_body np q k (filter_blob r) of
           Inl e \<Rightarrow> (w, r, Inl e)
         | Inr bs \<Rightarrow>
             (case send w (sess r) (post_raw (points_url r [''search'']) bs 120) of
                (w', Inl e) \<Rightarrow> (w', r, Inl e)
              | (w', Inr resp) \<Rightarrow>
                  (if status_code resp \<in> set binary_unsupported \<and> \<not> binary_query_proven r then
                     (let r' = r\<lparr>binary_query := False\<rparr>
                      in case search_json np send r' w' q k of (w'', out) \<Rightarrow> (w'', r', out))
                   else (case resp_raises resp of
                           Some e \<Rightarrow> (w', r, Inl e)
                         | None \<Rightarrow>
                             (w', r\<lparr>binary_query_proven := True\<rparr>, rbind (resp_json resp) result_ids)))))
      else (case search_json np send r w q k of (w', out) \<Rightarrow> (w', r, out)))"

end
