(* ===== verification/Client_Steps.thy ===== *)
theory Client_Steps
  imports Client
begin

text \<open>
  What the methods do to the object. The two wires (bulk load and query) negotiate the same way:
  a binary request is tried first, a rejection before any success switches the wire to JSON for
  good, a success pins it. That contract is the locale \<open>wire_negotiation\<close>; it is interpreted on one
  loop iteration of the load, on whole loads and on searches, and finally on the step
  relation of the object, which interleaves all methods in any order.
\<close>

section \<open>The contract of a negotiated wire\<close>

locale wire_negotiation =
  fixes enabled :: "'s \<Rightarrow> bool"
    and proven :: "'s \<Rightarrow> bool"
    and step :: "'s \<Rightarrow> 's \<Rightarrow> bool"
  assumes disabled_stays: "step s t \<Longrightarrow> \<not> enabled s \<Longrightarrow> \<not> enabled t"
    and proven_stays: "step s t \<Longrightarrow> enabled s \<Longrightarrow> proven s \<Longrightarrow> enabled t \<and> proven t"
    and proven_is_enabled: "step s t \<Longrightarrow> \<not> proven s \<Longrightarrow> proven t \<Longrightarrow> enabled t"
begin

lemma run_disabled: "step\<^sup>*\<^sup>* s t \<Longrightarrow> \<not> enabled s \<Longrightarrow> \<not> enabled t"
  by (induction rule: rtranclp_induct) (auto dest: disabled_stays)

lemma run_proven: "step\<^sup>*\<^sup>* s t \<Longrightarrow> enabled s \<Longrightarrow> proven s \<Longrightarrow> enabled t \<and> proven t"
  by (induction rule: rtranclp_induct) (auto dest: proven_stays)

lemma step_coherent: "step s t \<Longrightarrow> (proven s \<longrightarrow> enabled s) \<Longrightarrow> proven t \<longrightarrow> enabled t"
  using proven_stays proven_is_enabled by blast

lemma run_coherent: "step\<^sup>*\<^sup>* s t \<Longrightarrow> (proven s \<longrightarrow> enabled s) \<Longrightarrow> proven t \<longrightarrow> enabled t"
  by (induction rule: rtranclp_induct) (use step_coherent in blast)+

lemma run_proven_is_enabled: "step\<^sup>*\<^sup>* s t \<Longrightarrow> \<not> proven s \<Longrightarrow> proven t \<Longrightarrow> enabled t"
  using run_coherent by blast

end

section \<open>The load\<close>

text \<open>One loop iteration, and a whole call, as relations on the object.\<close>

definition insert_rel :: "rostam \<Rightarrow> rostam \<Rightarrow> bool" where
  "insert_rel r r' \<longleftrightarrow>
     r' = r \<or> (binary r \<and> \<not> binary_proven r \<and> r' = r\<lparr>binary := False\<rparr>) \<or>
     (binary r \<and> r' = r\<lparr>binary_proven := True\<rparr>)"

lemma send_json_chunk_keeps: "send_json_chunk send s u start body r w = (w', r', out) \<Longrightarrow> r' = r"
  by (auto simp: send_json_chunk_def split: result_splits)

lemma insert_step_rel:
  assumes "insert_step np send s u inline pp md rows start r w = (w', r', out)"
  shows "insert_rel r r'"
  using assms
  by (auto simp: insert_step_def Let_def insert_rel_def split: if_splits result_splits
      dest!: send_json_chunk_keeps)

interpretation chunk: wire_negotiation binary binary_proven insert_rel
  by unfold_locales (auto simp: insert_rel_def)

lemma insert_loop_rel:
  "insert_loop np send s u inline pp md rows start r w = (w', r', out) \<Longrightarrow> insert_rel\<^sup>*\<^sup>* r r'"
proof (induction np send s u inline pp md rows start r w rule: insert_loop.induct)
  case (1 np send s u inline pp md rows start r w)
  obtain w1 r1 o1 where st: "insert_step np send s u inline pp md rows start r w = (w1, r1, o1)"
    by (metis prod_cases3)
  have r1: "insert_rel r r1"
    using insert_step_rel [OF st] .
  show ?case
  proof (cases "start < length md")
    case True
    show ?thesis
    proof (cases o1)
      case Continue
      with True st "1.prems" have "insert_loop np send s u inline pp md rows (start + insert_batch) r1 w1 = (w', r', out)"
        by (simp add: insert_loop.simps [of np send s u inline pp md rows start r w])
      with "1.IH" True st Continue have "insert_rel\<^sup>*\<^sup>* r1 r'"
        by fastforce
      with r1 show ?thesis by (rule converse_rtranclp_into_rtranclp)
    qed (use True st r1 "1.prems" in \<open>auto simp: insert_loop.simps [of np send s u inline pp md rows start r w]\<close>)
  qed (use "1.prems" in \<open>auto simp: insert_loop.simps [of np send s u inline pp md rows start r w]\<close>)
qed

lemma insert_rel_frame: "insert_rel r r' \<Longrightarrow> \<exists>b p. r' = r\<lparr>binary := b, binary_proven := p\<rparr>"
proof -
  assume "insert_rel r r'"
  then consider "r' = r" | "r' = r\<lparr>binary := False\<rparr>" | "r' = r\<lparr>binary_proven := True\<rparr>"
    by (auto simp: insert_rel_def)
  then show ?thesis
    by cases (rule exI [of _ "binary r'"], rule exI [of _ "binary_proven r'"], simp)+
qed

lemma insert_run_frame: "insert_rel\<^sup>*\<^sup>* r r' \<Longrightarrow> \<exists>b p. r' = r\<lparr>binary := b, binary_proven := p\<rparr>"
proof (induction rule: rtranclp_induct)
  case base
  show ?case by (rule exI [of _ "binary r"], rule exI [of _ "binary_proven r"]) simp
next
  case (step y z)
  then obtain b p where "y = r\<lparr>binary := b, binary_proven := p\<rparr>" by blast
  with insert_rel_frame [OF step.hyps(2)] show ?case by auto
qed

lemma insert_embeddings_rel:
  assumes "insert_embeddings np send r w emb md = (w', r', out)"
  shows "insert_rel\<^sup>*\<^sup>* r r'"
  using assms by (auto simp: insert_embeddings_def Let_def split: result_splits dest: insert_loop_rel)

section \<open>Queries and filters\<close>

definition search_rel :: "rostam \<Rightarrow> rostam \<Rightarrow> bool" where
  "search_rel r r' \<longleftrightarrow>
     r' = r \<or> (binary_query r \<and> \<not> binary_query_proven r \<and> r' = r\<lparr>binary_query := False\<rparr>) \<or>
     (binary_query r \<and> r' = r\<lparr>binary_query_proven := True\<rparr>)"

lemma search_embedding_rel:
  assumes "search_embedding np send r w q k = (w', r', out)"
  shows "search_rel r r'"
  using assms
  by (auto simp: search_embedding_def Let_def search_rel_def split: if_splits result_splits option.splits)

interpretation query: wire_negotiation binary_query binary_query_proven search_rel
  by unfold_locales (auto simp: search_rel_def)

definition filter_agrees :: "(f64 \<Rightarrow> string) \<Rightarrow> rostam \<Rightarrow> bool" where
  "filter_agrees fr r \<longleftrightarrow>
     filter_blob r = (case query_filter r of None \<Rightarrow> [] | Some q \<Rightarrow> encode (json_dumps fr q))"

lemma prepare_filter_cases:
  assumes "prepare_filter fr r f = (r', out)"
  shows "r' = r \<or> r' = r\<lparr>query_filter := None, filter_blob := []\<rparr> \<or>
    (load_path r \<noteq> ''bulk'' \<and> (\<exists>q. r' = r\<lparr>query_filter := Some q, filter_blob := encode (json_dumps fr q)\<rparr>))"
  using assms by (auto simp: prepare_filter_def Let_def split: if_splits sum.splits)

section \<open>The object as a state machine\<close>

text \<open>
  Any method, with any arguments, at any time: VectorDBBench calls them from several worker
  processes in the order its cases need, and each worker has its own object.
\<close>

inductive client_step ::
  "numpy \<Rightarrow> (f64 \<Rightarrow> string) \<Rightarrow> 'w transport \<Rightarrow> rostam \<times> 'w \<Rightarrow> rostam \<times> 'w \<Rightarrow> bool"
  for np :: numpy and fr :: "f64 \<Rightarrow> string" and send :: "'w transport" where
  step_enter: "client_step np fr send (r, w) (init_enter r, w)"
| step_exit: "init_exit r = (r', ex) \<Longrightarrow> client_step np fr send (r, w) (r', w)"
| step_insert: "insert_embeddings np send r w emb md = (w', r', ins) \<Longrightarrow> client_step np fr send (r, w) (r', w')"
| step_optimize: "optimize send r w = (w', opt) \<Longrightarrow> client_step np fr send (r, w) (r, w')"
| step_filter: "prepare_filter fr r f = (r', flt) \<Longrightarrow> client_step np fr send (r, w) (r', w)"
| step_search: "search_embedding np send r w q k = (w', r', res) \<Longrightarrow> client_step np fr send (r, w) (r', w')"

inductive_cases client_stepE: "client_step np fr send (r, w) (r', w')"

definition client_inv :: "(f64 \<Rightarrow> string) \<Rightarrow> rostam \<Rightarrow> bool" where
  "client_inv fr r \<longleftrightarrow>
     load_path r \<in> set load_paths \<and>
     (binary_proven r \<longrightarrow> binary r) \<and>
     (binary_query_proven r \<longrightarrow> binary_query r) \<and>
     filter_agrees fr r \<and>
     (query_filter r \<noteq> None \<longrightarrow> load_path r \<noteq> ''bulk'')"

lemma init_exit_cases: "init_exit r = (r', ex) \<Longrightarrow> r' = r \<or> r' = r\<lparr>active_session := None\<rparr>"
  by (auto simp: init_exit_def split: option.splits)

lemma insert_client_inv: "insert_rel\<^sup>*\<^sup>* r r' \<Longrightarrow> client_inv fr r \<Longrightarrow> client_inv fr r'"
proof -
  assume run: "insert_rel\<^sup>*\<^sup>* r r'" and inv: "client_inv fr r"
  have "binary_proven r' \<longrightarrow> binary r'"
    using chunk.run_coherent [OF run] inv by (simp add: client_inv_def)
  with insert_run_frame [OF run] inv show ?thesis
    by (auto simp: client_inv_def filter_agrees_def)
qed

lemma search_client_inv: "search_rel r r' \<Longrightarrow> client_inv fr r \<Longrightarrow> client_inv fr r'"
  by (auto simp: search_rel_def client_inv_def filter_agrees_def)

lemma filter_client_inv: "prepare_filter fr r f = (r', out) \<Longrightarrow> client_inv fr r \<Longrightarrow> client_inv fr r'"
  by (auto simp: client_inv_def filter_agrees_def dest!: prepare_filter_cases)

lemma client_step_inv: "client_step np fr send (r, w) (r', w') \<Longrightarrow> client_inv fr r \<Longrightarrow> client_inv fr r'"
proof (erule client_stepE)
  assume "r' = init_enter r" "client_inv fr r"
  then show ?thesis by (simp add: init_enter_def client_inv_def filter_agrees_def)
next
  fix ex assume "init_exit r = (r', ex)" "client_inv fr r"
  then show ?thesis by (auto simp: client_inv_def filter_agrees_def dest!: init_exit_cases)
qed (auto intro: insert_client_inv search_client_inv filter_client_inv
    dest: insert_embeddings_rel search_embedding_rel)

text \<open>The attributes no method writes.\<close>

definition settings :: "rostam \<Rightarrow> int \<times> string \<times> string \<times> json \<times> string" where
  "settings r = (dim r, collection_name r, base r, api_key r, load_path r)"

lemma client_step_settings: "client_step np fr send (r, w) (r', w') \<Longrightarrow> settings r' = settings r"
proof (erule client_stepE)
  fix emb md ins assume "insert_embeddings np send r w emb md = (w', r', ins)"
  then show ?thesis
    using insert_run_frame [OF insert_embeddings_rel] by (fastforce simp: settings_def)
qed (auto simp: settings_def init_enter_def search_rel_def dest!: init_exit_cases prepare_filter_cases search_embedding_rel)

text \<open>Both negotiated wires keep their contract over every interleaving of methods.\<close>

lemma client_step_bulk_rel:
  assumes "client_step np fr send (r, w) (r', w')"
  shows "(binary r' = binary r \<and> binary_proven r' = binary_proven r) \<or> insert_rel\<^sup>*\<^sup>* r r'"
  using assms
  by (auto elim!: client_stepE simp: init_enter_def search_rel_def
      dest!: insert_embeddings_rel init_exit_cases prepare_filter_cases search_embedding_rel)

lemma client_step_query_rel:
  assumes "client_step np fr send (r, w) (r', w')"
  shows "(binary_query r' = binary_query r \<and> binary_query_proven r' = binary_query_proven r) \<or> search_rel r r'"
  using assms
proof (cases rule: client_stepE [consumes 1])
  case (3 emb md ins)
  then show ?thesis
    using insert_run_frame [OF insert_embeddings_rel] by fastforce
qed (auto simp: init_enter_def dest!: init_exit_cases prepare_filter_cases search_embedding_rel)

interpretation bulk_wire: wire_negotiation "binary \<circ> fst" "binary_proven \<circ> fst" "client_step np fr send" for np fr send
proof unfold_locales
  fix s t :: "rostam \<times> 'a"
  assume st: "client_step np fr send s t"
  have *: "(binary (fst t) = binary (fst s) \<and> binary_proven (fst t) = binary_proven (fst s)) \<or> insert_rel\<^sup>*\<^sup>* (fst s) (fst t)"
    using client_step_bulk_rel [of np fr send "fst s" "snd s" "fst t" "snd t"] st by simp
  { assume "\<not> (binary \<circ> fst) s" with * show "\<not> (binary \<circ> fst) t"
      by (auto dest: chunk.run_disabled) }
  { assume "(binary \<circ> fst) s" "(binary_proven \<circ> fst) s"
    with * show "(binary \<circ> fst) t \<and> (binary_proven \<circ> fst) t"
      by (auto dest: chunk.run_proven) }
  { assume "\<not> (binary_proven \<circ> fst) s" "(binary_proven \<circ> fst) t"
    with * show "(binary \<circ> fst) t"
      by (auto dest: chunk.run_proven_is_enabled) }
qed

interpretation query_wire: wire_negotiation "binary_query \<circ> fst" "binary_query_proven \<circ> fst" "client_step np fr send" for np fr send
proof unfold_locales
  fix s t :: "rostam \<times> 'a"
  assume st: "client_step np fr send s t"
  have *: "(binary_query (fst t) = binary_query (fst s) \<and> binary_query_proven (fst t) = binary_query_proven (fst s))
      \<or> search_rel (fst s) (fst t)"
    using client_step_query_rel [of np fr send "fst s" "snd s" "fst t" "snd t"] st by simp
  { assume "\<not> (binary_query \<circ> fst) s" with * show "\<not> (binary_query \<circ> fst) t"
      by (auto dest: query.disabled_stays) }
  { assume "(binary_query \<circ> fst) s" "(binary_query_proven \<circ> fst) s"
    with * show "(binary_query \<circ> fst) t \<and> (binary_query_proven \<circ> fst) t"
      by (auto dest: query.proven_stays) }
  { assume "\<not> (binary_query_proven \<circ> fst) s" "(binary_query_proven \<circ> fst) t"
    with * show "(binary_query \<circ> fst) t"
      by (auto dest: query.proven_is_enabled) }
qed

text \<open>What one wire learns does not touch the other: a load leaves the query wire's attributes, a search the bulk wire's.\<close>

lemma insert_keeps_query_wire:
  assumes "insert_embeddings np send r w emb md = (w', r', out)"
  shows "binary_query r' = binary_query r \<and> binary_query_proven r' = binary_query_proven r"
  using insert_run_frame [OF insert_embeddings_rel [OF assms]] by auto

lemma search_keeps_bulk_wire:
  assumes "search_embedding np send r w q k = (w', r', out)"
  shows "binary r' = binary r \<and> binary_proven r' = binary_proven r"
  using search_embedding_rel [OF assms] by (auto simp: search_rel_def)

lemma filter_keeps_wires:
  assumes "prepare_filter fr r f = (r', out)"
  shows "binary r' = binary r \<and> binary_proven r' = binary_proven r \<and> binary_query r' = binary_query r \<and>
    binary_query_proven r' = binary_query_proven r"
  using prepare_filter_cases [OF assms] by auto

section \<open>Objects a constructor yields\<close>

lemma rostam_fields_InrE:
  assumes "rostam_fields d db coll = Inr r"
  obtains us lp where "map_of db ''url'' = Some (JStr us)" "load_path_of db = JStr lp" "lp \<in> set load_paths"
    "r = \<lparr>dim = d, collection_name = coll, base = rstrip_char (CHR ''/'') us,
          api_key = (case map_of db ''api_key'' of None \<Rightarrow> JNull | Some k \<Rightarrow> k),
          load_path = lp, query_filter = None,
          binary = flag_of db ''binary_wire'', binary_proven = False,
          binary_query = flag_of db ''binary_query'', binary_query_proven = False,
          filter_blob = [], active_session = None\<rparr>"
proof -
  from assms obtain u where u: "map_of db ''url'' = Some u"
    by (cases "map_of db ''url''") (auto simp: rostam_fields_def)
  with assms obtain us where us: "u = JStr us"
    by (cases u) (auto simp: rostam_fields_def)
  from assms u us obtain lp where lp: "load_path_of db = JStr lp"
    by (cases "load_path_of db") (auto simp: rostam_fields_def)
  have "lp \<in> set load_paths"
    using assms u us lp by (auto simp: rostam_fields_def split: if_splits)
  with that assms u us lp show thesis
    by (auto simp: rostam_fields_def)
qed

lemma rostam_fields_inv: "rostam_fields d db coll = Inr r \<Longrightarrow> client_inv fr r"
  by (erule rostam_fields_InrE) (simp add: client_inv_def filter_agrees_def)

lemma rostam_init_fields:
  assumes "rostam_init send w d db cc coll drop_old = (w', Inr r)"
  shows "rostam_fields d db coll = Inr r"
  using assms by (auto simp: rostam_init_def Let_def split: result_splits py_error.splits if_splits)

lemma run_client_inv:
  assumes "(client_step np fr send)\<^sup>*\<^sup>* s t" "client_inv fr (fst s)"
  shows "client_inv fr (fst t)"
  using assms by (induction rule: rtranclp_induct) (auto intro: client_step_inv)

lemma run_settings:
  assumes "(client_step np fr send)\<^sup>*\<^sup>* s t"
  shows "settings (fst t) = settings (fst s)"
  using assms by (induction rule: rtranclp_induct) (auto dest: client_step_settings)

section \<open>The creation request\<close>

definition create_request :: "rostam \<Rightarrow> int \<Rightarrow> hnsw_config \<Rightarrow> request" where
  "create_request r d cc =
     post_json (url r [])
       (JObj [(''name'', JStr (collection_name r)),
              (''config'', JObj ([(''dim'', JInt d), (''metric'', JStr (parse_metric cc)), (''m'', JInt (hnsw_m cc)),
                 (''ef_construction'', JInt (ef_construction cc)), (''ef_search'', JInt (ef_search cc))] @
                 (if quant cc = [] then [] else [(''quant'', JStr (quant cc))])))]) 120"

text \<open>With the dictionary of an index configuration, creation sends exactly this request.\<close>

lemma create_index_param:
  "create send w r s d (index_param cc) =
     (case send w s (create_request r d cc) of
        (w', Inl e) \<Rightarrow> (w', Inl e)
      | (w', Inr resp) \<Rightarrow>
          (w', if status_code resp = 200 \<or> status_code resp = 201 then Inr ()
               else if status_code resp = 409 \<or> contains ''exist'' (lower (resp_text resp)) then Inl AlreadyExists
               else Inl (RuntimeError (''create collection failed: '' @
                           dec_nat (status_code resp) @ '' '' @ resp_text resp))))"
  by (simp add: create_def create_config_def index_param_def create_request_def)

lemma create_status:
  assumes "\<And>w s rq. \<exists>w' resp. send w s rq = (w', Inr resp) \<and> (rq_method rq = ''POST'' \<longrightarrow> status_code resp = 409)"
  shows "\<exists>w'. create send w r s d (index_param cc) = (w', Inl AlreadyExists)"
proof -
  obtain w' resp where "send w s (create_request r d cc) = (w', Inr resp)" "status_code resp = 409"
    using assms [of w s "create_request r d cc"] by (auto simp: create_request_def post_json_def)
  then show ?thesis
    by (simp add: create_index_param)
qed

end
