(* ===== verification/Wire_Codec.thy ===== *)
theory Wire_Codec
  imports Wire
begin

text \<open>
  The receiver's side of the two framings, from the layouts that the comments of
  \<open>vectordbbench/rostam/rostam.py\<close> document (\<open>RVB1\<close>: lines 268-273, \<open>RVQ1\<close>: lines 289-296), and the
  proof that the client's encoders are read back exactly. Rows and payload blobs are further
  instances of the \<open>stream_codec\<close> interface, so the counted sections need no induction here.
\<close>

section \<open>Sections of the frames\<close>

definition take_row :: "nat \<Rightarrow> bytes \<Rightarrow> ((64 word \<times> f32 list) \<times> bytes) option" where
  "take_row d bs =
     (case take_u64 bs of
        None \<Rightarrow> None
      | Some (i, bs1) \<Rightarrow> map_option (\<lambda>(v, rest). ((i, v), rest)) (decode_n take_f32 d bs1))"

definition enc_blob :: "bytes \<Rightarrow> bytes" where
  "enc_blob b = be_bytes 4 (length b) @ b"

definition take_blob :: "bytes \<Rightarrow> (bytes \<times> bytes) option" where
  "take_blob bs =
     (case take_uint 4 bs of
        None \<Rightarrow> None
      | Some (n, rest) \<Rightarrow> if n \<le> length rest then Some (take n rest, drop n rest) else None)"

interpretation row_codec: fixed_codec enc_row "take_row d" "\<lambda>r. length (snd r) = d" "8 + d * 4" for d
proof unfold_locales
  fix r :: "64 word \<times> f32 list" and rest :: bytes
  assume d: "length (snd r) = d"
  have "decode_n take_f32 d (concat (map enc_f32 (snd r)) @ rest) = Some (snd r, rest)"
    using f32_codec.decode_n_enc [of "snd r" rest] d by (simp add: list_all_iff)
  then show "take_row d (enc_row r @ rest) = Some (r, rest)"
    by (simp add: take_row_def enc_row_def u64_codec.dec_enc)
next
  fix r :: "64 word \<times> f32 list"
  assume "length (snd r) = d"
  then show "length (enc_row r) = 8 + d * 4"
    using f32_codec.length_concat_enc [of "snd r"]
    by (simp add: enc_row_def u64_codec.enc_width list_all_iff)
qed

interpretation blob_codec: stream_codec enc_blob take_blob "\<lambda>b. length b < 2 ^ 32"
  by unfold_locales (simp add: take_blob_def enc_blob_def u32_codec.dec_enc)

section \<open>Whole frames\<close>

record query_msg =
  q_k :: nat
  q_vec :: "f32 list"
  q_filter :: "bytes option"

text \<open>
  A query frame: magic, flags, k, dim, two bytes and a \<open>u16\<close> that are zero, the staleness, the
  vector and, when bit 0 of the flags is set, the filter. Nothing may follow.
\<close>

definition decode_query :: "bytes \<Rightarrow> query_msg option" where
  "decode_query bs =
     (if take 4 bs \<noteq> [0x52, 0x56, 0x51, 0x31] then None
      else (case decode_n (take_uint 4) 3 (drop 4 bs) of
              None \<Rightarrow> None
            | Some (hdr, bs1) \<Rightarrow>
                (let flags = hdr ! 0; k = hdr ! 1; dim = hdr ! 2
                 in if take 4 bs1 \<noteq> replicate 4 0 \<or> length bs1 < 12 then None
                    else (case decode_n take_f32 dim (drop 12 bs1) of
                            None \<Rightarrow> None
                          | Some (v, bs2) \<Rightarrow>
                              (if flags = 0 then
                                 (if bs2 = [] then Some \<lparr>q_k = k, q_vec = v, q_filter = None\<rparr> else None)
                               else if flags = 1 then
                                 (case take_blob bs2 of
                                    Some (f, []) \<Rightarrow> Some \<lparr>q_k = k, q_vec = v, q_filter = Some f\<rparr>
                                  | _ \<Rightarrow> None)
                               else None)))))"

record bulk_msg =
  b_upsert :: bool
  b_dim :: nat
  b_rows :: "(64 word \<times> f32 list) list"
  b_pays :: "bytes list option"

definition decode_bulk :: "bytes \<Rightarrow> bulk_msg option" where
  "decode_bulk bs =
     (if take 4 bs \<noteq> [0x52, 0x56, 0x42, 0x31] then None
      else (case decode_n (take_uint 4) 3 (drop 4 bs) of
              None \<Rightarrow> None
            | Some (hdr, bs1) \<Rightarrow>
                (let flags = hdr ! 0; n = hdr ! 1; dim = hdr ! 2
                 in case decode_n (take_row dim) n bs1 of
                      None \<Rightarrow> None
                    | Some (rows, bs2) \<Rightarrow>
                        (if flags \<ge> 4 then None
                         else if odd flags then
                           (case decode_n take_blob n bs2 of
                              Some (ps, []) \<Rightarrow>
                                Some \<lparr>b_upsert = flags \<ge> 2, b_dim = dim, b_rows = rows, b_pays = Some ps\<rparr>
                            | _ \<Rightarrow> None)
                         else if bs2 = [] then
                           Some \<lparr>b_upsert = flags \<ge> 2, b_dim = dim, b_rows = rows, b_pays = None\<rparr>
                         else None))))"

section \<open>Header words\<close>

lemma length_magics [simp]: "length query_magic = 4" "length bulk_magic = 4"
  by (simp_all add: query_magic_def bulk_magic_def length_encode_ascii is_ascii_def)

lemma magic_bytes: "query_magic = [0x52, 0x56, 0x51, 0x31]" "bulk_magic = [0x52, 0x56, 0x42, 0x31]"
  by code_simp+

lemma decode_three_words:
  assumes "a < 2 ^ 32" "b < 2 ^ 32" "c < 2 ^ 32"
  shows "decode_n (take_uint 4) 3 (be_bytes 4 a @ be_bytes 4 b @ be_bytes 4 c @ rest) = Some ([a, b, c], rest)"
  using u32_codec.decode_n_enc [of "[a, b, c]" rest] assms by (simp add: numeral_3_eq_3)

lemma pack_u32 [simp]: "x < 2 ^ 32 \<Longrightarrow> pack_uint 4 (int x) = Inr (be_bytes 4 x)"
  by simp

lemma pack_uint_zero [simp]: "pack_uint n 0 = Inr (replicate n 0)"
proof -
  have "be_bytes n 0 = replicate n 0"
    by (induction n) (simp_all add: replicate_append_same)
  then show ?thesis
    by (simp add: pack_uint_def)
qed

lemma numpy_specD:
  assumes "numpy_spec np"
  shows "\<not> f32_is_nan x \<Longrightarrow> np_f32 np (np_f64 np x) = x"
    and "np_matrix np [] = Inr (Nd1 [])"
    and "rows \<noteq> [] \<Longrightarrow> rectangular d rows \<Longrightarrow>
      np_matrix np rows = Inr (Nd2 d (map (map (np_f32 np)) rows))"
    and "list_all u64_id ids \<Longrightarrow> np_store_ids np (length ids) ids = Inr (map word_of_int ids)"
    and "length ids \<noteq> n \<Longrightarrow> length ids \<noteq> 1 \<Longrightarrow>
      \<exists>e. np_store_ids np n ids = Inl e \<and> (list_all u64_id ids \<longrightarrow> (\<exists>msg. e = ValueError msg))"
    and "np_f4_tobytes np v = concat (map enc_f32 v)"
    and "np_rec_tobytes np rs = concat (map enc_row rs)"
  using assms unfolding numpy_spec_def by blast+

section \<open>The query frame is read back\<close>

lemma query_body_ok:
  assumes np: "numpy_spec np" and k: "0 \<le> k" "k < 2 ^ 32" and d: "length (as_f4 np q) < 2 ^ 32"
    and b: "length blob < 2 ^ 32"
  shows "query_body np q k blob =
    Inr (query_magic @ be_bytes 4 (if blob = [] then 0 else 1) @ be_bytes 4 (nat k) @
         be_bytes 4 (length (as_f4 np q)) @ replicate 12 0 @ concat (map enc_f32 (as_f4 np q)) @
         (if blob = [] then [] else enc_blob blob))"
proof -
  have "pack_uint 4 k = Inr (be_bytes 4 (nat k))"
    using k pack_u32 [of "nat k"] by (simp add: nat_less_iff)
  moreover have "replicate 12 (0 :: byte) = [0] @ [0] @ replicate 2 0 @ replicate 8 0"
    by (simp add: numeral_eq_Suc)
  moreover have "pack_uint 4 1 = Inr (be_bytes 4 1)"
    using pack_u32 [of 1] by simp
  ultimately show ?thesis
    using d b numpy_specD(6) [OF np]
    by (simp add: query_body_def Let_def query_flag_filter_def enc_blob_def)
qed

lemma decode_query_body:
  assumes np: "numpy_spec np" and k: "0 \<le> k" "k < 2 ^ 32" and d: "length (as_f4 np q) < 2 ^ 32"
    and b: "length blob < 2 ^ 32"
  shows "\<exists>bs. query_body np q k blob = Inr bs \<and>
    decode_query bs = Some \<lparr>q_k = nat k, q_vec = as_f4 np q,
                            q_filter = (if blob = [] then None else Some blob)\<rparr> \<and>
    length bs = 28 + 4 * length (as_f4 np q) + (if blob = [] then 0 else 4 + length blob)"
proof -
  let ?v = "as_f4 np q" and ?fl = "if blob = [] then 0 else 1 :: nat"
  let ?tail = "if blob = [] then [] else enc_blob blob"
  have h: "decode_n (take_uint 4) 3
      (be_bytes 4 ?fl @ be_bytes 4 (nat k) @ be_bytes 4 (length ?v) @ replicate 12 0 @ concat (map enc_f32 ?v) @ ?tail)
      = Some ([?fl, nat k, length ?v], replicate 12 0 @ concat (map enc_f32 ?v) @ ?tail)"
    using k d by (intro decode_three_words) (auto simp: nat_less_iff)
  have v: "decode_n take_f32 (length ?v) (concat (map enc_f32 ?v) @ ?tail) = Some (?v, ?tail)"
    by (rule f32_codec.decode_n_enc) (simp add: list_all_iff)
  have t: "blob \<noteq> [] \<Longrightarrow> take_blob (enc_blob blob) = Some (blob, [])"
    using blob_codec.dec_enc [of blob "[]"] b by simp
  have w: "length (concat (map enc_f32 ?v)) = length ?v * 4"
    by (rule f32_codec.length_concat_enc) (simp add: list_all_iff)
  show ?thesis
    using h v t w by (simp add: query_body_ok [OF assms] decode_query_def magic_bytes Let_def enc_blob_def)
qed

section \<open>The bulk frame is read back\<close>

lemma length_payload_blob: "u64_id i \<Longrightarrow> length (payload_blob i) < 2 ^ 32"
proof -
  assume "u64_id i"
  then have "nat i < 10 ^ Suc 19"
    by (simp add: u64_id_def nat_less_iff)
  then have "length (str_int i) \<le> 20"
    using length_dec_nat [of "nat i" 19] \<open>u64_id i\<close> by (simp add: str_int_def u64_id_def)
  moreover have \<open>is_ascii (''{"id":{"kind":"int","int":'' @ str_int i @ ''}}'')\<close>
    unfolding is_ascii_append by (simp, simp add: is_ascii_def)
  ultimately show ?thesis
    by (simp add: payload_blob_def length_encode_ascii)
qed

lemma pack_payloads_ok:
  "list_all u64_id ids \<Longrightarrow> pack_payloads ids = Inr (concat (map enc_blob (map payload_blob ids)))"
  by (induction ids) (simp_all add: length_payload_blob [simplified] enc_blob_def)

definition bulk_flags :: "bool \<Rightarrow> bool \<Rightarrow> nat" where
  "bulk_flags payloads upsert = (if payloads then 1 else 0) + (if upsert then 2 else 0)"

lemma binary_body_ok:
  assumes np: "numpy_spec np" and ids: "list_all u64_id ids" and n: "length rs = length ids"
    and d: "dim < 2 ^ 32" "length ids < 2 ^ 32"
  shows "binary_body np ids (Nd2 dim rs) upsert payloads =
    Inr (bulk_magic @ be_bytes 4 (bulk_flags payloads upsert) @ be_bytes 4 (length ids) @ be_bytes 4 dim @
         concat (map enc_row (zip (map word_of_int ids) rs)) @
         (if payloads then concat (map enc_blob (map payload_blob ids)) else []))"
proof -
  have fl: "pack_uint 4 0 = Inr (be_bytes 4 0)" "pack_uint 4 1 = Inr (be_bytes 4 1)"
    "pack_uint 4 2 = Inr (be_bytes 4 2)" "pack_uint 4 3 = Inr (be_bytes 4 3)"
    using pack_u32 [of 0] pack_u32 [of 1] pack_u32 [of 2] pack_u32 [of 3] by (simp_all del: pack_uint_zero)
  show ?thesis
    using d numpy_specD(4) [OF np ids] numpy_specD(7) [OF np] pack_payloads_ok [OF ids]
    by (simp add: binary_body_def Let_def n fl bulk_flags_def bulk_flag_payloads_def bulk_flag_upsert_def
        del: pack_uint_zero)
qed

lemma decode_binary_body:
  assumes np: "numpy_spec np" and ids: "list_all u64_id ids" and n: "length rs = length ids"
    and d: "dim < 2 ^ 32" "length ids < 2 ^ 32" and r: "rectangular dim rs"
  shows "\<exists>bs. binary_body np ids (Nd2 dim rs) upsert payloads = Inr bs \<and>
    decode_bulk bs = Some \<lparr>b_upsert = upsert, b_dim = dim, b_rows = zip (map word_of_int ids) rs,
                           b_pays = (if payloads then Some (map payload_blob ids) else None)\<rparr>"
proof -
  let ?rows = "zip (map word_of_int ids) rs" and ?fl = "bulk_flags payloads upsert"
  let ?pays = "if payloads then concat (map enc_blob (map payload_blob ids)) else []"
  have h: "decode_n (take_uint 4) 3
      (be_bytes 4 ?fl @ be_bytes 4 (length ids) @ be_bytes 4 dim @ concat (map enc_row ?rows) @ ?pays)
      = Some ([?fl, length ids, dim], concat (map enc_row ?rows) @ ?pays)"
    using d by (intro decode_three_words) (auto simp: bulk_flags_def)
  have rows: "decode_n (take_row dim) (length ids) (concat (map enc_row ?rows) @ ?pays) = Some (?rows, ?pays)"
  proof -
    have "list_all (\<lambda>row. length (snd row) = dim) ?rows"
      using r by (auto simp: rectangular_def list_all_iff dest: set_zip_rightD)
    from row_codec.decode_n_enc [OF this, of ?pays] show ?thesis
      using n by simp
  qed
  have pays: "decode_n take_blob (length ids) (concat (map enc_blob (map payload_blob ids)))
      = Some (map payload_blob ids, [])"
    using blob_codec.decode_n_enc [where xs = "map payload_blob ids" and rest = "[]"] ids
    by (simp add: list_all_iff length_payload_blob [simplified])
  show ?thesis
    using h rows pays
    by (cases payloads; cases upsert)
      (simp_all add: binary_body_ok [OF assms(1-5)] decode_bulk_def magic_bytes Let_def bulk_flags_def)
qed

section \<open>An instance of numpy\<close>

text \<open>
  The documented behaviour is consistent: a complete instance, with the float conversions of
  \<open>Float_Bits\<close>, an \<open>OverflowError\<close> for an id that does not fit, and the broadcasting rule of an
  assignment for ids that do.
\<close>

definition store_id :: "int \<Rightarrow> 64 word result" where
  "store_id i = (if u64_id i then Inr (word_of_int i) else Inl (OverflowError ''Python integer out of bounds for uint64''))"

definition np_ref :: numpy where
  "np_ref =
     \<lparr>np_f32 = f64_to_f32, np_f64 = f32_to_f64,
      np_matrix = (\<lambda>rows. case rows of
          [] \<Rightarrow> Inr (Nd1 [])
        | r # _ \<Rightarrow> if rectangular (length r) rows
                   then Inr (Nd2 (length r) (map (map f64_to_f32) rows))
                   else Inl (ValueError ''inhomogeneous shape'')),
      np_store_ids = (\<lambda>n ids.
          rbind (mapr store_id ids) (\<lambda>ws.
            if length ws = n then Inr ws
            else if length ws = 1 then Inr (replicate n (hd ws))
            else Inl (ValueError ''could not broadcast input array''))),
      np_f4_tobytes = (\<lambda>v. concat (map enc_f32 v)),
      np_rec_tobytes = (\<lambda>rs. concat (map enc_row rs))\<rparr>"

lemma store_ids_ok: "list_all u64_id ids \<Longrightarrow> mapr store_id ids = Inr (map word_of_int ids)"
  by (rule mapr_Inr_map) (simp add: store_id_def list_all_iff)

lemma numpy_spec_np_ref: "numpy_spec np_ref"
  unfolding numpy_spec_def
proof (intro conjI allI impI)
  fix x show "f32_is_nan x \<or> np_f32 np_ref (np_f64 np_ref x) = x"
    using f64_to_f32_widened [of x] by (auto simp: np_ref_def)
next
  fix d and rows :: "f64 list list"
  assume "rows \<noteq> []" "rectangular d rows"
  then show "np_matrix np_ref rows = Inr (Nd2 d (map (map (np_f32 np_ref)) rows))"
    by (cases rows) (auto simp: np_ref_def rectangular_def)
next
  fix ids assume "list_all u64_id ids"
  then show "np_store_ids np_ref (length ids) ids = Inr (map word_of_int ids)"
    using store_ids_ok [of ids] by (simp add: np_ref_def)
next
  fix n and ids :: "int list"
  assume "length ids \<noteq> n" "length ids \<noteq> 1"
  then show "\<exists>e. np_store_ids np_ref n ids = Inl e \<and> (list_all u64_id ids \<longrightarrow> (\<exists>msg. e = ValueError msg))"
    using store_ids_ok [of ids] mapr_length [of store_id ids] by (cases "mapr store_id ids") (auto simp: np_ref_def)
qed (auto simp: np_ref_def)

end
