(* ===== verification/Load.thy ===== *)
theory Load
  imports Client_Steps Wire_Codec "HOL-Library.Sublist"
begin

text \<open>
  What a load leaves on the server. The server is not part of the repository; what the client
  relies on is the locale \<open>load_server\<close>: a 200 answer to a chunk means that its points were
  added, one of the statuses 400, 404 and 415 that nothing was (the comment above
  \<open>_BINARY_UNSUPPORTED\<close>), and no request removes points. Both bodies a chunk can be sent as
  are read as the same points, so a load ends with every point stored exactly once whatever the
  server speaks. The reference server at the end instantiates the contract.
\<close>

section \<open>The points a body carries\<close>

record point =
  pt_id :: int
  pt_vec :: "f32 list"
  pt_meta :: "bytes option"

definition load_points :: "bool \<Rightarrow> int list \<Rightarrow> f32 list list \<Rightarrow> point list" where
  "load_points payloads ids rows =
     map (\<lambda>(i, v). \<lparr>pt_id = i, pt_vec = v, pt_meta = (if payloads then Some (payload_blob i) else None)\<rparr>)
       (zip ids rows)"

definition bulk_points :: "bulk_msg \<Rightarrow> point list" where
  "bulk_points m =
     (case b_pays m of
        None \<Rightarrow> map (\<lambda>(i, v). \<lparr>pt_id = uint i, pt_vec = v, pt_meta = None\<rparr>) (b_rows m)
      | Some ps \<Rightarrow> map (\<lambda>((i, v), p). \<lparr>pt_id = uint i, pt_vec = v, pt_meta = Some p\<rparr>) (zip (b_rows m) ps))"

fun json_float :: "json \<Rightarrow> f64 option" where
  "json_float (JFloat x) = Some x"
| "json_float _ = None"

text \<open>
  A JSON point: the server reads its numbers as float32 (\<open>narrow\<close>) and keeps the metadata as
  compact JSON text.
\<close>

fun json_point :: "(f64 \<Rightarrow> string) \<Rightarrow> (f64 \<Rightarrow> f32) \<Rightarrow> json \<Rightarrow> point option" where
  "json_point fr narrow (JObj kvs) =
     (case (map_of kvs ''id'', map_of kvs ''vector'') of
        (Some (JInt i), Some (JList xs)) \<Rightarrow>
          map_option (\<lambda>v. \<lparr>pt_id = i, pt_vec = map narrow v,
                          pt_meta = map_option (\<lambda>m. encode (json_compact fr m)) (map_of kvs ''metadata'')\<rparr>)
            (those (map json_float xs))
      | _ \<Rightarrow> None)"
| "json_point fr narrow _ = None"

fun json_points :: "(f64 \<Rightarrow> string) \<Rightarrow> (f64 \<Rightarrow> f32) \<Rightarrow> json \<Rightarrow> point list option" where
  "json_points fr narrow (JObj kvs) =
     (case map_of kvs ''points'' of
        Some (JList ps) \<Rightarrow> those (map (json_point fr narrow) ps)
      | _ \<Rightarrow> None)"
| "json_points fr narrow _ = None"

fun body_points :: "(f64 \<Rightarrow> string) \<Rightarrow> (f64 \<Rightarrow> f32) \<Rightarrow> http_body \<Rightarrow> point list option" where
  "body_points fr narrow (RawBody bs) = map_option bulk_points (decode_bulk bs)"
| "body_points fr narrow (JsonBody j) = json_points fr narrow j"
| "body_points fr narrow NoBody = None"

subsection \<open>Both wires carry the same points\<close>

lemma those_map_Some: "(\<And>x. x \<in> set xs \<Longrightarrow> f x = Some (g x)) \<Longrightarrow> those (map f xs) = Some (map g xs)"
  by (induction xs) auto

text \<open>The blob of the binary wire is the compact JSON text of the metadata of the JSON wire.\<close>

lemma payload_blob_compact: "encode (json_compact fr (id_metadata i)) = payload_blob i"
  by (simp add: json_compact_def id_metadata_def payload_blob_def json_str_def json_esc_def)

lemma uint_word_of_id: "u64_id i \<Longrightarrow> uint (word_of_int i :: 64 word) = i"
  by (simp add: u64_id_def unsigned_of_int take_bit_int_eq_self)

lemma bulk_points_load:
  assumes "list_all u64_id ids" "length rs = length ids"
  shows "bulk_points \<lparr>b_upsert = up, b_dim = d, b_rows = zip (map word_of_int ids) rs,
      b_pays = (if payloads then Some (map payload_blob ids) else None)\<rparr> = load_points payloads ids rs"
  using assms(2,1)
  by (induction rs ids rule: list_induct2)
    (auto simp: bulk_points_def load_points_def uint_word_of_id split: if_splits)

definition exact_floats :: "numpy \<Rightarrow> (f64 \<Rightarrow> f32) \<Rightarrow> f32 list list \<Rightarrow> bool" where
  "exact_floats np narrow rs \<longleftrightarrow> list_all (list_all (\<lambda>x. narrow (np_f64 np x) = x)) rs"

lemma json_body_points:
  assumes "exact_floats np narrow rs"
  shows "json_points fr narrow (json_body np ids (Nd2 d rs) payloads up) = Some (load_points payloads ids rs)"
proof -
  have fl: "those (map json_float (map (\<lambda>x. JFloat (np_f64 np x)) v)) = Some (map (np_f64 np) v)" for v
    by (simp add: comp_def) (rule those_map_Some, simp)
  have nar: "map narrow (map (np_f64 np) v) = v" if "v \<in> set rs" for v
    using assms that by (simp add: exact_floats_def list_all_iff map_idI)
  let ?pt = "\<lambda>(i, v). \<lparr>pt_id = i, pt_vec = v, pt_meta = (if payloads then Some (payload_blob i) else None)\<rparr>"
  let ?js = "\<lambda>(i, v). JObj ([(''id'', JInt i), (''vector'', JList (map (\<lambda>x. JFloat (np_f64 np x)) v))] @
      (if payloads then [(''metadata'', id_metadata i)] else []))"
  have "json_point fr narrow (?js iv) = Some (?pt iv)" if mem: "iv \<in> set (zip ids rs)" for iv
  proof -
    obtain i v where iv: "iv = (i, v)" by (cases iv)
    with mem have "v \<in> set rs" by (auto dest: set_zip_rightD)
    with nar [of v] fl [of v] iv show ?thesis
      by (simp add: payload_blob_compact)
  qed
  then have "those (map (json_point fr narrow) (map ?js (zip ids rs))) = Some (map ?pt (zip ids rs))"
    unfolding map_map comp_def by (rule those_map_Some)
  moreover have "json_body np ids (Nd2 d rs) payloads up =
      JObj ((''points'', JList (map ?js (zip ids rs))) # (if up then [(''upsert'', JBool True)] else []))"
    by (simp add: json_body_def nd_tolist_def Let_def zip_map2 split_def comp_def)
  ultimately show ?thesis
    by (simp add: load_points_def)
qed

lemma raw_body_points:
  assumes "numpy_spec np" "list_all u64_id ids" "length rs = length ids" "d < 2 ^ 32" "length ids < 2 ^ 32"
    "rectangular d rs"
  shows "\<exists>bs. binary_body np ids (Nd2 d rs) up payloads = Inr bs \<and>
    body_points fr narrow (RawBody bs) = Some (load_points payloads ids rs)"
  using decode_binary_body [OF assms(1-6), of up payloads] bulk_points_load [OF assms(2,3)] by auto

section \<open>The contract of the server\<close>

locale load_server =
  fixes send :: "'w transport"
    and stored :: "'w \<Rightarrow> point list"
    and fr :: "f64 \<Rightarrow> string"
    and narrow :: "f64 \<Rightarrow> f32"
    and u :: string
  assumes accepted: "send w s rq = (w', Inr resp) \<Longrightarrow> rq_method rq = ''POST'' \<Longrightarrow> rq_url rq = u \<Longrightarrow>
      status_code resp = 200 \<Longrightarrow> body_points fr narrow (rq_body rq) = Some pts \<Longrightarrow> stored w' = stored w @ pts"
    and rejected: "send w s rq = (w', Inr resp) \<Longrightarrow> rq_url rq = u \<Longrightarrow>
      status_code resp \<in> set binary_unsupported \<Longrightarrow> stored w' = stored w"
    and append_only: "send w s rq = (w', x) \<Longrightarrow> rq_url rq = u \<Longrightarrow> prefix (stored w) (stored w')"

text \<open>
  Inputs of a load that fit both wires: ids are unsigned 64-bit, one row of the same dimension per
  id, and no float that the server would read differently from JSON (a NaN).
\<close>

definition good_load :: "numpy \<Rightarrow> (f64 \<Rightarrow> f32) \<Rightarrow> int list \<Rightarrow> nat \<Rightarrow> f32 list list \<Rightarrow> bool" where
  "good_load np narrow ids d rs \<longleftrightarrow>
     list_all u64_id ids \<and> length rs = length ids \<and> d < 2 ^ 32 \<and> rectangular d rs \<and> exact_floats np narrow rs"

lemma good_load_slice:
  "good_load np narrow ids d rs \<Longrightarrow> good_load np narrow (py_slice ids a b) d (py_slice rs a b)"
  by (simp add: good_load_def list_all_slice rectangular_def exact_floats_def)

lemma load_points_slice:
  "load_points pp (py_slice ids a b) (py_slice rs a b) = py_slice (load_points pp ids rs) a b"
  by (simp add: load_points_def py_slice_map py_slice_zip)

lemma length_load_points [simp]: "length rs = length ids \<Longrightarrow> length (load_points pp ids rs) = length ids"
  by (simp add: load_points_def)

lemma chunk_slice: "py_slice xs a (min (a + k) (length xs)) = take k (drop a xs)"
  by (cases "a + k \<le> length xs") (simp_all add: py_slice_def)

lemma chunk_prefix: "prefix (drop a (take c xs)) (take k (drop a xs) @ drop (a + k) (take c xs))"
proof (cases "a + k \<le> c")
  case True
  then have "take k (drop a xs) = take k (drop a (take c xs))"
    by (simp add: drop_take)
  moreover have "drop a (take c xs) = take k (drop a (take c xs)) @ drop (a + k) (take c xs)"
    by (metis add.commute append_take_drop_id drop_drop)
  ultimately show ?thesis by simp
next
  case False
  then have "drop a (take c xs) = take (c - a) (take k (drop a xs))"
    by (simp add: drop_take)
  then show ?thesis
    by (metis prefix_prefix take_is_prefix)
qed

context load_server begin

lemma json_chunk_stored:
  assumes "send_json_chunk send s u start body r w = (w', r', out)" and "json_points fr narrow body = Some pts"
  shows "(out = Continue \<longrightarrow> stored w' = stored w @ pts) \<and> prefix (stored w) (stored w') \<and>
    (\<forall>c e. out = Return c e \<longrightarrow> c = int start \<and> e \<noteq> None)"
proof -
  obtain x where x: "send w s (post_json u body 600) = (w', x)"
    using assms(1) by (auto simp: send_json_chunk_def split: result_splits)
  have *: "stored w' = stored w @ pts" if "x = Inr resp" "status_code resp = 200" for resp
    using accepted [OF x [unfolded that(1)]] that(2) assms(2) by (simp add: post_json_def)
  have "prefix (stored w) (stored w')"
    using append_only [OF x] by (simp add: post_json_def)
  with assms(1) x * show ?thesis
    by (auto simp: send_json_chunk_def split: sum.splits if_splits)
qed

lemma insert_step_stored:
  assumes np: "numpy_spec np" and good: "good_load np narrow md d rs"
    and st: "insert_step np send s u inline pp md (Nd2 d rs) start r w = (w', r', out)"
  defines "pts \<equiv> py_slice (load_points pp md rs) start (min (start + insert_batch) (length md))"
  shows "(out = Continue \<longrightarrow> stored w' = stored w @ pts) \<and> prefix (stored w) (stored w') \<and>
    (\<forall>c e. out = Return c e \<longrightarrow> c = int start \<and> e \<noteq> None)"
proof -
  let ?e = "min (start + insert_batch) (length md)"
  let ?ids = "py_slice md start ?e" and ?rows = "py_slice rs start ?e"
  note g = good_load_slice [OF good, of start ?e, unfolded good_load_def]
  have len: "length ?ids < 2 ^ 32"
    by (simp add: insert_batch_def)
  obtain bs where bs: "binary_body np ?ids (Nd2 d ?rows) inline pp = Inr bs"
      "body_points fr narrow (RawBody bs) = Some pts"
    using raw_body_points [of np ?ids ?rows d inline pp fr narrow] np g len
    by (auto simp: pts_def load_points_slice)
  have js: "json_points fr narrow (json_body np ?ids (Nd2 d ?rows) pp inline) = Some pts"
    using json_body_points g by (simp add: pts_def load_points_slice)
  show ?thesis
  proof (cases "binary r")
    case False
    with st have "send_json_chunk send s u start (json_body np ?ids (Nd2 d ?rows) pp inline) r w = (w', r', out)"
      by (simp add: insert_step_def Let_def nd_slice_def)
    then show ?thesis using js by (rule json_chunk_stored)
  next
    case True
    obtain w1 x where x: "send w s (post_raw u bs 600) = (w1, x)" by fastforce
    have acc: "stored w1 = stored w @ pts" if "x = Inr resp" "status_code resp = 200" for resp
      using accepted [OF x [unfolded that(1)]] that(2) bs(2) by (simp add: post_raw_def)
    have rej: "stored w1 = stored w" if "x = Inr resp" "status_code resp \<in> set binary_unsupported" for resp
      using rejected [OF x [unfolded that(1)]] that(2) by (simp add: post_raw_def)
    have "prefix (stored w) (stored w1)"
      using append_only [OF x] by (simp add: post_raw_def)
    with st True bs(1) x show ?thesis
      using acc rej json_chunk_stored [OF _ js]
      by (fastforce simp: insert_step_def Let_def nd_slice_def split: sum.splits if_splits)
  qed
qed

lemma insert_loop_stored:
  fixes pp :: bool
  assumes np: "numpy_spec np" and good: "good_load np narrow md d rs"
  defines "pts \<equiv> load_points pp md rs"
  shows "insert_loop np send s u inline pp md (Nd2 d rs) start r w = (w', r', c, err) \<Longrightarrow>
    (err = None \<longrightarrow> c = int (length md) \<and> stored w' = stored w @ drop start pts) \<and>
    prefix (stored w @ drop start (take (nat c) pts)) (stored w')"
proof (induction "length md - start" arbitrary: start r w rule: less_induct)
  case less
  note unf = insert_loop.simps [of np send s u inline pp md "Nd2 d rs" start r w]
  have n: "length pts = length md"
    using good by (simp add: pts_def good_load_def)
  show ?case
  proof (cases "start < length md")
    case False
    with less.prems unf n show ?thesis by auto
  next
    case True
    obtain w1 r1 o1 where st: "insert_step np send s u inline pp md (Nd2 d rs) start r w = (w1, r1, o1)"
      by (metis prod_cases3)
    note stored1 = insert_step_stored [OF np good st, folded pts_def, folded n, unfolded chunk_slice]
    show ?thesis
    proof (cases o1)
      case Continue
      then have w1: "stored w1 = stored w @ take insert_batch (drop start pts)"
        using stored1 by blast
      have "length md - (start + insert_batch) < length md - start"
        using True by (simp add: insert_batch_def)
      moreover have "insert_loop np send s u inline pp md (Nd2 d rs) (start + insert_batch) r1 w1 = (w', r', c, err)"
        using less.prems True st Continue by (simp add: unf)
      ultimately have IH: "(err = None \<longrightarrow> c = int (length md) \<and> stored w' = stored w1 @ drop (start + insert_batch) pts) \<and>
          prefix (stored w1 @ drop (start + insert_batch) (take (nat c) pts)) (stored w')"
        by (rule less.hyps)
      have "take insert_batch (drop start pts) @ drop (start + insert_batch) pts = drop start pts"
        by (metis add.commute append_take_drop_id drop_drop)
      then have "err = None \<longrightarrow> c = int (length md) \<and> stored w' = stored w @ drop start pts"
        using IH by (simp add: w1)
      moreover have "prefix (stored w @ drop start (take (nat c) pts))
          (stored w1 @ drop (start + insert_batch) (take (nat c) pts))"
        using chunk_prefix [of start "nat c" pts insert_batch] by (simp add: w1)
      ultimately show ?thesis
        using IH prefix_order.trans by blast
    next
      case (Return c' e')
      with less.prems True st stored1 show ?thesis by (auto simp: unf)
    next
      case (Raise e')
      with less.prems True st stored1 show ?thesis by (auto simp: unf)
    qed
  qed
qed

lemma insert_embeddings_stored:
  assumes np: "numpy_spec np"
    and rect: "rectangular d emb" "length emb = length (to_ints md)" "d < 2 ^ 32"
    and ids: "list_all u64_id (to_ints md)"
    and exact: "exact_floats np narrow (map (map (np_f32 np)) emb)"
    and url: "u = points_url r [if load_path r = ''batch'' then ''batch'' else ''bulk'']"
    and call: "insert_embeddings np send r w emb md = (w', r', out)"
  defines "pts \<equiv> load_points (load_path r \<in> {''payload'', ''batch''}) (to_ints md) (map (map (np_f32 np)) emb)"
  shows "\<exists>c err. out = Inr (c, err) \<and>
    (err = None \<longrightarrow> c = int (length (to_ints md)) \<and> stored w' = stored w @ pts) \<and>
    prefix (stored w @ take (nat c) pts) (stored w')"
proof (cases "emb = []")
  case True
  then have "to_ints md = []"
    using rect by simp
  with True call numpy_specD(2) [OF np] show ?thesis
    by (auto simp: insert_embeddings_def as_f32_def Let_def insert_loop.simps pts_def load_points_def)
next
  case False
  let ?rs = "map (map (np_f32 np)) emb"
  have m: "np_matrix np emb = Inr (Nd2 d ?rs)"
    using numpy_specD(3) [OF np False rect(1)] .
  have good: "good_load np narrow (to_ints md) d ?rs"
    using rect ids exact by (simp add: good_load_def rectangular_def list_all_iff)
  obtain c err where out: "out = Inr (c, err)"
    and loop: "insert_loop np send (sess r) u (load_path r = ''batch'') (load_path r \<in> {''payload'', ''batch''})
       (to_ints md) (Nd2 d ?rs) 0 r w = (w', r', c, err)"
    using call url by (auto simp: insert_embeddings_def as_f32_def m Let_def split: prod.splits if_splits)
  show ?thesis
    using insert_loop_stored [OF np good loop] by (auto simp: pts_def out)
qed

end

end
