(* ===== verification/Server.thy ===== *)
theory Server
  imports Load
begin

text \<open>
  Servers that answer. \<open>live_server\<close> extends the load contract by what a healthy server does: a
  JSON chunk is accepted, a binary chunk is accepted by a server that speaks the framing and
  rejected with one of the three documented statuses by one that does not, and which of the two it is
  does not change. Against such a server a load always completes. The reference server satisfies the
  contract, for both kinds.
\<close>

locale live_server = load_server send stored fr narrow u
  for send :: "'w transport" and stored :: "'w \<Rightarrow> point list"
    and fr :: "f64 \<Rightarrow> string" and narrow :: "f64 \<Rightarrow> f32" and u :: string +
  fixes speaks :: "'w \<Rightarrow> bool"
  assumes json_ok: "rq_method rq = ''POST'' \<Longrightarrow> rq_url rq = u \<Longrightarrow> rq_body rq = JsonBody j \<Longrightarrow>
      json_points fr narrow j = Some pts \<Longrightarrow> \<exists>w' resp. send w s rq = (w', Inr resp) \<and> status_code resp = 200"
    and raw_answer: "rq_method rq = ''POST'' \<Longrightarrow> rq_url rq = u \<Longrightarrow> rq_body rq = RawBody bs \<Longrightarrow>
      body_points fr narrow (RawBody bs) = Some pts \<Longrightarrow>
      \<exists>w' resp. send w s rq = (w', Inr resp) \<and>
        (if speaks w then status_code resp = 200 else status_code resp \<in> set binary_unsupported)"
    and speaks_stays: "send w s rq = (w', x) \<Longrightarrow> speaks w' = speaks w"
begin

lemma json_chunk_continues:
  assumes "json_points fr narrow body = Some pts"
  shows "\<exists>w'. send_json_chunk send s u start body r w = (w', r, Continue) \<and> speaks w' = speaks w"
proof -
  obtain w' resp where x: "send w s (post_json u body 600) = (w', Inr resp)" "status_code resp = 200"
    using json_ok [of "post_json u body 600" body pts w s] assms by (auto simp: post_json_def)
  with speaks_stays [OF x(1)] show ?thesis
    by (simp add: send_json_chunk_def)
qed

lemma insert_step_continues:
  assumes np: "numpy_spec np" and good: "good_load np narrow md d rs"
    and pin: "binary_proven r \<Longrightarrow> speaks w"
  shows "\<exists>w' r'. insert_step np send s u inline pp md (Nd2 d rs) start r w = (w', r', Continue) \<and>
    speaks w' = speaks w \<and> (binary_proven r' \<longrightarrow> speaks w') \<and> binary r' = (binary r \<and> speaks w)"
proof -
  let ?e = "min (start + insert_batch) (length md)"
  let ?ids = "py_slice md start ?e" and ?rows = "py_slice rs start ?e"
  note g = good_load_slice [OF good, of start ?e, unfolded good_load_def]
  let ?js = "json_body np ?ids (Nd2 d ?rows) pp inline"
  have len: "length ?ids < 2 ^ 32"
    by (simp add: insert_batch_def)
  obtain bs where bs: "binary_body np ?ids (Nd2 d ?rows) inline pp = Inr bs"
      "body_points fr narrow (RawBody bs) = Some (load_points pp ?ids ?rows)"
    using raw_body_points [of np ?ids ?rows d inline pp fr narrow] np g len by auto
  have js: "json_points fr narrow ?js = Some (load_points pp ?ids ?rows)"
    using json_body_points g by simp
  obtain w1 resp where x: "send w s (post_raw u bs 600) = (w1, Inr resp)"
      "if speaks w then status_code resp = 200 else status_code resp \<in> set binary_unsupported"
    using raw_answer [of "post_raw u bs 600" bs "load_points pp ?ids ?rows" w s] bs(2)
    by (auto simp: post_raw_def)
  have sp: "speaks w1 = speaks w"
    using speaks_stays [OF x(1)] .
  obtain w2 where w2: "send_json_chunk send s u start ?js (r\<lparr>binary := False\<rparr>) w1 = (w2, r\<lparr>binary := False\<rparr>, Continue)"
      "speaks w2 = speaks w1"
    using json_chunk_continues [OF js] by blast
  obtain w3 where w3: "send_json_chunk send s u start ?js r w = (w3, r, Continue)" "speaks w3 = speaks w"
    using json_chunk_continues [OF js] by blast
  show ?thesis
    using bs(1) x sp w2 w3 pin
    by (cases "binary r"; cases "speaks w")
      (auto simp: insert_step_def Let_def nd_slice_def binary_unsupported_def)
qed

lemma insert_loop_completes:
  assumes np: "numpy_spec np" and good: "good_load np narrow md d rs"
  shows "(binary_proven r \<Longrightarrow> speaks w) \<Longrightarrow>
    \<exists>w' r'. insert_loop np send s u inline pp md (Nd2 d rs) start r w = (w', r', int (length md), None) \<and>
      (start < length md \<longrightarrow> binary r' = (binary r \<and> speaks w))"
proof (induction "length md - start" arbitrary: start r w rule: less_induct)
  case less
  note unf = insert_loop.simps [of np send s u inline pp md "Nd2 d rs" start r w]
  show ?case
  proof (cases "start < length md")
    case False
    then show ?thesis by (simp add: unf)
  next
    case True
    obtain w1 r1 where st: "insert_step np send s u inline pp md (Nd2 d rs) start r w = (w1, r1, Continue)"
      and w1: "speaks w1 = speaks w" "binary_proven r1 \<longrightarrow> speaks w1" "binary r1 = (binary r \<and> speaks w)"
      using insert_step_continues [OF np good, of r w s inline pp start] less.prems by auto
    have "length md - (start + insert_batch) < length md - start"
      using True by (simp add: insert_batch_def)
    from less.hyps [OF this, of r1 w1] w1 obtain w' r' where
      loop: "insert_loop np send s u inline pp md (Nd2 d rs) (start + insert_batch) r1 w1 = (w', r', int (length md), None)"
      and b: "start + insert_batch < length md \<longrightarrow> binary r' = (binary r1 \<and> speaks w1)"
      by blast
    have "binary r' = (binary r \<and> speaks w)"
    proof (cases "start + insert_batch < length md")
      case True
      with b w1 show ?thesis by simp
    next
      case False
      with loop have "r' = r1"
        by (simp add: insert_loop.simps [of np send s u inline pp md "Nd2 d rs" "start + insert_batch" r1 w1])
      with w1 show ?thesis by simp
    qed
    with True st loop show ?thesis by (simp add: unf)
  qed
qed

lemma insert_embeddings_completes:
  assumes np: "numpy_spec np"
    and rect: "rectangular d emb" "length emb = length (to_ints md)" "d < 2 ^ 32"
    and ids: "list_all u64_id (to_ints md)"
    and exact: "exact_floats np narrow (map (map (np_f32 np)) emb)"
    and url: "u = points_url r [if load_path r = ''batch'' then ''batch'' else ''bulk'']"
    and pin: "binary_proven r \<Longrightarrow> speaks w"
  shows "\<exists>w' r'. insert_embeddings np send r w emb md = (w', r', Inr (int (length (to_ints md)), None)) \<and>
    stored w' = stored w @ load_points (load_path r \<in> {''payload'', ''batch''}) (to_ints md) (map (map (np_f32 np)) emb) \<and>
    (emb \<noteq> [] \<longrightarrow> binary r' = (binary r \<and> speaks w))"
proof (cases "emb = []")
  case True
  then have "to_ints md = []"
    using rect by simp
  with True numpy_specD(2) [OF np] show ?thesis
    by (auto simp: insert_embeddings_def as_f32_def Let_def insert_loop.simps load_points_def)
next
  case False
  let ?rs = "map (map (np_f32 np)) emb"
  have m: "np_matrix np emb = Inr (Nd2 d ?rs)"
    using numpy_specD(3) [OF np False rect(1)] .
  have good: "good_load np narrow (to_ints md) d ?rs"
    using rect ids exact by (simp add: good_load_def rectangular_def list_all_iff)
  obtain w' r' where loop: "insert_loop np send (sess r) u (load_path r = ''batch'') (load_path r \<in> {''payload'', ''batch''})
       (to_ints md) (Nd2 d ?rs) 0 r w = (w', r', int (length (to_ints md)), None)"
    and b: "0 < length (to_ints md) \<longrightarrow> binary r' = (binary r \<and> speaks w)"
    using insert_loop_completes [OF np good, of r w "sess r" "load_path r = ''batch''" "load_path r \<in> {''payload'', ''batch''}" 0] pin
    by blast
  have call: "insert_embeddings np send r w emb md = (w', r', Inr (int (length (to_ints md)), None))"
    using loop url by (auto simp: insert_embeddings_def as_f32_def m Let_def split: if_splits)
  from insert_embeddings_stored [OF np rect ids exact url call] call b False rect(2) show ?thesis
    by auto
qed

end

section \<open>The reference server\<close>

record ref_state =
  srv_points :: "point list"
  srv_speaks :: bool

definition answer :: "nat \<Rightarrow> string \<Rightarrow> json \<Rightarrow> response" where
  "answer c t j = \<lparr>status_code = c, resp_text = t, resp_json = Inr j,
     resp_raises = (if 400 \<le> c \<and> c < 600 then Some (HTTPError c) else None)\<rparr>"

fun is_raw :: "http_body \<Rightarrow> bool" where
  "is_raw (RawBody bs) = True"
| "is_raw _ = False"

definition ref_send :: "(f64 \<Rightarrow> string) \<Rightarrow> (f64 \<Rightarrow> f32) \<Rightarrow> string \<Rightarrow> ref_state transport" where
  "ref_send fr narrow u w s rq =
     (if rq_method rq = ''POST'' \<and> rq_url rq = u then
        (if is_raw (rq_body rq) \<and> \<not> srv_speaks w then (w, Inr (answer 400 ''invalid character'' JNull))
         else (case body_points fr narrow (rq_body rq) of
                 None \<Rightarrow> (w, Inr (answer 400 ''bad request'' JNull))
               | Some pts \<Rightarrow> (w\<lparr>srv_points := srv_points w @ pts\<rparr>, Inr (answer 200 [] (JObj [])))))
      else (w, Inr (answer 404 ''not found'' JNull)))"

text \<open>An object with settings as the constructor leaves them, for concrete runs.\<close>

definition sample_client :: "string \<Rightarrow> rostam" where
  "sample_client lp =
     \<lparr>dim = 1, collection_name = ''c'', base = ''http://h'', api_key = JNull, load_path = lp,
      query_filter = None, binary = True, binary_proven = False, binary_query = True,
      binary_query_proven = False, filter_blob = [], active_session = None\<rparr>"

interpretation ref: live_server "ref_send fr narrow u" srv_points fr narrow u srv_speaks for fr narrow u
proof unfold_locales
  show "\<And>w s rq w' resp pts. ref_send fr narrow u w s rq = (w', Inr resp) \<Longrightarrow> rq_method rq = ''POST'' \<Longrightarrow>
      rq_url rq = u \<Longrightarrow> status_code resp = 200 \<Longrightarrow> body_points fr narrow (rq_body rq) = Some pts \<Longrightarrow>
      srv_points w' = srv_points w @ pts"
    by (auto simp: ref_send_def answer_def split: if_splits)
  show "\<And>w s rq w' resp. ref_send fr narrow u w s rq = (w', Inr resp) \<Longrightarrow> rq_url rq = u \<Longrightarrow>
      status_code resp \<in> set binary_unsupported \<Longrightarrow> srv_points w' = srv_points w"
    by (auto simp: ref_send_def answer_def binary_unsupported_def split: if_splits option.splits)
  show "\<And>w s rq w' x. ref_send fr narrow u w s rq = (w', x) \<Longrightarrow> rq_url rq = u \<Longrightarrow> prefix (srv_points w) (srv_points w')"
    by (auto simp: ref_send_def split: if_splits option.splits)
  show "\<And>rq j pts w s. rq_method rq = ''POST'' \<Longrightarrow> rq_url rq = u \<Longrightarrow> rq_body rq = JsonBody j \<Longrightarrow>
      json_points fr narrow j = Some pts \<Longrightarrow>
      \<exists>w' resp. ref_send fr narrow u w s rq = (w', Inr resp) \<and> status_code resp = 200"
    by (simp add: ref_send_def answer_def)
  show "\<And>rq bs pts w s. rq_method rq = ''POST'' \<Longrightarrow> rq_url rq = u \<Longrightarrow> rq_body rq = RawBody bs \<Longrightarrow>
      body_points fr narrow (RawBody bs) = Some pts \<Longrightarrow>
      \<exists>w' resp. ref_send fr narrow u w s rq = (w', Inr resp) \<and>
        (if srv_speaks w then status_code resp = 200 else status_code resp \<in> set binary_unsupported)"
    by (auto simp: ref_send_def answer_def binary_unsupported_def)
  show "\<And>w s rq w' x. ref_send fr narrow u w s rq = (w', x) \<Longrightarrow> srv_speaks w' = srv_speaks w"
    by (auto simp: ref_send_def split: if_splits option.splits)
qed

end
