(* ===== verification/Search.thy ===== *)
theory Search
  imports Client_Steps Wire_Codec
begin

text \<open>
  What a search asks for and what it returns. A query leaves the client as an \<open>RVQ1\<close> frame or as a
  JSON object; read by a receiver, both are the same message, filter included. The ids come back
  in the server's order, over whichever wire the server speaks.
\<close>

section \<open>Both wires ask the same question\<close>

fun json_floats :: "json list \<Rightarrow> f64 list option" where
  "json_floats [] = Some []"
| "json_floats (JFloat x # js) = map_option ((#) x) (json_floats js)"
| "json_floats (_ # js) = None"

text \<open>A JSON query as a receiver reads it: numbers as float32, the filter as its JSON text.\<close>

fun read_json_query :: "(f64 \<Rightarrow> string) \<Rightarrow> (f64 \<Rightarrow> f32) \<Rightarrow> json \<Rightarrow> query_msg option" where
  "read_json_query fr narrow (JObj kvs) =
     (case (map_of kvs ''query'', map_of kvs ''k'') of
        (Some (JList js), Some (JInt k)) \<Rightarrow>
          (if k < 0 then None
           else map_option (\<lambda>v. \<lparr>q_k = nat k, q_vec = map narrow v,
                    q_filter = map_option (\<lambda>f. encode (json_dumps fr f)) (map_of kvs ''filter'')\<rparr>)
                  (json_floats js))
      | _ \<Rightarrow> None)"
| "read_json_query fr narrow _ = None"

lemma json_floats_map [simp]: "json_floats (map JFloat xs) = Some xs"
  by (induction xs) auto

lemma dumps_JObj_not_Nil: "json_dumps fr (JObj kvs) \<noteq> []"
  by (simp add: json_dumps_def)

text \<open>Every filter the client holds is a JSON object, so its text is never empty.\<close>

definition filter_is_object :: "rostam \<Rightarrow> bool" where
  "filter_is_object r \<longleftrightarrow> (case query_filter r of None \<Rightarrow> True | Some (JObj _) \<Rightarrow> True | _ \<Rightarrow> False)"

lemma filter_blob_Nil_iff:
  "filter_agrees fr r \<Longrightarrow> filter_is_object r \<Longrightarrow> filter_blob r = [] \<longleftrightarrow> query_filter r = None"
  by (auto simp: filter_agrees_def filter_is_object_def dumps_JObj_not_Nil split: option.splits json.splits)

lemma client_step_filter_is_object:
  "client_step np fr send (r, w) (r', w') \<Longrightarrow> filter_is_object r \<Longrightarrow> filter_is_object r'"
proof (erule client_stepE)
  fix emb md ins assume "insert_embeddings np send r w emb md = (w', r', ins)" "filter_is_object r"
  then show ?thesis
    using insert_run_frame [OF insert_embeddings_rel] by (fastforce simp: filter_is_object_def)
next
  fix f flt assume "prepare_filter fr r f = (r', flt)" "filter_is_object r"
  then show ?thesis
    by (auto simp: filter_is_object_def prepare_filter_def num_ge_json_def Let_def split: if_splits sum.splits)
qed (auto simp: filter_is_object_def init_enter_def search_rel_def dest!: init_exit_cases search_embedding_rel)

lemma run_filter_is_object:
  assumes "(client_step np fr send)\<^sup>*\<^sup>* s t" "filter_is_object (fst s)"
  shows "filter_is_object (fst t)"
  using assms by (induction rule: rtranclp_induct) (auto intro: client_step_filter_is_object)

text \<open>Infinities and NaNs have no JSON text; a row without them is finite.\<close>

definition finite_row :: "f32 list \<Rightarrow> bool" where
  "finite_row v = list_all (\<lambda>x. f32_exp x \<noteq> 255) v"

text \<open>
  The list that the JSON wire carries, rounded to float32, is the row that the binary wire carries: a numpy row widens
  and comes back, a Python sequence is rounded once on either side.
\<close>

lemma to_list_rounded:
  assumes "numpy_spec np" "finite_row (as_f4 np q)"
  shows "map (np_f32 np) (to_list np q) = as_f4 np q"
  using assms(2) numpy_specD(1) [OF assms(1)]
  by (cases q) (auto simp: to_list_def as_f4_def finite_row_def f32_is_nan_def list_all_iff intro: map_idI)

lemma search_bodies_agree:
  assumes np: "numpy_spec np" and k: "0 \<le> k" "k < 2 ^ 32" and d: "length (as_f4 np q) < 2 ^ 32"
    and b: "length (filter_blob r) < 2 ^ 32" and fa: "filter_agrees fr r" and fo: "filter_is_object r"
    and ex: "finite_row (as_f4 np q)"
  shows "\<exists>bs m. query_body np q k (filter_blob r) = Inr bs \<and> decode_query bs = Some m \<and>
    read_json_query fr (np_f32 np) (query_json np q k (query_filter r)) = Some m"
proof -
  let ?m = "\<lparr>q_k = nat k, q_vec = as_f4 np q,
             q_filter = map_option (\<lambda>f. encode (json_dumps fr f)) (query_filter r)\<rparr>"
  have "(if filter_blob r = [] then None else Some (filter_blob r)) =
      map_option (\<lambda>f. encode (json_dumps fr f)) (query_filter r)"
    using filter_blob_Nil_iff [OF fa fo] fa by (auto simp: filter_agrees_def split: option.splits)
  then have "\<exists>bs. query_body np q k (filter_blob r) = Inr bs \<and> decode_query bs = Some ?m"
    using decode_query_body [OF np k d b] by auto
  moreover have "read_json_query fr (np_f32 np) (query_json np q k (query_filter r)) = Some ?m"
    using k(1) to_list_rounded [OF np ex] by (simp add: query_json_def split: option.splits)
  ultimately show ?thesis by blast
qed

section \<open>Reading a filter\<close>

text \<open>A JSON string literal behind its opening quote, and the text that follows it.\<close>

definition hex_value :: "char \<Rightarrow> nat option" where
  "hex_value c =
     (let n = of_char c
      in if 48 \<le> n \<and> n \<le> 57 then Some (n - 48) else if 97 \<le> n \<and> n \<le> 102 then Some (n - 87) else None)"

definition simple_escape :: "char \<Rightarrow> char option" where
  "simple_escape c =
     map_of [(CHR 0x22, CHR 0x22), (CHR 0x5C, CHR 0x5C), (CHR ''n'', CHR 0x0A), (CHR ''r'', CHR 0x0D), (CHR ''t'', CHR 0x09),
       (CHR ''f'', CHR 0x0C), (CHR ''b'', CHR 0x08)] c"

fun read_escape :: "string \<Rightarrow> (char \<times> string) option" where
  "read_escape [] = None"
| "read_escape (e # s) =
     (if e = CHR ''u'' then
        (case s of
           z # y # h # l # s' \<Rightarrow>
             (if z = CHR ''0'' \<and> y = CHR ''0'' then
                (case (hex_value h, hex_value l) of
                   (Some a, Some b) \<Rightarrow> Some (char_of (16 * a + b), s')
                 | _ \<Rightarrow> None)
              else None)
         | _ \<Rightarrow> None)
      else map_option (\<lambda>d. (d, s)) (simple_escape e))"

lemma read_escape_shorter: "read_escape s = Some (c, s') \<Longrightarrow> length s' < length s"
  by (cases s) (auto split: if_splits list.splits option.splits)

function read_text :: "string \<Rightarrow> (string \<times> string) option" where
  "read_text [] = None"
| "read_text (c # s) =
     (if c = CHR 0x22 then Some ([], s)
      else if c = CHR 0x5C then
        (case read_escape s of
           Some (d, s') \<Rightarrow> map_option (\<lambda>(t, rest). (d # t, rest)) (read_text s')
         | None \<Rightarrow> None)
      else map_option (\<lambda>(t, rest). (c # t, rest)) (read_text s))"
  by pat_completeness auto
termination
  by (relation "measure length") (auto dest: read_escape_shorter)

lemma hex_value_hex_char: "d < 16 \<Longrightarrow> hex_value (hex_char d) = Some d"
  by (auto simp: hex_value_def hex_char_def)

lemma char_of_value: "of_char c = (n :: nat) \<longleftrightarrow> c = char_of n \<and> n < 256"
  by auto

lemma char_codes:
  "char_of (34 :: nat) = CHR 0x22" "char_of (92 :: nat) = CHR 0x5C" "char_of (10 :: nat) = CHR 0x0A" "char_of (13 :: nat) = CHR 0x0D"
  "char_of (9 :: nat) = CHR 0x09" "char_of (12 :: nat) = CHR 0x0C" "char_of (8 :: nat) = CHR 0x08"
  by code_simp+

lemma json_esc_codes:
  "json_esc (CHR 0x22) = [CHR 0x5C, CHR 0x22]" "json_esc (CHR 0x5C) = [CHR 0x5C, CHR 0x5C]"
  "json_esc (CHR 0x0A) = [CHR 0x5C, CHR ''n'']" "json_esc (CHR 0x0D) = [CHR 0x5C, CHR ''r'']"
  "json_esc (CHR 0x09) = [CHR 0x5C, CHR ''t'']" "json_esc (CHR 0x0C) = [CHR 0x5C, CHR ''f'']"
  "json_esc (CHR 0x08) = [CHR 0x5C, CHR ''b'']"
  by code_simp+

lemma read_text_esc: "read_text (json_esc c @ s) = map_option (\<lambda>(t, rest). (c # t, rest)) (read_text s)"
proof (cases "of_char c \<in> {34, 92, 10, 13, 9, 12, 8 :: nat}")
  case True
  then have "c \<in> {CHR 0x22, CHR 0x5C, CHR 0x0A, CHR 0x0D, CHR 0x09, CHR 0x0C, CHR 0x08}"
    by (auto simp: char_of_value char_codes)
  then show ?thesis
    by (elim insertE emptyE) (simp_all add: json_esc_codes simple_escape_def)
next
  case False
  let ?n = "of_char c :: nat"
  have "char_of (16 * (?n div 16) + ?n mod 16) = c"
    by simp
  moreover have "?n < 256"
    using of_char_mod_256 [of c, where ?'a = nat] by (metis mod_less_divisor zero_less_numeral)
  then have "?n div 16 < 16"
    by (intro less_mult_imp_div_less) (simp only: mult_numeral_left_semiring_numeral semiring_norm num.inject)
  moreover have "?n mod 16 < 16"
    by simp
  moreover have "c \<noteq> CHR 0x22" "c \<noteq> CHR 0x5C"
    using False by auto
  ultimately show ?thesis
    using False by (simp add: json_esc_def Let_def hex_value_hex_char)
qed

lemma read_text_json: "read_text (concat (map json_esc t) @ CHR 0x22 # rest) = Some (t, rest)"
  by (induction t) (simp_all add: read_text_esc)

text \<open>
  The text of a filter \<open>field >= v\<close> in the server's filter language, read back: the fixed parts literally, the
  field as a JSON string and the bound as an integer.
\<close>

definition read_after :: "string \<Rightarrow> string \<Rightarrow> string option" where
  "read_after p s = (if take (length p) s = p then Some (drop (length p) s) else None)"

definition read_ge_filter :: "string \<Rightarrow> (string \<times> int) option" where
  \<open>read_ge_filter s =
     Option.bind (read_after ''{"op": "gte", "field": "'' s) (\<lambda>s1.
     Option.bind (read_text s1) (\<lambda>(field, s2).
     Option.bind (read_after '', "value": {"kind": "int", "int": '' s2) (\<lambda>s3.
       (case int_of_str (takeWhile (\<lambda>c. c \<noteq> CHR 0x7D) s3) of
          Inr v \<Rightarrow> if dropWhile (\<lambda>c. c \<noteq> CHR 0x7D) s3 = ''}}'' then Some (field, v) else None
        | Inl e \<Rightarrow> None))))\<close>

lemma read_after_append [simp]: "read_after p (p @ s) = Some s"
  by (simp add: read_after_def)

lemma str_int_no_brace: "c \<in> set (str_int v) \<Longrightarrow> c \<noteq> CHR 0x7D"
  using dec_nat_digits [of "nat v"] dec_nat_digits [of "nat (- v)"]
  by (auto simp: str_int_def list_all_iff is_digit_def split: if_splits)

lemma num_ge_dumps:
  \<open>json_dumps fr (num_ge_json field v) =
     ''{"op": "gte", "field": "'' @ concat (map json_esc field) @ CHR 0x22 #
     '', "value": {"kind": "int", "int": '' @ str_int v @ ''}}''\<close>
  by (simp add: json_dumps_def num_ge_json_def json_str_def json_esc_def Let_def)

lemma read_num_ge: "read_ge_filter (json_dumps fr (num_ge_json field v)) = Some (field, v)"
proof -
  have "takeWhile (\<lambda>c. c \<noteq> CHR 0x7D) (str_int v @ ''}}'') = str_int v" "dropWhile (\<lambda>c. c \<noteq> CHR 0x7D) (str_int v @ ''}}'') = ''}}''"
    using str_int_no_brace by (auto simp: takeWhile_append dropWhile_append)
  then show ?thesis
    unfolding num_ge_dumps read_ge_filter_def read_after_append bind.bind_lunit read_text_json prod.case
    by (simp add: int_of_str_str_int)
qed

section \<open>The answer\<close>

definition hits_json :: "int list \<Rightarrow> json" where
  "hits_json ids = JObj [(''results'', JList (map (\<lambda>i. JObj [(''id'', JInt i)]) ids))]"

lemma result_ids_hits: "result_ids (hits_json ids) = Inr ids"
proof -
  have "mapr hit_id (map (\<lambda>i. JObj [(''id'', JInt i)]) ids) = Inr ids"
    by (induction ids) (simp_all add: hit_id_def)
  then show ?thesis
    by (simp add: result_ids_def hits_json_def)
qed

definition json_query_request :: "numpy \<Rightarrow> rostam \<Rightarrow> vec \<Rightarrow> int \<Rightarrow> request" where
  "json_query_request np r q k = post_json (points_url r [''search'']) (query_json np q k (query_filter r)) 120"

text \<open>
  The interface of a server that answers searches: over the wire it speaks it returns its hits, a
  binary query it does not speak is rejected with one of the documented statuses.
\<close>

locale search_server =
  fixes send :: "'w transport"
    and speaks :: "'w \<Rightarrow> bool"
    and answer_ids :: "'w \<Rightarrow> request \<Rightarrow> int list"
  assumes raw_hits: "speaks w \<Longrightarrow> rq_body rq = RawBody bs \<Longrightarrow>
      \<exists>w' resp. send w s rq = (w', Inr resp) \<and> status_code resp = 200 \<and> resp_raises resp = None \<and>
        resp_json resp = Inr (hits_json (answer_ids w rq))"
    and raw_rejected: "\<not> speaks w \<Longrightarrow> rq_body rq = RawBody bs \<Longrightarrow>
      \<exists>resp. send w s rq = (w, Inr resp) \<and> status_code resp \<in> set binary_unsupported"
    and json_hits: "rq_body rq = JsonBody j \<Longrightarrow>
      \<exists>w' resp. send w s rq = (w', Inr resp) \<and> resp_raises resp = None \<and>
        resp_json resp = Inr (hits_json (answer_ids w rq))"
begin

lemma search_json_hits:
  "\<exists>w'. search_json np send r w q k = (w', Inr (answer_ids w (json_query_request np r q k)))"
proof -
  obtain w' resp where "send w (sess r) (json_query_request np r q k) = (w', Inr resp)"
    "resp_raises resp = None" "resp_json resp = Inr (hits_json (answer_ids w (json_query_request np r q k)))"
    using json_hits [of "json_query_request np r q k" "query_json np q k (query_filter r)" w "sess r"]
    by (auto simp: json_query_request_def post_json_def)
  then show ?thesis
    by (simp add: search_json_def json_query_request_def checked_ids_def result_ids_hits)
qed

lemma search_hits:
  assumes body: "query_body np q k (filter_blob r) = Inr bs" and pin: "binary_query_proven r \<Longrightarrow> speaks w"
  shows "\<exists>w' r'. search_embedding np send r w q k =
      (w', r', Inr (answer_ids w (if binary_query r \<and> speaks w then post_raw (points_url r [''search'']) bs 120
                                  else json_query_request np r q k))) \<and>
    binary_query r' = (binary_query r \<and> speaks w)"
proof -
  let ?raw = "post_raw (points_url r [''search'']) bs 120"
  consider (json) "\<not> binary_query r" | (raw) "binary_query r" "speaks w" | (fallback) "binary_query r" "\<not> speaks w"
    by blast
  then show ?thesis
  proof cases
    case json
    with search_json_hits [of np r w q k] show ?thesis
      by (auto simp: search_embedding_def)
  next
    case raw
    obtain w' resp where "send w (sess r) ?raw = (w', Inr resp)" "status_code resp = 200" "resp_raises resp = None"
      "resp_json resp = Inr (hits_json (answer_ids w ?raw))"
      using raw_hits [OF raw(2), of ?raw bs "sess r"] by (auto simp: post_raw_def)
    with raw body show ?thesis
      by (simp add: search_embedding_def binary_unsupported_def result_ids_hits)
  next
    case fallback
    let ?r = "r\<lparr>binary_query := False\<rparr>"
    obtain resp where "send w (sess r) ?raw = (w, Inr resp)" "status_code resp \<in> set binary_unsupported"
      using raw_rejected [OF fallback(2), of ?raw bs "sess r"] by (auto simp: post_raw_def)
    moreover obtain w' where "search_json np send ?r w q k = (w', Inr (answer_ids w (json_query_request np ?r q k)))"
      using search_json_hits by blast
    moreover have "json_query_request np ?r q k = json_query_request np r q k"
      by (simp add: json_query_request_def points_url_def url_def)
    ultimately show ?thesis
      using fallback body pin by (auto simp: search_embedding_def Let_def)
  qed
qed

end

section \<open>A server that answers\<close>

text \<open>It returns a fixed list of hits, speaks the binary query wire or not, and never changes.\<close>

definition hits_response :: "int list \<Rightarrow> response" where
  "hits_response ids = \<lparr>status_code = 200, resp_text = [], resp_json = Inr (hits_json ids), resp_raises = None\<rparr>"

definition rejection :: response where
  "rejection = \<lparr>status_code = 400, resp_text = ''invalid character'', resp_json = Inr JNull,
     resp_raises = Some (HTTPError 400)\<rparr>"

definition hits_send :: "(bool \<times> int list) transport" where
  "hits_send w s rq =
     (case rq_body rq of
        RawBody _ \<Rightarrow> (w, Inr (if fst w then hits_response (snd w) else rejection))
      | JsonBody _ \<Rightarrow> (w, Inr (hits_response (snd w)))
      | NoBody \<Rightarrow> (w, Inr rejection))"

interpretation hits: search_server hits_send fst "\<lambda>w rq. snd w"
  by unfold_locales (auto simp: hits_send_def hits_response_def rejection_def binary_unsupported_def)

end
