(* ===== verification/Session.thy ===== *)
theory Session
  imports Server Search
begin

text \<open>
  The object and the server behind it as one vector database. The specification \<open>spec_db\<close> knows the
  points written, those of them that can be queried and the filter, nothing of wires, chunks, frames or fallbacks;
  \<open>vector_server\<close> extends the load contract by what \<open>netvec/main.go\<close> and the comments of \<open>rostam.py\<close> say of the server:
  staged points are not queryable until a build completes, a build needs an empty index, points of the batch
  route are indexed as they arrive, the query wire is spoken or not on its own, and the answer to a query is a
  function of the queryable points and the message read. A session of loads, builds, filters and queries on the object
  refines the same session on the specification.
\<close>

section \<open>The specification\<close>

record spec_db =
  db_points :: "point list"
  db_ready :: "point list"
  db_filter :: "json option"

datatype operation =
    Load "f64 list list" id_seq
  | Build
  | Filter vdb_filter
  | Query vec int

datatype outcome =
    Loaded "(int \<times> py_error option) result"
  | Built "unit result"
  | Filtered "unit result"
  | Found "int list result"

definition spec_message :: "numpy \<Rightarrow> (f64 \<Rightarrow> string) \<Rightarrow> json option \<Rightarrow> vec \<Rightarrow> int \<Rightarrow> query_msg" where
  "spec_message np fr flt q k =
     \<lparr>q_k = nat k, q_vec = as_f4 np q, q_filter = map_option (\<lambda>f. encode (json_dumps fr f)) flt\<rparr>"

text \<open>A filter is accepted when there is none, or when it compares an integer field and points carry it.\<close>

definition spec_filter :: "string \<Rightarrow> vdb_filter \<Rightarrow> json option \<Rightarrow> json option" where
  "spec_filter path f flt =
     (case (flt_type f, py_int (int_value f)) of
        (NonFilter, _) \<Rightarrow> None
      | (NumGE, Inr v) \<Rightarrow> if path = ''bulk'' then flt else Some (num_ge_json (int_field f) v)
      | _ \<Rightarrow> flt)"

text \<open>
  A load appends to the points written, and to the queryable ones on the batch path. A build makes all points
  queryable if none is; on the batch path there is nothing to do.
\<close>

fun spec_step ::
  "numpy \<Rightarrow> (f64 \<Rightarrow> string) \<Rightarrow> (point list \<Rightarrow> query_msg \<Rightarrow> int list) \<Rightarrow> string \<Rightarrow> operation \<Rightarrow> spec_db \<Rightarrow> spec_db" where
  "spec_step np fr hits path (Load emb md) db =
     (let new = load_points (path \<in> {''payload'', ''batch''}) (to_ints md) (map (map (np_f32 np)) emb)
      in db\<lparr>db_points := db_points db @ new, db_ready := (if path = ''batch'' then db_ready db @ new else db_ready db)\<rparr>)"
| "spec_step np fr hits path Build db = (if path = ''batch'' \<or> db_ready db \<noteq> [] then db else db\<lparr>db_ready := db_points db\<rparr>)"
| "spec_step np fr hits path (Filter f) db = db\<lparr>db_filter := spec_filter path f (db_filter db)\<rparr>"
| "spec_step np fr hits path (Query q k) db = db"

text \<open>
  What an operation returns: a count without an error; success of a build of staged points and an error if there
  are queryable points already (what a build of nothing answers is left open); whether the filter was taken; the
  hits among the queryable points.
\<close>

fun spec_returns ::
  "numpy \<Rightarrow> (f64 \<Rightarrow> string) \<Rightarrow> (point list \<Rightarrow> query_msg \<Rightarrow> int list) \<Rightarrow> string \<Rightarrow> operation \<Rightarrow> spec_db \<Rightarrow> outcome \<Rightarrow> bool" where
  "spec_returns np fr hits path (Load emb md) db out \<longleftrightarrow> out = Loaded (Inr (int (length (to_ints md)), None))"
| "spec_returns np fr hits path Build db out \<longleftrightarrow>
     (\<exists>x. out = Built x \<and> (path = ''batch'' \<or> db_ready db = [] \<and> db_points db \<noteq> [] \<longrightarrow> x = Inr ()) \<and>
        (path \<noteq> ''batch'' \<and> db_ready db \<noteq> [] \<longrightarrow> (\<exists>msg. x = Inl (RuntimeError msg))))"
| "spec_returns np fr hits path (Filter f) db out \<longleftrightarrow>
     (\<exists>x. out = Filtered x \<and> (x = Inr () \<longleftrightarrow> flt_type f = NonFilter \<or>
        (flt_type f = NumGE \<and> path \<noteq> ''bulk'' \<and> (\<exists>v. py_int (int_value f) = Inr v))))"
| "spec_returns np fr hits path (Query q k) db out \<longleftrightarrow>
     out = Found (Inr (hits (db_ready db) (spec_message np fr (db_filter db) q k)))"

fun spec_run ::
  "numpy \<Rightarrow> (f64 \<Rightarrow> string) \<Rightarrow> (point list \<Rightarrow> query_msg \<Rightarrow> int list) \<Rightarrow> string \<Rightarrow> operation list \<Rightarrow> spec_db \<Rightarrow> outcome list \<Rightarrow>
    spec_db \<Rightarrow> bool" where
  "spec_run np fr hits path [] db outs db' \<longleftrightarrow> outs = [] \<and> db' = db"
| "spec_run np fr hits path (c # cs) db outs db' \<longleftrightarrow>
     (\<exists>out rest. outs = out # rest \<and> spec_returns np fr hits path c db out \<and>
        spec_run np fr hits path cs (spec_step np fr hits path c db) rest db')"

section \<open>The object\<close>

fun perform :: "numpy \<Rightarrow> (f64 \<Rightarrow> string) \<Rightarrow> 'w transport \<Rightarrow> operation \<Rightarrow> rostam \<times> 'w \<Rightarrow> (rostam \<times> 'w) \<times> outcome" where
  "perform np fr send (Load emb md) s =
     (case insert_embeddings np send (fst s) (snd s) emb md of (w', r', x) \<Rightarrow> ((r', w'), Loaded x))"
| "perform np fr send Build s = (case optimize send (fst s) (snd s) of (w', x) \<Rightarrow> ((fst s, w'), Built x))"
| "perform np fr send (Filter f) s = (case prepare_filter fr (fst s) f of (r', x) \<Rightarrow> ((r', snd s), Filtered x))"
| "perform np fr send (Query q k) s =
     (case search_embedding np send (fst s) (snd s) q k of (w', r', x) \<Rightarrow> ((r', w'), Found x))"

fun session :: "numpy \<Rightarrow> (f64 \<Rightarrow> string) \<Rightarrow> 'w transport \<Rightarrow> operation list \<Rightarrow> rostam \<times> 'w \<Rightarrow> (rostam \<times> 'w) \<times> outcome list" where
  "session np fr send [] s = (s, [])"
| "session np fr send (c # cs) s =
     (case perform np fr send c s of
        (s', out) \<Rightarrow> (case session np fr send cs s' of (s'', outs) \<Rightarrow> (s'', out # outs)))"

definition abs_db :: "('w \<Rightarrow> point list) \<Rightarrow> ('w \<Rightarrow> point list) \<Rightarrow> rostam \<times> 'w \<Rightarrow> spec_db" where
  "abs_db stored live s = \<lparr>db_points = stored (snd s), db_ready = live (snd s), db_filter = query_filter (fst s)\<rparr>"

text \<open>Operations whose data fit the wires: ids of 64 bits, finite float32 components, lengths and counts of 32 bits.\<close>

fun fits_wires :: "numpy \<Rightarrow> (f64 \<Rightarrow> string) \<Rightarrow> operation \<Rightarrow> bool" where
  "fits_wires np fr (Load emb md) \<longleftrightarrow>
     (\<exists>d. rectangular d emb \<and> d < 2 ^ 32) \<and> length emb = length (to_ints md) \<and> list_all u64_id (to_ints md) \<and>
     list_all (\<lambda>row. finite_row (map (np_f32 np) row)) emb"
| "fits_wires np fr Build \<longleftrightarrow> True"
| "fits_wires np fr (Filter f) \<longleftrightarrow>
     (\<forall>v. py_int (int_value f) = Inr v \<longrightarrow> length (encode (json_dumps fr (num_ge_json (int_field f) v))) < 2 ^ 32)"
| "fits_wires np fr (Query q k) \<longleftrightarrow>
     0 \<le> k \<and> k < 2 ^ 32 \<and> length (as_f4 np q) < 2 ^ 32 \<and> finite_row (as_f4 np q)"

lemma finite_exact:
  assumes "numpy_spec np" "list_all (\<lambda>row. finite_row (map (np_f32 np) row)) emb"
  shows "exact_floats np (np_f32 np) (map (map (np_f32 np)) emb)"
  using assms(2) numpy_specD(1) [OF assms(1)]
  by (fastforce simp: exact_floats_def finite_row_def f32_is_nan_def list_all_iff)

section \<open>What holds between operations\<close>

text \<open>What every request to the load's address does to the world, the load does: a reflexive and transitive relation.\<close>

lemma send_json_chunk_runs:
  assumes "\<And>w s rq w' x. send w s rq = (w', x) \<Longrightarrow> rq_url rq = u \<Longrightarrow> R w w'"
  shows "send_json_chunk send s u start body r w = (w', r', out) \<Longrightarrow> R w w'"
  using assms [of w s "post_json u body 600"] by (auto simp: send_json_chunk_def post_json_def split: result_splits)

lemma insert_step_runs:
  assumes keep: "\<And>w s rq w' x. send w s rq = (w', x) \<Longrightarrow> rq_url rq = u \<Longrightarrow> R w w'" and R: "reflp R" "transp R"
  shows "insert_step np send s u inline pp md rows start r w = (w', r', out) \<Longrightarrow> R w w'"
proof -
  have raw: "R w w1" if "send w s (post_raw u bs 600) = (w1, x)" for bs w1 x
    using keep [OF that] by (simp add: post_raw_def)
  have chunk: "R w1 w2" if "send_json_chunk send s u start body r1 w1 = (w2, r2, x)" for body r1 w1 w2 r2 x
    by (rule send_json_chunk_runs [OF keep that])
  show "insert_step np send s u inline pp md rows start r w = (w', r', out) \<Longrightarrow> R w w'"
    using reflpD [OF R(1)]
    by (auto simp: insert_step_def Let_def split: if_splits result_splits dest!: raw chunk intro: transpD [OF R(2)])
qed

lemma insert_loop_runs:
  assumes keep: "\<And>w s rq w' x. send w s rq = (w', x) \<Longrightarrow> rq_url rq = u \<Longrightarrow> R w w'" and R: "reflp R" "transp R"
  shows "insert_loop np send s u inline pp md rows start r w = (w', r', out) \<Longrightarrow> R w w'"
proof (induction "length md - start" arbitrary: start r w rule: less_induct)
  case less
  note unf = insert_loop.simps [of np send s u inline pp md rows start r w]
  obtain w1 r1 o1 where st: "insert_step np send s u inline pp md rows start r w = (w1, r1, o1)"
    by (metis prod_cases3)
  have w1: "R w w1"
    by (rule insert_step_runs [OF keep R st])
  show ?case
  proof (cases "start < length md \<and> o1 = Continue")
    case True
    then have "length md - (start + insert_batch) < length md - start"
      by (auto simp: insert_batch_def)
    moreover have "insert_loop np send s u inline pp md rows (start + insert_batch) r1 w1 = (w', r', out)"
      using less.prems True st by (simp add: unf)
    ultimately show ?thesis
      using less.hyps w1 transpD [OF R(2)] by metis
  next
    case False
    then show ?thesis
      using less.prems st w1 reflpD [OF R(1)] by (cases o1) (auto simp: unf split: if_splits)
  qed
qed

lemma insert_embeddings_runs:
  assumes "\<And>w s rq w' x. send w s rq = (w', x) \<Longrightarrow> rq_url rq = u \<Longrightarrow> R w w'" "reflp R" "transp R"
    and "u = points_url r [if load_path r = ''batch'' then ''batch'' else ''bulk'']"
    and "insert_embeddings np send r w emb md = (w', r', out)"
  shows "R w w'"
  using assms(4,5) insert_loop_runs [of send u R, OF assms(1-3)] reflpD [OF assms(2)]
  by (auto simp: insert_embeddings_def Let_def split: result_splits if_splits)

lemma insert_embeddings_world:
  assumes "\<And>w s rq w' x. send w s rq = (w', x) \<Longrightarrow> P w' = P w" "insert_embeddings np send r w emb md = (w', r', out)"
  shows "P w' = P w"
  by (rule insert_embeddings_runs [where R = "\<lambda>w w'. P w' = P w", OF _ _ _ refl assms(2)])
    (auto simp: reflp_def transp_def dest: assms(1))

text \<open>
  The settings of the object that its URLs depend on are those of the server, the two copies of the
  filter agree, and a wire that was proven is one the server speaks.
\<close>

definition coupled ::
  "(f64 \<Rightarrow> string) \<Rightarrow> string \<Rightarrow> string \<Rightarrow> string \<Rightarrow> bool \<Rightarrow> ('w \<Rightarrow> bool) \<Rightarrow> ('w \<Rightarrow> bool) \<Rightarrow> string \<Rightarrow> rostam \<times> 'w \<Rightarrow> bool" where
  "coupled fr u su bu inline speaks qspeaks path s \<longleftrightarrow>
     client_inv fr (fst s) \<and> filter_is_object (fst s) \<and> length (filter_blob (fst s)) < 2 ^ 32 \<and> load_path (fst s) = path \<and>
     u = points_url (fst s) [if path = ''batch'' then ''batch'' else ''bulk''] \<and> su = points_url (fst s) [''search''] \<and>
     bu = points_url (fst s) [''bulk'', ''build''] \<and> (inline \<longleftrightarrow> path = ''batch'') \<and>
     (binary_proven (fst s) \<longrightarrow> speaks (snd s)) \<and> (binary_query_proven (fst s) \<longrightarrow> qspeaks (snd s))"

lemma points_url_frame:
  "points_url (r\<lparr>binary := b, binary_proven := p\<rparr>) ps = points_url r ps"
  "points_url (r\<lparr>binary_query := b, binary_query_proven := p\<rparr>) ps = points_url r ps"
  "points_url (r\<lparr>query_filter := q, filter_blob := fb\<rparr>) ps = points_url r ps"
  by (simp_all add: points_url_def url_def)

definition same_world :: "('w \<Rightarrow> 'a) \<Rightarrow> ('w \<Rightarrow> 'b) \<Rightarrow> ('w \<Rightarrow> 'c) \<Rightarrow> ('w \<Rightarrow> 'd) \<Rightarrow> 'w \<Rightarrow> 'w \<Rightarrow> bool" where
  "same_world stored live speaks qspeaks w w' \<longleftrightarrow>
     stored w' = stored w \<and> live w' = live w \<and> speaks w' = speaks w \<and> qspeaks w' = qspeaks w"

text \<open>
  The contract. \<open>stored\<close> is the log of the points written, \<open>live\<close> the queryable ones. A request to the address of
  the load leaves the queryable points alone, or, if the server indexes inline, adds what was written. The build
  address takes a \<open>POST\<close>: it answers 200 only if nothing is queryable yet, and does if something is staged; then all
  points are queryable. Queries change neither.
\<close>

locale vector_server = live_server send stored fr narrow u speaks
  for send :: "'w transport" and stored :: "'w \<Rightarrow> point list" and fr :: "f64 \<Rightarrow> string" and narrow :: "f64 \<Rightarrow> f32"
    and u :: string and speaks :: "'w \<Rightarrow> bool" +
  fixes su bu :: string
    and inline :: bool
    and live :: "'w \<Rightarrow> point list"
    and qspeaks :: "'w \<Rightarrow> bool"
    and hits :: "point list \<Rightarrow> query_msg \<Rightarrow> int list"
  assumes load_live: "send w s rq = (w', x) \<Longrightarrow> rq_url rq = u \<Longrightarrow>
      live w' = (if inline then live w @ drop (length (stored w)) (stored w') else live w)"
    and build: "rq_method rq = ''POST'' \<Longrightarrow> rq_url rq = bu \<Longrightarrow>
      \<exists>w' resp. send w s rq = (w', Inr resp) \<and> stored w' = stored w \<and>
        (if status_code resp = 200 then live w = [] \<and> live w' = stored w else live w' = live w) \<and>
        (live w = [] \<and> stored w \<noteq> [] \<longrightarrow> status_code resp = 200)"
    and raw_query: "qspeaks w \<Longrightarrow> rq_url rq = su \<Longrightarrow> rq_body rq = RawBody bs \<Longrightarrow> decode_query bs = Some m \<Longrightarrow>
      \<exists>w' resp. send w s rq = (w', Inr resp) \<and> stored w' = stored w \<and> live w' = live w \<and> status_code resp = 200 \<and>
        resp_raises resp = None \<and> resp_json resp = Inr (hits_json (hits (live w) m))"
    and raw_query_rejected: "\<not> qspeaks w \<Longrightarrow> rq_url rq = su \<Longrightarrow> rq_body rq = RawBody bs \<Longrightarrow>
      \<exists>w' resp. send w s rq = (w', Inr resp) \<and> stored w' = stored w \<and> live w' = live w \<and> status_code resp \<in> set binary_unsupported"
    and json_query: "rq_url rq = su \<Longrightarrow> rq_body rq = JsonBody j \<Longrightarrow> read_json_query fr narrow j = Some m \<Longrightarrow>
      \<exists>w' resp. send w s rq = (w', Inr resp) \<and> stored w' = stored w \<and> live w' = live w \<and> resp_raises resp = None \<and>
        resp_json resp = Inr (hits_json (hits (live w) m))"
    and qspeaks_stays: "send w s rq = (w', x) \<Longrightarrow> qspeaks w' = qspeaks w"
begin

lemma sameI:
  assumes "send w s rq = (w', x)" "stored w' = stored w" "live w' = live w"
  shows "same_world stored live speaks qspeaks w w'"
  using assms speaks_stays [OF assms(1)] qspeaks_stays [OF assms(1)] by (simp add: same_world_def)

lemma json_search_found:
  assumes "su = points_url r [''search'']" "read_json_query fr narrow (query_json np q k (query_filter r)) = Some m"
  shows "\<exists>w'. search_json np send r w q k = (w', Inr (hits (live w) m)) \<and> same_world stored live speaks qspeaks w w'"
proof -
  let ?rq = "post_json (points_url r [''search'']) (query_json np q k (query_filter r)) 120"
  obtain w' resp where x: "send w (sess r) ?rq = (w', Inr resp)" "stored w' = stored w" "live w' = live w" "resp_raises resp = None"
      "resp_json resp = Inr (hits_json (hits (live w) m))"
    using json_query [of ?rq "query_json np q k (query_filter r)" m w "sess r"] assms by (auto simp: post_json_def)
  with sameI [OF x(1-3)] show ?thesis
    by (simp add: search_json_def checked_ids_def result_ids_hits)
qed

lemma search_found:
  assumes body: "query_body np q k (filter_blob r) = Inr bs" "decode_query bs = Some m"
    and json: "read_json_query fr narrow (query_json np q k (query_filter r)) = Some m"
    and su: "su = points_url r [''search'']" and pin: "binary_query_proven r \<Longrightarrow> qspeaks w"
  shows "\<exists>w' b p. search_embedding np send r w q k =
      (w', r\<lparr>binary_query := b, binary_query_proven := p\<rparr>, Inr (hits (live w) m)) \<and> same_world stored live speaks qspeaks w w' \<and> (p \<longrightarrow> qspeaks w)"
proof -
  let ?raw = "post_raw (points_url r [''search'']) bs 120"
  consider (json) "\<not> binary_query r" | (raw) "binary_query r" "qspeaks w" | (fallback) "binary_query r" "\<not> qspeaks w"
    by blast
  then show ?thesis
  proof cases
    case json
    obtain w' where "search_json np send r w q k = (w', Inr (hits (live w) m))" "same_world stored live speaks qspeaks w w'"
      using json_search_found [OF su assms(3)] by blast
    with json pin show ?thesis
      by (intro exI [of _ w'] exI [of _ "binary_query r"] exI [of _ "binary_query_proven r"]) (simp add: search_embedding_def)
  next
    case raw
    obtain w' resp where x: "send w (sess r) ?raw = (w', Inr resp)" "stored w' = stored w" "live w' = live w" "status_code resp = 200"
        "resp_raises resp = None" "resp_json resp = Inr (hits_json (hits (live w) m))"
      using raw_query [OF raw(2), of ?raw bs m "sess r"] su body(2) by (auto simp: post_raw_def)
    with raw body(1) sameI [OF x(1-3)] show ?thesis
      by (intro exI [of _ w'] exI [of _ "binary_query r"] exI [of _ True])
        (simp add: search_embedding_def binary_unsupported_def result_ids_hits)
  next
    case fallback
    let ?r = "r\<lparr>binary_query := False\<rparr>"
    obtain w1 resp where x: "send w (sess r) ?raw = (w1, Inr resp)" "stored w1 = stored w" "live w1 = live w"
        "status_code resp \<in> set binary_unsupported"
      using raw_query_rejected [OF fallback(2), of ?raw bs "sess r"] su by (auto simp: post_raw_def)
    have "su = points_url ?r [''search'']" "read_json_query fr narrow (query_json np q k (query_filter ?r)) = Some m"
      using su json by (simp_all add: points_url_def url_def)
    then obtain w' where "search_json np send ?r w1 q k = (w', Inr (hits (live w1) m))" "same_world stored live speaks qspeaks w1 w'"
      using json_search_found by blast
    with fallback body(1) pin x sameI [OF x(1-3)] show ?thesis
      by (intro exI [of _ w'] exI [of _ False] exI [of _ False]) (auto simp: search_embedding_def Let_def same_world_def)
  qed
qed

text \<open>A load keeps both wires and does to the queryable points what its requests do.\<close>

lemma load_world:
  assumes "u = points_url r [if load_path r = ''batch'' then ''batch'' else ''bulk'']"
    and "insert_embeddings np send r w emb md = (w', r', out)"
  shows "live w' = (if inline then live w @ drop (length (stored w)) (stored w') else live w)"
    and "speaks w' = speaks w" "qspeaks w' = qspeaks w"
proof -
  let ?R = "\<lambda>w w'. prefix (stored w) (stored w') \<and>
    live w' = (if inline then live w @ drop (length (stored w)) (stored w') else live w)"
  have "?R w w'"
  proof (rule insert_embeddings_runs [where R = ?R, OF _ _ _ assms])
    show "?R w w'" if "send w s rq = (w', x)" "rq_url rq = u" for w s rq w' x
      using append_only [OF that] load_live [OF that] by simp
    show "reflp ?R"
      by (simp add: reflp_def)
    show "transp ?R"
      by (auto simp: transp_def prefix_def)
  qed
  then show "live w' = (if inline then live w @ drop (length (stored w)) (stored w') else live w)"
    by simp
  show "speaks w' = speaks w"
    by (rule insert_embeddings_world [OF speaks_stays assms(2)])
  show "qspeaks w' = qspeaks w"
    by (rule insert_embeddings_world [OF qspeaks_stays assms(2)])
qed

text \<open>A build.\<close>

lemma build_world:
  assumes "bu = points_url r [''bulk'', ''build'']" "load_path r \<noteq> ''batch''" "optimize send r w = (w', x)"
  shows "stored w' = stored w" "live w' = (if live w = [] \<and> x = Inr () then stored w else live w)"
    "live w = [] \<Longrightarrow> stored w \<noteq> [] \<Longrightarrow> x = Inr ()" "live w \<noteq> [] \<Longrightarrow> \<exists>msg. x = Inl (RuntimeError msg)"
    "speaks w' = speaks w" "qspeaks w' = qspeaks w" "x \<noteq> Inr () \<Longrightarrow> live w' = live w"
proof -
  let ?rq = "post_json (points_url r [''bulk'', ''build'']) (JObj []) (24 * 3600)"
  obtain w1 resp where b: "send w (sess r) ?rq = (w1, Inr resp)" "stored w1 = stored w"
      "if status_code resp = 200 then live w = [] \<and> live w1 = stored w else live w1 = live w"
      "live w = [] \<and> stored w \<noteq> [] \<longrightarrow> status_code resp = 200"
    using build [of ?rq w "sess r"] assms(1) by (auto simp: post_json_def)
  have w1: "w1 = w'" and x: "x = Inr () \<longleftrightarrow> status_code resp = 200" "x \<noteq> Inr () \<longrightarrow> (\<exists>msg. x = Inl (RuntimeError msg))"
    using assms(2,3) b(1) by (auto simp: optimize_def split: if_splits)
  show "stored w' = stored w" "speaks w' = speaks w" "qspeaks w' = qspeaks w"
    using b(2) speaks_stays [OF b(1)] qspeaks_stays [OF b(1)] by (simp_all add: w1)
  show l: "live w' = (if live w = [] \<and> x = Inr () then stored w else live w)"
    using b(3) x(1) unfolding w1 by (cases "x = Inr ()") simp_all
  show "live w = [] \<Longrightarrow> stored w \<noteq> [] \<Longrightarrow> x = Inr ()"
    using b(4) x(1) by simp
  have "live w \<noteq> [] \<Longrightarrow> x \<noteq> Inr ()"
    using b(3) x(1) by (cases "x = Inr ()") simp_all
  then show "live w \<noteq> [] \<Longrightarrow> \<exists>msg. x = Inl (RuntimeError msg)"
    using x(2) by simp
  show "x \<noteq> Inr () \<Longrightarrow> live w' = live w"
    unfolding l by simp
qed

text \<open>Each operation of the object does to the abstract state what the specification does, and returns the same.\<close>

lemma load_refines:
  assumes np: "numpy_spec np" "narrow = np_f32 np" and c: "coupled fr u su bu inline speaks qspeaks path s"
    and fit: "fits_wires np fr (Load emb md)" and p: "perform np fr send (Load emb md) s = (s', out)"
  shows "coupled fr u su bu inline speaks qspeaks path s' \<and> spec_returns np fr hits path (Load emb md) (abs_db stored live s) out \<and>
    abs_db stored live s' = spec_step np fr hits path (Load emb md) (abs_db stored live s)"
proof -
  obtain r w where s: "s = (r, w)" by (cases s)
  obtain d where fit': "rectangular d emb" "length emb = length (to_ints md)" "d < 2 ^ 32" "list_all u64_id (to_ints md)"
      "exact_floats np narrow (map (map (np_f32 np)) emb)"
    using fit finite_exact [OF np(1)] by (auto simp: np(2))
  have inv: "client_inv fr r" "filter_is_object r" "length (filter_blob r) < 2 ^ 32" "load_path r = path"
      "u = points_url r [if load_path r = ''batch'' then ''batch'' else ''bulk'']" "su = points_url r [''search'']"
      "binary_proven r \<longrightarrow> speaks w" "binary_query_proven r \<longrightarrow> qspeaks w" "bu = points_url r [''bulk'', ''build'']"
      "inline \<longleftrightarrow> path = ''batch''"
    using c by (auto simp: coupled_def s)
  obtain w' r' where call: "insert_embeddings np send r w emb md = (w', r', Inr (int (length (to_ints md)), None))"
    and st: "stored w' = stored w @ load_points (load_path r \<in> {''payload'', ''batch''}) (to_ints md) (map (map (np_f32 np)) emb)"
    and b: "emb \<noteq> [] \<longrightarrow> binary r' = (binary r \<and> speaks w)"
    using insert_embeddings_completes [OF np(1) fit' inv(5)] inv(7) by blast
  note sp = load_world [OF inv(5) call]
  have run: "insert_rel\<^sup>*\<^sup>* r r'"
    by (rule insert_embeddings_rel [OF call])
  then obtain bb pp where r': "r' = r\<lparr>binary := bb, binary_proven := pp\<rparr>"
    using insert_run_frame by blast
  have "client_inv fr r'"
    by (rule insert_client_inv [OF run inv(1)])
  moreover have "binary_proven r' \<longrightarrow> speaks w"
  proof (cases "emb = []")
    case True
    then have "to_ints md = []"
      using fit'(2) by simp
    with True call numpy_specD(2) [OF np(1)] have "r' = r"
      by (auto simp: insert_embeddings_def as_f32_def Let_def insert_loop.simps)
    with inv(7) show ?thesis by simp
  next
    case False
    then show ?thesis
      using b \<open>client_inv fr r'\<close> by (auto simp: client_inv_def)
  qed
  ultimately have "coupled fr u su bu inline speaks qspeaks path (r', w')"
    using inv sp(2,3) by (simp add: coupled_def r' points_url_frame filter_is_object_def)
  moreover have "s' = (r', w')" "out = Loaded (Inr (int (length (to_ints md)), None))"
    using p call by (auto simp: s)
  ultimately show ?thesis
    using st sp(1) inv(4,10) by (simp add: abs_db_def s r' Let_def)
qed

lemma build_refines:
  assumes c: "coupled fr u su bu inline speaks qspeaks path s" and p: "perform np fr send Build s = (s', out)"
  shows "coupled fr u su bu inline speaks qspeaks path s' \<and> spec_returns np fr hits path Build (abs_db stored live s) out \<and>
    abs_db stored live s' = spec_step np fr hits path Build (abs_db stored live s)"
proof -
  obtain r w where s: "s = (r, w)" by (cases s)
  obtain w' x where call: "optimize send r w = (w', x)" by fastforce
  have s': "s' = (r, w')" "out = Built x"
    using p call by (simp_all add: s)
  have path: "load_path r = path" and bu: "bu = points_url r [''bulk'', ''build'']"
    using c by (simp_all add: coupled_def s)
  show ?thesis
  proof (cases "path = ''batch''")
    case True
    then have "w' = w" "x = Inr ()"
      using call path by (simp_all add: optimize_def)
    with True c show ?thesis
      by (simp add: s s' abs_db_def)
  next
    case False
    note b = build_world [OF bu _ call, unfolded path, OF False]
    have "coupled fr u su bu inline speaks qspeaks path s'"
      using c b(5,6) by (simp add: coupled_def s s')
    moreover have "live w' = (if live w = [] then stored w else live w)"
      using b(2,3,7) by (cases "live w = []"; cases "stored w = []") auto
    ultimately show ?thesis
      using b(1,3,4) False by (auto simp: s s' abs_db_def)
  qed
qed

lemma filter_refines:
  assumes c: "coupled fr u su bu inline speaks qspeaks path s" and fit: "fits_wires np fr (Filter f)"
    and p: "perform np fr send (Filter f) s = (s', out)"
  shows "coupled fr u su bu inline speaks qspeaks path s' \<and> spec_returns np fr hits path (Filter f) (abs_db stored live s) out \<and>
    abs_db stored live s' = spec_step np fr hits path (Filter f) (abs_db stored live s)"
proof -
  obtain r w where s: "s = (r, w)" by (cases s)
  obtain r' x where call: "prepare_filter fr r f = (r', x)" by fastforce
  have path: "load_path r = path"
    using c by (simp add: coupled_def s)
  have "client_inv fr r'"
    using filter_client_inv [OF call] c by (simp add: coupled_def s)
  moreover have "filter_is_object r' \<and> length (filter_blob r') < 2 ^ 32 \<and> load_path r' = path \<and>
      points_url r' = points_url r \<and> binary_proven r' = binary_proven r \<and> binary_query_proven r' = binary_query_proven r"
    using call c fit
    by (auto simp: coupled_def s prepare_filter_def Let_def filter_is_object_def num_ge_json_def points_url_def url_def fun_eq_iff
        split: if_splits sum.splits)
  ultimately have "coupled fr u su bu inline speaks qspeaks path (r', w)"
    using c by (simp add: coupled_def s)
  moreover have "spec_returns np fr hits path (Filter f) (abs_db stored live s) (Filtered x)"
    "abs_db stored live (r', w) = spec_step np fr hits path (Filter f) (abs_db stored live s)"
    using call path
    by (auto simp: prepare_filter_def Let_def abs_db_def s spec_filter_def split: if_splits sum.splits filter_op.splits)
  moreover have "s' = (r', w)" "out = Filtered x"
    using p call by (simp_all add: s)
  ultimately show ?thesis by simp
qed

lemma query_refines:
  assumes np: "numpy_spec np" "narrow = np_f32 np" and c: "coupled fr u su bu inline speaks qspeaks path s"
    and fit: "fits_wires np fr (Query q k)" and p: "perform np fr send (Query q k) s = (s', out)"
  shows "coupled fr u su bu inline speaks qspeaks path s' \<and> spec_returns np fr hits path (Query q k) (abs_db stored live s) out \<and>
    abs_db stored live s' = spec_step np fr hits path (Query q k) (abs_db stored live s)"
proof -
  obtain r w where s: "s = (r, w)" by (cases s)
  let ?m = "spec_message np fr (query_filter r) q k"
  have inv: "client_inv fr r" "filter_agrees fr r" "filter_is_object r" "length (filter_blob r) < 2 ^ 32"
      "su = points_url r [''search'']" "binary_query_proven r \<longrightarrow> qspeaks w"
    using c by (auto simp: coupled_def s client_inv_def)
  have fits: "0 \<le> k" "k < 2 ^ 32" "length (as_f4 np q) < 2 ^ 32" "finite_row (as_f4 np q)"
    using fit by auto
  obtain bs m where bs: "query_body np q k (filter_blob r) = Inr bs" "decode_query bs = Some m"
      "read_json_query fr narrow (query_json np q k (query_filter r)) = Some m"
    using search_bodies_agree [OF np(1) fits(1-3) inv(4,2,3) fits(4)] np(2) by blast
  have m: "m = ?m"
    using bs(3) fits(1) to_list_rounded [OF np(1) fits(4)]
    by (auto simp: np(2) query_json_def spec_message_def split: option.splits)
  obtain w' b pr where call: "search_embedding np send r w q k =
      (w', r\<lparr>binary_query := b, binary_query_proven := pr\<rparr>, Inr (hits (live w) m))"
    and w': "same_world stored live speaks qspeaks w w'" "pr \<longrightarrow> qspeaks w"
    using search_found [OF bs inv(5)] inv(6) by blast
  let ?r = "r\<lparr>binary_query := b, binary_query_proven := pr\<rparr>"
  have "client_inv fr ?r"
    by (rule search_client_inv [OF search_embedding_rel [OF call] inv(1)])
  then have "coupled fr u su bu inline speaks qspeaks path (?r, w')"
    using c w' by (simp add: coupled_def s points_url_frame filter_is_object_def same_world_def)
  moreover have "s' = (?r, w')" "out = Found (Inr (hits (live w) m))"
    using p call by (simp_all add: s)
  ultimately show ?thesis
    using w'(1) m by (simp add: abs_db_def s same_world_def)
qed

lemma operation_refines:
  assumes "numpy_spec np" "narrow = np_f32 np" "coupled fr u su bu inline speaks qspeaks path s" "fits_wires np fr c"
    "perform np fr send c s = (s', out)"
  shows "coupled fr u su bu inline speaks qspeaks path s' \<and> spec_returns np fr hits path c (abs_db stored live s) out \<and>
    abs_db stored live s' = spec_step np fr hits path c (abs_db stored live s)"
proof (cases c)
  case (Load emb md)
  then show ?thesis using load_refines [OF assms(1,2)] assms(3-5) by blast
next
  case Build
  then show ?thesis using build_refines assms(3,5) by blast
next
  case (Filter f)
  then show ?thesis using filter_refines assms(3-5) by blast
next
  case (Query q k)
  then show ?thesis using query_refines [OF assms(1,2)] assms(3-5) by blast
qed

lemma session_refines:
  assumes np: "numpy_spec np" "narrow = np_f32 np"
  shows "coupled fr u su bu inline speaks qspeaks path s \<Longrightarrow> list_all (fits_wires np fr) cs \<Longrightarrow> session np fr send cs s = (s', outs) \<Longrightarrow>
    spec_run np fr hits path cs (abs_db stored live s) outs (abs_db stored live s')"
proof (induction cs arbitrary: s outs)
  case Nil
  then show ?case by simp
next
  case (Cons c cs)
  obtain s1 out where s1: "perform np fr send c s = (s1, out)" by fastforce
  obtain rest where rest: "session np fr send cs s1 = (s', rest)" "outs = out # rest"
    using Cons.prems(3) s1 by (auto split: prod.splits)
  have r: "coupled fr u su bu inline speaks qspeaks path s1 \<and> spec_returns np fr hits path c (abs_db stored live s) out \<and>
      abs_db stored live s1 = spec_step np fr hits path c (abs_db stored live s)"
    by (rule operation_refines [OF np _ _ s1]) (use Cons.prems in simp_all)
  then have "spec_run np fr hits path cs (abs_db stored live s1) rest (abs_db stored live s')"
    using Cons.IH [OF _ _ rest(1)] Cons.prems(2) by simp
  with r rest(2) show ?case by simp
qed

end

section \<open>The reference server with builds and queries\<close>

text \<open>
  The reference server next to its queryable points and whether it speaks the binary query wire; the address of the
  load is that of the staging route, or of the batch route if it indexes inline.
\<close>

type_synonym db_state = "ref_state \<times> point list \<times> bool"

definition load_part :: "bool \<Rightarrow> string" where
  "load_part inline = (if inline then ''/batch'' else ''/bulk'')"

definition db_send ::
  "(f64 \<Rightarrow> string) \<Rightarrow> (f64 \<Rightarrow> f32) \<Rightarrow> bool \<Rightarrow> (point list \<Rightarrow> query_msg \<Rightarrow> int list) \<Rightarrow> string \<Rightarrow> db_state transport" where
  "db_send fr narrow inline hits p w s rq =
     (let found = (\<lambda>m. case m of None \<Rightarrow> answer 400 ''bad request'' JNull | Some q \<Rightarrow> hits_response (hits (fst (snd w)) q))
      in if rq_url rq = p @ ''/search'' then
           (case rq_body rq of
              RawBody bs \<Rightarrow> (w, Inr (if snd (snd w) then found (decode_query bs) else rejection))
            | JsonBody j \<Rightarrow> (w, Inr (found (read_json_query fr narrow j)))
            | NoBody \<Rightarrow> (w, Inr (answer 404 ''not found'' JNull)))
         else if rq_method rq = ''POST'' \<and> rq_url rq = p @ ''/bulk/build'' then
           (if fst (snd w) = [] then ((fst w, srv_points (fst w), snd (snd w)), Inr (answer 200 [] JNull))
            else (w, Inr (answer 409 ''index is not empty'' JNull)))
         else
           (case ref_send fr narrow (p @ load_part inline) (fst w) s rq of
              (st, x) \<Rightarrow>
                ((st, if inline then fst (snd w) @ drop (length (srv_points (fst w))) (srv_points st) else fst (snd w), snd (snd w)), x)))"

lemma db_send_load:
  assumes "rq_url rq = p @ load_part inline"
  shows "db_send fr narrow inline hits p w s rq = (w', x) \<longleftrightarrow>
    ref_send fr narrow (p @ load_part inline) (fst w) s rq = (fst w', x) \<and> snd (snd w') = snd (snd w) \<and>
    fst (snd w') = (if inline then fst (snd w) @ drop (length (srv_points (fst w))) (srv_points (fst w')) else fst (snd w))"
  using assms by (cases w') (auto simp: db_send_def load_part_def split: prod.splits)

lemma db_send_load_ex:
  assumes "rq_url rq = p @ load_part inline" "ref_send fr narrow (p @ load_part inline) (fst w) s rq = (st, x)"
  shows "\<exists>w'. db_send fr narrow inline hits p w s rq = (w', x)"
  using assms by (auto simp: db_send_def load_part_def)

lemma ref_send_speaks: "ref_send fr narrow u w s rq = (w', x) \<Longrightarrow> srv_speaks w' = srv_speaks w"
  by (rule ref.speaks_stays)

lemma db_send_speaks: "db_send fr narrow inline hits p w s rq = (w', x) \<Longrightarrow> srv_speaks (fst w') = srv_speaks (fst w) \<and> snd (snd w') = snd (snd w)"
  by (auto simp: db_send_def Let_def split: if_splits http_body.splits prod.splits dest: ref_send_speaks)

interpretation db: vector_server "db_send fr narrow inline hits p" "srv_points \<circ> fst" fr narrow "p @ load_part inline" "srv_speaks \<circ> fst"
  "p @ ''/search''" "p @ ''/bulk/build''" inline "fst \<circ> snd" "snd \<circ> snd" hits
  for fr narrow inline hits p
proof unfold_locales
  show "\<And>w s rq w' resp pts. db_send fr narrow inline hits p w s rq = (w', Inr resp) \<Longrightarrow> rq_method rq = ''POST'' \<Longrightarrow>
      rq_url rq = p @ load_part inline \<Longrightarrow> status_code resp = 200 \<Longrightarrow> body_points fr narrow (rq_body rq) = Some pts \<Longrightarrow>
      (srv_points \<circ> fst) w' = (srv_points \<circ> fst) w @ pts"
    unfolding comp_apply by (metis db_send_load ref.accepted)
  show "\<And>w s rq w' resp. db_send fr narrow inline hits p w s rq = (w', Inr resp) \<Longrightarrow> rq_url rq = p @ load_part inline \<Longrightarrow>
      status_code resp \<in> set binary_unsupported \<Longrightarrow> (srv_points \<circ> fst) w' = (srv_points \<circ> fst) w"
    unfolding comp_apply by (metis db_send_load ref.rejected)
  show "\<And>w s rq w' x. db_send fr narrow inline hits p w s rq = (w', x) \<Longrightarrow> rq_url rq = p @ load_part inline \<Longrightarrow>
      prefix ((srv_points \<circ> fst) w) ((srv_points \<circ> fst) w')"
    unfolding comp_apply by (metis db_send_load ref.append_only)
  show "\<And>rq j pts w s. rq_method rq = ''POST'' \<Longrightarrow> rq_url rq = p @ load_part inline \<Longrightarrow> rq_body rq = JsonBody j \<Longrightarrow>
      json_points fr narrow j = Some pts \<Longrightarrow>
      \<exists>w' resp. db_send fr narrow inline hits p w s rq = (w', Inr resp) \<and> status_code resp = 200"
    by (metis db_send_load_ex ref.json_ok)
  show "\<And>rq bs pts w s. rq_method rq = ''POST'' \<Longrightarrow> rq_url rq = p @ load_part inline \<Longrightarrow> rq_body rq = RawBody bs \<Longrightarrow>
      body_points fr narrow (RawBody bs) = Some pts \<Longrightarrow>
      \<exists>w' resp. db_send fr narrow inline hits p w s rq = (w', Inr resp) \<and>
        (if (srv_speaks \<circ> fst) w then status_code resp = 200 else status_code resp \<in> set binary_unsupported)"
    unfolding comp_apply by (metis db_send_load_ex ref.raw_answer)
  show "\<And>w s rq w' x. db_send fr narrow inline hits p w s rq = (w', x) \<Longrightarrow> (srv_speaks \<circ> fst) w' = (srv_speaks \<circ> fst) w"
    "\<And>w s rq w' x. db_send fr narrow inline hits p w s rq = (w', x) \<Longrightarrow> (snd \<circ> snd) w' = (snd \<circ> snd) w"
    by (simp_all add: db_send_speaks)
  show "\<And>w s rq w' x. db_send fr narrow inline hits p w s rq = (w', x) \<Longrightarrow> rq_url rq = p @ load_part inline \<Longrightarrow>
      (fst \<circ> snd) w' = (if inline then (fst \<circ> snd) w @ drop (length ((srv_points \<circ> fst) w)) ((srv_points \<circ> fst) w') else (fst \<circ> snd) w)"
    by (simp add: db_send_load)
qed (auto simp: db_send_def hits_response_def rejection_def binary_unsupported_def answer_def)

end
