(* ===== verification/Request_Log.thy ===== *)
theory Request_Log
  imports Client_Steps
begin

text \<open>
  Which requests a load makes. \<open>logged\<close> wraps any transport so that the requests it carried are
  kept; the shape of the log does not depend on what the server answers. A load tries the binary
  wire at most once in vain, and never goes back to it.
\<close>

definition logged :: "'w transport \<Rightarrow> ('w \<times> request list) transport" where
  "logged send wl s rq = (case send (fst wl) s rq of (w', x) \<Rightarrow> ((w', snd wl @ [rq]), x))"

fun is_raw_body :: "http_body \<Rightarrow> bool" where
  "is_raw_body (RawBody bs) = True"
| "is_raw_body _ = False"

abbreviation raw_rq :: "request \<Rightarrow> bool" where
  "raw_rq rq \<equiv> is_raw_body (rq_body rq)"

definition wire_log :: "rostam \<Rightarrow> request list \<Rightarrow> bool" where
  "wire_log r new \<longleftrightarrow>
     (if \<not> binary r then list_all (\<lambda>q. \<not> raw_rq q) new
      else if binary_proven r then list_all raw_rq new
      else list_all raw_rq new \<or>
           (\<exists>x b. new = x # b \<and> raw_rq x \<and> list_all (\<lambda>q. \<not> raw_rq q) b))"

definition chunks_left :: "nat \<Rightarrow> nat \<Rightarrow> nat" where
  "chunks_left n start = (n - start + (insert_batch - 1)) div insert_batch"

lemma chunks_left_step: "start < n \<Longrightarrow> chunks_left n start = Suc (chunks_left n (start + insert_batch))"
proof -
  assume "start < n"
  then have "n - start + 999 = (n - (start + 1000) + 999) + 1000 \<or> n - start \<le> 1000"
    by linarith
  then show ?thesis
    using \<open>start < n\<close> by (auto simp: chunks_left_def insert_batch_def div_nat_eqI)
qed

lemma json_chunk_log:
  assumes "send_json_chunk (logged send) s u start body r wl = (wl', r', out)"
  shows "r' = r \<and> snd wl' = snd wl @ [post_json u body 600]"
  using assms by (auto simp: send_json_chunk_def logged_def split: result_splits)

lemma raw_post [simp]: "raw_rq (post_raw u b t)" "\<not> raw_rq (post_json u j t)"
  by (simp_all add: post_raw_def post_json_def)

text \<open>
  One iteration: nothing is sent, or one request on the current wire, or (only from an enabled and
  unproven wire) a binary one followed by the same chunk as JSON.
\<close>

lemma insert_step_log:
  assumes "insert_step np (logged send) s u inline pp md rows start r wl = (wl', r', out)"
  shows "\<exists>new. snd wl' = snd wl @ new \<and>
    ((new = [] \<and> out \<noteq> Continue \<and> r' = r) \<or>
     (\<not> binary r \<and> r' = r \<and> (\<exists>q. new = [q] \<and> \<not> raw_rq q)) \<or>
     (binary r \<and> (r' = r \<and> out \<noteq> Continue \<or> r' = r\<lparr>binary_proven := True\<rparr>) \<and> (\<exists>q. new = [q] \<and> raw_rq q)) \<or>
     (binary r \<and> \<not> binary_proven r \<and> r' = r\<lparr>binary := False\<rparr> \<and> (\<exists>q q'. new = [q, q'] \<and> raw_rq q \<and> \<not> raw_rq q')))"
proof -
  let ?e = "min (start + insert_batch) (length md)"
  let ?ids = "py_slice md start ?e" and ?chunk = "nd_slice rows start ?e"
  let ?js = "json_body np ?ids ?chunk pp inline"
  show ?thesis
  proof (cases "binary r")
    case False
    with assms have "send_json_chunk (logged send) s u start ?js r wl = (wl', r', out)"
      by (simp add: insert_step_def Let_def)
    from json_chunk_log [OF this] False show ?thesis by auto
  next
    case True
    show ?thesis
    proof (cases "binary_body np ?ids ?chunk inline pp")
      case (Inl e)
      with assms True show ?thesis by (auto simp: insert_step_def Let_def)
    next
      case (Inr bs)
      obtain w1 x where x: "send (fst wl) s (post_raw u bs 600) = (w1, x)" by fastforce
      then have lg: "logged send wl s (post_raw u bs 600) = ((w1, snd wl @ [post_raw u bs 600]), x)"
        by (simp add: logged_def)
      show ?thesis
      proof (cases "\<exists>resp. x = Inr resp \<and> status_code resp \<in> set binary_unsupported \<and> \<not> binary_proven r")
        case True
        with assms \<open>binary r\<close> Inr lg have
          "send_json_chunk (logged send) s u start ?js (r\<lparr>binary := False\<rparr>) (w1, snd wl @ [post_raw u bs 600]) = (wl', r', out)"
          by (auto simp: insert_step_def Let_def)
        from json_chunk_log [OF this] True \<open>binary r\<close> show ?thesis by auto
      next
        case False
        with assms \<open>binary r\<close> Inr lg show ?thesis
          by (cases x) (auto simp: insert_step_def Let_def split: if_splits)
      qed
    qed
  qed
qed

lemma insert_loop_log:
  "insert_loop np (logged send) s u inline pp md rows start r wl = (wl', r', c, e) \<Longrightarrow>
    \<exists>new. snd wl' = snd wl @ new \<and> wire_log r new \<and>
      length new \<le> chunks_left (length md) start + (if binary r \<and> \<not> binary_proven r then 1 else 0)"
proof (induction "length md - start" arbitrary: start r wl rule: less_induct)
  case less
  note unf = insert_loop.simps [of np "logged send" s u inline pp md rows start r wl]
  show ?case
  proof (cases "start < length md")
    case False
    with less.prems unf show ?thesis by (auto simp: wire_log_def)
  next
    case True
    obtain w1 r1 o1 where st: "insert_step np (logged send) s u inline pp md rows start r wl = (w1, r1, o1)"
      by (metis prod_cases3)
    obtain new1 where new1: "snd w1 = snd wl @ new1"
      and step: "(new1 = [] \<and> o1 \<noteq> Continue \<and> r1 = r) \<or>
       (\<not> binary r \<and> r1 = r \<and> (\<exists>q. new1 = [q] \<and> \<not> raw_rq q)) \<or>
       (binary r \<and> (r1 = r \<and> o1 \<noteq> Continue \<or> r1 = r\<lparr>binary_proven := True\<rparr>) \<and> (\<exists>q. new1 = [q] \<and> raw_rq q)) \<or>
       (binary r \<and> \<not> binary_proven r \<and> r1 = r\<lparr>binary := False\<rparr> \<and> (\<exists>q q'. new1 = [q, q'] \<and> raw_rq q \<and> \<not> raw_rq q'))"
      using insert_step_log [OF st] by blast
    have ch: "chunks_left (length md) start = Suc (chunks_left (length md) (start + insert_batch))"
      using chunks_left_step [OF True] .
    show ?thesis
    proof (cases "o1 = Continue")
      case False
      then have "wl' = w1"
        using less.prems True st by (cases o1) (auto simp: unf)
      with new1 step ch show ?thesis
        by (intro exI [of _ new1]) (auto simp: wire_log_def)
    next
      case cont: True
      have "length md - (start + insert_batch) < length md - start"
        using True by (simp add: insert_batch_def)
      moreover have "insert_loop np (logged send) s u inline pp md rows (start + insert_batch) r1 w1 = (wl', r', c, e)"
        using less.prems True st cont by (simp add: unf)
      ultimately obtain new2 where "snd wl' = snd w1 @ new2" "wire_log r1 new2"
        "length new2 \<le> chunks_left (length md) (start + insert_batch) + (if binary r1 \<and> \<not> binary_proven r1 then 1 else 0)"
        using less.hyps by blast
      with new1 step ch cont show ?thesis
        by (intro exI [of _ "new1 @ new2"]) (auto simp: wire_log_def split: if_splits)
    qed
  qed
qed

end
