(* ===== verification/Plugin.thy ===== *)
theory Plugin
  imports Session Request_Log
begin

text \<open>
  The properties of the VectorDBBench plugin (\<open>vectordbbench/rostam/\<close>), each stated over the
  definitions of the client and its wires and proved from the lemmas of the component theories, most
  of them through an interpretation or a locale's conclusion. A witness follows every property with
  hypotheses: it applies the property at a concrete input, with the reference numpy and a reference
  server in the place of the parameters.
\<close>

section \<open>Shared facts of the concrete runs\<close>

definition sample_url :: string where
  "sample_url = ''http://h/v1/collections/c/points/bulk''"

definition sample_send :: "ref_state transport" where
  "sample_send = ref_send (\<lambda>_. []) f64_to_f32 sample_url"

definition sample_world :: "bool \<Rightarrow> ref_state" where
  "sample_world speaks = \<lparr>srv_points = [], srv_speaks = speaks\<rparr>"

lemma f64_one_narrowed: "f64_to_f32 0x3FF0000000000000 = 0x3F800000"
  by (simp add: f64_to_f32_def Let_def f64_sign_def f64_exp_def f64_frac_def mk_f32_def round_shift_def)

lemma sample_exact: "exact_floats np_ref f64_to_f32 (map (map (np_f32 np_ref)) [[0x3FF0000000000000]])"
  by (simp add: exact_floats_def np_ref_def f64_one_narrowed f64_to_f32_widened f32_is_nan_def
      f32_exp_def f32_frac_def)

lemma sample_points_url:
  "sample_url = points_url (sample_client ''payload'') [if load_path (sample_client ''payload'') = ''batch'' then ''batch'' else ''bulk'']"
  by (simp add: sample_url_def points_url_def url_def sample_client_def)

lemma sample_load_facts:
  "rectangular 1 [[0x3FF0000000000000 :: f64]]" "length [[0x3FF0000000000000 :: f64]] = length (to_ints (PyIds [7]))"
  "(1 :: nat) < 2 ^ 32" "list_all u64_id (to_ints (PyIds [7]))"
  by (simp_all add: rectangular_def to_ints_def u64_id_def)

section \<open>Loading\<close>

text \<open>
  C1. A load that reports no error has stored every point exactly once, in order, with its id, its
  float32 vector and (on the payload and batch paths) its filterable scalar, whether chunks
  went out as binary frames, as JSON, or as both around a fallback; the count it returns is the
  number of points. With an error, the count is a lower bound: at least that many leading
  points are stored.
\<close>

theorem load_stores_each_point_once:
  assumes "numpy_spec np" and "load_server send stored fr narrow u"
    and "rectangular d emb" "length emb = length (to_ints md)" "d < 2 ^ 32"
    and "list_all u64_id (to_ints md)"
    and "exact_floats np narrow (map (map (np_f32 np)) emb)"
    and "u = points_url r [if load_path r = ''batch'' then ''batch'' else ''bulk'']"
    and "insert_embeddings np send r w emb md = (w', r', out)"
  shows "\<exists>c err. out = Inr (c, err) \<and>
    (err = None \<longrightarrow> c = int (length (to_ints md)) \<and>
       stored w' = stored w @ load_points (load_path r \<in> {''payload'', ''batch''}) (to_ints md) (map (map (np_f32 np)) emb)) \<and>
    prefix (stored w @ take (nat c) (load_points (load_path r \<in> {''payload'', ''batch''}) (to_ints md) (map (map (np_f32 np)) emb)))
      (stored w')"
  using load_server.insert_embeddings_stored [OF assms(2,1,3-9)] .

theorem load_stores_each_point_once_witness:
  "\<exists>w' r'. insert_embeddings np_ref sample_send (sample_client ''payload'') (sample_world False) [[0x3FF0000000000000]] (PyIds [7])
      = (w', r', Inr (1, None)) \<and>
    srv_points w' = [\<lparr>pt_id = 7, pt_vec = [0x3F800000], pt_meta = Some (payload_blob 7)\<rparr>]"
proof -
  obtain w' r' where call: "insert_embeddings np_ref sample_send (sample_client ''payload'') (sample_world False)
      [[0x3FF0000000000000]] (PyIds [7]) = (w', r', Inr (1, None))"
    using ref.insert_embeddings_completes [where fr = "\<lambda>_. []" and w = "sample_world False",
        OF numpy_spec_np_ref sample_load_facts sample_exact sample_points_url]
    by (auto simp: sample_send_def sample_client_def to_ints_def)
  have "load_server sample_send srv_points (\<lambda>_. []) f64_to_f32 sample_url"
    unfolding sample_send_def by (rule ref.load_server_axioms)
  from load_stores_each_point_once [OF numpy_spec_np_ref this sample_load_facts sample_exact sample_points_url call] call
  show ?thesis
    by (simp add: load_points_def to_ints_def sample_client_def sample_world_def np_ref_def f64_one_narrowed)
qed

text \<open>
  C2. Whatever methods are called on an object a constructor returned, in whatever order and with
  whatever answers from the server: its load path is one of the three, a wire that was proven
  is still enabled, the filter the binary wire sends is the JSON text of the filter the JSON wire
  sends, no filter is set on the bulk path, and the settings never change.
\<close>

theorem client_reachable_invariant:
  assumes "rostam_init send w d db cc coll drop_old = (w0, Inr r0)"
    and "(client_step np fr send)\<^sup>*\<^sup>* (r0, w0) (r, w1)"
  shows "client_inv fr r \<and> settings r = settings r0"
proof
  have "client_inv fr r0"
    using rostam_fields_inv [OF rostam_init_fields [OF assms(1)]] .
  then show "client_inv fr r"
    using run_client_inv [OF assms(2)] by simp
  show "settings r = settings r0"
    using run_settings [OF assms(2)] by simp
qed

definition created_send :: "unit transport" where
  "created_send w s rq = (w, Inr (answer 201 [] JNull))"

definition filter_ge_5 :: vdb_filter where
  "filter_ge_5 = \<lparr>flt_type = NumGE, int_field = ''id'', int_value = JInt 5, flt_text = ''id >= 5''\<rparr>"

theorem client_reachable_invariant_witness:
  "\<exists>r0 r. rostam_init created_send () 1 (to_dict (default_config\<lparr>cfg_load_path := ''payload''\<rparr>)) default_hnsw ''c'' True
      = ((), Inr r0) \<and>
    (client_step np_ref (\<lambda>_. []) created_send)\<^sup>*\<^sup>* (r0, ()) (r, ()) \<and>
    query_filter r = Some (num_ge_json ''id'' 5) \<and> client_inv (\<lambda>_. []) r"
proof -
  let ?db = "to_dict (default_config\<lparr>cfg_load_path := ''payload''\<rparr>)"
  obtain r0 where f: "rostam_fields 1 ?db ''c'' = Inr r0"
    by (simp add: rostam_fields_def to_dict_def default_config_def load_path_of_def load_paths_def)
  then have lp: "load_path r0 = ''payload''"
    by (auto elim!: rostam_fields_InrE simp: to_dict_def default_config_def load_path_of_def)
  have init: "rostam_init created_send () 1 ?db default_hnsw ''c'' True = ((), Inr r0)"
    using f by (simp add: rostam_init_def drop_collection_def created_send_def create_def create_config_def
        index_param_def answer_def Let_def)
  let ?r = "r0\<lparr>query_filter := Some (num_ge_json ''id'' 5), filter_blob := encode (json_dumps (\<lambda>_. []) (num_ge_json ''id'' 5))\<rparr>"
  have "prepare_filter (\<lambda>_. []) r0 filter_ge_5 = (?r, Inr ())"
    using lp by (simp add: prepare_filter_def filter_ge_5_def Let_def)
  then have run: "(client_step np_ref (\<lambda>_. []) created_send)\<^sup>*\<^sup>* (r0, ()) (?r, ())"
    by (intro r_into_rtranclp step_filter)
  show ?thesis
    using client_reachable_invariant [OF init run] init run by (intro exI [of _ r0] exI [of _ ?r]) simp
qed

text \<open>
  C3. The bulk frame is read back exactly: the upsert flag, the dimension, every row with its id and
  the bits of its floats, and one payload blob per id when payloads are sent.
\<close>

theorem bulk_frame_roundtrip:
  assumes "numpy_spec np" "list_all u64_id ids" "length rs = length ids" "d < 2 ^ 32" "length ids < 2 ^ 32"
    "rectangular d rs"
  shows "\<exists>bs. binary_body np ids (Nd2 d rs) upsert payloads = Inr bs \<and>
    decode_bulk bs = Some \<lparr>b_upsert = upsert, b_dim = d, b_rows = zip (map word_of_int ids) rs,
                           b_pays = (if payloads then Some (map payload_blob ids) else None)\<rparr>"
  using assms by (rule decode_binary_body)

theorem bulk_frame_roundtrip_witness:
  "\<exists>bs. binary_body np_ref [3, 18446744073709551615] (Nd2 2 [[1, 2], [3, 4]]) True True = Inr bs \<and>
    decode_bulk bs = Some \<lparr>b_upsert = True, b_dim = 2, b_rows = [(3, [1, 2]), (18446744073709551615, [3, 4])],
                           b_pays = Some [payload_blob 3, payload_blob 18446744073709551615]\<rparr>"
  using bulk_frame_roundtrip [OF numpy_spec_np_ref, of "[3, 18446744073709551615]" "[[1, 2], [3, 4]]" 2 True True]
  by (simp add: u64_id_def rectangular_def)

text \<open>
  C4. The query frame is read back exactly, with the filter present precisely when the client holds
  one, and its length is the documented 28 bytes of header, four per component and the filter
  section.
\<close>

theorem query_frame_roundtrip:
  assumes "numpy_spec np" "0 \<le> k" "k < 2 ^ 32" "length (as_f4 np q) < 2 ^ 32" "length blob < 2 ^ 32"
  shows "\<exists>bs. query_body np q k blob = Inr bs \<and>
    decode_query bs = Some \<lparr>q_k = nat k, q_vec = as_f4 np q,
                            q_filter = (if blob = [] then None else Some blob)\<rparr> \<and>
    length bs = 28 + 4 * length (as_f4 np q) + (if blob = [] then 0 else 4 + length blob)"
  using assms by (rule decode_query_body)

theorem query_frame_roundtrip_witness:
  "\<exists>bs. query_body np_ref (NdVec [5, 6]) 100 [65, 66] = Inr bs \<and>
    decode_query bs = Some \<lparr>q_k = 100, q_vec = [5, 6], q_filter = Some [65, 66]\<rparr> \<and> length bs = 42"
  using query_frame_roundtrip [OF numpy_spec_np_ref, of 100 "NdVec [5, 6]" "[65, 66]"]
  by (simp add: as_f4_def)

text \<open>
  C5. In every reachable state the two query wires ask the same question: read by the receiver, the
  binary frame and the JSON body are the same message, with the same k, the same float32
  vector and the same filter text. The receiver rounds the numbers of the JSON body to float32 the way numpy casts; the
  query is a numpy row or a Python sequence, of any length the frame can hold, without infinities and NaNs, which
  JSON has no text for.
\<close>

theorem search_wires_agree:
  assumes "rostam_init send w d db cc coll drop_old = (w0, Inr r0)"
    and "(client_step np fr send)\<^sup>*\<^sup>* (r0, w0) (r, w1)"
    and "numpy_spec np" "0 \<le> k" "k < 2 ^ 32" "length (as_f4 np q) < 2 ^ 32" "length (filter_blob r) < 2 ^ 32"
    and "finite_row (as_f4 np q)"
  shows "\<exists>bs m. query_body np q k (filter_blob r) = Inr bs \<and> decode_query bs = Some m \<and>
    read_json_query fr (np_f32 np) (query_json np q k (query_filter r)) = Some m"
proof -
  have f: "rostam_fields d db coll = Inr r0"
    using rostam_init_fields [OF assms(1)] .
  then have "filter_is_object r0"
    by (auto elim: rostam_fields_InrE simp: filter_is_object_def)
  then have "filter_is_object r"
    using run_filter_is_object [OF assms(2)] by simp
  moreover have "filter_agrees fr r"
    using run_client_inv [OF assms(2)] rostam_fields_inv [OF f] by (simp add: client_inv_def)
  ultimately show ?thesis
    using search_bodies_agree assms(3-8) by blast
qed

theorem search_wires_agree_witness:
  "\<exists>r0 bs m. rostam_init created_send () 2 (to_dict default_config) default_hnsw ''c'' False = ((), Inr r0) \<and>
    query_body np_ref (PyVec [0x3FF0000000000000]) 10 (filter_blob r0) = Inr bs \<and> decode_query bs = Some m \<and>
    read_json_query (\<lambda>_. []) f64_to_f32 (query_json np_ref (PyVec [0x3FF0000000000000]) 10 (query_filter r0)) = Some m \<and>
    (\<exists>bs m. query_body np_ref (NdVec [0x3F800000, 0]) 10 (filter_blob r0) = Inr bs \<and> decode_query bs = Some m \<and>
      read_json_query (\<lambda>_. []) f64_to_f32 (query_json np_ref (NdVec [0x3F800000, 0]) 10 (query_filter r0)) = Some m)"
proof -
  let ?p = "PyVec [0x3FF0000000000000]" and ?q = "NdVec [0x3F800000, 0]"
  obtain r0 where f: "rostam_fields 2 (to_dict default_config) ''c'' = Inr r0"
    by (simp add: rostam_fields_def to_dict_def default_config_def load_path_of_def load_paths_def)
  then have b: "filter_blob r0 = []"
    by (auto elim!: rostam_fields_InrE)
  have init: "rostam_init created_send () 2 (to_dict default_config) default_hnsw ''c'' False = ((), Inr r0)"
    using f by (simp add: rostam_init_def drop_collection_def created_send_def create_def create_config_def
        index_param_def answer_def Let_def)
  have fin: "finite_row (as_f4 np_ref ?p)" "finite_row (as_f4 np_ref ?q)"
    by (simp_all add: finite_row_def as_f4_def np_ref_def f64_one_narrowed f32_exp_def)
  have "np_f32 np_ref = f64_to_f32"
    by (simp add: np_ref_def)
  then show ?thesis
    using search_wires_agree [OF init rtranclp.rtrancl_refl numpy_spec_np_ref _ _ _ _ fin(1), of 10 "\<lambda>_. []"]
      search_wires_agree [OF init rtranclp.rtrancl_refl numpy_spec_np_ref _ _ _ _ fin(2), of 10 "\<lambda>_. []"] init b
    by (simp add: as_f4_def)
qed

text \<open>
  C6. Against a healthy server a load always completes and returns the number of points with no
  error, whether or not the server speaks the binary framing; afterwards the binary wire is
  enabled exactly when it was before and the server speaks it.
\<close>

theorem load_completes:
  assumes "live_server send stored fr narrow u speaks" and "numpy_spec np"
    and "rectangular d emb" "length emb = length (to_ints md)" "d < 2 ^ 32"
    and "list_all u64_id (to_ints md)"
    and "exact_floats np narrow (map (map (np_f32 np)) emb)"
    and "u = points_url r [if load_path r = ''batch'' then ''batch'' else ''bulk'']"
    and "binary_proven r \<Longrightarrow> speaks w"
  shows "\<exists>w' r'. insert_embeddings np send r w emb md = (w', r', Inr (int (length (to_ints md)), None)) \<and>
    stored w' = stored w @ load_points (load_path r \<in> {''payload'', ''batch''}) (to_ints md) (map (map (np_f32 np)) emb) \<and>
    (emb \<noteq> [] \<longrightarrow> binary r' = (binary r \<and> speaks w))"
  by (rule live_server.insert_embeddings_completes [OF assms])

theorem load_completes_witness:
  "\<exists>w' r'. insert_embeddings np_ref sample_send (sample_client ''payload'') (sample_world True) [[0x3FF0000000000000]] (PyIds [7])
      = (w', r', Inr (1, None)) \<and> length (srv_points w') = 1 \<and> binary r'"
proof -
  have "live_server sample_send srv_points (\<lambda>_. []) f64_to_f32 sample_url srv_speaks"
    unfolding sample_send_def by (rule ref.live_server_axioms)
  from load_completes [OF this numpy_spec_np_ref sample_load_facts sample_exact sample_points_url, of "sample_world True"]
  show ?thesis
    by (auto simp: sample_client_def sample_world_def to_ints_def load_points_def)
qed

text \<open>
  C7. Negotiation is final. Over any sequence of method calls, a wire proven by a success stays
  enabled and proven (a later rejection surfaces as an error), a wire switched to JSON
  never comes back. And the two wires are independent: a load, whatever the server answers it, leaves what is
  known of the query wire, a search leaves what is known of the bulk wire, and preparing a filter leaves both.
\<close>

theorem wire_negotiation_final:
  assumes "(client_step np fr send)\<^sup>*\<^sup>* (r, w) (r', w')"
  shows "(binary r \<and> binary_proven r \<longrightarrow> binary r' \<and> binary_proven r') \<and> (\<not> binary r \<longrightarrow> \<not> binary r') \<and>
    (binary_query r \<and> binary_query_proven r \<longrightarrow> binary_query r' \<and> binary_query_proven r') \<and>
    (\<not> binary_query r \<longrightarrow> \<not> binary_query r') \<and>
    (\<forall>emb md w1 r1 out. insert_embeddings np send r' w' emb md = (w1, r1, out) \<longrightarrow>
       binary_query r1 = binary_query r' \<and> binary_query_proven r1 = binary_query_proven r') \<and>
    (\<forall>q k w1 r1 out. search_embedding np send r' w' q k = (w1, r1, out) \<longrightarrow>
       binary r1 = binary r' \<and> binary_proven r1 = binary_proven r') \<and>
    (\<forall>f r1 out. prepare_filter fr r' f = (r1, out) \<longrightarrow>
       binary r1 = binary r' \<and> binary_proven r1 = binary_proven r' \<and>
       binary_query r1 = binary_query r' \<and> binary_query_proven r1 = binary_query_proven r')"
  using bulk_wire.run_proven [OF assms] bulk_wire.run_disabled [OF assms]
    query_wire.run_proven [OF assms] query_wire.run_disabled [OF assms]
    insert_keeps_query_wire [of np send r' w'] search_keeps_bulk_wire [of np send r' w'] filter_keeps_wires [of fr r']
  by simp

theorem wire_negotiation_final_witness:
  "\<exists>r'. search_embedding np_ref hits_send (sample_client ''bulk'') (False, [4, 2]) (NdVec [1]) 2 = ((False, [4, 2]), r', Inr [4, 2]) \<and>
    \<not> binary_query r' \<and> (\<forall>r'' w''. (client_step np_ref (\<lambda>_. []) hits_send)\<^sup>*\<^sup>* (r', (False, [4, 2])) (r'', w'') \<longrightarrow> \<not> binary_query r'')"
proof -
  obtain bs where "query_body np_ref (NdVec [1]) 2 [] = Inr bs"
    using query_body_ok [OF numpy_spec_np_ref, of 2 "NdVec [1]" "[]"] by (auto simp: as_f4_def)
  then have "search_embedding np_ref hits_send (sample_client ''bulk'') (False, [4, 2]) (NdVec [1]) 2 =
      ((False, [4, 2]), (sample_client ''bulk'')\<lparr>binary_query := False\<rparr>, Inr [4, 2])"
    by (simp add: search_embedding_def sample_client_def hits_send_def post_raw_def rejection_def
        binary_unsupported_def search_json_def post_json_def hits_response_def checked_ids_def result_ids_hits Let_def)
  then show ?thesis
    using wire_negotiation_final by (intro exI [of _ "(sample_client ''bulk'')\<lparr>binary_query := False\<rparr>"]) fastforce
qed

text \<open>
  C8. The requests of a load, whatever the server answers: with the binary wire off they are all
  JSON, with a proven binary wire all binary, and from an enabled unproven wire either all
  binary or one binary request followed by JSON only. At most one chunk is sent twice: there is at
  most one request per thousand ids (rounded up), plus one.
\<close>

theorem load_request_log:
  "\<exists>new. snd (fst (insert_embeddings np (logged send) r wl emb md)) = snd wl @ new \<and> wire_log r new \<and>
    length new \<le> (length (to_ints md) + 999) div 1000 + 1"
proof (cases "as_f32 np emb")
  case (Inl e)
  then show ?thesis
    by (simp add: insert_embeddings_def Let_def wire_log_def)
next
  case (Inr rows)
  let ?in = "load_path r = ''batch''" and ?pp = "load_path r \<in> set [''payload'', ''batch'']"
  let ?u = "if ?in then points_url r [''batch''] else points_url r [''bulk'']"
  obtain wl' r' c e where loop: "insert_loop np (logged send) (sess r) ?u ?in ?pp (to_ints md) rows 0 r wl = (wl', r', c, e)"
    by (metis prod_cases4)
  then have "fst (insert_embeddings np (logged send) r wl emb md) = wl'"
    using Inr by (simp add: insert_embeddings_def Let_def)
  moreover obtain new where "snd wl' = snd wl @ new" "wire_log r new" "length new \<le> chunks_left (length (to_ints md)) 0 + 1"
    using insert_loop_log [OF loop] by (fastforce split: if_splits)
  ultimately show ?thesis
    by (auto simp: chunks_left_def insert_batch_def)
qed

section \<open>Searching\<close>

text \<open>
  A search returns the ids of the server's hits, in the server's order, over the wire the server
  speaks: a server without the binary query wire gets the same query as JSON in the same call, and
  the object then keeps to JSON.
\<close>

lemma search_returns_hits:
  assumes "search_server send speaks answer_ids" and "query_body np q k (filter_blob r) = Inr bs"
    and "binary_query_proven r \<Longrightarrow> speaks w"
  shows "\<exists>w' r'. search_embedding np send r w q k =
      (w', r', Inr (answer_ids w (if binary_query r \<and> speaks w then post_raw (points_url r [''search'']) bs 120
                                  else json_query_request np r q k))) \<and>
    binary_query r' = (binary_query r \<and> speaks w)"
  by (rule search_server.search_hits [OF assms])

lemma search_returns_hits_sample:
  "\<exists>w' r'. search_embedding np_ref hits_send (sample_client ''bulk'') (True, [9, 3, 7]) (NdVec [1, 2]) 3 = (w', r', Inr [9, 3, 7]) \<and>
    binary_query r'"
proof -
  obtain bs where "query_body np_ref (NdVec [1, 2]) 3 (filter_blob (sample_client ''bulk'')) = Inr bs"
    using query_body_ok [OF numpy_spec_np_ref, of 3 "NdVec [1, 2]" "[]"] by (auto simp: as_f4_def sample_client_def)
  from search_returns_hits [OF hits.search_server_axioms this, of "(True, [9, 3, 7])"] show ?thesis
    by (auto simp: sample_client_def)
qed



section \<open>Creation\<close>

text \<open>
  C11. The constructor passes over a collection that the server says already exists (status 409),
  unless it was told to drop it first, when the conflict is raised.
\<close>

theorem init_conflict:
  assumes f: "rostam_fields d db coll = Inr r"
    and ans: "\<And>w s rq. \<exists>w' resp. send w s rq = (w', Inr resp) \<and> (rq_method rq = ''POST'' \<longrightarrow> status_code resp = 409)"
  shows "snd (rostam_init send w d db cc coll drop_old) = (if drop_old then Inl AlreadyExists else Inr r)"
proof -
  obtain w1 where w1: "drop_collection send w r (new_session r) drop_old = (w1, Inr ())"
    using ans [of w "new_session r" "delete_request r"] by (cases drop_old) (auto simp: drop_collection_def)
  obtain w2 where "create send w1 r (new_session r) d (index_param cc) = (w2, Inl AlreadyExists)"
    using create_status [where send = send and w = w1 and r = r and s = "new_session r" and d = d and cc = cc, OF ans] by auto
  with f w1 show ?thesis
    by (simp add: rostam_init_def Let_def)
qed

definition conflict_send :: "unit transport" where
  "conflict_send w s rq = (w, Inr (answer 409 ''conflict'' JNull))"

lemma sample_fields: "\<exists>r. rostam_fields 1 (to_dict default_config) ''c'' = Inr r"
  by (simp add: rostam_fields_def to_dict_def default_config_def load_path_of_def load_paths_def)

theorem init_conflict_witness:
  "snd (rostam_init conflict_send () 1 (to_dict default_config) default_hnsw ''c'' True) = Inl AlreadyExists \<and>
    (\<exists>r. snd (rostam_init conflict_send () 1 (to_dict default_config) default_hnsw ''c'' False) = Inr r)"
proof -
  obtain r where f: "rostam_fields 1 (to_dict default_config) ''c'' = Inr r"
    using sample_fields by blast
  have "snd (rostam_init conflict_send () 1 (to_dict default_config) default_hnsw ''c'' b) =
      (if b then Inl AlreadyExists else Inr r)" for b
    by (rule init_conflict [OF f]) (simp add: conflict_send_def answer_def)
  then show ?thesis by simp
qed

text \<open>
  A configuration whose load path is not one of the three raises before any request is made:
  the world is untouched.
\<close>

lemma init_bad_load_path:
  assumes "map_of db ''url'' = Some (JStr us)" "load_path_of db \<notin> JStr ` set load_paths"
  shows "rostam_init send w d db cc coll drop_old = (w, Inl (RuntimeError (''unknown load_path '' @ path_repr (load_path_of db))))"
proof -
  have "rostam_fields d db coll = Inl (RuntimeError (''unknown load_path '' @ path_repr (load_path_of db)))"
    using assms by (cases "load_path_of db") (auto simp: rostam_fields_def)
  then show ?thesis
    by (simp add: rostam_init_def)
qed

lemma init_bad_load_path_sample:
  "rostam_init created_send () 1 (to_dict (default_config\<lparr>cfg_load_path := ''fast''\<rparr>)) default_hnsw ''c'' True
    = ((), Inl (RuntimeError (''unknown load_path '' @ [CHR 0x27] @ ''fast'' @ [CHR 0x27])))"
proof -
  let ?db = "to_dict (default_config\<lparr>cfg_load_path := ''fast''\<rparr>)"
  have "rostam_init created_send () 1 ?db default_hnsw ''c'' True = ((), Inl (RuntimeError (''unknown load_path '' @ path_repr (load_path_of ?db))))"
    by (rule init_bad_load_path [where us = "cfg_url default_config"])
      (auto simp: to_dict_def load_path_of_def load_paths_def)
  moreover have "path_repr (load_path_of ?db) = [CHR 0x27] @ ''fast'' @ [CHR 0x27]"
    by (simp add: to_dict_def load_path_of_def repr_str_def Let_def)
  ultimately show ?thesis
    by simp
qed

text \<open>
  C13. Any failed creation whose response text contains the letters of "exist", in either case, counts
  as an existing collection: without \<open>drop_old\<close> the constructor returns an object although the
  server created nothing.
\<close>

theorem init_accepts_exist_text:
  assumes f: "rostam_fields d db coll = Inr r"
    and ans: "\<And>w s rq. \<exists>resp. send w s rq = (w, Inr resp) \<and> status_code resp \<notin> {200, 201} \<and>
        contains ''exist'' (lower (resp_text resp))"
  shows "rostam_init send w d db cc coll False = (w, Inr r)"
proof -
  obtain resp where "send w (new_session r) (create_request r d cc) = (w, Inr resp)"
    "status_code resp \<notin> {200, 201}" "contains ''exist'' (lower (resp_text resp))"
    using ans by blast
  with f show ?thesis
    by (simp add: rostam_init_def drop_collection_def Let_def create_index_param)
qed

definition no_quant_send :: "unit transport" where
  "no_quant_send w s rq = (w, Inr (answer 400 ''quantizer does not EXIST'' JNull))"

theorem init_accepts_exist_text_witness:
  "\<exists>r. rostam_init no_quant_send () 1 (to_dict default_config) (default_hnsw\<lparr>quant := ''pq9''\<rparr>) ''c'' False = ((), Inr r)"
proof -
  obtain r where f: "rostam_fields 1 (to_dict default_config) ''c'' = Inr r"
    using sample_fields by blast
  have "contains ''exist'' (lower ''quantizer does not EXIST'')"
    by code_simp
  then show ?thesis
    by (intro exI [of _ r] init_accepts_exist_text [OF f]) (simp add: no_quant_send_def answer_def)
qed

text \<open>
  C14. Where there are fewer rows than ids, the two wires part: the binary encoder raises (a
  \<open>ValueError\<close>, if the ids are 64-bit unsigned integers at all), the JSON body silently leaves out the ids without a row, so a JSON load of such input
  reports more points than it sends.
\<close>

theorem short_rows_wires_differ:
  assumes np: "numpy_spec np" and n: "length rs < length ids" "length ids \<noteq> 1" and d: "d < 2 ^ 32" "length ids < 2 ^ 32"
  shows "(\<exists>e. binary_body np ids (Nd2 d rs) upsert payloads = Inl e \<and> (list_all u64_id ids \<longrightarrow> (\<exists>msg. e = ValueError msg))) \<and>
    json_body np ids (Nd2 d rs) payloads upsert = json_body np (take (length rs) ids) (Nd2 d rs) payloads upsert"
proof
  obtain e where "np_store_ids np (length rs) ids = Inl e" "list_all u64_id ids \<longrightarrow> (\<exists>msg. e = ValueError msg)"
    using numpy_specD(5) [OF np, of ids "length rs"] n by auto
  moreover have "pack_uint 4 1 = Inr (be_bytes 4 1)" "pack_uint 4 2 = Inr (be_bytes 4 2)" "pack_uint 4 3 = Inr (be_bytes 4 3)"
    using pack_u32 [of 1] pack_u32 [of 2] pack_u32 [of 3] by simp_all
  ultimately show "\<exists>e. binary_body np ids (Nd2 d rs) upsert payloads = Inl e \<and> (list_all u64_id ids \<longrightarrow> (\<exists>msg. e = ValueError msg))"
    using n d by (simp add: binary_body_def Let_def bulk_flag_payloads_def bulk_flag_upsert_def)
  have "zip (take (length vs) ids) vs = zip ids vs" for vs :: "json list"
    by (rule nth_equalityI) auto
  from this [of "nd_tolist np (Nd2 d rs)"]
  show "json_body np ids (Nd2 d rs) payloads upsert = json_body np (take (length rs) ids) (Nd2 d rs) payloads upsert"
    by (simp add: json_body_def Let_def nd_tolist_def)
qed

theorem short_rows_wires_differ_witness:
  "(\<exists>msg. binary_body np_ref [1, 2] (Nd2 1 [[0]]) False False = Inl (ValueError msg)) \<and>
    json_body np_ref [1, 2] (Nd2 1 [[0]]) False False = json_body np_ref [1] (Nd2 1 [[0]]) False False"
  using short_rows_wires_differ [OF numpy_spec_np_ref, of "[[0]]" "[1, 2]" 1 False False] by (auto simp: u64_id_def)

text \<open>
  C15. The command line always configures the bulk path, so an integer filter case run from it is
  refused with an error and the object is unchanged.
\<close>

theorem cli_refuses_filters:
  assumes "rostam_hnsw_command ps = Inr (cfg, hc)" "rostam_fields d (to_dict cfg) coll = Inr r" "flt_type f = NumGE"
  shows "load_path r = ''bulk'' \<and> (\<exists>m. prepare_filter fr r f = (r, Inl (RuntimeError m)))"
proof -
  have "cfg_load_path cfg = ''bulk''"
    using assms(1) by (auto simp: rostam_hnsw_command_def default_config_def)
  then have "load_path r = ''bulk''"
    using assms(2) by (auto elim!: rostam_fields_InrE simp: to_dict_def load_path_of_def)
  then show ?thesis
    using assms(3) by (simp add: prepare_filter_def)
qed

theorem cli_refuses_filters_witness:
  "\<exists>cfg hc r m. rostam_hnsw_command cli_defaults = Inr (cfg, hc) \<and> rostam_fields 768 (to_dict cfg) ''c'' = Inr r \<and>
    prepare_filter (\<lambda>_. []) r filter_ge_5 = (r, Inl (RuntimeError m))"
proof -
  obtain cfg hc where c: "rostam_hnsw_command cli_defaults = Inr (cfg, hc)"
    by (simp add: rostam_hnsw_command_def cli_defaults_def)
  moreover have "cfg = default_config"
    using c by (simp add: rostam_hnsw_command_def cli_defaults_def default_config_def)
  moreover obtain r where f: "rostam_fields 768 (to_dict default_config) ''c'' = Inr r"
    by (simp add: rostam_fields_def to_dict_def default_config_def load_path_of_def load_paths_def)
  ultimately show ?thesis
    using cli_refuses_filters [of cli_defaults cfg hc 768 "''c''" r filter_ge_5 "\<lambda>_. []"]
    by (auto simp: filter_ge_5_def)
qed

text \<open>
  C16. A result count that does not fit 32 bits is a \<open>struct.error\<close> on the binary query wire: no
  request is made and the object is unchanged.
\<close>

theorem search_rejects_large_k:
  assumes "binary_query r" "k < 0 \<or> 2 ^ 32 \<le> k"
  shows "\<exists>m. search_embedding np send r w q k = (w, r, Inl (StructError m))"
proof -
  have "\<exists>m. pack_uint 4 k = Inl (StructError m)"
    using assms(2) by (auto simp: pack_uint_def)
  moreover have "pack_uint 4 1 = Inr (be_bytes 4 1)"
    using pack_u32 [of 1] by simp
  ultimately show ?thesis
    using assms(1) by (auto simp: search_embedding_def query_body_def Let_def query_flag_filter_def)
qed

theorem search_rejects_large_k_witness:
  "\<exists>m. search_embedding np_ref hits_send (sample_client ''bulk'') (True, []) (NdVec [1]) (- 1) =
    ((True, []), sample_client ''bulk'', Inl (StructError m))"
  by (rule search_rejects_large_k) (simp_all add: sample_client_def)

section \<open>Sessions\<close>

text \<open>
  C34. The object with the server behind it is a vector database. A session of loads, builds, filters and
  queries in any order refines the same session on the specification: a load appends its points and
  returns their number; on the batch path they are queryable at once, on the others a build makes them so, and a
  second build is an error; a filter is taken or refused; and a query returns the server's hits on the
  queryable points for exactly the vector, the \<open>k\<close> and the filter that were asked for. Chunks, frames,
  the two copies of the filter and the negotiation of both wires, which the server may speak or not independently, do not
  show.
\<close>

theorem session_refines_database:
  assumes "vector_server send stored fr (np_f32 np) u speaks su bu inline live qspeaks hits" and "numpy_spec np"
    and "coupled fr u su bu inline speaks qspeaks path (r, w)"
    and "list_all (fits_wires np fr) cs"
    and "session np fr send cs (r, w) = (s', outs)"
  shows "spec_run np fr hits path cs (abs_db stored live (r, w)) outs (abs_db stored live s')"
  by (rule vector_server.session_refines [OF assms(1,2) refl assms(3-5)])

definition sample_session :: "operation list" where
  "sample_session =
     [Load [[0x3FF0000000000000]] (PyIds [7]), Query (NdVec [1, 2]) 3, Build, Filter filter_ge_5, Query (NdVec [1, 2]) 3, Build]"

definition all_ids :: "point list \<Rightarrow> query_msg \<Rightarrow> int list" where
  "all_ids pts m = map pt_id pts"

theorem session_refines_database_witness:
  "\<exists>s' x msg. session np_ref (\<lambda>_. []) (db_send (\<lambda>_. []) f64_to_f32 False all_ids ''http://h/v1/collections/c/points'') sample_session
      (sample_client ''payload'', sample_world False, [], True) =
      (s', [Loaded (Inr (1, None)), Found (Inr []), Built (Inr ()), Filtered x, Found (Inr [7]), Built (Inl (RuntimeError msg))]) \<and>
    db_filter (abs_db (srv_points \<circ> fst) (fst \<circ> snd) s') = Some (num_ge_json ''id'' 5)"
proof -
  let ?p = "''http://h/v1/collections/c/points''"
  let ?s = "(sample_client ''payload'', sample_world False, [], True)"
  obtain s' outs where run: "session np_ref (\<lambda>_. []) (db_send (\<lambda>_. []) f64_to_f32 False all_ids ?p) sample_session ?s = (s', outs)"
    by fastforce
  have c: "coupled (\<lambda>_. []) (?p @ load_part False) (?p @ ''/search'') (?p @ ''/bulk/build'') False (srv_speaks \<circ> fst) (snd \<circ> snd) ''payload'' ?s"
    by (simp add: coupled_def sample_client_def client_inv_def load_paths_def filter_agrees_def filter_is_object_def
        points_url_def url_def load_part_def)
  have np: "np_f32 np_ref = f64_to_f32"
    by (simp add: np_ref_def)
  have vs: "vector_server (db_send (\<lambda>_. []) f64_to_f32 False all_ids ?p) (srv_points \<circ> fst) (\<lambda>_. []) (np_f32 np_ref) (?p @ load_part False)
      (srv_speaks \<circ> fst) (?p @ ''/search'') (?p @ ''/bulk/build'') False (fst \<circ> snd) (snd \<circ> snd) all_ids"
    unfolding np by (rule db.vector_server_axioms)
  have "finite_row [1, 2]" "finite_row (map (np_f32 np_ref) [0x3FF0000000000000])"
    by (simp_all add: finite_row_def np f64_one_narrowed f32_exp_def)
  moreover have "length (encode (json_dumps (\<lambda>_. []) (num_ge_json ''id'' 5))) < 100"
    by code_simp
  ultimately have "list_all (fits_wires np_ref (\<lambda>_. [])) sample_session"
    using sample_load_facts by (auto simp: sample_session_def filter_ge_5_def as_f4_def)
  from session_refines_database [OF vs numpy_spec_np_ref c this run] run show ?thesis
    by (auto simp: sample_session_def abs_db_def spec_filter_def filter_ge_5_def sample_client_def sample_world_def
        all_ids_def spec_message_def load_points_def to_ints_def Let_def)
qed

end
