(* ===== verification/Py_Float.thy ===== *)
theory Py_Float
  imports Complex_Main Float_Bits
begin

text \<open>
  Python floats as the harness and the chart scripts compute with them: finite IEEE-754 doubles, by
  their rational values. Every operation is the exact rational operation followed by \<open>rnd\<close>, the
  rounding to the nearest double with ties to even, gradual underflow included. Infinities, NaN and
  the sign of zero are outside: no modelled computation comes near the overflow threshold. The
  lemmas give what the clients need: rounding is monotone, exact on integers up to \<open>2 ^ 53\<close>, and has
  a relative error of at most \<open>2 ^ -53\<close>.
\<close>

section \<open>Rounding\<close>

definition half_even :: "rat \<Rightarrow> int" where
  "half_even x =
     (let f = \<lfloor>x\<rfloor>; d = x - of_int f
      in if d > 1 / 2 \<or> (d = 1 / 2 \<and> odd f) then f + 1 else f)"

text \<open>The exponent of a positive rational: \<open>2 ^ e \<le> x < 2 ^ (e + 1)\<close>.\<close>

definition expo :: "rat \<Rightarrow> int" where
  "expo x =
     (case quotient_of x of
        (p, q) \<Rightarrow>
          (let d = int (top_bit (nat p)) - int (top_bit (nat q))
           in if 2 powi d \<le> x then d else d - 1))"

definition ulp :: "rat \<Rightarrow> rat" where
  "ulp x = 2 powi (max (expo \<bar>x\<bar> - 52) (- 1074))"

definition rnd :: "rat \<Rightarrow> rat" where
  "rnd x = (if x = 0 then 0 else of_int (half_even (x / ulp x)) * ulp x)"

section \<open>Operations\<close>

definition fadd :: "rat \<Rightarrow> rat \<Rightarrow> rat" where
  "fadd x y = rnd (x + y)"

definition fsub :: "rat \<Rightarrow> rat \<Rightarrow> rat" where
  "fsub x y = rnd (x - y)"

definition fmul :: "rat \<Rightarrow> rat \<Rightarrow> rat" where
  "fmul x y = rnd (x * y)"

definition fdiv :: "rat \<Rightarrow> rat \<Rightarrow> rat result" where
  "fdiv x y = (if y = 0 then Inl ZeroDivisionError else Inr (rnd (x / y)))"

text \<open>A decimal literal is the double nearest to it; \<open>int(x)\<close> cuts towards zero.\<close>

definition flit :: "rat \<Rightarrow> rat" where
  "flit x = rnd x"

definition ftrunc :: "rat \<Rightarrow> int" where
  "ftrunc x = (if 0 \<le> x then \<lfloor>x\<rfloor> else \<lceil>x\<rceil>)"

lemmas float_op_defs [float_ops] = fadd_def fsub_def fmul_def fdiv_def

section \<open>Half-even rounding to an integer\<close>

lemma half_even_bounds: "of_int (half_even x) - x \<le> 1 / 2" "x - of_int (half_even x) \<le> 1 / 2"
proof -
  have "of_int \<lfloor>x\<rfloor> \<le> x" "x < of_int \<lfloor>x\<rfloor> + 1"
    using floor_correct [of x] by simp_all
  then show "of_int (half_even x) - x \<le> 1 / 2" "x - of_int (half_even x) \<le> 1 / 2"
    unfolding half_even_def Let_def by (simp_all split: if_splits) linarith+
qed

lemma half_even_of_int [simp]: "half_even (of_int k) = k"
  by (simp add: half_even_def)

lemma half_even_nearest:
  assumes "of_int k - 1 / 2 < x" "x < of_int k + 1 / 2"
  shows "half_even x = k"
proof -
  have "\<bar>of_int (half_even x) - of_int k\<bar> < (1 :: rat)"
    using half_even_bounds [of x] assms by linarith
  then have "\<bar>half_even x - k\<bar> < 1"
    by (simp flip: of_int_diff of_int_abs)
  then show ?thesis by simp
qed

lemma half_even_mono: "x \<le> y \<Longrightarrow> half_even x \<le> half_even y"
proof -
  assume xy: "x \<le> y"
  have f: "\<lfloor>x\<rfloor> \<le> \<lfloor>y\<rfloor>"
    using xy by (rule floor_mono)
  show ?thesis
  proof (cases "\<lfloor>x\<rfloor> = \<lfloor>y\<rfloor>")
    case True
    with xy show ?thesis by (auto simp: half_even_def Let_def)
  next
    case False
    with f have "\<lfloor>x\<rfloor> + 1 \<le> \<lfloor>y\<rfloor>" by simp
    then show ?thesis by (auto simp: half_even_def Let_def)
  qed
qed

lemma half_even_minus: "half_even (- x) = - half_even x"
proof (cases "x \<in> \<int>")
  case True
  then show ?thesis
    by (metis Ints_cases half_even_of_int of_int_minus)
next
  case False
  then have "of_int \<lfloor>x\<rfloor> \<noteq> x"
    by (metis Ints_of_int)
  then have "of_int \<lfloor>x\<rfloor> < x" "x < of_int \<lfloor>x\<rfloor> + 1"
    using floor_correct [of x] by linarith+
  then have c: "\<lfloor>- x\<rfloor> = - \<lfloor>x\<rfloor> - 1"
    by (intro floor_unique) simp_all
  have "x - of_int \<lfloor>x\<rfloor> > 1 / 2 \<longleftrightarrow> - x - of_int (- \<lfloor>x\<rfloor> - 1) < 1 / 2"
    "x - of_int \<lfloor>x\<rfloor> = 1 / 2 \<longleftrightarrow> - x - of_int (- \<lfloor>x\<rfloor> - 1) = 1 / 2"
    by (simp_all, linarith+)
  then show ?thesis
    unfolding half_even_def Let_def c by (simp split: if_splits) linarith
qed

section \<open>The exponent\<close>

lemma powi_mono: "a \<le> b \<Longrightarrow> (2 :: rat) powi a \<le> 2 powi b"
  by (intro power_int_increasing) auto

lemma expo_bounds:
  assumes "0 < x"
  shows "2 powi expo x \<le> x" "x < 2 powi (expo x + 1)"
proof -
  obtain p q where pq: "quotient_of x = (p, q)"
    by fastforce
  then have q: "0 < q"
    by (rule quotient_of_denom_pos)
  have x: "x = of_int p / of_int q"
    using pq by (rule quotient_of_div)
  with assms q have p: "0 < p"
    by (simp add: zero_less_divide_iff)
  let ?a = "int (top_bit (nat p))" and ?b = "int (top_bit (nat q))"
  have tb: "(2 :: rat) powi int (top_bit (nat m)) \<le> of_int m \<and> (of_int m :: rat) < 2 powi (int (top_bit (nat m)) + 1)"
    if "0 < m" for m
  proof -
    have "2 ^ top_bit (nat m) \<le> nat m" "nat m < 2 ^ Suc (top_bit (nat m))"
      using top_bit_bounds [of "nat m"] that by auto
    then have "2 ^ top_bit (nat m) \<le> m" "m < 2 ^ Suc (top_bit (nat m))"
      using that by (simp_all add: le_nat_iff nat_less_iff)
    then have "(of_int (2 ^ top_bit (nat m)) :: rat) \<le> of_int m" "(of_int m :: rat) < of_int (2 ^ Suc (top_bit (nat m)))"
      by (simp_all only: of_int_le_iff of_int_less_iff)
    then show ?thesis
      by (simp add: power_int_add)
  qed
  have pos: "0 < (of_int q :: rat)" "0 < (2 :: rat) powi ?b" "0 < (2 :: rat) powi ?a"
    using q by simp_all
  have "x < 2 powi (?a + 1) / of_int q"
    unfolding x using tb [OF p] pos by (simp add: divide_strict_right_mono)
  also have "\<dots> \<le> 2 powi (?a + 1) / 2 powi ?b"
    using tb [OF q] pos by (intro divide_left_mono) simp_all
  finally have up: "x < 2 powi (?a - ?b + 1)"
    by (simp add: power_int_diff power_int_add)
  have "2 powi (?a - ?b - 1) = (2 :: rat) powi ?a / 2 powi (?b + 1)"
    by (simp add: power_int_diff power_int_add)
  also have "\<dots> \<le> 2 powi ?a / of_int q"
    using tb [OF q] pos by (intro divide_left_mono) simp_all
  also have "\<dots> \<le> x"
    unfolding x using tb [OF p] pos by (simp add: divide_right_mono)
  finally have lo: "2 powi (?a - ?b - 1) \<le> x" .
  show "2 powi expo x \<le> x" "x < 2 powi (expo x + 1)"
    using up lo pq by (auto simp: expo_def Let_def not_le)
qed

lemma expo_unique:
  assumes "2 powi e \<le> x" "x < 2 powi (e + 1)"
  shows "expo x = e"
proof -
  have x: "0 < x"
    using assms(1) by (rule less_le_trans [rotated]) simp
  have "(2 :: rat) powi expo x < 2 powi (e + 1)" "(2 :: rat) powi e < 2 powi (expo x + 1)"
    using expo_bounds [OF x] assms by linarith+
  then have "\<not> e + 1 \<le> expo x" "\<not> expo x + 1 \<le> e"
    using powi_mono by (meson not_le)+
  then show ?thesis by simp
qed

lemma expo_mono: "0 < x \<Longrightarrow> x \<le> y \<Longrightarrow> expo x \<le> expo y"
proof (rule ccontr)
  assume x: "0 < x" "x \<le> y" and "\<not> expo x \<le> expo y"
  then have "(2 :: rat) powi (expo y + 1) \<le> 2 powi expo x"
    by (intro powi_mono) simp
  then show False
    using expo_bounds(1) [of x] expo_bounds(2) [of y] x by linarith
qed

section \<open>The grid of doubles around a number\<close>

lemma ulp_pos [simp]: "0 < ulp x"
  by (simp add: ulp_def)

lemma ulp_nonzero [simp]: "ulp x \<noteq> 0"
  by (simp add: ulp_def)

lemma ulp_minus [simp]: "ulp (- x) = ulp x"
  by (simp add: ulp_def)

lemma on_grid:
  assumes "max (expo \<bar>x\<bar> - 52) (- 1074) \<le> e"
  shows "\<exists>j. of_int i * 2 powi e = of_int j * ulp x"
proof -
  let ?g = "max (expo \<bar>x\<bar> - 52) (- 1074)"
  have "(2 :: rat) powi e = 2 powi (e - ?g) * 2 powi ?g"
    by (simp add: power_int_add [symmetric])
  also have "(2 :: rat) powi (e - ?g) = of_int (2 ^ nat (e - ?g))"
    using assms by (simp add: power_int_def)
  finally have "of_int i * (2 :: rat) powi e = of_int (i * 2 ^ nat (e - ?g)) * ulp x"
    by (simp add: ulp_def)
  then show ?thesis by blast
qed

lemma rnd_grid: "x = of_int k * ulp x \<Longrightarrow> rnd x = x"
proof -
  assume x: "x = of_int k * ulp x"
  then have "x / ulp x = of_int k"
    by (metis less_irrefl nonzero_mult_div_cancel_right ulp_pos)
  then show ?thesis
    using x by (simp add: rnd_def)
qed

lemma rnd_le_grid:
  assumes "x \<le> of_int k * ulp x" "x \<noteq> 0"
  shows "rnd x \<le> of_int k * ulp x"
proof -
  have "x / ulp x \<le> of_int k"
    using assms(1) by (simp add: pos_divide_le_eq)
  then have "half_even (x / ulp x) \<le> k"
    using half_even_mono by fastforce
  then show ?thesis
    using assms(2) by (simp add: rnd_def)
qed

lemma rnd_ge_grid:
  assumes "of_int k * ulp x \<le> x" "x \<noteq> 0"
  shows "of_int k * ulp x \<le> rnd x"
proof -
  have "of_int k \<le> x / ulp x"
    using assms(1) by (simp add: pos_le_divide_eq)
  then have "k \<le> half_even (x / ulp x)"
    using half_even_mono by fastforce
  then show ?thesis
    using assms(2) by (simp add: rnd_def)
qed

section \<open>Properties of rounding\<close>

lemma rnd_0 [simp]: "rnd 0 = 0"
  by (simp add: rnd_def)

lemma rnd_minus: "rnd (- x) = - rnd x"
  by (simp add: rnd_def half_even_minus)

lemma rnd_nonneg: "0 \<le> x \<Longrightarrow> 0 \<le> rnd x"
  using rnd_ge_grid [of 0 x] by (cases "x = 0") simp_all

lemma rnd_mono_pos:
  assumes "0 < x" "x \<le> y"
  shows "rnd x \<le> rnd y"
proof (cases "ulp x = ulp y")
  case True
  have "x / ulp x \<le> y / ulp x"
    using assms(2) by (intro divide_right_mono) (simp_all add: less_imp_le)
  then show ?thesis
    using assms True half_even_mono [of "x / ulp x" "y / ulp x"] by (simp add: rnd_def)
next
  case False
  let ?P = "2 powi expo y :: rat"
  have e: "expo x < expo y" "max (expo \<bar>y\<bar> - 52) (- 1074) \<le> expo y" "max (expo \<bar>x\<bar> - 52) (- 1074) \<le> expo y"
  proof -
    have "expo x \<noteq> expo y"
      using False assms by (auto simp: ulp_def)
    then show "expo x < expo y"
      using expo_mono [OF assms] by simp
    then show "max (expo \<bar>y\<bar> - 52) (- 1074) \<le> expo y" "max (expo \<bar>x\<bar> - 52) (- 1074) \<le> expo y"
      using False assms by (auto simp: ulp_def max_def split: if_splits)
  qed
  have "x \<le> 2 powi (expo x + 1)"
    using expo_bounds(2) [OF assms(1)] by simp
  also have "\<dots> \<le> ?P"
    using e(1) by (intro powi_mono) simp
  finally have "x \<le> ?P" .
  moreover obtain j where "?P = of_int j * ulp x"
    using on_grid [OF e(3), of 1] by auto
  ultimately have "rnd x \<le> ?P"
    using rnd_le_grid [of x j] assms(1) by simp
  moreover obtain i where "?P = of_int i * ulp y"
    using on_grid [OF e(2), of 1] by auto
  then have "?P \<le> rnd y"
    using rnd_ge_grid [of i y] expo_bounds(1) [of y] assms by simp
  ultimately show ?thesis by simp
qed

lemma rnd_mono: "x \<le> y \<Longrightarrow> rnd x \<le> rnd y"
proof -
  assume xy: "x \<le> y"
  consider "0 < x" | "y < 0" | "x \<le> 0" "0 \<le> y"
    by linarith
  then show ?thesis
  proof cases
    case 1
    then show ?thesis using xy by (rule rnd_mono_pos)
  next
    case 2
    then show ?thesis using rnd_mono_pos [of "- y" "- x"] xy by (simp add: rnd_minus)
  next
    case 3
    then show ?thesis using rnd_nonneg [of y] rnd_nonneg [of "- x"] by (simp add: rnd_minus)
  qed
qed

lemma rnd_of_nat: "k \<le> 2 ^ 53 \<Longrightarrow> rnd (of_nat k) = of_nat k"
proof -
  assume k: "k \<le> 2 ^ 53"
  consider "k = 0" | "k = 2 ^ 53" | "0 < k" "k < 2 ^ 53"
    using k by fastforce
  then show ?thesis
  proof cases
    case 1
    then show ?thesis by simp
  next
    case 2
    have "expo (2 ^ 53) = 53"
      by (rule expo_unique) simp_all
    then have "\<exists>j. of_int 1 * 2 powi 53 = of_int j * ulp (2 ^ 53)"
      by (intro on_grid) simp
    then show ?thesis
      using 2 rnd_grid [of "2 ^ 53"] by auto
  next
    case 3
    then have "(of_nat k :: rat) < of_nat (2 ^ 53)"
      by (simp only: of_nat_less_iff)
    then have "(2 :: rat) powi expo (of_nat k) < 2 powi 53"
      using expo_bounds(1) [of "of_nat k"] 3 by simp
    then have "expo (of_nat k) < 53"
      using powi_mono [of 53] by (meson not_le)
    then have "\<exists>j. of_int (int k) * 2 powi 0 = of_int j * ulp (of_nat k)"
      by (intro on_grid) simp
    then show ?thesis
      using rnd_grid [of "of_nat k"] by auto
  qed
qed

lemma rnd_half_ulp: "\<bar>rnd x - x\<bar> \<le> ulp x / 2"
proof (cases "x = 0")
  case True
  then show ?thesis by (simp add: less_imp_le)
next
  case False
  have "\<bar>of_int (half_even (x / ulp x)) - x / ulp x\<bar> \<le> 1 / 2"
    using half_even_bounds [of "x / ulp x"] by linarith
  then have "\<bar>of_int (half_even (x / ulp x)) - x / ulp x\<bar> * ulp x \<le> 1 / 2 * ulp x"
    by (intro mult_right_mono) (simp_all add: less_imp_le)
  moreover have "\<bar>of_int (half_even (x / ulp x)) - x / ulp x\<bar> * ulp x = \<bar>rnd x - x\<bar>"
    using False ulp_pos [of x] by (simp add: rnd_def abs_mult_pos left_diff_distrib less_imp_le)
  ultimately show ?thesis
    by simp
qed

lemma rnd_error:
  assumes "2 powi (- 1022) \<le> \<bar>x\<bar>"
  shows "\<bar>rnd x - x\<bar> \<le> \<bar>x\<bar> * 2 powi (- 53)"
proof -
  have x: "0 < \<bar>x\<bar>" "x \<noteq> 0"
    using less_le_trans [OF _ assms, of 0] by auto
  have "- 1022 \<le> expo \<bar>x\<bar>"
    using expo_mono [OF _ assms] expo_unique [of "- 1022" "2 powi (- 1022)"] by (simp add: power_int_add)
  then have "max (expo \<bar>x\<bar> - 52) (- 1074) = expo \<bar>x\<bar> + - 52"
    by simp
  then have "ulp x = 2 powi expo \<bar>x\<bar> * 2 powi (- 52)"
    unfolding ulp_def by (subst power_int_add [symmetric]) simp_all
  also have "\<dots> \<le> \<bar>x\<bar> * 2 powi (- 52)"
    using expo_bounds(1) [OF x(1)] by (intro mult_right_mono) simp_all
  also have "\<dots> = 2 * (\<bar>x\<bar> * 2 powi (- 53))"
    by (simp add: power_int_minus)
  finally show ?thesis
    using rnd_half_ulp [of x] by simp
qed

lemma rnd_pos: "2 powi (- 1022) \<le> x \<Longrightarrow> 0 < rnd x"
proof -
  assume x: "2 powi (- 1022) \<le> x"
  then have p: "0 < x"
    using less_le_trans [of 0 "2 powi (- 1022)" x] by simp
  then have "x * 2 powi (- 53) < x"
    by (simp add: power_int_minus)
  then show ?thesis
    using rnd_error [of x] x p by linarith
qed

lemma rnd_normal: "1 / 16 \<le> x \<Longrightarrow> 0 < rnd x"
proof -
  assume x: "1 / 16 \<le> x"
  have "(2 :: rat) powi (- 1022) \<le> 2 powi (- 4)"
    by (rule powi_mono) simp
  also have "\<dots> \<le> x"
    using x by (simp add: power_int_minus)
  finally show ?thesis by (rule rnd_pos)
qed

text \<open>On numbers of moderate size rounding moves nothing by more than a thousandth.\<close>

lemma rnd_close:
  assumes "\<bar>x\<bar> \<le> 2 ^ 20"
  shows "\<bar>rnd x - x\<bar> \<le> 1 / 1000"
proof (cases "x = 0")
  case True
  then show ?thesis by simp
next
  case False
  then have "2 powi expo \<bar>x\<bar> \<le> \<bar>x\<bar>"
    by (intro expo_bounds) simp
  also have "\<dots> < 2 powi 21"
    using assms by (rule le_less_trans) simp
  finally have "expo \<bar>x\<bar> < 21"
    using powi_mono [of 21 "expo \<bar>x\<bar>"] by (meson not_le)
  then have "ulp x \<le> 2 powi (- 31)"
    unfolding ulp_def by (intro powi_mono) simp
  also have "\<dots> \<le> 2 / 1000"
    by (simp add: power_int_minus)
  finally show ?thesis
    using rnd_half_ulp [of x] by simp
qed

end
