(* ===== verification/Measure.thy ===== *)
theory Measure
  imports Py_Float Py_Text
begin

text \<open>
  What the SIFT-1M harnesses of \<open>sift1m/*.py\<close> share: the \<open>.fvecs\<close>/\<open>.ivecs\<close> files, the timed loop over
  the queries with its hit count, the summary (recall and percentiles), and the worker that keeps
  querying until its time is up. The engine behind a harness is an argument, \<open>ask\<close>, and so are the
  clocks and what numpy does with a file. The worker's loop has no bound of its own, so it is a
  partial function: not returning is the value \<open>None\<close>.
\<close>

section \<open>Vector files\<close>

record np_files =
  np_fromfile :: "string \<Rightarrow> 32 word list result"
  np_reshape :: "32 word list \<Rightarrow> int \<Rightarrow> 32 word list list result"

text \<open>\<open>x.reshape(-1, c)\<close>: the rows of \<open>c\<close> items, when the size allows it.\<close>

function chunks :: "nat \<Rightarrow> 'a list \<Rightarrow> 'a list list" where
  "chunks c xs = (if c = 0 \<or> xs = [] then [] else take c xs # chunks c (drop c xs))"
  by pat_completeness auto
termination
  by (relation "measure (\<lambda>(c, xs). length xs)") auto

declare chunks.simps [simp del]

definition np_files_spec :: "np_files \<Rightarrow> bool" where
  "np_files_spec nf \<longleftrightarrow>
     (\<forall>xs c. 0 < c \<longrightarrow> c dvd length xs \<longrightarrow> np_reshape nf xs (int c) = Inr (chunks c xs)) \<and>
     (\<forall>xs c. 0 < c \<longrightarrow> \<not> c dvd length xs \<longrightarrow> (\<exists>m. np_reshape nf xs (int c) = Inl (ValueError m)))"

definition read_ivecs :: "np_files \<Rightarrow> string \<Rightarrow> 32 word list list result" where
  "read_ivecs nf path =
     rbind (np_fromfile nf path) (\<lambda>x.
     rbind (case x of [] \<Rightarrow> Inl (IndexError ''index 0 is out of bounds'') | d # _ \<Rightarrow> Inr (sint d)) (\<lambda>d.
     rbind (np_reshape nf x (d + 1)) (\<lambda>rows.
       Inr (map (drop 1) rows))))"

text \<open>The same, with the bits of each item viewed as a float32.\<close>

definition read_fvecs :: "np_files \<Rightarrow> string \<Rightarrow> f32 list list result" where
  "read_fvecs nf path =
     rbind (np_fromfile nf path) (\<lambda>x.
     rbind (case x of [] \<Rightarrow> Inl (IndexError ''index 0 is out of bounds'') | d # _ \<Rightarrow> Inr (sint d)) (\<lambda>d.
     rbind (np_reshape nf x (d + 1)) (\<lambda>rows.
       Inr (map (drop 1) rows))))"

text \<open>The format: each vector is preceded by its dimension.\<close>

definition vecs_file :: "nat \<Rightarrow> 32 word list list \<Rightarrow> 32 word list" where
  "vecs_file d rows = concat (map (\<lambda>r. of_nat d # r) rows)"

section \<open>The timed loop\<close>

record 'w clock =
  perf_counter :: "'w \<Rightarrow> 'w \<times> rat"
  wall_time :: "'w \<Rightarrow> 'w \<times> rat"

type_synonym 'w engine = "'w \<Rightarrow> nat \<Rightarrow> 'w \<times> int list result"

definition knn :: nat where
  "knn = 10"

definition lat_n :: nat where
  "lat_n = 2000"

text \<open>\<open>len(set(ids) & set(truth))\<close>\<close>

definition overlap :: "int list \<Rightarrow> int list \<Rightarrow> nat" where
  "overlap ids truth = length (remdups (filter (\<lambda>x. x \<in> set truth) ids))"

fun timed_loop ::
  "'w clock \<Rightarrow> 'w engine \<Rightarrow> (nat \<Rightarrow> int list result) \<Rightarrow> nat list \<Rightarrow> rat list \<Rightarrow> nat \<Rightarrow> 'w \<Rightarrow> 'w \<times> (rat list \<times> nat) result" where
  "timed_loop clk ask truth [] lats hits w = (w, Inr (lats, hits))"
| "timed_loop clk ask truth (i # is) lats hits w =
     (case perf_counter clk w of
        (w1, t0) \<Rightarrow>
          (case ask w1 i of
             (w2, Inl e) \<Rightarrow> (w2, Inl e)
           | (w2, Inr ids) \<Rightarrow>
               (case perf_counter clk w2 of
                  (w3, t1) \<Rightarrow>
                    (case truth i of
                       Inl e \<Rightarrow> (w3, Inl e)
                     | Inr ts \<Rightarrow>
                         timed_loop clk ask truth is (lats @ [fmul (fsub t1 t0) 1000000]) (hits + overlap ids ts) w3))))"

section \<open>The summary\<close>

record latency_summary =
  ls_recall :: rat
  ls_p50 :: rat
  ls_p99 :: rat
  ls_mean :: rat

text \<open>\<open>int(len(lats) * 0.99)\<close>\<close>

definition p99_index :: "nat \<Rightarrow> nat" where
  "p99_index n = nat (ftrunc (fmul (of_nat n) (flit (99 / 100))))"

definition summarize :: "(rat list \<Rightarrow> rat) \<Rightarrow> nat \<Rightarrow> rat list \<Rightarrow> latency_summary result" where
  "summarize py_sum hits lats =
     (let s = sort lats
      in rbind (fdiv (of_nat hits) (of_nat (lat_n * knn))) (\<lambda>recall.
         rbind (row_at s (length s div 2)) (\<lambda>p50.
         rbind (row_at s (p99_index (length s))) (\<lambda>p99.
         rbind (fdiv (py_sum s) (of_nat (length s))) (\<lambda>mean.
           Inr \<lparr>ls_recall = recall, ls_p50 = p50, ls_p99 = p99, ls_mean = mean\<rparr>)))))"

section \<open>The throughput worker\<close>

text \<open>Sixteen queries between two looks at the clock; the requests are taken round robin.\<close>

fun burst :: "'w engine \<Rightarrow> nat \<Rightarrow> nat \<Rightarrow> nat \<Rightarrow> nat \<Rightarrow> 'w \<Rightarrow> 'w \<times> (nat \<times> nat) result" where
  "burst ask m 0 i n w = (w, Inr (i, n))"
| "burst ask m (Suc c) i n w =
     (if m = 0 then (w, Inl ZeroDivisionError)
      else (case ask w (i mod m) of
              (w', Inl e) \<Rightarrow> (w', Inl e)
            | (w', Inr _) \<Rightarrow> burst ask m c (i + 1) (n + 1) w'))"

partial_function (option) worker_loop ::
  "'w clock \<Rightarrow> 'w engine \<Rightarrow> nat \<Rightarrow> rat \<Rightarrow> nat \<Rightarrow> nat \<Rightarrow> 'w \<Rightarrow> ('w \<times> nat result) option" where
  "worker_loop clk ask m stop i n w =
     (case wall_time clk w of
        (w1, t) \<Rightarrow>
          if t < stop then
            (case burst ask m 16 i n w1 of
               (w2, Inl e) \<Rightarrow> Some (w2, Inl e)
             | (w2, Inr (i', n')) \<Rightarrow> worker_loop clk ask m stop i' n' w2)
          else Some (w1, Inr n))"

declare worker_loop.simps [code]

definition qps_worker :: "'w clock \<Rightarrow> 'w engine \<Rightarrow> rat \<Rightarrow> nat \<Rightarrow> nat \<Rightarrow> 'w \<Rightarrow> ('w \<times> nat result) option" where
  "qps_worker clk ask dur m wid w =
     (case wall_time clk w of (w1, t) \<Rightarrow> worker_loop clk ask m (fadd t dur) wid 0 w1)"

text \<open>
  \<open>pool.map\<close> over the workers is an argument: it yields the counts in the order of the worker
  numbers, or the exception of a worker. \<open>multiprocessing.Pool\<close> refuses to start without a process.
\<close>

definition pool_qps ::
  "'w clock \<Rightarrow> ('w \<Rightarrow> nat list \<Rightarrow> 'w \<times> nat list result) \<Rightarrow> nat \<Rightarrow> 'w \<Rightarrow> 'w \<times> rat result" where
  "pool_qps clk pool_map conc w =
     (case wall_time clk w of
        (w1, t0) \<Rightarrow>
          if conc = 0 then (w1, Inl (ValueError ''Number of processes must be at least 1''))
          else
            (case pool_map w1 [0..<conc] of
               (w2, Inl e) \<Rightarrow> (w2, Inl e)
             | (w2, Inr counts) \<Rightarrow>
                 (case wall_time clk w2 of
                    (w3, t1) \<Rightarrow> (w3, fdiv (rnd (of_nat (sum_list counts))) (fsub t1 t0)))))"

end
