(* ===== verification/Measure_Facts.thy ===== *)
theory Measure_Facts
  imports Measure "HOL-Library.Sublist"
begin

text \<open>
  Lemmas on the parts the harnesses share: a vector file is read back, the hit count is the size of
  an intersection and bounded by the ground truth, the percentile indices are in range, and a worker
  that returns has sent a multiple of sixteen requests, round robin. \<open>running_clock\<close> is the contract
  of a wall clock that advances while an engine answers; under it a worker always returns.
\<close>

section \<open>Vector files\<close>

lemma chunks_concat: "0 < c \<Longrightarrow> list_all (\<lambda>r. length r = c) rows \<Longrightarrow> chunks c (concat rows) = rows"
proof (induction rows)
  case Nil
  then show ?case by (simp add: chunks.simps)
next
  case (Cons r rows)
  moreover have "r \<noteq> []"
    using Cons.prems by auto
  ultimately show ?case by (simp add: chunks.simps [of c "r @ concat rows"])
qed

lemma length_concat_const: "list_all (\<lambda>r. length r = c) rows \<Longrightarrow> length (concat rows) = length rows * c"
  by (induction rows) simp_all

lemma vecs_file_chunks:
  assumes "list_all (\<lambda>r. length r = d) rows"
  shows "chunks (d + 1) (vecs_file d rows) = map (\<lambda>r. of_nat d # r) rows" "d + 1 dvd length (vecs_file d rows)"
proof -
  have "list_all (\<lambda>r. length r = d + 1) (map (\<lambda>r. of_nat d # r) rows)"
    using assms by (simp add: list_all_iff)
  then show "chunks (d + 1) (vecs_file d rows) = map (\<lambda>r. of_nat d # r) rows" "d + 1 dvd length (vecs_file d rows)"
    unfolding vecs_file_def using length_concat_const [of "d + 1" "map (\<lambda>r. of_nat d # r) rows"]
    by (simp_all only: chunks_concat dvd_triv_right)
qed

lemma sint_of_nat_small: "d < 2 ^ 31 \<Longrightarrow> sint (of_nat d :: 32 word) = int d"
  by (simp add: signed_of_nat signed_take_bit_int_eq_self)

lemma read_vecs:
  assumes "np_files_spec nf" "np_fromfile nf path = Inr (vecs_file d rows)"
    and "rows \<noteq> []" "list_all (\<lambda>r. length r = d) rows" "d < 2 ^ 31"
  shows "read_ivecs nf path = Inr rows" "read_fvecs nf path = Inr rows"
proof -
  obtain xs where x: "vecs_file d rows = of_nat d # xs"
    using assms(3) by (cases rows) (simp_all add: vecs_file_def)
  have "np_reshape nf (vecs_file d rows) (int (d + 1)) = Inr (map (\<lambda>r. of_nat d # r) rows)"
    using assms(1) vecs_file_chunks [OF assms(4)] unfolding np_files_spec_def by (metis add_gr_0 zero_less_one)
  then have "np_reshape nf (of_nat d # xs) (int d + 1) = Inr (map (\<lambda>r. of_nat d # r) rows)"
    using x by (simp add: add.commute)
  then show "read_ivecs nf path = Inr rows" "read_fvecs nf path = Inr rows"
    using assms(2,5) x by (simp_all add: read_ivecs_def read_fvecs_def sint_of_nat_small comp_def)
qed

section \<open>Hits\<close>

lemma overlap_card: "overlap ids truth = card (set ids \<inter> set truth)"
proof -
  have "set ids \<inter> set truth = set (filter (\<lambda>x. x \<in> set truth) ids)"
    by auto
  then show ?thesis
    unfolding overlap_def by (simp only: length_remdups_card_conv)
qed

lemma overlap_le: "overlap ids truth \<le> length truth"
  by (metis overlap_card card_mono card_length finite_set inf_le2 le_trans)

lemma timed_loop_counts:
  assumes "timed_loop clk ask truth is lats hits w = (w', Inr (lats', hits'))"
    and "\<And>i ts. i \<in> set is \<Longrightarrow> truth i = Inr ts \<Longrightarrow> length ts \<le> k"
  shows "length lats' = length lats + length is \<and> hits' \<le> hits + length is * k \<and> prefix lats lats'"
  using assms
proof (induction "is" arbitrary: lats hits w)
  case Nil
  then show ?case by simp
next
  case (Cons i "is")
  obtain w1 t0 where c1: "perf_counter clk w = (w1, t0)" by fastforce
  obtain w2 out where c2: "ask w1 i = (w2, out)" by fastforce
  obtain w3 t1 where c3: "perf_counter clk w2 = (w3, t1)" by fastforce
  from Cons.prems(1) c1 c2 c3 obtain ids ts where t: "out = Inr ids" "truth i = Inr ts"
    and l: "timed_loop clk ask truth is (lats @ [fmul (fsub t1 t0) 1000000]) (hits + overlap ids ts) w3 = (w', Inr (lats', hits'))"
    by (auto split: sum.splits)
  have "overlap ids ts \<le> k"
    using overlap_le [of ids ts] Cons.prems(2) [of i ts] t(2) by simp
  moreover have "\<And>j ts. j \<in> set is \<Longrightarrow> truth j = Inr ts \<Longrightarrow> length ts \<le> k"
    using Cons.prems(2) by (meson list.set_intros(2))
  ultimately show ?case
    using Cons.IH [OF l] by (auto dest: append_prefixD)
qed

section \<open>Percentile indices\<close>

lemma flit_99: "\<bar>flit (99 / 100) - 99 / 100\<bar> \<le> 1 / 1000"
proof -
  have "(2 :: rat) powi (- 1022) \<le> 2 powi (- 1)"
    by (rule powi_mono) simp
  then have "\<bar>rnd (99 / 100) - 99 / 100\<bar> \<le> \<bar>99 / 100\<bar> * 2 powi (- 53)"
    by (intro rnd_error) simp
  also have "\<dots> \<le> 1 / 1000"
    by (simp add: power_int_minus)
  finally show ?thesis
    by (simp add: flit_def)
qed

lemma p99_value:
  assumes "0 < n"
  shows "of_nat n / 2 \<le> fmul (of_nat n) (flit (99 / 100))" "fmul (of_nat n) (flit (99 / 100)) < of_nat n"
proof -
  let ?c = "flit (99 / 100)" and ?n = "of_nat n :: rat"
  have n: "1 \<le> ?n"
    using assms by simp
  have c: "98 / 100 \<le> ?c" "?c \<le> 995 / 1000"
    using flit_99 by linarith+
  then have x: "?n * (98 / 100) \<le> ?n * ?c" "?n * ?c \<le> ?n * (995 / 1000)"
    using n by (intro mult_left_mono; simp)+
  then have pos: "98 / 100 \<le> ?n * ?c"
    using n by linarith
  have "(2 :: rat) powi (- 1022) \<le> 2 powi (- 1)"
    by (rule powi_mono) simp
  then have "\<bar>rnd (?n * ?c) - ?n * ?c\<bar> \<le> \<bar>?n * ?c\<bar> * 2 powi (- 53)"
    using pos by (intro rnd_error) simp
  also have "\<dots> \<le> \<bar>?n * ?c\<bar> * (1 / 1000)"
    by (intro mult_left_mono) (simp_all add: power_int_minus)
  finally have "\<bar>rnd (?n * ?c) - ?n * ?c\<bar> \<le> ?n * ?c * (1 / 1000)"
    using pos by simp
  then show "?n / 2 \<le> fmul ?n ?c" "fmul ?n ?c < ?n"
    using x n unfolding fmul_def by linarith+
qed

lemma p99_index_bounds: "0 < n \<Longrightarrow> n div 2 \<le> p99_index n \<and> p99_index n < n"
proof
  assume n: "0 < n"
  let ?v = "fmul (of_nat n) (flit (99 / 100)) :: rat"
  have v: "0 \<le> ?v"
    using p99_value(1) [OF n] by (rule order_trans [rotated]) simp
  have "of_int (int (n div 2)) \<le> ?v"
    using p99_value(1) [OF n] by (rule order_trans [rotated]) (simp add: of_nat_div_le_of_nat)
  then show "n div 2 \<le> p99_index n"
    using v by (simp add: p99_index_def ftrunc_def le_nat_iff le_floor_iff)
  have "\<lfloor>?v\<rfloor> < int n"
    using p99_value(2) [OF n] by (simp add: floor_less_iff)
  then show "p99_index n < n"
    using v n by (simp add: p99_index_def ftrunc_def nat_less_iff)
qed

text \<open>For the two thousand timed queries the index is 1980, although 0.99 is no double.\<close>

lemma rnd_numeral:
  assumes "2 powi e \<le> x" "x < 2 powi (e + 1)" "- 1022 \<le> e"
  shows "rnd x = of_int (half_even (x / 2 powi (e - 52))) * 2 powi (e - 52)"
proof -
  have "0 < x"
    using assms(1) by (rule less_le_trans [rotated]) simp
  moreover have "max (e - 52) (- 1074) = e - 52"
    using assms(3) by simp
  ultimately show ?thesis
    using expo_unique [OF assms(1,2)] by (simp add: rnd_def ulp_def)
qed

lemma flit_99_value: "flit (99 / 100) = 8917127262193582 / 2 ^ 53"
proof -
  have "rnd (99 / 100) = of_int (half_even (99 / 100 / 2 powi (- 1 - 52))) * 2 powi (- 1 - 52)"
    by (rule rnd_numeral) (simp_all add: power_int_minus)
  moreover have "half_even (99 / 100 * 9007199254740992) = 8917127262193582"
    by (rule half_even_nearest) simp_all
  ultimately show ?thesis
    by (simp add: flit_def power_int_minus)
qed

lemma p99_index_lat_n: "p99_index lat_n = 1980"
proof -
  have "rnd (2000 * (8917127262193582 / 2 ^ 53)) =
      of_int (half_even (2000 * (8917127262193582 / 2 ^ 53) / 2 powi (10 - 52))) * 2 powi (10 - 52)"
    by (rule rnd_numeral) (simp_all add: power_int_minus)
  moreover have "half_even (2000 * (8917127262193582 / 2 ^ 53) * 4398046511104) = 8708132091985920"
    by (rule half_even_nearest) simp_all
  ultimately have "rnd (2000 * (8917127262193582 / 2 ^ 53)) = 1980"
    by (simp add: power_int_minus)
  then show ?thesis
    by (simp add: p99_index_def lat_n_def flit_99_value fmul_def ftrunc_def)
qed

section \<open>The summary\<close>

lemma filter_sort_length: "length (filter P (sort xs)) = length (filter P (xs :: 'a :: linorder list))"
  by (simp add: filter_sort)

lemma sorted_rank:
  assumes "sorted s" "i < length s"
  shows "i + 1 \<le> length (filter (\<lambda>x. x \<le> s ! i) s)" "length s - i \<le> length (filter (\<lambda>x. s ! i \<le> x) s)"
proof -
  have "set (take (i + 1) s) \<subseteq> {x. x \<le> s ! i}"
    using assms by (auto simp: in_set_conv_nth sorted_iff_nth_mono)
  then have "filter (\<lambda>x. x \<le> s ! i) (take (i + 1) s) = take (i + 1) s"
    by (auto simp: filter_id_conv)
  then have "filter (\<lambda>x. x \<le> s ! i) s = take (i + 1) s @ filter (\<lambda>x. x \<le> s ! i) (drop (i + 1) s)"
    by (metis append_take_drop_id filter_append)
  then show "i + 1 \<le> length (filter (\<lambda>x. x \<le> s ! i) s)"
    using assms(2) by simp
  have "set (drop i s) \<subseteq> {x. s ! i \<le> x}"
    using assms by (auto simp: in_set_conv_nth sorted_iff_nth_mono)
  then have "filter (\<lambda>x. s ! i \<le> x) (drop i s) = drop i s"
    by (auto simp: filter_id_conv)
  then have "filter (\<lambda>x. s ! i \<le> x) s = filter (\<lambda>x. s ! i \<le> x) (take i s) @ drop i s"
    by (metis append_take_drop_id filter_append)
  then show "length s - i \<le> length (filter (\<lambda>x. s ! i \<le> x) s)"
    by simp
qed

lemma ratio_unit:
  assumes "hits \<le> d" "0 < d"
  shows "\<exists>r. fdiv (of_nat hits) (of_nat d) = Inr r \<and> 0 \<le> r \<and> r \<le> 1"
proof -
  have "(of_nat hits :: rat) / of_nat d \<le> 1"
    using assms by (simp add: divide_le_eq_1)
  then have "rnd (of_nat hits / of_nat d) \<le> rnd (of_nat 1)"
    using rnd_mono by simp
  also have "\<dots> = 1"
    using rnd_of_nat [of 1] by simp
  finally show ?thesis
    using assms(2) by (simp add: fdiv_def rnd_nonneg)
qed

lemma summarize_ok:
  assumes "lats \<noteq> []" "hits \<le> lat_n * knn"
  shows "\<exists>s. summarize py_sum hits lats = Inr s \<and> 0 \<le> ls_recall s \<and> ls_recall s \<le> 1 \<and>
    ls_p50 s = sort lats ! (length lats div 2) \<and> ls_p99 s = sort lats ! p99_index (length lats)"
proof -
  obtain r where "fdiv (of_nat hits) (of_nat (lat_n * knn)) = Inr r" "0 \<le> r" "r \<le> 1"
    using ratio_unit [OF assms(2)] by (auto simp: lat_n_def knn_def)
  moreover have "p99_index (length lats) < length lats" "length lats div 2 < length lats"
    using assms(1) p99_index_bounds [of "length lats"] by auto
  moreover have "sort lats \<noteq> []"
    using assms(1) by (metis length_sort length_0_conv)
  ultimately show ?thesis
    using assms(1) by (simp add: summarize_def Let_def row_at_def fdiv_def)
qed

section \<open>The worker\<close>

lemma burst_counts: "burst ask m c i n w = (w', Inr (i', n')) \<Longrightarrow> i' = i + c \<and> n' = n + c"
  by (induction ask m c i n w rule: burst.induct) (auto split: if_splits result_splits)

text \<open>Induction over the rounds of a worker that returns.\<close>

lemma worker_loop_induct [consumes 1, case_names stop error round]:
  assumes ret: "worker_loop clk ask m stop i n w = Some y"
    and stop: "\<And>i n w w1 t. wall_time clk w = (w1, t) \<Longrightarrow> \<not> t < stop \<Longrightarrow> P i n w (w1, Inr n)"
    and error: "\<And>i n w w1 t w2 e. wall_time clk w = (w1, t) \<Longrightarrow> burst ask m 16 i n w1 = (w2, Inl e) \<Longrightarrow> P i n w (w2, Inl e)"
    and round: "\<And>i n w w1 t w2 i2 n2 y. wall_time clk w = (w1, t) \<Longrightarrow> burst ask m 16 i n w1 = (w2, Inr (i2, n2)) \<Longrightarrow>
      P i2 n2 w2 y \<Longrightarrow> P i n w y"
  shows "P i n w y"
proof -
  have "c = clk \<longrightarrow> a = ask \<longrightarrow> k = m \<longrightarrow> s = stop \<longrightarrow> P i n w y" if "worker_loop c a k s i n w = Some y" for c a k s i n w y
  proof (rule worker_loop.raw_induct [OF _ that], intro impI, goal_cases)
    case (1 loop c a k s i n w y)
    obtain w1 t where t: "wall_time clk w = (w1, t)" by fastforce
    consider (late) "\<not> t < stop" "y = (w1, Inr n)"
      | (err) w2 e where "burst ask m 16 i n w1 = (w2, Inl e)" "y = (w2, Inl e)"
      | (more) w2 i2 n2 where "burst ask m 16 i n w1 = (w2, Inr (i2, n2))" "loop clk ask m stop i2 n2 w2 = Some y"
      using 1(2-6) t by (auto split: if_splits result_splits)
    then show ?case
      using stop [OF t] error [OF t] round [OF t] 1(1) by cases (blast, blast, metis)
  qed
  then show ?thesis using ret by blast
qed

lemma worker_loop_multiple:
  "worker_loop clk ask m stop i n w = Some y \<Longrightarrow> snd y = Inr n' \<Longrightarrow> \<exists>r. n' = n + 16 * r"
proof (induction rule: worker_loop_induct)
  case (round i n w w1 t w2 i2 n2 y)
  then obtain r where "n' = n2 + 16 * r" by blast
  then have "n' = n + 16 * (r + 1)"
    using burst_counts [OF round.hyps(2)] by simp
  then show ?case by blast
qed simp_all

text \<open>The requests a worker makes, recorded beside the world.\<close>

definition log_ask :: "'w engine \<Rightarrow> ('w \<times> nat list) engine" where
  "log_ask ask wl j = (case ask (fst wl) j of (w', out) \<Rightarrow> ((w', snd wl @ [j]), out))"

definition log_clock :: "'w clock \<Rightarrow> ('w \<times> nat list) clock" where
  "log_clock clk =
     \<lparr>perf_counter = (\<lambda>wl. case perf_counter clk (fst wl) of (w', t) \<Rightarrow> ((w', snd wl), t)),
      wall_time = (\<lambda>wl. case wall_time clk (fst wl) of (w', t) \<Rightarrow> ((w', snd wl), t))\<rparr>"

definition round_robin :: "nat \<Rightarrow> nat \<Rightarrow> nat \<Rightarrow> nat list" where
  "round_robin m i c = map (\<lambda>j. j mod m) [i..<i + c]"

lemma round_robin_append: "round_robin m i (a + b) = round_robin m i a @ round_robin m (i + a) b"
  using upt_add_eq_append [of i "i + a" b] by (simp add: round_robin_def add.assoc)

lemma burst_log:
  "burst (log_ask ask) m c i n wl = (wl', Inr (i', n')) \<Longrightarrow> snd wl' = snd wl @ round_robin m i c"
proof (induction "log_ask ask" m c i n wl rule: burst.induct)
  case (1 m i n w)
  then show ?case by (simp add: round_robin_def)
next
  case (2 m c i n w)
  obtain w1 out where a: "ask (fst w) (i mod m) = (w1, out)" by fastforce
  with "2.prems" have m: "m \<noteq> 0" and b: "burst (log_ask ask) m c (i + 1) (n + 1) (w1, snd w @ [i mod m]) = (wl', Inr (i', n'))"
    by (auto simp: log_ask_def split: if_splits sum.splits)
  obtain ids where "log_ask ask w (i mod m) = ((w1, snd w @ [i mod m]), Inr ids)"
    using "2.prems" a by (auto simp: log_ask_def split: if_splits sum.splits)
  from "2.hyps" [OF m this [symmetric] refl b] round_robin_append [of m i 1 c] show ?case
    by (simp add: round_robin_def)
qed

lemma worker_loop_log:
  "worker_loop (log_clock clk) (log_ask ask) m stop i n wl = Some y \<Longrightarrow> snd y = Inr n' \<Longrightarrow>
    n \<le> n' \<and> snd (fst y) = snd wl @ round_robin m i (n' - n)"
proof (induction rule: worker_loop_induct)
  case (stop i n wl w1 t)
  then show ?case by (auto simp: log_clock_def round_robin_def split: prod.splits)
next
  case (error i n wl w1 t w2 e)
  then show ?case by simp
next
  case (round i n wl w1 t w2 i2 n2 y)
  have ih: "n2 \<le> n' \<and> snd (fst y) = snd w2 @ round_robin m i2 (n' - n2)"
    using round by blast
  have b: "i2 = i + 16" "n2 = n + 16" "snd w2 = snd w1 @ round_robin m i 16"
    using burst_counts [OF round.hyps(2)] burst_log [OF round.hyps(2)] by simp_all
  have "snd w1 = snd wl"
    using round.hyps(1) by (auto simp: log_clock_def split: prod.splits)
  moreover have "n' - n = 16 + (n' - (n + 16))"
    using ih b by simp
  ultimately show ?case
    using ih b round_robin_append [of m i 16 "n' - (n + 16)"] by simp
qed

section \<open>A worker returns\<close>

text \<open>
  The contract of the wall clock: it shows at least the time that has passed, and an answer takes a
  tick. A worker then returns, with its count or with the exception of a query.
\<close>

locale running_clock =
  fixes clk :: "'w clock" and ask :: "'w engine" and ticks :: "'w \<Rightarrow> nat" and tick :: rat
  assumes tick_pos: "0 < tick"
    and wall: "wall_time clk w = (w1, t) \<Longrightarrow> of_nat (ticks w) * tick \<le> t \<and> ticks w \<le> ticks w1"
    and answer: "ask w i = (w1, out) \<Longrightarrow> ticks w < ticks w1"
begin

lemma burst_ticks: "burst ask m c i n w = (w1, Inr out) \<Longrightarrow> ticks w + c \<le> ticks w1"
proof (induction c arbitrary: i n w)
  case 0
  then show ?case by simp
next
  case (Suc c)
  then obtain w2 ids where a: "ask w (i mod m) = (w2, Inr ids)" and "burst ask m c (i + 1) (n + 1) w2 = (w1, Inr out)"
    by (auto split: if_splits result_splits)
  with Suc.IH show ?case
    using answer [OF a] by fastforce
qed

lemma worker_loop_returns: "\<exists>y. worker_loop clk ask m stop i n w = Some y"
proof (induction "nat \<lceil>stop / tick\<rceil> - ticks w" arbitrary: i n w rule: less_induct)
  case less
  obtain w1 t where t: "wall_time clk w = (w1, t)" by fastforce
  show ?case
  proof (cases "t < stop")
    case False
    with t show ?thesis by (subst worker_loop.simps) simp
  next
    case True
    obtain w2 out where b: "burst ask m 16 i n w1 = (w2, out)" by fastforce
    show ?thesis
    proof (cases out)
      case (Inl e)
      with t b True show ?thesis by (subst worker_loop.simps) simp
    next
      case (Inr p)
      obtain i2 n2 where p: "p = (i2, n2)" by fastforce
      have "of_nat (ticks w) * tick < stop"
        using wall [OF t] True by simp
      then have "of_int (int (ticks w)) < stop / tick"
        using tick_pos by (simp add: pos_less_divide_eq)
      then have "ticks w < nat \<lceil>stop / tick\<rceil>"
        by (simp add: zless_nat_eq_int_zless less_ceiling_iff)
      moreover have "ticks w < ticks w2"
        using wall [OF t] burst_ticks [of m 16 i n w1 w2 p] b Inr by simp
      ultimately obtain y where "worker_loop clk ask m stop i2 n2 w2 = Some y"
        using less [of w2] by fastforce
      with t b True Inr p show ?thesis by (subst worker_loop.simps) simp
    qed
  qed
qed

lemma qps_worker_returns: "\<exists>y. qps_worker clk ask dur m wid w = Some y"
  using worker_loop_returns by (simp add: qps_worker_def split: prod.split)

end

end
