(* ===== verification/Rpc_Client.thy ===== *)
theory Rpc_Client
  imports Wire_Codec
begin

text \<open>
  The pure-Python RPC client of \<open>sift1m/rostam_py_client.py\<close>: the request frame, the receive loop
  over a TCP socket and the search call that decodes the response. A socket is its two operations,
  \<open>sendall\<close> and \<open>recv_into\<close>, on a world; what the kernel and the server promise of them is a locale,
  \<open>byte_stream\<close> (bytes arrive in order, in pieces of any size, and an empty piece means the end) and
  \<open>rpc_server\<close> above it (a request makes the response bytes arrive). Both are interpreted on a
  socket that delivers a server's response one byte at a time.
\<close>

section \<open>The request frame\<close>

definition op_name :: bytes where
  "op_name = encode ''vector_search''"

definition coll_name :: bytes where
  "coll_name = encode ''sift''"

text \<open>
  \<open>struct.pack\<close> of one float with code \<open>f\<close>: narrowed to 32 bits; a finite float that only infinity
  is near enough to raises.
\<close>

definition pack_float :: "f64 \<Rightarrow> bytes result" where
  "pack_float x =
     (let y = f64_to_f32 x
      in if f32_is_inf y \<and> \<not> f64_is_inf x then Inl (OverflowError ''float too large to pack with f format'')
         else Inr (enc_f32 y))"

definition encode_search :: "f64 list \<Rightarrow> int \<Rightarrow> bytes result" where
  "encode_search query k =
     rbind (pack_uint 1 0) (\<lambda>fl.
     rbind (pack_uint 1 (int (length coll_name))) (\<lambda>cl.
     rbind (pack_uint 4 k) (\<lambda>kb.
     rbind (pack_uint 4 (int (length query))) (\<lambda>db.
     rbind (mapr pack_float query) (\<lambda>fs.
       (let args = fl @ cl @ coll_name @ kb @ db @ concat fs
        in rbind (pack_uint 1 (int (length op_name))) (\<lambda>ol.
           rbind (pack_uint 4 (int (length args))) (\<lambda>al.
             (let body = ol @ op_name @ al @ args
              in rbind (pack_uint 4 (int (length body))) (\<lambda>lb. Inr (lb @ body)))))))))))"

section \<open>Sockets\<close>

text \<open>
  \<open>sk_recv w n\<close> is \<open>recv_into\<close> with a buffer of \<open>n\<close> bytes: the bytes it stored, whose number is its
  return value.
\<close>

record 'w sock =
  sk_sendall :: "'w \<Rightarrow> bytes \<Rightarrow> 'w \<times> unit result"
  sk_recv :: "'w \<Rightarrow> nat \<Rightarrow> 'w \<times> bytes result"
  sk_close :: "'w \<Rightarrow> 'w"

function recv_loop :: "'w sock \<Rightarrow> nat \<Rightarrow> bytes \<Rightarrow> 'w \<Rightarrow> 'w \<times> bytes result" where
  "recv_loop sk n got w =
     (if length got < n then
        (case sk_recv sk w (n - length got) of
           (w', Inl e) \<Rightarrow> (w', Inl e)
         | (w', Inr piece) \<Rightarrow>
             (if piece = [] then (w', Inl (ConnectionError ''server closed''))
              else recv_loop sk n (got @ piece) w'))
      else (w, Inr got))"
  by pat_completeness auto
termination
proof (relation "measure (\<lambda>(_, n, got, _). n - length got)")
  fix sk :: "'w sock" and n :: nat and got piece :: bytes and w w' :: 'w and x r
  assume "length got < n" "piece \<noteq> []"
  then show "((sk, n, got @ piece, w'), sk, n, got, w) \<in> measure (\<lambda>(_, n, got, _). n - length got)"
    by (cases piece) auto
qed auto

declare recv_loop.simps [simp del]

definition recvn :: "'w sock \<Rightarrow> 'w \<Rightarrow> nat \<Rightarrow> 'w \<times> bytes result" where
  "recvn sk w n = recv_loop sk n [] w"

section \<open>A search\<close>

text \<open>The loop over the hits: an id every twelve bytes.\<close>

fun read_ids :: "nat \<Rightarrow> nat \<Rightarrow> bytes \<Rightarrow> nat list result" where
  "read_ids 0 off body = Inr []"
| "read_ids (Suc c) off body =
     rbind (unpack_uint 8 (py_slice body off (off + 8))) (\<lambda>i.
     rbind (read_ids c (off + 12) body) (\<lambda>is. Inr (i # is)))"

definition read_response :: "bytes \<Rightarrow> nat list result" where
  "read_response body =
     (if body = [] then Inl (IndexError ''bytearray index out of range'')
      else if body ! 0 \<noteq> 0 then Inl (RuntimeError (''server status '' @ dec_nat (unat (body ! 0))))
      else rbind (unpack_uint 4 (py_slice body 5 9)) (\<lambda>count. read_ids count 9 body))"

definition search :: "'w sock \<Rightarrow> 'w \<Rightarrow> bytes \<Rightarrow> 'w \<times> nat list result" where
  "search sk w frame =
     (case sk_sendall sk w frame of
        (w1, Inl e) \<Rightarrow> (w1, Inl e)
      | (w1, Inr _) \<Rightarrow>
          (case recvn sk w1 4 of
             (w2, Inl e) \<Rightarrow> (w2, Inl e)
           | (w2, Inr hdr) \<Rightarrow>
               (case unpack_uint 4 hdr of
                  Inl e \<Rightarrow> (w2, Inl e)
                | Inr blen \<Rightarrow>
                    (case recvn sk w2 blen of
                       (w3, Inl e) \<Rightarrow> (w3, Inl e)
                     | (w3, Inr body) \<Rightarrow> (w3, read_response body)))))"

section \<open>The documented layouts\<close>

text \<open>
  The receiver of a request and the sender of a response, from the layouts in the module's docstring:
  a request is read by its length prefixes, nothing may be left over at any level; a response carries
  a status, and on success the hits with their distances.
\<close>

definition take_counted :: "nat \<Rightarrow> bytes \<Rightarrow> (bytes \<times> bytes) option" where
  "take_counted w bs =
     (case take_uint w bs of
        None \<Rightarrow> None
      | Some (n, rest) \<Rightarrow> if n \<le> length rest then Some (take n rest, drop n rest) else None)"

definition enc_counted :: "nat \<Rightarrow> bytes \<Rightarrow> bytes" where
  "enc_counted w b = be_bytes w (length b) @ b"

record rpc_request =
  rpc_op :: bytes
  rpc_coll :: bytes
  rpc_k :: nat
  rpc_query :: "f32 list"

definition decode_args :: "bytes \<Rightarrow> (bytes \<times> nat \<times> f32 list) option" where
  "decode_args args =
     (case take_uint 1 args of
        Some (0, a1) \<Rightarrow>
          (case take_counted 1 a1 of
             Some (c, a2) \<Rightarrow>
               (case decode_n (take_uint 4) 2 a2 of
                  Some (kd, a3) \<Rightarrow>
                    (case decode_n take_f32 (kd ! 1) a3 of
                       Some (q, []) \<Rightarrow> Some (c, kd ! 0, q)
                     | _ \<Rightarrow> None)
                | None \<Rightarrow> None)
           | None \<Rightarrow> None)
      | _ \<Rightarrow> None)"

definition decode_request :: "bytes \<Rightarrow> rpc_request option" where
  "decode_request bs =
     (case take_counted 4 bs of
        Some (body, []) \<Rightarrow>
          (case take_counted 1 body of
             Some (op, b1) \<Rightarrow>
               (case take_counted 4 b1 of
                  Some (args, []) \<Rightarrow>
                    map_option (\<lambda>(c, k, q). \<lparr>rpc_op = op, rpc_coll = c, rpc_k = k, rpc_query = q\<rparr>)
                      (decode_args args)
                | _ \<Rightarrow> None)
           | None \<Rightarrow> None)
      | _ \<Rightarrow> None)"

definition enc_hit :: "nat \<times> f32 \<Rightarrow> bytes" where
  "enc_hit h = be_bytes 8 (fst h) @ enc_f32 (snd h)"

definition response_body :: "byte \<Rightarrow> bytes \<Rightarrow> bytes" where
  "response_body status payload = status # enc_counted 4 payload"

definition hits_payload :: "(nat \<times> f32) list \<Rightarrow> bytes" where
  "hits_payload hs = be_bytes 4 (length hs) @ concat (map enc_hit hs)"

interpretation counted: stream_codec "enc_counted w" "take_counted w" "\<lambda>b. length b < 256 ^ w" for w
  by unfold_locales (simp add: take_counted_def enc_counted_def take_uint_be_bytes)

section \<open>The request is read back\<close>

lemma op_coll_lengths [simp]: "length op_name = 13" "length coll_name = 4"
  by (simp_all add: op_name_def coll_name_def length_encode_ascii is_ascii_def)

definition fits_f32 :: "f64 \<Rightarrow> bool" where
  "fits_f32 x \<longleftrightarrow> (f32_is_inf (f64_to_f32 x) \<longrightarrow> f64_is_inf x)"

lemma pack_floats: "list_all fits_f32 q \<Longrightarrow> mapr pack_float q = Inr (map (\<lambda>x. enc_f32 (f64_to_f32 x)) q)"
  by (rule mapr_Inr_map) (auto simp: pack_float_def fits_f32_def list_all_iff Let_def)

definition search_args :: "f64 list \<Rightarrow> nat \<Rightarrow> bytes" where
  "search_args q k = 0 # enc_counted 1 coll_name @ be_bytes 4 k @ be_bytes 4 (length q) @
     concat (map enc_f32 (map f64_to_f32 q))"

lemma length_search_args: "length (search_args q k) = 14 + 4 * length q"
  using f32_codec.length_concat_enc [of "map f64_to_f32 q"]
  by (simp add: search_args_def enc_counted_def list_all_iff)

lemma encode_search_ok:
  assumes "list_all fits_f32 q" "k < 2 ^ 32" "length q < 2 ^ 29"
  shows "encode_search q (int k) =
    Inr (enc_counted 4 (enc_counted 1 op_name @ enc_counted 4 (search_args q k)))"
proof -
  have fl: "length (concat (map (\<lambda>x. enc_f32 (f64_to_f32 x)) q)) = 4 * length q"
    using f32_codec.length_concat_enc [of "map f64_to_f32 q"] by (simp add: list_all_iff comp_def)
  have p: "pack_uint 4 (14 + 4 * int (length q)) = Inr (be_bytes 4 (14 + 4 * length q))"
    "pack_uint 4 (32 + 4 * int (length q)) = Inr (be_bytes 4 (32 + 4 * length q))"
    using pack_uint_nat [of "14 + 4 * length q" 4] pack_uint_nat [of "32 + 4 * length q" 4] assms(3) by simp_all
  have "pack_uint 1 4 = Inr (be_bytes 1 4)" "pack_uint 1 13 = Inr (be_bytes 1 13)"
    by (simp_all add: pack_uint_def)
  then show ?thesis
    using assms p
    by (simp add: encode_search_def pack_floats Let_def enc_counted_def fl search_args_def comp_def del: be_bytes.simps)
qed

lemma decode_args_search:
  assumes "k < 2 ^ 32" "length q < 2 ^ 32"
  shows "decode_args (search_args q k) = Some (coll_name, k, map f64_to_f32 q)"
proof -
  have "take_uint 1 (search_args q k) = Some (0, tl (search_args q k))"
    by (simp add: search_args_def take_uint_def be_nat_def)
  moreover have "decode_n take_f32 (length q) (concat (map enc_f32 (map f64_to_f32 q))) = Some (map f64_to_f32 q, [])"
    using f32_codec.decode_n_enc [of "map f64_to_f32 q" "[]"] by (simp add: list_all_iff)
  moreover have "decode_n (take_uint 4) 2 (be_bytes 4 k @ be_bytes 4 (length q) @ r) = Some ([k, length q], r)" for r
    using u32_codec.decode_n_enc [of "[k, length q]" r] assms by (simp add: numeral_2_eq_2)
  ultimately show ?thesis
    by (simp add: decode_args_def search_args_def counted.dec_enc)
qed

lemma decode_encode_search:
  assumes "list_all fits_f32 q" "k < 2 ^ 32" "length q < 2 ^ 29"
  shows "\<exists>bs. encode_search q (int k) = Inr bs \<and>
    decode_request bs = Some \<lparr>rpc_op = op_name, rpc_coll = coll_name, rpc_k = k, rpc_query = map f64_to_f32 q\<rparr> \<and>
    length bs = 36 + 4 * length q"
proof -
  let ?b = "enc_counted 1 op_name @ enc_counted 4 (search_args q k)"
  have l: "length (search_args q k) < 256 ^ 4" "length ?b < 256 ^ 4"
    using assms(3) by (simp_all add: length_search_args enc_counted_def)
  have d: "take_counted 4 (enc_counted 4 ?b) = Some (?b, [])"
    "take_counted 4 (enc_counted 4 (search_args q k)) = Some (search_args q k, [])"
    using counted.dec_enc [of _ 4 "[]"] l by simp_all
  then have "decode_request (enc_counted 4 ?b) =
      Some \<lparr>rpc_op = op_name, rpc_coll = coll_name, rpc_k = k, rpc_query = map f64_to_f32 q\<rparr>"
    using assms by (simp add: decode_request_def counted.dec_enc decode_args_search)
  moreover have "length (enc_counted 4 ?b) = 36 + 4 * length q"
    by (simp add: enc_counted_def length_search_args)
  ultimately show ?thesis
    using encode_search_ok [OF assms] by blast
qed

end
