(* ===== verification/Rpc_Socket.thy ===== *)
theory Rpc_Socket
  imports Rpc_Client
begin

text \<open>
  What the search call of \<open>sift1m/rostam_py_client.py\<close> relies on. \<open>byte_stream\<close> is the contract of a
  connected TCP socket: \<open>pending\<close> are the bytes the peer has sent or will send before it closes, and
  one receive delivers a non-empty piece of them as long as there are any. The receive loop then
  yields exactly the bytes asked for, however they are cut into pieces. \<open>rpc_server\<close> adds a peer
  that answers every request, and a search then returns the ids of the answer and leaves the
  stream where the next answer will start.
\<close>

section \<open>A connected socket\<close>

locale byte_stream =
  fixes sk :: "'w sock" and pending :: "'w \<Rightarrow> bytes"
  assumes recv: "0 < n \<Longrightarrow> \<exists>w' piece. sk_recv sk w n = (w', Inr piece) \<and> length piece \<le> n \<and>
    pending w = piece @ pending w' \<and> (piece = [] \<longrightarrow> pending w = [])"
begin

lemma recv_loop_enough:
  assumes "n - length got \<le> length (pending w)" "length got \<le> n"
  shows "\<exists>w'. recv_loop sk n got w = (w', Inr (got @ take (n - length got) (pending w))) \<and>
    pending w' = drop (n - length got) (pending w)"
  using assms
proof (induction "n - length got" arbitrary: got w rule: less_induct)
  case less
  show ?case
  proof (cases "length got < n")
    case True
    then obtain w' piece where r: "sk_recv sk w (n - length got) = (w', Inr piece)" "length piece \<le> n - length got"
      "pending w = piece @ pending w'" "piece \<noteq> []"
      using recv [of "n - length got" w] less.prems by fastforce
    have sm: "n - length (got @ piece) < n - length got" "length (got @ piece) \<le> n"
      using True r(2,4) by (cases piece; simp)+
    moreover have "n - length (got @ piece) \<le> length (pending w')"
      using less.prems r(3) by simp
    ultimately obtain w'' where "recv_loop sk n (got @ piece) w' =
        (w'', Inr ((got @ piece) @ take (n - length (got @ piece)) (pending w')))"
      "pending w'' = drop (n - length (got @ piece)) (pending w')"
      using less.hyps by blast
    then show ?thesis
      using True r by (simp add: recv_loop.simps [of sk n got])
  next
    case False
    with less.prems show ?thesis
      by (simp add: recv_loop.simps)
  qed
qed

lemma recv_loop_short:
  assumes "length got + length (pending w) < n"
  shows "\<exists>w'. recv_loop sk n got w = (w', Inl (ConnectionError ''server closed''))"
  using assms
proof (induction "n - length got" arbitrary: got w rule: less_induct)
  case less
  then obtain w' piece where r: "sk_recv sk w (n - length got) = (w', Inr piece)"
    "pending w = piece @ pending w'"
    using recv [of "n - length got" w] by fastforce
  show ?case
  proof (cases "piece = []")
    case True
    with less.prems r show ?thesis
      by (simp add: recv_loop.simps)
  next
    case False
    then have "n - length (got @ piece) < n - length got"
      using less.prems by (cases piece) simp_all
    moreover have "length (got @ piece) + length (pending w') < n"
      using less.prems r(2) by simp
    ultimately obtain w'' where "recv_loop sk n (got @ piece) w' = (w'', Inl (ConnectionError ''server closed''))"
      using less.hyps by blast
    with less.prems r False show ?thesis
      by (simp add: recv_loop.simps [of sk n got])
  qed
qed

lemma recvn_enough:
  "n \<le> length (pending w) \<Longrightarrow> \<exists>w'. recvn sk w n = (w', Inr (take n (pending w))) \<and> pending w' = drop n (pending w)"
  using recv_loop_enough [of n "[]" w] by (simp add: recvn_def)

lemma recvn_short:
  "length (pending w) < n \<Longrightarrow> \<exists>w'. recvn sk w n = (w', Inl (ConnectionError ''server closed''))"
  using recv_loop_short [of "[]" w n] by (simp add: recvn_def)

end

section \<open>A peer that answers\<close>

locale rpc_server = byte_stream sk pending
  for sk :: "'w sock" and pending +
  fixes reply :: "'w \<Rightarrow> bytes \<Rightarrow> bytes"
  assumes sendall: "\<exists>w'. sk_sendall sk w f = (w', Inr ()) \<and> pending w' = pending w @ reply w f"
begin

lemma search_body:
  assumes "pending w = []" "reply w f = enc_counted 4 body @ rest" "length body < 2 ^ 32"
  shows "\<exists>w'. search sk w f = (w', read_response body) \<and> pending w' = rest"
proof -
  obtain w1 where w1: "sk_sendall sk w f = (w1, Inr ())" "pending w1 = enc_counted 4 body @ rest"
    using sendall [of w f] assms(1,2) by auto
  obtain w2 where w2: "recvn sk w1 4 = (w2, Inr (be_bytes 4 (length body)))" "pending w2 = body @ rest"
    using recvn_enough [of 4 w1] w1(2) by (auto simp: enc_counted_def)
  obtain w3 where "recvn sk w2 (length body) = (w3, Inr body)" "pending w3 = rest"
    using recvn_enough [of "length body" w2] w2(2) by auto
  moreover have "unpack_uint 4 (be_bytes 4 (length body)) = Inr (length body)"
    using assms(3) by (simp add: unpack_pack)
  ultimately show ?thesis
    using w1 w2 by (simp add: search_def)
qed

lemma search_closed:
  assumes "pending w = []" "length (reply w f) < 4 \<or> (\<exists>n. reply w f = be_bytes 4 n @ rest \<and> length rest < n \<and> n < 2 ^ 32)"
  shows "\<exists>w'. search sk w f = (w', Inl (ConnectionError ''server closed''))"
proof -
  obtain w1 where w1: "sk_sendall sk w f = (w1, Inr ())" "pending w1 = reply w f"
    using sendall [of w f] assms(1) by auto
  from assms(2) show ?thesis
  proof
    assume "length (reply w f) < 4"
    then obtain w2 where "recvn sk w1 4 = (w2, Inl (ConnectionError ''server closed''))"
      using recvn_short [of w1 4] w1(2) by auto
    with w1 show ?thesis by (simp add: search_def)
  next
    assume "\<exists>n. reply w f = be_bytes 4 n @ rest \<and> length rest < n \<and> n < 2 ^ 32"
    then obtain n where n: "reply w f = be_bytes 4 n @ rest" "length rest < n" "n < 2 ^ 32"
      by blast
    obtain w2 where w2: "recvn sk w1 4 = (w2, Inr (be_bytes 4 n))" "pending w2 = rest"
      using recvn_enough [of 4 w1] w1(2) n(1) by auto
    obtain w3 where "recvn sk w2 n = (w3, Inl (ConnectionError ''server closed''))"
      using recvn_short [of w2 n] w2(2) n(2) by auto
    with w1 w2 n(3) show ?thesis
      by (simp add: search_def unpack_pack)
  qed
qed

end

section \<open>Reading a response\<close>

lemma length_enc_hit [simp]: "length (enc_hit h) = 12"
  by (simp add: enc_hit_def enc_f32_def)

lemma read_ids_hits:
  assumes "list_all (\<lambda>h. fst h < 2 ^ 64) hs" "off = length pre"
  shows "read_ids (length hs) off (pre @ concat (map enc_hit hs)) = Inr (map fst hs)"
  using assms
proof (induction hs arbitrary: pre off)
  case Nil
  then show ?case by simp
next
  case (Cons h hs)
  have "py_slice (pre @ enc_hit h @ concat (map enc_hit hs)) off (off + 8) = be_bytes 8 (fst h)"
    using Cons.prems(2) by (simp add: py_slice_def enc_hit_def)
  moreover have "read_ids (length hs) (off + 12) ((pre @ enc_hit h) @ concat (map enc_hit hs)) = Inr (map fst hs)"
    using Cons.IH [of "off + 12" "pre @ enc_hit h"] Cons.prems by simp
  ultimately show ?case
    using Cons.prems(1) by (simp add: unpack_pack)
qed

lemma read_response_hits:
  assumes "length hs < 2 ^ 32" "list_all (\<lambda>h. fst h < 2 ^ 64) hs"
  shows "read_response (response_body 0 (hits_payload hs)) = Inr (map fst hs)"
proof -
  let ?pre = "0 # be_bytes 4 (length (hits_payload hs)) @ be_bytes 4 (length hs)"
  have b: "response_body 0 (hits_payload hs) = ?pre @ concat (map enc_hit hs)"
    by (simp add: response_body_def enc_counted_def hits_payload_def)
  have "py_slice (?pre @ concat (map enc_hit hs)) 5 9 = be_bytes 4 (length hs)"
    using py_slice_middle [of "0 # be_bytes 4 (length (hits_payload hs))" 5 "be_bytes 4 (length hs)" 9] by simp
  moreover have "read_ids (length hs) 9 (?pre @ concat (map enc_hit hs)) = Inr (map fst hs)"
    using read_ids_hits [OF assms(2), of 9 ?pre] by simp
  ultimately show ?thesis
    using assms(1) unfolding b by (simp add: read_response_def unpack_pack)
qed

lemma read_response_status:
  "s \<noteq> 0 \<Longrightarrow> read_response (response_body s payload) = Inl (RuntimeError (''server status '' @ dec_nat (unat s)))"
  by (simp add: read_response_def response_body_def)

lemma length_response_body: "length (response_body s p) = 5 + length p"
  by (simp add: response_body_def enc_counted_def)

lemma length_hits_payload: "length (hits_payload hs) = 4 + 12 * length hs"
proof -
  have "length (concat (map enc_hit hs)) = 12 * length hs"
    by (induction hs) simp_all
  then show ?thesis by (simp add: hits_payload_def)
qed


text \<open>A body too short for the hits it counts is an error, never a shorter or made-up answer.\<close>

lemma read_ids_total:
  "read_ids c off body =
     (if c = 0 \<or> off + 12 * (c - 1) + 8 \<le> length body
      then Inr (map (\<lambda>j. be_nat (py_slice body (off + 12 * j) (off + 12 * j + 8))) [0..<c])
      else Inl (StructError ''unpack requires a buffer of the format's size''))"
proof (induction c arbitrary: off)
  case 0
  then show ?case by simp
next
  case (Suc c)
  have sl: "length (py_slice body off (off + 8)) = 8 \<longleftrightarrow> off + 8 \<le> length body"
    by (auto simp: min_def)
  have up: "map (\<lambda>j. be_nat (py_slice body (off + 12 * j) (off + 12 * j + 8))) [0..<Suc c] =
      be_nat (py_slice body off (off + 8)) #
      map (\<lambda>j. be_nat (py_slice body (off + 12 + 12 * j) (off + 12 + 12 * j + 8))) [0..<c]"
    by (simp add: upt_conv_Cons map_Suc_upt [symmetric] comp_def add.assoc del: upt_Suc)
  show ?case
  proof (cases "off + 8 \<le> length body")
    case True
    then have "unpack_uint 8 (py_slice body off (off + 8)) = Inr (be_nat (py_slice body off (off + 8)))"
      using sl by (simp add: unpack_uint_def)
    then show ?thesis
      using Suc.IH [of "off + 12"] True unfolding up by (cases c) (auto simp del: upt_Suc)
  next
    case False
    then show ?thesis
      using sl by (simp add: unpack_uint_def)
  qed
qed

section \<open>Searching a server\<close>

context rpc_server
begin

lemma search_hits:
  assumes "pending w = []" "reply w f = enc_counted 4 (response_body 0 (hits_payload hs)) @ rest"
    and "12 * length hs < 2 ^ 32 - 9" "list_all (\<lambda>h. fst h < 2 ^ 64) hs"
  shows "\<exists>w'. search sk w f = (w', Inr (map fst hs)) \<and> pending w' = rest"
  using search_body [OF assms(1,2)] assms(3,4) read_response_hits [of hs]
  by (simp add: length_response_body length_hits_payload)

lemma search_status:
  assumes "pending w = []" "reply w f = enc_counted 4 (response_body s payload)" "s \<noteq> 0" "length payload < 2 ^ 31"
  shows "\<exists>w'. search sk w f = (w', Inl (RuntimeError (''server status '' @ dec_nat (unat s)))) \<and> pending w' = []"
  using search_body [of w f "response_body s payload" "[]"] assms
  by (simp add: length_response_body read_response_status)

end

section \<open>A socket that delivers single bytes\<close>

text \<open>
  The world is the pieces in flight. A request makes the response of the server function appear, cut
  into single bytes, the worst case for the receive loop.
\<close>

definition seg_recv :: "bytes list \<Rightarrow> nat \<Rightarrow> bytes list \<times> bytes result" where
  "seg_recv w n = (case dropWhile (\<lambda>p. p = []) w of
                     [] \<Rightarrow> ([], Inr [])
                   | p # ps \<Rightarrow> (drop n p # ps, Inr (take n p)))"

definition seg_sock :: "(bytes \<Rightarrow> bytes) \<Rightarrow> bytes list sock" where
  "seg_sock srv = \<lparr>sk_sendall = (\<lambda>w f. (w @ map (\<lambda>b. [b]) (srv f), Inr ())), sk_recv = seg_recv, sk_close = (\<lambda>_. [])\<rparr>"

lemma concat_dropWhile_Nil: "concat (dropWhile (\<lambda>p. p = []) w) = concat w"
  by (induction w) auto

interpretation seg: rpc_server "seg_sock srv" concat "\<lambda>_. srv" for srv
proof unfold_locales
  fix n :: nat and w :: "bytes list"
  assume n: "0 < n"
  show "\<exists>w' piece. sk_recv (seg_sock srv) w n = (w', Inr piece) \<and> length piece \<le> n \<and>
      concat w = piece @ concat w' \<and> (piece = [] \<longrightarrow> concat w = [])"
  proof (cases "dropWhile (\<lambda>p. p = []) w")
    case Nil
    then have "sk_recv (seg_sock srv) w n = ([], Inr [])" "concat w = []"
      using concat_dropWhile_Nil [of w] by (simp_all add: seg_sock_def seg_recv_def del: dropWhile_eq_Nil_conv)
    then show ?thesis by simp
  next
    case (Cons p ps)
    then have "p \<noteq> []"
      by (auto simp: dropWhile_eq_Cons_conv)
    moreover have "concat w = p @ concat ps"
      using concat_dropWhile_Nil [of w] Cons by simp
    then have "concat w = take n p @ concat (drop n p # ps)"
      by simp
    moreover have "sk_recv (seg_sock srv) w n = (drop n p # ps, Inr (take n p))"
      using Cons by (simp add: seg_sock_def seg_recv_def)
    ultimately show ?thesis
      using n by (intro exI [of _ "drop n p # ps"] exI [of _ "take n p"]) simp
  qed
next
  fix w f
  show "\<exists>w'. sk_sendall (seg_sock srv) w f = (w', Inr ()) \<and> concat w' = concat w @ srv f"
    by (simp add: seg_sock_def)
qed

end
