(* ===== verification/Svg_Text.thy ===== *)
theory Svg_Text
  imports Py_Float Py_Text
begin

text \<open>
  Text of the SVG files that the chart generators write: the escaping of \<open>esc\<close> (the same in
  \<open>netkv/charts/mkcharts.py\<close> and, after \<open>str\<close>, in \<open>vectordbbench/charts/make_charts.py\<close>) and Python's number formats
  \<open>.1f\<close> and \<open>g\<close>. Text is its UTF-8 encoding, one character per byte, as it is written to the files.
\<close>

section \<open>Escaping\<close>

definition esc :: "string \<Rightarrow> string" where
  "esc s =
     replace_char (CHR ''>'') ''&gt;'' (replace_char (CHR ''<'') ''&lt;'' (replace_char (CHR ''&'') ''&amp;'' s))"

text \<open>What an XML reader makes of the three entities.\<close>

function unesc :: "string \<Rightarrow> string" where
  "unesc s =
     (case s of
        [] \<Rightarrow> []
      | c # cs \<Rightarrow>
          (if c = CHR ''&'' \<and> take 4 cs = ''amp;'' then CHR ''&'' # unesc (drop 4 cs)
           else if c = CHR ''&'' \<and> take 3 cs = ''lt;'' then CHR ''<'' # unesc (drop 3 cs)
           else if c = CHR ''&'' \<and> take 3 cs = ''gt;'' then CHR ''>'' # unesc (drop 3 cs)
           else c # unesc cs))"
  by pat_completeness auto
termination
  by (relation "measure length") auto

declare unesc.simps [simp del]

definition esc_char :: "char \<Rightarrow> string" where
  "esc_char c =
     (if c = CHR ''&'' then ''&amp;'' else if c = CHR ''<'' then ''&lt;'' else if c = CHR ''>'' then ''&gt;'' else [c])"

lemma replace_char_append: "replace_char c t (a @ b) = replace_char c t a @ replace_char c t b"
  by (simp add: replace_char_def)

lemma esc_append: "esc (a @ b) = esc a @ esc b"
  by (simp add: esc_def replace_char_append)

lemma esc_Nil [simp]: "esc [] = []"
  by (simp add: esc_def replace_char_def)

lemma esc_single: "esc [c] = esc_char c"
  by (simp add: esc_def replace_char_def esc_char_def)

lemma esc_Cons: "esc (c # s) = esc_char c @ esc s"
  using esc_append [of "[c]" s] by (simp add: esc_single)

lemma unesc_esc_char: "unesc (esc_char c @ s) = c # unesc s"
  by (subst unesc.simps) (simp add: esc_char_def)

lemma unesc_esc: "unesc (esc s) = s"
proof (induction s)
  case Nil
  then show ?case by (simp add: unesc.simps)
next
  case (Cons c s)
  then show ?case by (simp add: esc_Cons unesc_esc_char)
qed

lemma esc_no_markup: "CHR ''<'' \<notin> set (esc s) \<and> CHR ''>'' \<notin> set (esc s)"
  by (induction s) (auto simp: esc_Cons esc_char_def)

section \<open>Numbers\<close>

definition pad_left :: "nat \<Rightarrow> string \<Rightarrow> string" where
  "pad_left k s = replicate (k - length s) (CHR ''0'') @ s"

text \<open>
  \<open>format(x, '.kf')\<close>: the exact value rounded to \<open>k\<close> decimals, ties to even; a negative number keeps its
  sign even when it is rounded to zero.
\<close>

definition fmt_fixed :: "nat \<Rightarrow> rat \<Rightarrow> string" where
  "fmt_fixed k x =
     (let n = nat (half_even (\<bar>x\<bar> * 10 ^ k))
      in (if x < 0 then ''-'' else []) @ dec_nat (n div 10 ^ k) @
         (if k = 0 then [] else CHR ''.'' # pad_left k (dec_nat (n mod 10 ^ k))))"

text \<open>
  \<open>format(x, 'g')\<close>: six significant digits without trailing zeros, in positional notation for decimal
  exponents from -4 to 5 and with an exponent of at least two digits otherwise.
\<close>

definition dec_expo :: "rat \<Rightarrow> int" where
  "dec_expo x =
     (case quotient_of x of
        (p, q) \<Rightarrow>
          (let d = int (length (dec_nat (nat p))) - int (length (dec_nat (nat q)))
           in if 10 powi d \<le> x then d else d - 1))"

definition strip_zeros :: "string \<Rightarrow> string" where
  "strip_zeros s = (if CHR ''.'' \<in> set s then rstrip_char (CHR ''.'') (rstrip_char (CHR ''0'') s) else s)"

definition fmt_g :: "rat \<Rightarrow> string" where
  "fmt_g x =
     (if x = 0 then ''0''
      else
        (let a = \<bar>x\<bar>;
             e0 = dec_expo a;
             m0 = half_even (a / 10 powi (e0 - 5));
             e = (if m0 = 10 ^ 6 then e0 + 1 else e0);
             m = (if m0 = 10 ^ 6 then 10 ^ 5 else m0);
             sign = (if x < 0 then ''-'' else [])
         in if e < - 4 \<or> 6 \<le> e then
              sign @ strip_zeros (fmt_fixed 5 (of_int m / 10 ^ 5)) @ ''e'' @
                (if e < 0 then ''-'' else ''+'') @ pad_left 2 (dec_nat (nat \<bar>e\<bar>))
            else sign @ strip_zeros (fmt_fixed (nat (5 - e)) (of_int m * 10 powi (e - 5)))))"

section \<open>Reading a fixed-point number back\<close>

definition read_nat :: "string \<Rightarrow> nat" where
  "read_nat s = (case read_digits False 0 s of Some n \<Rightarrow> n | None \<Rightarrow> 0)"

text \<open>The value of \<open>[-]digits.digits\<close>.\<close>

definition read_fixed :: "string \<Rightarrow> rat" where
  "read_fixed s =
     (let neg = (s \<noteq> [] \<and> hd s = CHR ''-'');
          t = (if neg then tl s else s);
          ip = takeWhile (\<lambda>c. c \<noteq> CHR ''.'') t;
          fp = drop (length ip + 1) t;
          v = of_nat (read_nat (ip @ fp)) / 10 ^ length fp
      in if neg then - v else v)"

lemma half_even_nonneg: "0 \<le> x \<Longrightarrow> 0 \<le> half_even x"
  using half_even_mono [of 0 x] half_even_of_int [of 0] by simp

lemma read_digits_zeros: "read_digits True acc (replicate j (CHR ''0'') @ s) = read_digits True (acc * 10 ^ j) s"
  by (induction j arbitrary: acc) (simp_all add: char_digit_def algebra_simps)

lemma length_dec_nat_bound: "r < 10 ^ k \<Longrightarrow> 0 < k \<Longrightarrow> length (dec_nat r) \<le> k"
  using length_dec_nat [of r "k - 1"] by simp

lemma read_nat_fixed:
  assumes "0 < k" "r < 10 ^ k"
  shows "read_nat (dec_nat q @ pad_left k (dec_nat r)) = q * 10 ^ k + r"
proof -
  let ?l = "length (dec_nat r)"
  have l: "?l \<le> k"
    using length_dec_nat_bound [OF assms(2,1)] .
  have "read_digits False 0 (dec_nat q @ pad_left k (dec_nat r)) = read_digits True (q * 10 ^ (k - ?l)) (dec_nat r @ [])"
    unfolding read_digits_dec_nat [of _ _ q] pad_left_def by (simp add: read_digits_zeros)
  also have "\<dots> = Some (q * 10 ^ (k - ?l) * 10 ^ ?l + r)"
    using read_digits_dec_nat [of True "q * 10 ^ (k - ?l)" r "[]"] by simp
  also have "q * 10 ^ (k - ?l) * 10 ^ ?l = q * 10 ^ k"
    using l by (simp add: power_add [symmetric] mult.assoc)
  finally show ?thesis
    by (simp add: read_nat_def)
qed

lemma dec_nat_no_dot: "c \<in> set (dec_nat n) \<Longrightarrow> c \<noteq> CHR ''.'' \<and> c \<noteq> CHR ''-''"
  using dec_nat_digits [of n] by (auto simp: list_all_iff is_digit_def)

lemma read_fmt_fixed:
  assumes "0 < k"
  shows "read_fixed (fmt_fixed k x) = of_int (half_even (x * 10 ^ k)) / 10 ^ k"
proof -
  define n where "n = nat (half_even (\<bar>x\<bar> * 10 ^ k))"
  have n: "int n = half_even (\<bar>x\<bar> * 10 ^ k)"
    using half_even_nonneg [of "\<bar>x\<bar> * 10 ^ k"] by (simp add: n_def)
  let ?f = "pad_left k (dec_nat (n mod 10 ^ k))"
  let ?t = "dec_nat (n div 10 ^ k) @ CHR ''.'' # ?f"
  have f: "length ?f = k"
    using length_dec_nat_bound [of "n mod 10 ^ k" k] assms by (simp add: pad_left_def)
  have ip: "takeWhile (\<lambda>c. c \<noteq> CHR ''.'') ?t = dec_nat (n div 10 ^ k)"
    using dec_nat_no_dot by (subst takeWhile_append2) auto
  have v: "read_nat (dec_nat (n div 10 ^ k) @ ?f) = n"
    using read_nat_fixed [OF assms, of "n mod 10 ^ k" "n div 10 ^ k"] div_mult_mod_eq [of n "10 ^ k"] by simp
  have hd: "hd ?t \<noteq> CHR ''-''"
    using dec_nat_no_dot [of "hd (dec_nat (n div 10 ^ k))" "n div 10 ^ k"] by simp
  have "fmt_fixed k x = (if x < 0 then ''-'' else []) @ ?t"
    using assms by (simp add: fmt_fixed_def n_def Let_def)
  then have "read_fixed (fmt_fixed k x) = (if x < 0 then - 1 else 1) * of_nat n / 10 ^ k"
    using hd ip f v by (simp add: read_fixed_def Let_def)
  also have "(of_nat n :: rat) = of_int (half_even (\<bar>x\<bar> * 10 ^ k))"
    unfolding n [symmetric] by simp
  finally show ?thesis
    using half_even_minus [of "x * 10 ^ k"] by (simp add: abs_if)
qed

lemma fmt_fixed_error:
  assumes "0 < k"
  shows "\<bar>read_fixed (fmt_fixed k x) - x\<bar> \<le> 1 / 2 / 10 ^ k"
proof -
  have "\<bar>of_int (half_even (x * 10 ^ k)) - x * 10 ^ k\<bar> \<le> 1 / 2"
    using half_even_bounds [of "x * 10 ^ k"] by linarith
  then have "\<bar>of_int (half_even (x * 10 ^ k)) - x * 10 ^ k\<bar> / 10 ^ k \<le> 1 / 2 / 10 ^ k"
    by (intro divide_right_mono) simp_all
  moreover have "\<bar>of_int (half_even (x * 10 ^ k)) - x * 10 ^ k\<bar> / 10 ^ k = \<bar>(of_int (half_even (x * 10 ^ k)) - x * 10 ^ k) / 10 ^ k\<bar>"
    by simp
  moreover have "(of_int (half_even (x * 10 ^ k)) - x * 10 ^ k) / 10 ^ k = of_int (half_even (x * 10 ^ k)) / 10 ^ k - x"
    by (simp add: diff_divide_distrib)
  ultimately show ?thesis
    unfolding read_fmt_fixed [OF assms] by simp
qed

end
