(* ===== verification/Report.thy ===== *)
theory Report
  imports Measure Svg_Text
begin

text \<open>
  What the SIFT-1M programs print: the lines of their tables, as f-strings build them, and a reader that
  takes a printed row apart again. Printing is an operation on the world, an argument of the main programs;
  \<open>console\<close> is what it does: the line is appended to what has been shown.
\<close>

section \<open>Fields\<close>

type_synonym 'w printer = "string \<Rightarrow> 'w \<Rightarrow> 'w"

text \<open>The format \<open><n\<close>: at least \<open>n\<close> characters, filled up with spaces on the right.\<close>

definition ljust :: "nat \<Rightarrow> string \<Rightarrow> string" where
  "ljust n s = s @ replicate (n - length s) (CHR '' '')"

definition latency_header :: string where
  "latency_header =
     ljust 6 ''ef'' @ '' '' @ ljust 9 ''recall'' @ '' '' @ ljust 10 ''p50(us)'' @ '' '' @ ljust 10 ''p99(us)'' @ '' '' @
     ljust 10 ''mean(us)'' @ '' '' @ ljust 12 ''satQPS''"

definition latency_row :: "nat \<Rightarrow> latency_summary \<times> rat \<Rightarrow> string" where
  "latency_row ef r =
     (case r of
        (s, qps) \<Rightarrow>
          ljust 6 (dec_nat ef) @ '' '' @ ljust 9 (fmt_fixed 4 (ls_recall s)) @ '' '' @ ljust 10 (fmt_fixed 1 (ls_p50 s)) @ '' '' @
          ljust 10 (fmt_fixed 1 (ls_p99 s)) @ '' '' @ ljust 10 (fmt_fixed 1 (ls_mean s)) @ '' '' @ ljust 12 (fmt_fixed 0 qps))"

definition sweep_header :: "nat \<Rightarrow> string \<Rightarrow> string" where
  "sweep_header n qps_title = ljust 8 ''efSearch'' @ '' '' @ ljust 12 ''recall@10'' @ '' '' @ ljust n qps_title"

definition sweep_row :: "nat \<Rightarrow> nat \<Rightarrow> rat \<times> rat \<Rightarrow> string" where
  "sweep_row n ef r =
     (case r of (recall, qps) \<Rightarrow> ljust 8 (dec_nat ef) @ '' '' @ ljust 12 (fmt_fixed 4 recall) @ '' '' @ ljust n (fmt_fixed 0 qps))"

section \<open>Reading a row\<close>

definition read_row :: "string \<Rightarrow> nat \<times> rat list" where
  "read_row s = (case split_ws s of [] \<Rightarrow> (0, []) | w # ws \<Rightarrow> (read_nat w, map read_fixed ws))"

lemma split_ws_Nil: "split_ws [] = []"
  by (simp add: split_ws_def)

lemma split_ws_space: "is_space c \<Longrightarrow> split_ws (c # s) = split_ws s"
  by (simp add: split_ws_def)

lemma split_ws_word:
  assumes "x \<noteq> []" "list_all (\<lambda>c. \<not> is_space c) x" "is_space c"
  shows "split_ws (x @ c # s) = x # split_ws s" "split_ws x = [x]"
proof -
  let ?f = "\<lambda>c. if is_space c then CHR '' '' else c"
  have "map ?f x = x"
    using assms(2) by (intro map_idI) (auto simp: list_all_iff)
  moreover have "CHR '' '' \<notin> set x"
    using assms(2) by (auto simp: list_all_iff is_space_def)
  ultimately show "split_ws (x @ c # s) = x # split_ws s" "split_ws x = [x]"
    using assms(1,3) by (simp_all add: split_ws_def split_char_first split_char_none)
qed

lemma split_ws_spaces: "split_ws (replicate k (CHR '' '') @ s) = split_ws s"
  by (induction k) (simp_all add: split_ws_space is_space_def)

lemma split_ws_field:
  assumes "x \<noteq> []" "list_all (\<lambda>c. \<not> is_space c) x"
  shows "split_ws (ljust n x @ CHR '' '' # s) = x # split_ws s" "split_ws (ljust n x) = [x]"
proof -
  have sp: "is_space (CHR '' '')" by (simp add: is_space_def)
  have eq: "ljust n x @ CHR '' '' # s = x @ CHR '' '' # replicate (n - length x) (CHR '' '') @ s"
    by (simp add: ljust_def replicate_app_Cons_same)
  show "split_ws (ljust n x @ CHR '' '' # s) = x # split_ws s"
    unfolding eq split_ws_word(1) [OF assms sp] split_ws_spaces ..
  show "split_ws (ljust n x) = [x]"
  proof (cases "n - length x")
    case 0
    then show ?thesis using split_ws_word(2) [OF assms sp] by (simp add: ljust_def)
  next
    case (Suc k)
    then show ?thesis
      using split_ws_word(1) [OF assms sp, of "replicate k (CHR '' '')"] split_ws_spaces [of k "[]"]
      by (simp add: ljust_def split_ws_Nil)
  qed
qed

lemma dec_nat_word: "dec_nat n \<noteq> []" "list_all (\<lambda>c. \<not> is_space c) (dec_nat n)"
  using dec_nat_digits [of n] by (auto simp: list_all_iff is_digit_def is_space_def)

lemma fmt_fixed_word: "fmt_fixed k x \<noteq> []" "list_all (\<lambda>c. \<not> is_space c) (fmt_fixed k x)"
  using dec_nat_word by (auto simp: fmt_fixed_def pad_left_def Let_def list_all_iff is_space_def)

lemmas split_ws_fields = split_ws_field [OF dec_nat_word] split_ws_field [OF fmt_fixed_word]

lemma read_nat_dec_nat: "read_nat (dec_nat n) = n"
  using read_digits_dec_nat [of False 0 n "[]"] by (simp add: read_nat_def)

text \<open>A number printed with \<open>k\<close> decimals is read back to within half a unit of the last one, without decimals too.\<close>

lemma read_fmt_fixed_0: "read_fixed (fmt_fixed 0 x) = of_int (half_even x)"
proof -
  define n where "n = nat (half_even \<bar>x\<bar>)"
  have n: "int n = half_even \<bar>x\<bar>"
    using half_even_nonneg [of "\<bar>x\<bar>"] by (simp add: n_def)
  have ip: "takeWhile (\<lambda>c. c \<noteq> CHR ''.'') (dec_nat n) = dec_nat n"
    using dec_nat_no_dot by (simp add: takeWhile_eq_all_conv)
  have hd: "hd (dec_nat n) \<noteq> CHR ''-''"
    using dec_nat_no_dot [of "hd (dec_nat n)" n] dec_nat_word(1) by simp
  have "fmt_fixed 0 x = (if x < 0 then ''-'' else []) @ dec_nat n"
    by (simp add: fmt_fixed_def n_def Let_def)
  then have "read_fixed (fmt_fixed 0 x) = (if x < 0 then - 1 else 1) * of_nat n"
    using hd dec_nat_word(1) by (simp add: read_fixed_def ip read_nat_dec_nat Let_def)
  also have "(of_nat n :: rat) = of_int (half_even \<bar>x\<bar>)"
    unfolding n [symmetric] by simp
  finally show ?thesis
    using half_even_minus [of x] by (simp add: abs_if)
qed

lemma fmt_fixed_close: "\<bar>read_fixed (fmt_fixed k x) - x\<bar> \<le> 1 / 2 / 10 ^ k"
proof (cases "k = 0")
  case True
  have "\<bar>of_int (half_even x) - x\<bar> \<le> 1 / 2"
    using half_even_bounds [of x] by linarith
  then show ?thesis
    using True by (simp add: read_fmt_fixed_0)
next
  case False
  then show ?thesis by (intro fmt_fixed_error) simp
qed

lemma read_latency_row:
  "\<exists>r a b c q. read_row (latency_row ef (s, qps)) = (ef, [r, a, b, c, q]) \<and> \<bar>r - ls_recall s\<bar> \<le> 1 / 20000 \<and>
    \<bar>a - ls_p50 s\<bar> \<le> 1 / 20 \<and> \<bar>b - ls_p99 s\<bar> \<le> 1 / 20 \<and> \<bar>c - ls_mean s\<bar> \<le> 1 / 20 \<and> \<bar>q - qps\<bar> \<le> 1 / 2"
  using fmt_fixed_close [of 4 "ls_recall s"] fmt_fixed_close [of 1 "ls_p50 s"] fmt_fixed_close [of 1 "ls_p99 s"]
    fmt_fixed_close [of 1 "ls_mean s"] fmt_fixed_close [of 0 qps]
  by (simp add: read_row_def latency_row_def split_ws_fields read_nat_dec_nat)

lemma read_sweep_row:
  "\<exists>r q. read_row (sweep_row n ef (recall, qps)) = (ef, [r, q]) \<and> \<bar>r - recall\<bar> \<le> 1 / 20000 \<and> \<bar>q - qps\<bar> \<le> 1 / 2"
  using fmt_fixed_close [of 4 recall] fmt_fixed_close [of 0 qps]
  by (simp add: read_row_def sweep_row_def split_ws_fields read_nat_dec_nat)

section \<open>The console\<close>

definition prints :: "'w printer \<Rightarrow> string list \<Rightarrow> 'w \<Rightarrow> 'w" where
  "prints pr ls w = fold pr ls w"

text \<open>A measurement followed by the line of its row.\<close>

definition printed :: "'w printer \<Rightarrow> (nat \<Rightarrow> 'r \<Rightarrow> string) \<Rightarrow> ('w \<Rightarrow> nat \<Rightarrow> 'w \<times> 'r result) \<Rightarrow> 'w \<Rightarrow> nat \<Rightarrow> 'w \<times> 'r result" where
  "printed pr line run w ef =
     (case run w ef of
        (w1, Inl e) \<Rightarrow> (w1, Inl e)
      | (w1, Inr r) \<Rightarrow> (pr (line ef r) w1, Inr r))"

locale console =
  fixes pr :: "'w printer" and shown :: "'w \<Rightarrow> string list"
  assumes shown_pr: "shown (pr s w) = shown w @ [s]"
begin

lemma shown_prints: "shown (prints pr ls w) = shown w @ ls"
  unfolding prints_def by (induction ls arbitrary: w) (simp_all add: shown_pr)

end

text \<open>Operations that leave an observation alone: that print nothing, when it is the lines shown.\<close>

definition quiet :: "('w \<Rightarrow> 'b) \<Rightarrow> ('w \<Rightarrow> 'w \<times> 'a) \<Rightarrow> bool" where
  "quiet shown f \<longleftrightarrow> (\<forall>w w' x. f w = (w', x) \<longrightarrow> shown w' = shown w)"

lemma quietD: "quiet shown f \<Longrightarrow> f w = (w', x) \<Longrightarrow> shown w' = shown w"
  by (simp add: quiet_def)

lemma quiet_run: "quiet shown f \<Longrightarrow> shown (fst (f w)) = shown w"
  by (metis prod.collapse quietD)

definition quiet_clock :: "('w \<Rightarrow> 'b) \<Rightarrow> 'w clock \<Rightarrow> bool" where
  "quiet_clock shown clk \<longleftrightarrow> quiet shown (perf_counter clk) \<and> quiet shown (wall_time clk)"

lemma timed_loop_quiet:
  assumes "quiet_clock shown clk" "\<And>i. quiet shown (\<lambda>w. ask w i)"
  shows "quiet shown (timed_loop clk ask truth is lats hits)"
proof -
  have "timed_loop clk ask truth is lats hits w = (w', x) \<Longrightarrow> shown w' = shown w" for w w' x
  proof (induction "is" arbitrary: lats hits w)
    case Nil
    then show ?case by simp
  next
    case (Cons i "is")
    have p: "quiet shown (perf_counter clk)"
      using assms(1) by (simp add: quiet_clock_def)
    from Cons.prems show ?case
      by (auto split: result_splits dest!: Cons.IH quietD [OF p] quietD [OF assms(2)])
  qed
  then show ?thesis by (simp add: quiet_def)
qed

end
