(* ===== verification/Sift_Clients.thy ===== *)
theory Sift_Clients
  imports Measure_Facts Rpc_Socket Report
begin

text \<open>
  The two clients that measure a Rostam server on SIFT-1M: \<open>sift1m/rostam_py_client.py\<close> over the
  binary RPC and \<open>sift1m/rostam_grpc_client.py\<close> over gRPC. Each connects, times two thousand queries
  against the ground truth (Rostam's ids are one more than the row numbers), lets a pool of
  worker processes query for a fixed time, and prints a line about its settings, the head of its table and
  one row. The result of a run is the summary and the throughput it prints.
\<close>

section \<open>Common to both\<close>

type_synonym 'w pool = "('w \<Rightarrow> nat \<Rightarrow> ('w \<times> nat result) option) \<Rightarrow> 'w \<Rightarrow> nat list \<Rightarrow> 'w \<times> nat list result"

text \<open>
  What \<open>multiprocessing.Pool.map\<close> promises: one result per argument, in order, each of them returned
  by a run of the worker on that argument.
\<close>

definition pool_spec :: "'w pool \<Rightarrow> bool" where
  "pool_spec pool \<longleftrightarrow>
     (\<forall>worker w ws w' cs. pool worker w ws = (w', Inr cs) \<longrightarrow>
        length cs = length ws \<and> (\<forall>j < length ws. \<exists>v v'. worker v (ws ! j) = Some (v', Inr (cs ! j))))"

text \<open>
  If every worker adds its result to a tally of the world, the pool adds the sum: no other process works on it.
\<close>

definition pool_adds :: "('w \<Rightarrow> nat) \<Rightarrow> 'w pool \<Rightarrow> bool" where
  "pool_adds tally pool \<longleftrightarrow>
     (\<forall>worker w ws w' cs. (\<forall>v j v' n. worker v j = Some (v', Inr n) \<longrightarrow> tally v' = tally v + n) \<longrightarrow>
        pool worker w ws = (w', Inr cs) \<longrightarrow> tally w' = tally w + sum_list cs)"

text \<open>\<open>set(int(x) + 1 for x in gt[i])\<close>\<close>

definition truth_row :: "32 word list list \<Rightarrow> nat \<Rightarrow> int list result" where
  "truth_row gt i = rbind (row_at gt i) (\<lambda>r. Inr (map (\<lambda>x. sint x + 1) r))"

section \<open>The RPC client\<close>

definition connect :: "(string \<Rightarrow> int \<Rightarrow> 'w \<Rightarrow> 'w \<times> 'w sock result) \<Rightarrow> string \<Rightarrow> 'w \<Rightarrow> 'w \<times> 'w sock result" where
  "connect dial addr w =
     (case split_char (CHR '':'') addr of
        [host, port] \<Rightarrow>
          (case int_of_str port of
             Inl e \<Rightarrow> (w, Inl e)
           | Inr p \<Rightarrow> dial host p w)
      | _ \<Rightarrow> (w, Inl (ValueError ''wrong number of values to unpack'')))"

text \<open>A search by the index of a precomputed frame, as the loops call it.\<close>

definition frame_ask :: "'w sock \<Rightarrow> bytes list \<Rightarrow> 'w engine" where
  "frame_ask sk frames w i = (case search sk w (frames ! i) of (w', out) \<Rightarrow> (w', map_sum id (map int) out))"

definition query_frame :: "f32 list \<Rightarrow> bytes result" where
  "query_frame q = encode_search (map f32_to_f64 q) (int knn)"

definition latency_py ::
  "(string \<Rightarrow> int \<Rightarrow> 'w \<Rightarrow> 'w \<times> 'w sock result) \<Rightarrow> 'w clock \<Rightarrow> (rat list \<Rightarrow> rat) \<Rightarrow> string
    \<Rightarrow> f32 list list \<Rightarrow> 32 word list list \<Rightarrow> 'w \<Rightarrow> 'w \<times> latency_summary result" where
  "latency_py dial clk py_sum addr queries gt w =
     (case connect dial addr w of
        (w1, Inl e) \<Rightarrow> (w1, Inl e)
      | (w1, Inr sk) \<Rightarrow>
          (case mapr (\<lambda>i. rbind (row_at queries i) query_frame) [0..<lat_n] of
             Inl e \<Rightarrow> (w1, Inl e)
           | Inr frames \<Rightarrow>
               (case timed_loop clk (frame_ask sk frames) (truth_row gt) [0..<lat_n] [] 0 w1 of
                  (w2, Inl e) \<Rightarrow> (w2, Inl e)
                | (w2, Inr (lats, hits)) \<Rightarrow> (sk_close sk w2, summarize py_sum hits lats))))"

definition qps_worker_py ::
  "(string \<Rightarrow> int \<Rightarrow> 'w \<Rightarrow> 'w \<times> 'w sock result) \<Rightarrow> 'w clock \<Rightarrow> string \<Rightarrow> rat \<Rightarrow> bytes list
    \<Rightarrow> 'w \<Rightarrow> nat \<Rightarrow> ('w \<times> nat result) option" where
  "qps_worker_py dial clk addr dur frames w wid =
     (case connect dial addr w of
        (w1, Inl e) \<Rightarrow> Some (w1, Inl e)
      | (w1, Inr sk) \<Rightarrow>
          (case qps_worker clk (frame_ask sk frames) dur (length frames) wid w1 of
             None \<Rightarrow> None
           | Some (w2, Inl e) \<Rightarrow> Some (w2, Inl e)
           | Some (w2, Inr n) \<Rightarrow> Some (sk_close sk w2, Inr n)))"

definition saturated_qps_py ::
  "(string \<Rightarrow> int \<Rightarrow> 'w \<Rightarrow> 'w \<times> 'w sock result) \<Rightarrow> 'w clock \<Rightarrow> 'w pool \<Rightarrow> string \<Rightarrow> nat \<Rightarrow> rat
    \<Rightarrow> f32 list list \<Rightarrow> 'w \<Rightarrow> 'w \<times> rat result" where
  "saturated_qps_py dial clk pool addr conc dur queries w =
     (case mapr query_frame queries of
        Inl e \<Rightarrow> (w, Inl e)
      | Inr frames \<Rightarrow> pool_qps clk (pool (qps_worker_py dial clk addr dur frames)) conc w)"

definition py_banner :: "string \<Rightarrow> int \<Rightarrow> rat \<Rightarrow> string" where
  "py_banner addr conc dur =
     ''[rostam-py] '' @ addr @ '', pure-Python client; latency=single conn, satQPS='' @ str_int conc @
     '' concurrent processes x '' @ fmt_fixed 0 dur @ ''s (ef fixed at server=64)''"

definition main_py ::
  "np_files \<Rightarrow> 'w printer \<Rightarrow> (string \<Rightarrow> int \<Rightarrow> 'w \<Rightarrow> 'w \<times> 'w sock result) \<Rightarrow> 'w clock \<Rightarrow> (rat list \<Rightarrow> rat) \<Rightarrow> 'w pool
    \<Rightarrow> string \<Rightarrow> string \<Rightarrow> int \<Rightarrow> rat \<Rightarrow> 'w \<Rightarrow> 'w \<times> (latency_summary \<times> rat) result" where
  "main_py nf pr dial clk py_sum pool sift addr conc dur w =
     (case read_fvecs nf (sift @ ''/sift_query.fvecs'') of
        Inl e \<Rightarrow> (w, Inl e)
      | Inr queries \<Rightarrow>
          (case read_ivecs nf (sift @ ''/sift_groundtruth.ivecs'') of
             Inl e \<Rightarrow> (w, Inl e)
           | Inr full \<Rightarrow>
               (case latency_py dial clk py_sum addr queries (map (take knn) full) (pr (py_banner addr conc dur) w) of
                  (w1, Inl e) \<Rightarrow> (w1, Inl e)
                | (w1, Inr s) \<Rightarrow>
                    (case saturated_qps_py dial clk pool addr (nat conc) dur queries w1 of
                       (w2, Inl e) \<Rightarrow> (w2, Inl e)
                     | (w2, Inr qps) \<Rightarrow> (prints pr [latency_header, latency_row 64 (s, qps)] w2, Inr (s, qps))))))"

section \<open>The gRPC client\<close>

text \<open>
  The generated stub is an argument: a call of \<open>Search\<close> on a request, with the ids of the hits
  (\<open>Grpc_Stubs\<close> supplies it). The query is sent as the Python floats of \<open>tolist()\<close>.
\<close>

record search_request =
  sr_collection :: string
  sr_k :: nat
  sr_query :: "f64 list"

type_synonym 'w stub = "'w \<Rightarrow> search_request \<Rightarrow> 'w \<times> int list result"

definition search_request_of :: "f32 list \<Rightarrow> search_request" where
  "search_request_of q = \<lparr>sr_collection = ''sift'', sr_k = knn, sr_query = map f32_to_f64 q\<rparr>"

definition latency_grpc ::
  "'w stub \<Rightarrow> 'w clock \<Rightarrow> (rat list \<Rightarrow> rat) \<Rightarrow> f32 list list \<Rightarrow> 32 word list list \<Rightarrow> 'w \<Rightarrow> 'w \<times> latency_summary result" where
  "latency_grpc stub clk py_sum queries gt w =
     (case mapr (\<lambda>i. rbind (row_at queries i) (\<lambda>q. Inr (search_request_of q))) [0..<lat_n] of
        Inl e \<Rightarrow> (w, Inl e)
      | Inr reqs \<Rightarrow>
          (case timed_loop clk (\<lambda>w i. stub w (reqs ! i)) (truth_row gt) [0..<lat_n] [] 0 w of
             (w1, Inl e) \<Rightarrow> (w1, Inl e)
           | (w1, Inr (lats, hits)) \<Rightarrow> (w1, summarize py_sum hits lats)))"

definition qps_worker_grpc :: "'w stub \<Rightarrow> 'w clock \<Rightarrow> rat \<Rightarrow> search_request list \<Rightarrow> 'w \<Rightarrow> nat \<Rightarrow> ('w \<times> nat result) option" where
  "qps_worker_grpc stub clk dur reqs w wid = qps_worker clk (\<lambda>w i. stub w (reqs ! i)) dur (length reqs) wid w"

definition saturated_qps_grpc ::
  "'w stub \<Rightarrow> 'w clock \<Rightarrow> 'w pool \<Rightarrow> nat \<Rightarrow> rat \<Rightarrow> f32 list list \<Rightarrow> 'w \<Rightarrow> 'w \<times> rat result" where
  "saturated_qps_grpc stub clk pool conc dur queries w =
     pool_qps clk (pool (qps_worker_grpc stub clk dur (map search_request_of queries))) conc w"

definition grpc_banner :: "string \<Rightarrow> int \<Rightarrow> rat \<Rightarrow> string" where
  "grpc_banner addr conc dur =
     ''[rostam-grpc] '' @ addr @ '', Python gRPC client; latency=single channel, satQPS='' @ str_int conc @
     '' concurrent processes x '' @ fmt_fixed 0 dur @ ''s (ef fixed at server=64)''"

definition main_grpc ::
  "np_files \<Rightarrow> 'w printer \<Rightarrow> 'w stub \<Rightarrow> 'w clock \<Rightarrow> (rat list \<Rightarrow> rat) \<Rightarrow> 'w pool \<Rightarrow> string \<Rightarrow> string \<Rightarrow> int \<Rightarrow> rat \<Rightarrow> 'w
    \<Rightarrow> 'w \<times> (latency_summary \<times> rat) result" where
  "main_grpc nf pr stub clk py_sum pool sift addr conc dur w =
     (case read_fvecs nf (sift @ ''/sift_query.fvecs'') of
        Inl e \<Rightarrow> (w, Inl e)
      | Inr queries \<Rightarrow>
          (case read_ivecs nf (sift @ ''/sift_groundtruth.ivecs'') of
             Inl e \<Rightarrow> (w, Inl e)
           | Inr full \<Rightarrow>
               (case latency_grpc stub clk py_sum queries (map (take knn) full) (pr (grpc_banner addr conc dur) w) of
                  (w1, Inl e) \<Rightarrow> (w1, Inl e)
                | (w1, Inr s) \<Rightarrow>
                    (case saturated_qps_grpc stub clk pool (nat conc) dur queries w1 of
                       (w2, Inl e) \<Rightarrow> (w2, Inl e)
                     | (w2, Inr qps) \<Rightarrow> (prints pr [latency_header, latency_row 64 (s, qps)] w2, Inr (s, qps))))))"

end
