(* ===== verification/Sift_Facts.thy ===== *)
theory Sift_Facts
  imports Sift_Clients
begin

text \<open>
  The measurement clients against an engine that answers. \<open>answering_engine\<close> is what the timed loop
  relies on: in an idle world every query is answered, with ids that depend on the query only, and
  the world is idle again afterwards; the recall is then determined by the answers. The RPC client
  gives such an engine whenever its socket is an \<open>rpc_server\<close> whose responses carry hits. Both, and
  the wall clock's contract, are interpreted on the client's own search over a socket with a clock.
\<close>

section \<open>The timed loop against an engine that answers\<close>

text \<open>
  The latencies of a run of queries, apart from the loop that collects them: the microseconds between the reading of the
  clock before a query and the one after it, each query starting from the world the one before left behind.
\<close>

definition timed_query :: "'w clock \<Rightarrow> 'w engine \<Rightarrow> 'w \<Rightarrow> nat \<Rightarrow> 'w \<times> rat" where
  "timed_query clk ask w i =
     (let before = perf_counter clk w; answered = ask (fst before) i; after = perf_counter clk (fst answered)
      in (fst after, fmul (fsub (snd after) (snd before)) 1000000))"

fun query_times :: "'w clock \<Rightarrow> 'w engine \<Rightarrow> nat list \<Rightarrow> 'w \<Rightarrow> rat list" where
  "query_times clk ask [] w = []"
| "query_times clk ask (i # is) w = snd (timed_query clk ask w i) # query_times clk ask is (fst (timed_query clk ask w i))"

lemma length_query_times [simp]: "length (query_times clk ask is w) = length is"
  by (induction clk ask "is" w rule: query_times.induct) simp_all

lemma query_times_cong:
  "(\<And>i w. i \<in> set is \<Longrightarrow> ask w i = ask' w i) \<Longrightarrow> query_times clk ask is w = query_times clk ask' is w"
  by (induction clk ask "is" w rule: query_times.induct) (simp_all add: timed_query_def)

locale answering_engine =
  fixes clk :: "'w clock" and ask :: "'w engine" and idle :: "'w \<Rightarrow> bool" and res :: "nat \<Rightarrow> int list" and total :: nat
  assumes ask_ok: "idle w \<Longrightarrow> i < total \<Longrightarrow> \<exists>w'. ask w i = (w', Inr (res i)) \<and> idle w'"
    and clock_ok: "idle w \<Longrightarrow> idle (fst (perf_counter clk w))"
begin

lemma timed_loop_ok:
  assumes "idle w" "list_all (\<lambda>i. i < total \<and> truth i = Inr (tr i)) is"
  shows "\<exists>w'. timed_loop clk ask truth is lats hits w =
      (w', Inr (lats @ query_times clk ask is w, hits + sum_list (map (\<lambda>i. overlap (res i) (tr i)) is))) \<and> idle w'"
  using assms
proof (induction "is" arbitrary: w lats hits)
  case Nil
  then show ?case by simp
next
  case (Cons i "is")
  obtain w1 t0 where c1: "perf_counter clk w = (w1, t0)" by fastforce
  with clock_ok [OF Cons.prems(1)] have "idle w1" by simp
  then obtain w2 where a: "ask w1 i = (w2, Inr (res i))" "idle w2"
    using ask_ok Cons.prems(2) by fastforce
  obtain w3 t1 where c2: "perf_counter clk w2 = (w3, t1)" by fastforce
  with clock_ok [OF a(2)] have "idle w3" by simp
  then obtain w' where "timed_loop clk ask truth is (lats @ [fmul (fsub t1 t0) 1000000]) (hits + overlap (res i) (tr i)) w3 =
      (w', Inr ((lats @ [fmul (fsub t1 t0) 1000000]) @ query_times clk ask is w3,
        hits + overlap (res i) (tr i) + sum_list (map (\<lambda>i. overlap (res i) (tr i)) is)))"
    "idle w'"
    using Cons.IH Cons.prems(2) by fastforce
  then show ?case
    using c1 a(1) c2 Cons.prems(2)
    by (intro exI [of _ w']) (simp add: add.assoc timed_query_def)
qed

end

section \<open>Summaries\<close>

definition total_hits :: "(nat \<Rightarrow> int list) \<Rightarrow> (nat \<Rightarrow> int list) \<Rightarrow> nat" where
  "total_hits res tr = (\<Sum>i < lat_n. card (set (res i) \<inter> set (tr i)))"

lemma total_hits_sum_list: "sum_list (map (\<lambda>i. overlap (res i) (tr i)) [0..<lat_n]) = total_hits res tr"
  by (simp add: total_hits_def overlap_card interv_sum_list_conv_sum_set_nat atLeast0LessThan)

lemma total_hits_le:
  assumes "\<And>i. i < lat_n \<Longrightarrow> length (tr i) \<le> knn"
  shows "total_hits res tr \<le> lat_n * knn"
proof -
  have "total_hits res tr \<le> (\<Sum>i < lat_n. knn)"
    unfolding total_hits_def overlap_card [symmetric]
    by (intro sum_mono) (meson assms lessThan_iff order_trans overlap_le)
  then show ?thesis by simp
qed

text \<open>What a successful measurement reports.\<close>

definition good_summary :: "rat list \<Rightarrow> latency_summary \<Rightarrow> bool" where
  "good_summary lats s \<longleftrightarrow>
     0 \<le> ls_recall s \<and> ls_recall s \<le> 1 \<and> ls_p50 s \<in> set lats \<and> ls_p99 s \<in> set lats \<and> ls_p50 s \<le> ls_p99 s \<and>
     1001 \<le> length (filter (\<lambda>x. x \<le> ls_p50 s) lats) \<and> 1981 \<le> length (filter (\<lambda>x. x \<le> ls_p99 s) lats) \<and>
     20 \<le> length (filter (\<lambda>x. ls_p99 s \<le> x) lats)"

text \<open>
  What it says of its latencies: the median and the 99th percentile are the elements at positions 1000 and 1980 of the 2000 in
  ascending order, the mean is their sum divided by their number.
\<close>

definition timed_summary :: "(rat list \<Rightarrow> rat) \<Rightarrow> rat list \<Rightarrow> latency_summary \<Rightarrow> bool" where
  "timed_summary py_sum lats s \<longleftrightarrow>
     length lats = 2000 \<and> ls_p50 s = sort lats ! 1000 \<and> ls_p99 s = sort lats ! 1980 \<and>
     ls_mean s = rnd (py_sum (sort lats) / 2000) \<and> good_summary lats s"

lemma summarize_good:
  assumes "length lats = lat_n" "hits \<le> lat_n * knn"
  shows "\<exists>s. summarize py_sum hits lats = Inr s \<and> ls_recall s = rnd (of_nat hits / of_nat (lat_n * knn)) \<and>
    timed_summary py_sum lats s"
proof -
  have ne: "lats \<noteq> []"
    using assms(1) by (auto simp: lat_n_def)
  obtain s where s: "summarize py_sum hits lats = Inr s" "0 \<le> ls_recall s" "ls_recall s \<le> 1"
    "ls_p50 s = sort lats ! (length lats div 2)" "ls_p99 s = sort lats ! p99_index (length lats)"
    using summarize_ok [OF ne assms(2)] by blast
  have i: "p99_index (length lats) = 1980" "length lats div 2 = 1000" "length (sort lats) = 2000"
    using assms(1) p99_index_lat_n by (simp_all add: lat_n_def)
  have "ls_p50 s \<in> set (sort lats)" "ls_p99 s \<in> set (sort lats)"
    using s(4,5) i nth_mem [of 1000 "sort lats"] nth_mem [of 1980 "sort lats"] by simp_all
  moreover have "ls_p50 s \<le> ls_p99 s"
    unfolding s(4,5) i using i(3) by (intro sorted_nth_mono) simp_all
  moreover have "ls_recall s = rnd (of_nat hits / of_nat (lat_n * knn))" "ls_mean s = rnd (py_sum (sort lats) / 2000)"
    using s(1) i(3) by (auto simp: summarize_def Let_def fdiv_def split: if_splits)
  ultimately show ?thesis
    using s sorted_rank [of "sort lats" 1000] sorted_rank [of "sort lats" 1980] i
    unfolding timed_summary_def good_summary_def by (simp add: filter_sort_length)
qed

context answering_engine
begin

lemma measured:
  assumes "idle w" "lat_n \<le> total" "\<And>i. i < lat_n \<Longrightarrow> truth i = Inr (tr i) \<and> length (tr i) \<le> knn"
  shows "\<exists>w' s. timed_loop clk ask truth [0..<lat_n] [] 0 w = (w', Inr (query_times clk ask [0..<lat_n] w, total_hits res tr)) \<and>
    idle w' \<and> summarize py_sum (total_hits res tr) (query_times clk ask [0..<lat_n] w) = Inr s \<and>
    timed_summary py_sum (query_times clk ask [0..<lat_n] w) s \<and>
    ls_recall s = rnd (of_nat (total_hits res tr) / of_nat (lat_n * knn))"
proof -
  have "list_all (\<lambda>i. i < total \<and> truth i = Inr (tr i)) [0..<lat_n]"
    using assms(2,3) by (auto simp: list_all_iff)
  then obtain w' where loop: "timed_loop clk ask truth [0..<lat_n] [] 0 w =
      (w', Inr (query_times clk ask [0..<lat_n] w, total_hits res tr))" "idle w'"
    using timed_loop_ok [OF assms(1), of truth tr "[0..<lat_n]" "[]" 0] by (auto simp: total_hits_sum_list)
  have "total_hits res tr \<le> lat_n * knn"
    using assms(3) by (intro total_hits_le) simp
  then show ?thesis
    using loop summarize_good [of "query_times clk ask [0..<lat_n] w" "total_hits res tr" py_sum] by auto
qed

end

section \<open>The RPC client against a server with hits\<close>

lemma query_frame_ok:
  assumes "length q < 2 ^ 29"
  shows "\<exists>f. query_frame q = Inr f \<and>
    decode_request f = Some \<lparr>rpc_op = op_name, rpc_coll = coll_name, rpc_k = knn, rpc_query = map (\<lambda>x. f64_to_f32 (f32_to_f64 x)) q\<rparr>"
proof -
  have "list_all fits_f32 (map f32_to_f64 q)"
    using widened_inf by (auto simp: list_all_iff fits_f32_def)
  then show ?thesis
    using decode_encode_search [of "map f32_to_f64 q" knn] assms
    by (auto simp: query_frame_def knn_def comp_def)
qed

definition frame_of :: "f32 list \<Rightarrow> bytes" where
  "frame_of q = (case query_frame q of Inr f \<Rightarrow> f | Inl _ \<Rightarrow> [])"

lemma query_frame_of: "length q < 2 ^ 29 \<Longrightarrow> query_frame q = Inr (frame_of q)"
  using query_frame_ok [of q] by (auto simp: frame_of_def)

lemma latency_frames:
  assumes "lat_n \<le> length queries" "list_all (\<lambda>q. length q < 2 ^ 29) queries"
  shows "mapr (\<lambda>i. rbind (row_at queries i) query_frame) [0..<lat_n] = Inr (map (\<lambda>i. frame_of (queries ! i)) [0..<lat_n])"
  using assms by (intro mapr_Inr_map) (simp add: row_at_def list_all_length query_frame_of)

locale rpc_hits = rpc_server sk pending reply
  for sk :: "'w sock" and pending and reply +
  fixes clk :: "'w clock" and hits_of :: "bytes \<Rightarrow> (nat \<times> f32) list"
  assumes reply_hits: "reply w f = enc_counted 4 (response_body 0 (hits_payload (hits_of f)))"
    and hits_small: "12 * length (hits_of f) < 2 ^ 32 - 9" "list_all (\<lambda>h. fst h < 2 ^ 64) (hits_of f)"
    and clock_pending: "pending (fst (perf_counter clk w)) = pending w"
begin

lemma frame_ask_ok:
  "pending w = [] \<Longrightarrow> \<exists>w'. frame_ask sk frames w i = (w', Inr (map (int \<circ> fst) (hits_of (frames ! i)))) \<and> pending w' = []"
  using search_hits [of w "frames ! i" "hits_of (frames ! i)" "[]"] hits_small [of "frames ! i"]
  by (auto simp: frame_ask_def reply_hits)

end

sublocale rpc_hits \<subseteq> engine: answering_engine clk "frame_ask sk frames" "\<lambda>w. pending w = []"
  "\<lambda>i. map (int \<circ> fst) (hits_of (frames ! i))" total for frames total
  by unfold_locales (simp_all add: frame_ask_ok clock_pending)

context rpc_hits
begin

lemma latency_py_ok:
  assumes "connect dial addr w = (w1, Inr sk)" "pending w1 = []"
    and "lat_n \<le> length queries" "list_all (\<lambda>q. length q < 2 ^ 29) queries"
    and "lat_n \<le> length gt" "list_all (\<lambda>r. length r \<le> knn) gt"
  shows "\<exists>w' s. latency_py dial clk py_sum addr queries gt w = (w', Inr s) \<and>
    timed_summary py_sum (query_times clk (frame_ask sk (map frame_of (take lat_n queries))) [0..<lat_n] w1) s \<and> ls_recall s = rnd (of_nat (total_hits (\<lambda>i. map (int \<circ> fst) (hits_of (frame_of (queries ! i))))
      (\<lambda>i. map (\<lambda>x. sint x + 1) (gt ! i))) / of_nat (lat_n * knn))"
proof -
  let ?frames = "map (\<lambda>i. frame_of (queries ! i)) [0..<lat_n]"
  let ?tr = "\<lambda>i. map (\<lambda>x. sint x + 1) (gt ! i)"
  have truth: "truth_row gt i = Inr (?tr i) \<and> length (?tr i) \<le> knn" if "i < lat_n" for i
    using assms(5,6) that by (simp add: truth_row_def row_at_def list_all_length)
  have th: "total_hits (\<lambda>i. map (int \<circ> fst) (hits_of (?frames ! i))) ?tr =
      total_hits (\<lambda>i. map (int \<circ> fst) (hits_of (frame_of (queries ! i)))) ?tr"
    unfolding total_hits_def by (intro sum.cong) simp_all
  have fr: "map frame_of (take lat_n queries) = ?frames"
    using assms(3) by (simp add: list_eq_iff_nth_eq)
  show ?thesis
    using engine.measured [where frames = ?frames and total = lat_n and truth = "truth_row gt" and tr = ?tr and py_sum = py_sum,
        OF assms(2) order_refl truth] assms(1) latency_frames [OF assms(3,4)]
    unfolding th fr latency_py_def by fastforce
qed

end

section \<open>A socket with a clock\<close>

text \<open>
  The byte-at-a-time socket with a tick counter that every request advances, a clock that shows it,
  and a server whose single hit is read off the request.
\<close>

definition tick_sock :: "(bytes \<Rightarrow> bytes) \<Rightarrow> (bytes list \<times> nat) sock" where
  "tick_sock srv =
     \<lparr>sk_sendall = (\<lambda>w f. ((fst w @ map (\<lambda>b. [b]) (srv f), snd w + 1), Inr ())),
      sk_recv = (\<lambda>w n. case seg_recv (fst w) n of (p, out) \<Rightarrow> ((p, snd w), out)),
      sk_close = (\<lambda>w. ([], snd w))\<rparr>"

definition tick_clock :: "(bytes list \<times> nat) clock" where
  "tick_clock = \<lparr>perf_counter = (\<lambda>w. (w, of_nat (snd w))), wall_time = (\<lambda>w. (w, of_nat (snd w)))\<rparr>"

definition echo_hits :: "bytes \<Rightarrow> (nat \<times> f32) list" where
  "echo_hits f = [(be_nat (take 8 (rev f)), 0)]"

definition hits_server :: "(bytes \<Rightarrow> (nat \<times> f32) list) \<Rightarrow> bytes \<Rightarrow> bytes" where
  "hits_server hs f = enc_counted 4 (response_body 0 (hits_payload (hs f)))"

lemma echo_hits_small: "fst (be_nat (take 8 (rev f)), 0 :: f32) < 2 ^ 64"
proof -
  have "be_nat (take 8 (rev f)) < 256 ^ length (take 8 (rev f))"
    by (rule be_nat_less)
  also have "\<dots> \<le> 256 ^ 8"
    by (intro power_increasing) simp_all
  finally show ?thesis by simp
qed

interpretation tick: rpc_server "tick_sock srv" "\<lambda>w. concat (fst w)" "\<lambda>_. srv" for srv
proof unfold_locales
  fix n :: nat and w :: "bytes list \<times> nat"
  assume "0 < n"
  then obtain p piece where r: "sk_recv (seg_sock srv) (fst w) n = (p, Inr piece)" "length piece \<le> n"
    "concat (fst w) = piece @ concat p" "piece = [] \<longrightarrow> concat (fst w) = []"
    using seg.recv [of n srv "fst w"] by blast
  have "sk_recv (tick_sock srv) w n = ((p, snd w), Inr piece)"
    using r(1) by (simp add: seg_sock_def tick_sock_def)
  with r(2-4) show "\<exists>w' piece. sk_recv (tick_sock srv) w n = (w', Inr piece) \<and> length piece \<le> n \<and>
      concat (fst w) = piece @ concat (fst w') \<and> (piece = [] \<longrightarrow> concat (fst w) = [])"
    by (intro exI [of _ "(p, snd w)"] exI [of _ piece]) simp
qed (simp add: tick_sock_def)

interpretation echo: rpc_hits "tick_sock (hits_server echo_hits)" "\<lambda>w. concat (fst w)" "\<lambda>_. hits_server echo_hits"
  tick_clock echo_hits
  using echo_hits_small by unfold_locales (simp_all add: hits_server_def echo_hits_def tick_clock_def)

lemma tick_recv_loop: "snd (fst (recv_loop (tick_sock srv) n got w)) = snd w"
proof (induction "tick_sock srv" n got w rule: recv_loop.induct)
  case (1 n got w)
  obtain p out where r: "seg_recv (fst w) (n - length got) = (p, out)" by fastforce
  have k: "sk_recv (tick_sock srv) w (n - length got) = ((p, snd w), out)"
    using r by (simp add: tick_sock_def)
  with 1 show ?case
    by (subst recv_loop.simps) (auto split: sum.splits)
qed

lemma tick_recvn: "recvn (tick_sock srv) w n = (w1, out) \<Longrightarrow> snd w1 = snd w"
  using tick_recv_loop [of srv n "[]" w] by (simp add: recvn_def)

lemma tick_search: "search (tick_sock srv) w f = (w1, out) \<Longrightarrow> snd w1 = snd w + 1"
proof -
  assume s: "search (tick_sock srv) w f = (w1, out)"
  let ?w0 = "(fst w @ map (\<lambda>b. [b]) (srv f), snd w + 1)"
  have "sk_sendall (tick_sock srv) w f = (?w0, Inr ())"
    by (simp add: tick_sock_def)
  with s show ?thesis
    by (auto simp: search_def split: result_splits dest!: tick_recvn)
qed

lemma tick_frame_ask: "frame_ask (tick_sock srv) frames w i = (w1, out) \<Longrightarrow> snd w < snd w1"
  using tick_search by (fastforce simp: frame_ask_def split: prod.splits)

interpretation ticking: running_clock tick_clock "frame_ask (tick_sock srv) frames" snd 1 for srv frames
  by unfold_locales (auto simp: tick_clock_def dest: tick_frame_ask)

end
