(* ===== verification/Engines.thy ===== *)
theory Engines
  imports Sift_Facts
begin

text \<open>
  The harnesses of the other engines: \<open>sift1m/qdrant_latency_qps.py\<close>, \<open>sift1m/qdrant_bench.py\<close>,
  \<open>sift1m/redis_bench.py\<close> and \<open>sift1m/hnswlib_bench.py\<close>. The client libraries and services are records of the
  calls the scripts make; the loops that wait for an index have no bound of their own and are
  partial functions. Printing is an argument, and each line is printed where the script prints it.
\<close>

section \<open>Waiting for an index\<close>

partial_function (option) poll :: "('w \<Rightarrow> 'w \<times> bool result) \<Rightarrow> ('w \<Rightarrow> 'w) \<Rightarrow> 'w \<Rightarrow> ('w \<times> unit result) option" where
  "poll ready sleep w =
     (case ready w of
        (w1, Inl e) \<Rightarrow> Some (w1, Inl e)
      | (w1, Inr b) \<Rightarrow> if b then Some (w1, Inr ()) else poll ready sleep (sleep w1))"

declare poll.simps [code]

definition ends_with :: "string \<Rightarrow> string \<Rightarrow> bool" where
  "ends_with s t \<longleftrightarrow> drop (length s - length t) s = t"

section \<open>Qdrant\<close>

record qd_collection =
  qc_size :: nat
  qc_distance :: string
  qc_on_disk :: "bool option"
  qc_m :: nat
  qc_ef_construct :: nat
  qc_sq8 :: bool

record 'w qdrant =
  qd_exists :: "'w \<Rightarrow> 'w \<times> bool result"
  qd_delete :: "'w \<Rightarrow> 'w \<times> unit result"
  qd_create :: "'w \<Rightarrow> qd_collection \<Rightarrow> 'w \<times> unit result"
  qd_upload :: "'w \<Rightarrow> f32 list list \<Rightarrow> nat list \<Rightarrow> nat \<Rightarrow> nat \<Rightarrow> 'w \<times> unit result"
  qd_info :: "'w \<Rightarrow> 'w \<times> (string \<times> int option) result"
  qd_query :: "'w \<Rightarrow> f32 list \<Rightarrow> nat \<Rightarrow> nat \<Rightarrow> 'w \<times> int list result"

text \<open>The client is opened on the local service: \<open>open_client\<close> is the library's constructor.\<close>

record qd_endpoint =
  qe_host :: string
  qe_port :: nat
  qe_grpc_port :: nat
  qe_prefer_grpc :: bool
  qe_timeout :: nat

definition new_client :: "(qd_endpoint \<Rightarrow> 'w qdrant) \<Rightarrow> 'w qdrant" where
  "new_client open_client =
     open_client \<lparr>qe_host = ''localhost'', qe_port = 6333, qe_grpc_port = 6334, qe_prefer_grpc = True, qe_timeout = 600\<rparr>"

definition indexed_count :: "int option \<Rightarrow> int" where
  "indexed_count c = (case c of None \<Rightarrow> 0 | Some v \<Rightarrow> v)"

definition qdrant_ready :: "'w qdrant \<Rightarrow> nat \<Rightarrow> 'w \<Rightarrow> 'w \<times> bool result" where
  "qdrant_ready qd n w =
     (case qd_info qd w of
        (w1, Inl e) \<Rightarrow> (w1, Inl e)
      | (w1, Inr (status, indexed)) \<Rightarrow>
          (w1, Inr (ends_with status ''green'' \<and> int (p99_index n) \<le> indexed_count indexed)))"

text \<open>Drop an old collection and create a new one; upload the vectors and wait for the index.\<close>

definition qdrant_recreate :: "'w qdrant \<Rightarrow> qd_collection \<Rightarrow> 'w \<Rightarrow> 'w \<times> unit result" where
  "qdrant_recreate qd coll w =
     (case qd_exists qd w of
        (w1, Inl e) \<Rightarrow> (w1, Inl e)
      | (w1, Inr old) \<Rightarrow>
          (case (if old then qd_delete qd w1 else (w1, Inr ())) of
             (w2, Inl e) \<Rightarrow> (w2, Inl e)
           | (w2, Inr _) \<Rightarrow> qd_create qd w2 coll))"

definition qdrant_ingest :: "'w qdrant \<Rightarrow> (nat \<Rightarrow> 'w \<Rightarrow> 'w) \<Rightarrow> f32 list list \<Rightarrow> 'w \<Rightarrow> ('w \<times> unit result) option" where
  "qdrant_ingest qd sleep vectors w =
     (case qd_upload qd w vectors [0..<length vectors] 2000 2 of
        (w1, Inl e) \<Rightarrow> Some (w1, Inl e)
      | (w1, Inr _) \<Rightarrow> poll (qdrant_ready qd (length vectors)) (sleep 2) w1)"

definition build_params :: "nat \<Rightarrow> qd_collection" where
  "build_params d = \<lparr>qc_size = d, qc_distance = ''EUCLID'', qc_on_disk = None, qc_m = 16, qc_ef_construct = 200, qc_sq8 = False\<rparr>"

definition qdrant_build :: "'w qdrant \<Rightarrow> (nat \<Rightarrow> 'w \<Rightarrow> 'w) \<Rightarrow> f32 list list \<Rightarrow> nat \<Rightarrow> 'w \<Rightarrow> ('w \<times> unit result) option" where
  "qdrant_build qd sleep vectors d w =
     (case qdrant_recreate qd (build_params d) w of
        (w1, Inl e) \<Rightarrow> Some (w1, Inl e)
      | (w1, Inr _) \<Rightarrow> qdrant_ingest qd sleep vectors w1)"

text \<open>Qdrant's ids are the row numbers themselves.\<close>

definition plain_truth :: "32 word list list \<Rightarrow> nat \<Rightarrow> int list result" where
  "plain_truth gt i = rbind (row_at gt i) (\<lambda>r. Inr (map sint r))"

definition qdrant_ask :: "'w qdrant \<Rightarrow> nat \<Rightarrow> f32 list list \<Rightarrow> 'w engine" where
  "qdrant_ask qd ef queries w i =
     (case row_at queries i of
        Inl e \<Rightarrow> (w, Inl e)
      | Inr q \<Rightarrow> qd_query qd w q knn ef)"

definition latency_qdrant ::
  "'w qdrant \<Rightarrow> 'w clock \<Rightarrow> (rat list \<Rightarrow> rat) \<Rightarrow> f32 list list \<Rightarrow> 32 word list list \<Rightarrow> nat \<Rightarrow> 'w \<Rightarrow> 'w \<times> latency_summary result" where
  "latency_qdrant qd clk py_sum queries gt ef w =
     (case timed_loop clk (qdrant_ask qd ef queries) (plain_truth gt) [0..<lat_n] [] 0 w of
        (w1, Inl e) \<Rightarrow> (w1, Inl e)
      | (w1, Inr (lats, hits)) \<Rightarrow> (w1, summarize py_sum hits lats))"

definition qps_worker_qdrant ::
  "'w qdrant \<Rightarrow> 'w clock \<Rightarrow> rat \<Rightarrow> f32 list list \<Rightarrow> nat \<Rightarrow> 'w \<Rightarrow> nat \<Rightarrow> ('w \<times> nat result) option" where
  "qps_worker_qdrant qd clk dur queries ef w wid = qps_worker clk (qdrant_ask qd ef queries) dur (length queries) wid w"

definition saturated_qps_qdrant ::
  "'w qdrant \<Rightarrow> 'w clock \<Rightarrow> 'w pool \<Rightarrow> nat \<Rightarrow> rat \<Rightarrow> f32 list list \<Rightarrow> nat \<Rightarrow> 'w \<Rightarrow> 'w \<times> rat result" where
  "saturated_qps_qdrant qd clk pool conc dur queries ef w =
     pool_qps clk (pool (qps_worker_qdrant qd clk dur queries ef)) conc w"

definition ef_sweep :: "nat list" where
  "ef_sweep = [16, 64, 128]"

fun sweep :: "('w \<Rightarrow> nat \<Rightarrow> 'w \<times> 'r result) \<Rightarrow> nat list \<Rightarrow> 'w \<Rightarrow> 'w \<times> (nat \<times> 'r) list result" where
  "sweep run [] w = (w, Inr [])"
| "sweep run (ef # efs) w =
     (case run w ef of
        (w1, Inl e) \<Rightarrow> (w1, Inl e)
      | (w1, Inr r) \<Rightarrow>
          (case sweep run efs w1 of
             (w2, Inl e) \<Rightarrow> (w2, Inl e)
           | (w2, Inr rs) \<Rightarrow> (w2, Inr ((ef, r) # rs))))"

definition measure_qdrant ::
  "'w qdrant \<Rightarrow> 'w clock \<Rightarrow> (rat list \<Rightarrow> rat) \<Rightarrow> 'w pool \<Rightarrow> nat \<Rightarrow> rat \<Rightarrow> f32 list list \<Rightarrow> 32 word list list
    \<Rightarrow> 'w \<Rightarrow> nat \<Rightarrow> 'w \<times> (latency_summary \<times> rat) result" where
  "measure_qdrant qd clk py_sum pool conc dur queries gt w ef =
     (case latency_qdrant qd clk py_sum queries gt ef w of
        (w1, Inl e) \<Rightarrow> (w1, Inl e)
      | (w1, Inr s) \<Rightarrow>
          (case saturated_qps_qdrant qd clk pool conc dur queries ef w1 of
             (w2, Inl e) \<Rightarrow> (w2, Inl e)
           | (w2, Inr qps) \<Rightarrow> (w2, Inr (s, qps))))"

text \<open>An existing collection with at least 99 percent of the vectors indexed is reused.\<close>

definition qdrant_reusable :: "'w qdrant \<Rightarrow> nat \<Rightarrow> 'w \<Rightarrow> 'w \<times> bool result" where
  "qdrant_reusable qd n w =
     (case qd_exists qd w of
        (w1, Inl e) \<Rightarrow> (w1, Inl e)
      | (w1, Inr False) \<Rightarrow> (w1, Inr False)
      | (w1, Inr True) \<Rightarrow>
          (case qd_info qd w1 of
             (w2, Inl e) \<Rightarrow> (w2, Inl e)
           | (w2, Inr (_, indexed)) \<Rightarrow> (w2, Inr (int (p99_index n) \<le> indexed_count indexed))))"

text \<open>The three files of the data set, and the width of a matrix read from one.\<close>

definition sift_data :: "np_files \<Rightarrow> string \<Rightarrow> (f32 list list \<times> f32 list list \<times> 32 word list list) result" where
  "sift_data nf sift =
     rbind (read_fvecs nf (sift @ ''/sift_base.fvecs'')) (\<lambda>vectors.
     rbind (read_fvecs nf (sift @ ''/sift_query.fvecs'')) (\<lambda>queries.
     rbind (read_ivecs nf (sift @ ''/sift_groundtruth.ivecs'')) (\<lambda>full.
       Inr (vectors, queries, map (take knn) full))))"

definition width :: "'a list list \<Rightarrow> nat" where
  "width rows = (case rows of [] \<Rightarrow> 0 | r # _ \<Rightarrow> length r)"

text \<open>\<open>n\<close> by \<open>dim\<close>, as the lines about the collection print them.\<close>

definition size_text :: "nat \<Rightarrow> nat \<Rightarrow> string" where
  "size_text n d = dec_nat n @ ''x'' @ dec_nat d"

text \<open>A build with the two lines around it.\<close>

definition announced_build ::
  "'w printer \<Rightarrow> 'w qdrant \<Rightarrow> (nat \<Rightarrow> 'w \<Rightarrow> 'w) \<Rightarrow> 'w clock \<Rightarrow> f32 list list \<Rightarrow> 'w \<Rightarrow> ('w \<times> unit result) option" where
  "announced_build pr qd sleep clk vectors w =
     (case wall_time clk (pr (''[qdrant] building '' @ size_text (length vectors) (width vectors) @ '' (M=16, efC=200)...'') w) of
        (w1, t0) \<Rightarrow>
          (case qdrant_build qd sleep vectors (width vectors) w1 of
             None \<Rightarrow> None
           | Some (w2, Inl e) \<Rightarrow> Some (w2, Inl e)
           | Some (w2, Inr _) \<Rightarrow>
               (case wall_time clk w2 of
                  (w3, t1) \<Rightarrow> Some (pr (''[qdrant] built in '' @ fmt_fixed 1 (fsub t1 t0) @ ''s'') w3, Inr ()))))"

definition qdrant_banner :: "int \<Rightarrow> rat \<Rightarrow> string" where
  "qdrant_banner conc dur =
     ''[qdrant] latency=single-client; satQPS='' @ str_int conc @ '' concurrent processes x '' @ fmt_fixed 0 dur @ ''s''"

definition main_qdrant ::
  "np_files \<Rightarrow> 'w printer \<Rightarrow> string \<Rightarrow> 'w qdrant \<Rightarrow> (nat \<Rightarrow> 'w \<Rightarrow> 'w) \<Rightarrow> 'w clock \<Rightarrow> (rat list \<Rightarrow> rat) \<Rightarrow> 'w pool \<Rightarrow> int \<Rightarrow> rat \<Rightarrow> 'w
    \<Rightarrow> ('w \<times> (nat \<times> latency_summary \<times> rat) list result) option" where
  "main_qdrant nf pr sift qd sleep clk py_sum pool conc dur w =
     (case sift_data nf sift of
        Inl e \<Rightarrow> Some (w, Inl e)
      | Inr (vectors, queries, gt) \<Rightarrow>
          (case qdrant_reusable qd (length vectors) w of
             (w1, Inl e) \<Rightarrow> Some (w1, Inl e)
           | (w1, Inr skip) \<Rightarrow>
               (case (if skip
                      then Some (pr (''[qdrant] reusing existing collection ('' @ size_text (length vectors) (width vectors) @ '')'') w1, Inr ())
                      else announced_build pr qd sleep clk vectors w1) of
                  None \<Rightarrow> None
                | Some (w2, Inl e) \<Rightarrow> Some (w2, Inl e)
                | Some (w2, Inr _) \<Rightarrow>
                    Some (sweep (printed pr latency_row (measure_qdrant qd clk py_sum pool (nat conc) dur queries gt)) ef_sweep
                      (prints pr [qdrant_banner conc dur, latency_header] w2)))))"

section \<open>The single-client sweeps\<close>

definition ef_sweep_bench :: "nat list" where
  "ef_sweep_bench = [16, 32, 64, 128, 256, 512]"

fun hit_loop :: "'w engine \<Rightarrow> (nat \<Rightarrow> int list result) \<Rightarrow> nat list \<Rightarrow> nat \<Rightarrow> 'w \<Rightarrow> 'w \<times> nat result" where
  "hit_loop ask truth [] hits w = (w, Inr hits)"
| "hit_loop ask truth (i # is) hits w =
     (case ask w i of
        (w1, Inl e) \<Rightarrow> (w1, Inl e)
      | (w1, Inr ids) \<Rightarrow>
          (case truth i of
             Inl e \<Rightarrow> (w1, Inl e)
           | Inr ts \<Rightarrow> hit_loop ask truth is (hits + overlap ids ts) w1))"

text \<open>One row of a sweep: the recall and the queries per second.\<close>

definition bench_row ::
  "'w clock \<Rightarrow> 'w engine \<Rightarrow> (nat \<Rightarrow> int list result) \<Rightarrow> nat \<Rightarrow> 'w \<Rightarrow> 'w \<times> (rat \<times> rat) result" where
  "bench_row clk ask truth nq w =
     (case wall_time clk w of
        (w1, t1) \<Rightarrow>
          (case hit_loop ask truth [0..<nq] 0 w1 of
             (w2, Inl e) \<Rightarrow> (w2, Inl e)
           | (w2, Inr hits) \<Rightarrow>
               (case wall_time clk w2 of
                  (w3, t2) \<Rightarrow>
                    (w3, rbind (fdiv (of_nat hits) (of_nat (nq * knn))) (\<lambda>recall.
                         rbind (fdiv (of_nat nq) (fsub t2 t1)) (\<lambda>qps. Inr (recall, qps)))))))"

definition bench_params :: "bool \<Rightarrow> nat \<Rightarrow> qd_collection" where
  "bench_params sq8 d = \<lparr>qc_size = d, qc_distance = ''EUCLID'', qc_on_disk = Some sq8, qc_m = 16, qc_ef_construct = 200, qc_sq8 = sq8\<rparr>"

text \<open>
  The end of a bench run: the build rate (a division by the build time), the lines that head the table
  and the sweep with its rows.
\<close>

definition bench_report ::
  "'w printer \<Rightarrow> nat \<Rightarrow> rat \<Rightarrow> (rat \<Rightarrow> string list) \<Rightarrow> nat \<Rightarrow> ('w \<Rightarrow> nat \<Rightarrow> 'w \<times> (rat \<times> rat) result) \<Rightarrow> 'w
    \<Rightarrow> 'w \<times> (rat \<times> (nat \<times> rat \<times> rat) list) result" where
  "bench_report pr n build heads col row w =
     (case fdiv (of_nat n) build of
        Inl e \<Rightarrow> (w, Inl e)
      | Inr rate \<Rightarrow>
          (case sweep (printed pr (sweep_row col) row) ef_sweep_bench (prints pr (heads rate) w) of
             (w1, Inl e) \<Rightarrow> (w1, Inl e)
           | (w1, Inr rows) \<Rightarrow> (w1, Inr (rate, rows))))"

text \<open>The line about the corpus and the build.\<close>

definition corpus_line :: "string \<Rightarrow> nat \<Rightarrow> nat \<Rightarrow> string \<Rightarrow> rat \<Rightarrow> rat \<Rightarrow> string \<Rightarrow> string" where
  "corpus_line engine n d how build rate params =
     engine @ '' SIFT-1M: corpus='' @ dec_nat n @ '' dim='' @ dec_nat d @ ''  '' @ how @ ''='' @ fmt_fixed 1 build @ ''s ('' @
     fmt_fixed 0 rate @ '' vec/s)  ['' @ params @ '']''"

text \<open>An em dash is its UTF-8 encoding.\<close>

definition em_dash :: string where
  "em_dash = [CHR 0xE2, CHR 0x80, CHR 0x94]"

definition config_line :: "bool \<Rightarrow> string" where
  "config_line sq8 = ''[config] quantization='' @ (if sq8 then ''SQ8 (int8, always_ram, originals on_disk)'' else ''none (float32)'')"

definition qdrant_marker :: string where
  "qdrant_marker = ''[mem-marker] index ready '' @ em_dash @ '' snapshot docker stats now''"

definition qdrant_heads :: "nat \<Rightarrow> nat \<Rightarrow> rat \<Rightarrow> rat \<Rightarrow> string list" where
  "qdrant_heads n d build rate =
     [corpus_line ''Qdrant'' n d ''build(upload+index)'' build rate ''M=16 efC=200'', sweep_header 20 ''QPS(svc round-trip)'']"

definition main_qdrant_bench ::
  "np_files \<Rightarrow> 'w printer \<Rightarrow> string \<Rightarrow> 'w qdrant \<Rightarrow> (nat \<Rightarrow> 'w \<Rightarrow> 'w) \<Rightarrow> 'w clock \<Rightarrow> bool \<Rightarrow> 'w
    \<Rightarrow> ('w \<times> (rat \<times> (nat \<times> rat \<times> rat) list) result) option" where
  "main_qdrant_bench nf pr sift qd sleep clk sq8 w =
     (case sift_data nf sift of
        Inl e \<Rightarrow> Some (w, Inl e)
      | Inr (vectors, queries, gt) \<Rightarrow>
          (case qdrant_recreate qd (bench_params sq8 (width vectors)) w of
             (w1, Inl e) \<Rightarrow> Some (w1, Inl e)
           | (w1, Inr _) \<Rightarrow>
               (case wall_time clk (pr (config_line sq8) w1) of
                  (w2, t0) \<Rightarrow>
                    (case qdrant_ingest qd sleep vectors w2 of
                       None \<Rightarrow> None
                     | Some (w3, Inl e) \<Rightarrow> Some (w3, Inl e)
                     | Some (w3, Inr _) \<Rightarrow>
                         (case wall_time clk w3 of
                            (w4, t1) \<Rightarrow>
                              Some (bench_report pr (length vectors) (fsub t1 t0)
                                (qdrant_heads (length vectors) (width vectors) (fsub t1 t0)) 20
                                (\<lambda>w ef. bench_row clk (qdrant_ask qd ef queries) (plain_truth gt) (length queries) w)
                                (sleep 20 (pr qdrant_marker w4))))))))"

section \<open>Redis\<close>

text \<open>
  Replies are values of the protocol. The client sends commands as lists of words, some of them bytes, and
  runs a pipeline of \<open>HSET\<close>s, each with its key and its fields.
\<close>

datatype resp = RNil | RInt int | RBulk bytes | RText string | RArr "resp list"

datatype word_arg = AText string | ABytes bytes

type_synonym hset = "string \<times> (string \<times> bytes) list"

record 'w redis =
  rd_ping :: "'w \<Rightarrow> 'w \<times> unit result"
  rd_command :: "'w \<Rightarrow> word_arg list \<Rightarrow> 'w \<times> resp result"
  rd_exec :: "'w \<Rightarrow> hset list \<Rightarrow> 'w \<times> unit result"

record rd_endpoint =
  re_host :: string
  re_port :: nat
  re_decode_responses :: bool
  re_protocol :: nat

definition redis_client :: "(rd_endpoint \<Rightarrow> 'w redis) \<Rightarrow> 'w redis" where
  "redis_client open_redis = open_redis \<lparr>re_host = ''127.0.0.1'', re_port = 6380, re_decode_responses = False, re_protocol = 2\<rparr>"

definition idx_name :: string where
  "idx_name = ''sift_idx''"

definition key_prefix :: string where
  "key_prefix = ''v:''"

definition drop_command :: "word_arg list" where
  "drop_command = map AText [''FT.DROPINDEX'', idx_name, ''DD'']"

text \<open>The index: on the hashes with the prefix, one vector field, whose attributes are counted first.\<close>

definition create_command :: "nat \<Rightarrow> word_arg list" where
  "create_command d =
     map AText
       [''FT.CREATE'', idx_name, ''ON'', ''HASH'', ''PREFIX'', ''1'', key_prefix, ''SCHEMA'', ''vec'', ''VECTOR'', ''HNSW'', ''10'',
        ''TYPE'', ''FLOAT32'', ''DIM'', dec_nat d, ''DISTANCE_METRIC'', ''L2'', ''M'', ''16'', ''EF_CONSTRUCTION'', ''200'']"

definition info_command :: "word_arg list" where
  "info_command = map AText [''FT.INFO'', idx_name]"

definition knn_text :: "nat \<Rightarrow> string" where
  "knn_text ef = ''*=>[KNN '' @ dec_nat knn @ '' @vec $BLOB EF_RUNTIME '' @ dec_nat ef @ '' AS score]''"

definition search_command :: "nat \<Rightarrow> bytes \<Rightarrow> word_arg list" where
  "search_command ef blob =
     map AText [''FT.SEARCH'', idx_name, knn_text ef, ''PARAMS'', ''2'', ''BLOB''] @ [ABytes blob] @
     map AText [''SORTBY'', ''score'', ''DIALECT'', ''2'', ''LIMIT'', ''0'', dec_nat knn, ''RETURN'', ''1'', ''score'']"

definition redis_key :: "nat \<Rightarrow> string" where
  "redis_key i = key_prefix @ dec_nat i"

definition hset_of :: "nat \<Rightarrow> bytes \<Rightarrow> hset" where
  "hset_of i v = (redis_key i, [(''vec'', v)])"

text \<open>The items of a reply by \<open>len\<close> and index: those of an array, and of bytes and text their characters.\<close>

definition reply_items :: "resp \<Rightarrow> resp list result" where
  "reply_items v =
     (case v of
        RArr xs \<Rightarrow> Inr xs
      | RBulk b \<Rightarrow> Inr (map (\<lambda>x. RInt (uint x)) b)
      | RText s \<Rightarrow> Inr (map (\<lambda>c. RText [c]) s)
      | _ \<Rightarrow> Inl (TypeError ''object has no len()''))"

text \<open>
  The pipelined load: commands are queued and executed whenever the row number ends a group of two
  thousand, and once more at the end; executing empties the queue.
\<close>

fun redis_load :: "('w \<Rightarrow> hset list \<Rightarrow> 'w \<times> unit result) \<Rightarrow> bytes list \<Rightarrow> nat \<Rightarrow> hset list \<Rightarrow> 'w \<Rightarrow> 'w \<times> unit result" where
  "redis_load exec [] i pipe w = exec w pipe"
| "redis_load exec (v # vs) i pipe w =
     (let pipe' = pipe @ [hset_of i v]
      in if i mod 2000 = 1999 then
           (case exec w pipe' of
              (w1, Inl e) \<Rightarrow> (w1, Inl e)
            | (w1, Inr _) \<Rightarrow> redis_load exec vs (i + 1) [] w1)
         else redis_load exec vs (i + 1) pipe' w)"

text \<open>Text of a reply item: \<open>decode()\<close> of bytes, for the ASCII text this client stores and reads.\<close>

definition decode_ascii :: "bytes \<Rightarrow> string result" where
  "decode_ascii bs =
     (if list_all (\<lambda>b. unat b < 128) bs then Inr (map (\<lambda>b. char_of (unat b)) bs)
      else Inl (ValueError ''not ASCII text''))"

definition key_text_of :: "resp \<Rightarrow> string result" where
  "key_text_of v =
     (case v of
        RBulk b \<Rightarrow> decode_ascii b
      | RText s \<Rightarrow> Inr s
      | _ \<Rightarrow> Inl (AttributeError ''split''))"

text \<open>\<open>int(key.split(":")[1])\<close>\<close>

definition key_id :: "string \<Rightarrow> int result" where
  "key_id key = rbind (row_at (split_char (CHR '':'') key) 1) int_of_str"

text \<open>The items at positions 1, 3, 5 and so on.\<close>

fun odd_items :: "'a list \<Rightarrow> 'a list" where
  "odd_items (x # y # zs) = y # odd_items zs"
| "odd_items _ = []"

definition reply_ids :: "resp list \<Rightarrow> int list result" where
  "reply_ids res = mapr (\<lambda>v. rbind (key_text_of v) key_id) (odd_items res)"

definition redis_ask :: "'w redis \<Rightarrow> (f32 list \<Rightarrow> bytes) \<Rightarrow> f32 list list \<Rightarrow> nat \<Rightarrow> 'w engine" where
  "redis_ask rd tobytes queries ef w i =
     (case row_at queries i of
        Inl e \<Rightarrow> (w, Inl e)
      | Inr q \<Rightarrow>
          (case rd_command rd w (search_command ef (tobytes q)) of
             (w1, Inl e) \<Rightarrow> (w1, Inl e)
           | (w1, Inr res) \<Rightarrow> (w1, rbind (reply_items res) reply_ids)))"

text \<open>
  \<open>FT.INFO\<close> as a dictionary (a later pair replaces an earlier one), and the two fields the loop reads:
  the bytes key first, then the text key, then the default; a false value becomes the default too.
\<close>

fun info_pairs :: "resp list \<Rightarrow> (resp \<times> resp) list result" where
  "info_pairs [] = Inr []"
| "info_pairs [x] = Inl (IndexError ''list index out of range'')"
| "info_pairs (x # y # zs) = rbind (info_pairs zs) (\<lambda>ps. Inr ((x, y) # ps))"

definition info_get :: "(resp \<times> resp) list \<Rightarrow> string \<Rightarrow> int \<Rightarrow> resp" where
  "info_get ps name dflt =
     (let v = (case map_of (rev ps) (RBulk (encode name)) of
                 Some v \<Rightarrow> v
               | None \<Rightarrow> (case map_of (rev ps) (RText name) of Some v \<Rightarrow> v | None \<Rightarrow> RInt dflt))
      in if v = RNil \<or> v = RInt 0 \<or> v = RBulk [] \<or> v = RText [] \<or> v = RArr [] then RInt dflt else v)"

definition resp_int :: "resp \<Rightarrow> int result" where
  "resp_int v =
     (case v of
        RInt i \<Rightarrow> Inr i
      | RBulk b \<Rightarrow> rbind (decode_ascii b) int_of_str
      | RText s \<Rightarrow> int_of_str s
      | _ \<Rightarrow> Inl (TypeError ''int() argument''))"

definition redis_ready :: "'w redis \<Rightarrow> (resp \<Rightarrow> rat result) \<Rightarrow> 'w \<Rightarrow> 'w \<times> bool result" where
  "redis_ready rd float_of w =
     (case rd_command rd w info_command of
        (w1, Inl e) \<Rightarrow> (w1, Inl e)
      | (w1, Inr info) \<Rightarrow>
          (w1, rbind (rbind (reply_items info) info_pairs) (\<lambda>ps.
               rbind (float_of (info_get ps ''percent_indexed'' 1)) (\<lambda>pct.
               rbind (resp_int (info_get ps ''indexing'' 0)) (\<lambda>indexing.
                 Inr (1 \<le> pct \<and> indexing = 0))))))"

text \<open>The old index is dropped if there is one: a \<open>ResponseError\<close> of the drop is passed over.\<close>

definition redis_recreate :: "'w redis \<Rightarrow> nat \<Rightarrow> 'w \<Rightarrow> 'w \<times> unit result" where
  "redis_recreate rd d w =
     (case rd_ping rd w of
        (w1, Inl e) \<Rightarrow> (w1, Inl e)
      | (w1, Inr _) \<Rightarrow>
          (case rd_command rd w1 drop_command of
             (w2, dropped) \<Rightarrow>
               (case (case dropped of Inl (ResponseError m) \<Rightarrow> Inr RNil | _ \<Rightarrow> dropped) of
                  Inl e \<Rightarrow> (w2, Inl e)
                | Inr _ \<Rightarrow>
                    (case rd_command rd w2 (create_command d) of
                       (w3, created) \<Rightarrow> (w3, rbind created (\<lambda>_. Inr ()))))))"

definition load_line :: "nat \<Rightarrow> rat \<Rightarrow> rat \<Rightarrow> string" where
  "load_line n load rate =
     ''[load] '' @ dec_nat n @ '' vectors HSET in '' @ fmt_fixed 1 load @ ''s ('' @ fmt_fixed 0 rate @ '' vec/s); indexing...''"

definition redis_ingest ::
  "'w printer \<Rightarrow> 'w redis \<Rightarrow> (nat \<Rightarrow> 'w \<Rightarrow> 'w) \<Rightarrow> 'w clock \<Rightarrow> (resp \<Rightarrow> rat result) \<Rightarrow> bytes list \<Rightarrow> 'w \<Rightarrow> ('w \<times> rat result) option" where
  "redis_ingest pr rd sleep clk float_of blobs w =
     (case wall_time clk w of
        (w1, t0) \<Rightarrow>
          (case redis_load (rd_exec rd) blobs 0 [] w1 of
             (w2, Inl e) \<Rightarrow> Some (w2, Inl e)
           | (w2, Inr _) \<Rightarrow>
               (case wall_time clk w2 of
                  (w3, t1) \<Rightarrow>
                    (case fdiv (of_nat (length blobs)) (fsub t1 t0) of
                       Inl e \<Rightarrow> Some (w3, Inl e)
                     | Inr rate \<Rightarrow>
                         (case poll (redis_ready rd float_of) (sleep 2) (pr (load_line (length blobs) (fsub t1 t0) rate) w3) of
                            None \<Rightarrow> None
                          | Some (w4, Inl e) \<Rightarrow> Some (w4, Inl e)
                          | Some (w4, Inr _) \<Rightarrow>
                              (case wall_time clk w4 of (w5, t2) \<Rightarrow> Some (w5, Inr (fsub t2 t0))))))))"

definition redis_marker :: string where
  "redis_marker = ''[mem-marker] index ready '' @ em_dash @ '' snapshot `docker stats redisstack` now''"

definition redis_heads :: "nat \<Rightarrow> nat \<Rightarrow> rat \<Rightarrow> rat \<Rightarrow> string list" where
  "redis_heads n d build rate =
     [corpus_line ''RediSearch'' n d ''build(load+index)'' build rate ''M=16 efC=200'', sweep_header 20 ''QPS(svc round-trip)'']"

definition main_redis ::
  "np_files \<Rightarrow> 'w printer \<Rightarrow> string \<Rightarrow> 'w redis \<Rightarrow> (f32 list \<Rightarrow> bytes) \<Rightarrow> (nat \<Rightarrow> 'w \<Rightarrow> 'w) \<Rightarrow> 'w clock \<Rightarrow> (resp \<Rightarrow> rat result) \<Rightarrow> 'w
    \<Rightarrow> ('w \<times> (rat \<times> (nat \<times> rat \<times> rat) list) result) option" where
  "main_redis nf pr sift rd tobytes sleep clk float_of w =
     (case sift_data nf sift of
        Inl e \<Rightarrow> Some (w, Inl e)
      | Inr (vectors, queries, gt) \<Rightarrow>
          (case redis_recreate rd (width vectors) w of
             (w1, Inl e) \<Rightarrow> Some (w1, Inl e)
           | (w1, Inr _) \<Rightarrow>
               (case redis_ingest pr rd sleep clk float_of (map tobytes vectors) w1 of
                  None \<Rightarrow> None
                | Some (w2, Inl e) \<Rightarrow> Some (w2, Inl e)
                | Some (w2, Inr build) \<Rightarrow>
                    Some (bench_report pr (length vectors) build (redis_heads (length vectors) (width vectors) build) 20
                      (\<lambda>w ef. bench_row clk (redis_ask rd tobytes queries ef) (plain_truth gt) (length queries) w)
                      (sleep 15 (pr redis_marker w2))))))"

section \<open>hnswlib\<close>

record hl_params =
  hp_max_elements :: nat
  hp_ef_construction :: nat
  hp_M :: nat
  hp_random_seed :: nat

record 'w hnswlib =
  hl_index :: "'w \<Rightarrow> string \<Rightarrow> nat \<Rightarrow> 'w \<times> unit result"
  hl_init_index :: "'w \<Rightarrow> hl_params \<Rightarrow> 'w \<times> unit result"
  hl_add_items :: "'w \<Rightarrow> f32 list list \<Rightarrow> nat list \<Rightarrow> int \<Rightarrow> 'w \<times> unit result"
  hl_set_ef :: "'w \<Rightarrow> nat \<Rightarrow> 'w"
  hl_knn_query :: "'w \<Rightarrow> f32 list list \<Rightarrow> nat \<Rightarrow> int \<Rightarrow> 'w \<times> int list list result"

text \<open>The build: the index is initialised for the number of vectors and filled by all cores.\<close>

definition hnswlib_build :: "'w hnswlib \<Rightarrow> f32 list list \<Rightarrow> 'w \<Rightarrow> 'w \<times> unit result" where
  "hnswlib_build hl vectors w =
     (case hl_init_index hl w \<lparr>hp_max_elements = length vectors, hp_ef_construction = 200, hp_M = 16, hp_random_seed = 42\<rparr> of
        (w1, Inl e) \<Rightarrow> (w1, Inl e)
      | (w1, Inr _) \<Rightarrow> hl_add_items hl w1 vectors [0..<length vectors] (- 1))"

text \<open>\<open>sum(len(set(labels[i]) & set(gt[i])) for i in range(len(query)))\<close>\<close>

definition label_hits :: "int list list \<Rightarrow> 32 word list list \<Rightarrow> nat \<Rightarrow> nat result" where
  "label_hits labels gt nq =
     rbind (mapr (\<lambda>i. rbind (row_at labels i) (\<lambda>ls. rbind (plain_truth gt i) (\<lambda>ts. Inr (overlap ls ts)))) [0..<nq])
       (\<lambda>hs. Inr (sum_list hs))"

definition hnswlib_row ::
  "'w hnswlib \<Rightarrow> 'w clock \<Rightarrow> f32 list list \<Rightarrow> 32 word list list \<Rightarrow> 'w \<Rightarrow> nat \<Rightarrow> 'w \<times> (rat \<times> rat) result" where
  "hnswlib_row hl clk queries gt w ef =
     (case wall_time clk (hl_set_ef hl w ef) of
        (w1, t1) \<Rightarrow>
          (case hl_knn_query hl w1 queries knn 1 of
             (w2, Inl e) \<Rightarrow> (w2, Inl e)
           | (w2, Inr labels) \<Rightarrow>
               (case wall_time clk w2 of
                  (w3, t2) \<Rightarrow>
                    (w3, rbind (label_hits labels gt (length queries)) (\<lambda>hits.
                         rbind (fdiv (of_nat hits) (of_nat (length queries * knn))) (\<lambda>recall.
                         rbind (fdiv (of_nat (length queries)) (fsub t2 t1)) (\<lambda>qps. Inr (recall, qps))))))))"

text \<open>The time a build takes by the wall clock.\<close>

definition timed_build :: "'w clock \<Rightarrow> ('w \<Rightarrow> 'w \<times> unit result) \<Rightarrow> 'w \<Rightarrow> 'w \<times> rat result" where
  "timed_build clk run w =
     (case wall_time clk w of
        (w1, t0) \<Rightarrow>
          (case run w1 of
             (w2, Inl e) \<Rightarrow> (w2, Inl e)
           | (w2, Inr _) \<Rightarrow> (case wall_time clk w2 of (w3, t1) \<Rightarrow> (w3, Inr (fsub t1 t0)))))"

text \<open>
  \<open>rss_mb()\<close>: the second word of \<open>/proc/self/statm\<close> in pages, as MiB. The file's text at the time is an argument, as is the
  page size.
\<close>

definition rss_mb :: "int \<Rightarrow> string \<Rightarrow> rat result" where
  "rss_mb page statm =
     rbind (row_at (split_ws statm) 1) (\<lambda>t.
     rbind (int_of_str t) (\<lambda>resident.
       fdiv (of_int (resident * page)) (2 ^ 20)))"

definition statm_mb :: "('w \<Rightarrow> 'w \<times> string result) \<Rightarrow> int \<Rightarrow> 'w \<Rightarrow> 'w \<times> rat result" where
  "statm_mb statm page w = (case statm w of (w', x) \<Rightarrow> (w', rbind x (rss_mb page)))"

record memory =
  index_rss :: rat
  rss_after :: rat
  rss_base :: rat

definition hnswlib_heads :: "nat \<Rightarrow> nat \<Rightarrow> rat \<Rightarrow> memory \<Rightarrow> rat \<Rightarrow> string list" where
  "hnswlib_heads n d build mem rate =
     [corpus_line ''hnswlib'' n d ''build'' build rate ''M=16 efC=200, parallel build'',
      ''[mem] index RSS='' @ fmt_fixed 0 (index_rss mem) @ ''MB  (rss_after_build_inputs_freed='' @ fmt_fixed 0 (rss_after mem) @
        ''MB, baseline='' @ fmt_fixed 0 (rss_base mem) @ ''MB)  float32+graph, M=16'',
      sweep_header 12 ''QPS(1-thread)'']"

definition main_hnswlib ::
  "np_files \<Rightarrow> 'w printer \<Rightarrow> string \<Rightarrow> 'w hnswlib \<Rightarrow> 'w clock \<Rightarrow> ('w \<Rightarrow> 'w \<times> string result) \<Rightarrow> int \<Rightarrow> 'w
    \<Rightarrow> 'w \<times> (memory \<times> rat \<times> (nat \<times> rat \<times> rat) list) result" where
  "main_hnswlib nf pr sift hl clk statm page w =
     (case rbind (read_fvecs nf (sift @ ''/sift_query.fvecs'')) (\<lambda>queries.
           rbind (read_ivecs nf (sift @ ''/sift_groundtruth.ivecs'')) (\<lambda>full.
             Inr (queries, map (take knn) full))) of
        Inl e \<Rightarrow> (w, Inl e)
      | Inr (queries, gt) \<Rightarrow>
          (case statm_mb statm page w of
             (w0, Inl e) \<Rightarrow> (w0, Inl e)
           | (w0, Inr m0) \<Rightarrow>
               (case read_fvecs nf (sift @ ''/sift_base.fvecs'') of
                  Inl e \<Rightarrow> (w0, Inl e)
                | Inr vectors \<Rightarrow>
                    (case hl_index hl w0 ''l2'' (width vectors) of
                       (w1, Inl e) \<Rightarrow> (w1, Inl e)
                     | (w1, Inr _) \<Rightarrow>
                         (case timed_build clk (hnswlib_build hl vectors) w1 of
                            (w2, Inl e) \<Rightarrow> (w2, Inl e)
                          | (w2, Inr build) \<Rightarrow>
                              (case statm_mb statm page w2 of
                                 (w3, Inl e) \<Rightarrow> (w3, Inl e)
                               | (w3, Inr m1) \<Rightarrow>
                                   (let mem = \<lparr>index_rss = fsub m1 m0, rss_after = m1, rss_base = m0\<rparr>
                                    in case bench_report pr (length vectors) build
                                              (hnswlib_heads (length vectors) (width vectors) build mem) 12
                                              (hnswlib_row hl clk queries gt) w3 of
                                         (w4, x) \<Rightarrow> (w4, rbind x (\<lambda>rows. Inr (mem, rows))))))))))"

end
