(* ===== verification/Engine_Facts.thy ===== *)
theory Engine_Facts
  imports Engines
begin

text \<open>
  Lemmas on the other engines' harnesses. \<open>polling\<close> is the contract of a service whose index gets
  finished: every unsuccessful look followed by the pause brings it nearer, so the wait returns;
  \<open>pipe_store\<close> is the contract of a pipelined store: executing a batch appends its commands. Both are
  interpreted on the readiness checks and the load of the scripts.
\<close>

section \<open>Waiting\<close>

lemma poll_ready:
  "poll ready sleep w = Some (w', Inr ()) \<Longrightarrow> \<exists>v. ready v = (w', Inr True)"
proof -
  have "y = (w', Inr ()) \<longrightarrow> r = ready \<longrightarrow> (\<exists>v. ready v = (w', Inr True))" if "poll r s w = Some y" for r s w y
    using that by (rule poll.raw_induct [rotated]) (auto split: result_splits if_splits)
  then show "poll ready sleep w = Some (w', Inr ()) \<Longrightarrow> ?thesis" by blast
qed

locale polling =
  fixes ready :: "'w \<Rightarrow> 'w \<times> bool result" and sleep :: "'w \<Rightarrow> 'w" and left :: "'w \<Rightarrow> nat"
  assumes progress: "\<exists>w' b. ready w = (w', Inr b) \<and> (\<not> b \<longrightarrow> left (sleep w') < left w)"
begin

lemma poll_returns: "\<exists>w'. poll ready sleep w = Some (w', Inr ())"
proof (induction "left w" arbitrary: w rule: less_induct)
  case less
  obtain w' b where r: "ready w = (w', Inr b)" "\<not> b \<longrightarrow> left (sleep w') < left w"
    using progress by blast
  then show ?case
    using less [of "sleep w'"] by (subst poll.simps) auto
qed

end

lemma qdrant_ready_True:
  "qdrant_ready qd n w = (w', Inr True) \<longleftrightarrow>
    (\<exists>status indexed. qd_info qd w = (w', Inr (status, indexed)) \<and> ends_with status ''green'' \<and>
      int (p99_index n) \<le> indexed_count indexed)"
  by (auto simp: qdrant_ready_def split: result_splits)

section \<open>The pipelined load\<close>

definition redis_cmds :: "nat \<Rightarrow> bytes list \<Rightarrow> hset list" where
  "redis_cmds i vs = map2 hset_of [i..<i + length vs] vs"

lemma redis_cmds_Cons: "redis_cmds i (v # vs) = hset_of i v # redis_cmds (i + 1) vs"
  by (simp add: redis_cmds_def upt_conv_Cons del: upt_Suc)

locale pipe_store =
  fixes exec :: "'w \<Rightarrow> hset list \<Rightarrow> 'w \<times> unit result" and stored :: "'w \<Rightarrow> hset list"
  assumes exec: "exec w cmds = (w', Inr u) \<Longrightarrow> stored w' = stored w @ cmds"
begin

lemma redis_load_stored:
  "redis_load exec vs i pipe w = (w', Inr u) \<Longrightarrow> stored w' = stored w @ pipe @ redis_cmds i vs"
proof (induction vs arbitrary: i pipe w)
  case Nil
  then show ?case by (simp add: redis_cmds_def exec)
next
  case (Cons v vs)
  show ?case
  proof (cases "i mod 2000 = 1999")
    case True
    with Cons.prems obtain w1 u1 where e: "exec w (pipe @ [hset_of i v]) = (w1, Inr u1)"
      and l: "redis_load exec vs (i + 1) [] w1 = (w', Inr u)"
      by (auto simp: Let_def split: result_splits)
    from Cons.IH [OF l] exec [OF e] show ?thesis
      by (simp add: redis_cmds_Cons)
  next
    case False
    with Cons.prems have "redis_load exec vs (i + 1) (pipe @ [hset_of i v]) w = (w', Inr u)"
      by (simp add: Let_def)
    from Cons.IH [OF this] show ?thesis
      by (simp add: redis_cmds_Cons)
  qed
qed

end

text \<open>The batches themselves: a store that keeps them apart.\<close>

definition batch_exec :: "hset list list \<Rightarrow> hset list \<Rightarrow> hset list list \<times> unit result" where
  "batch_exec w cmds = (w @ [cmds], Inr ())"

interpretation batches: pipe_store batch_exec concat
  by unfold_locales (auto simp: batch_exec_def)

lemma redis_load_batches:
  assumes "length pipe = i mod 2000"
  shows "\<exists>new final. redis_load batch_exec vs i pipe w = (w @ new @ [final], Inr ()) \<and>
    list_all (\<lambda>b. length b = 2000) new \<and> length final < 2000"
  using assms
proof (induction vs arbitrary: i pipe w)
  case Nil
  then show ?case by (intro exI [of _ "[]"] exI [of _ pipe]) (simp add: batch_exec_def)
next
  case (Cons v vs)
  let ?p = "pipe @ [hset_of i v]"
  show ?case
  proof (cases "i mod 2000 = 1999")
    case True
    then have "length ([] :: hset list) = (i + 1) mod 2000"
      using mod_Suc [of i 2000] by simp
    from Cons.IH [OF this, of "w @ [?p]"] obtain new final where
      "redis_load batch_exec vs (i + 1) [] (w @ [?p]) = ((w @ [?p]) @ new @ [final], Inr ())"
      "list_all (\<lambda>b. length b = 2000) new" "length final < 2000"
      by blast
    moreover have "batch_exec w ?p = (w @ [?p], Inr ())"
      by (simp add: batch_exec_def)
    ultimately show ?thesis
      using True Cons.prems by (intro exI [of _ "?p # new"] exI [of _ final]) (simp add: Let_def)
  next
    case False
    then have "length ?p = (i + 1) mod 2000"
      using Cons.prems mod_Suc [of i 2000] by auto
    from Cons.IH [OF this, of w] False show ?thesis
      by (simp add: Let_def)
  qed
qed

section \<open>Replies of Redis\<close>

lemma decode_encode_ascii: "is_ascii s \<Longrightarrow> decode_ascii (encode s) = Inr s"
proof -
  assume a: "is_ascii s"
  then have "encode s = map (\<lambda>c. of_nat (of_char c)) s"
    by (induction s) (simp_all add: encode_def is_ascii_def utf8_char_def)
  moreover have "unat (of_nat (of_char c) :: byte) = of_char c" if "(of_char c :: nat) < 128" for c
    using that by (simp add: unat_of_nat)
  ultimately show ?thesis
    using a by (auto simp: decode_ascii_def is_ascii_def list_all_iff intro: map_idI)
qed

lemma colon_not_digit: "CHR '':'' \<notin> set (dec_nat i)"
  using dec_nat_digits [of i] by (auto simp: list_all_iff is_digit_def)

lemma int_of_str_dec_nat: "int_of_str (dec_nat i) = Inr (int i)"
  using int_of_str_str_int [of "int i"] by (simp add: str_int_def)

lemma key_id_redis_key: "key_id (redis_key i) = Inr (int i)"
  by (simp add: key_id_def redis_key_def key_prefix_def split_char_none colon_not_digit row_at_def int_of_str_dec_nat)

text \<open>A search reply: the count, then each key with its fields.\<close>

definition search_reply :: "(nat \<times> resp) list \<Rightarrow> resp list" where
  "search_reply hs = RInt (int (length hs)) # concat (map (\<lambda>h. [RBulk (encode (redis_key (fst h))), snd h]) hs)"

lemma odd_items_reply: "odd_items (x # concat (map (\<lambda>h. [f h, g h]) hs)) = map f hs"
  by (induction hs arbitrary: x) simp_all

lemma reply_ids_search_reply: "reply_ids (search_reply hs) = Inr (map (int \<circ> fst) hs)"
proof -
  have a: "is_ascii (redis_key i)" for i
    by (simp add: redis_key_def key_prefix_def is_ascii_def list_all_iff) (metis is_ascii_dec_nat is_ascii_def list_all_iff)
  have "reply_ids (search_reply hs) = mapr (\<lambda>v. rbind (key_text_of v) key_id) (map (\<lambda>h. RBulk (encode (redis_key (fst h)))) hs)"
    unfolding reply_ids_def search_reply_def odd_items_reply ..
  also have "\<dots> = Inr (map (int \<circ> fst) hs)"
    by (induction hs) (simp_all add: key_text_of_def decode_encode_ascii a key_id_redis_key)
  finally show ?thesis .
qed

section \<open>Recall of the sweeps\<close>

lemma hit_loop_bound:
  assumes "hit_loop ask truth is hits w = (w', Inr hits')"
    and "\<And>i ts. i \<in> set is \<Longrightarrow> truth i = Inr ts \<Longrightarrow> length ts \<le> k"
  shows "hits' \<le> hits + length is * k"
  using assms
proof (induction "is" arbitrary: hits w)
  case Nil
  then show ?case by simp
next
  case (Cons i "is")
  from Cons.prems(1) obtain w1 ids ts where t: "ask w i = (w1, Inr ids)" "truth i = Inr ts"
    and l: "hit_loop ask truth is (hits + overlap ids ts) w1 = (w', Inr hits')"
    by (auto split: result_splits)
  have "overlap ids ts \<le> k"
    using overlap_le [of ids ts] Cons.prems(2) [of i ts] t(2) by simp
  moreover have "\<And>j ts. j \<in> set is \<Longrightarrow> truth j = Inr ts \<Longrightarrow> length ts \<le> k"
    using Cons.prems(2) by (meson list.set_intros(2))
  ultimately show ?case
    using Cons.IH [OF l] by auto
qed

lemma plain_truth_len: "list_all (\<lambda>r. length r \<le> k) gt \<Longrightarrow> plain_truth gt i = Inr ts \<Longrightarrow> length ts \<le> k"
  by (auto simp: plain_truth_def row_at_def list_all_length split: if_splits)

lemma bench_row_recall:
  assumes "bench_row clk ask (plain_truth gt) nq w = (w', Inr (recall, qps))" "list_all (\<lambda>r. length r \<le> knn) gt"
  shows "0 \<le> recall \<and> recall \<le> 1"
proof -
  obtain w1 w2 hits t1 where h: "hit_loop ask (plain_truth gt) [0..<nq] 0 w1 = (w2, Inr hits)"
    and r: "fdiv (of_nat hits) (of_nat (nq * knn)) = Inr recall"
    using assms(1) by (auto simp: bench_row_def split: result_splits)
  have "hits \<le> nq * knn"
    using hit_loop_bound [OF h plain_truth_len [OF assms(2)]] by simp
  moreover have "0 < nq * knn"
    using r by (auto simp: fdiv_def split: if_splits)
  ultimately show ?thesis
    using ratio_unit [of hits "nq * knn"] r by auto
qed

lemma label_hits_bound:
  assumes "label_hits labels gt nq = Inr hits" "list_all (\<lambda>r. length r \<le> k) gt"
  shows "hits \<le> nq * k"
proof -
  obtain hs where m: "mapr (\<lambda>i. rbind (row_at labels i) (\<lambda>ls. rbind (plain_truth gt i) (\<lambda>ts. Inr (overlap ls ts)))) [0..<nq] = Inr hs"
    and h: "hits = sum_list hs"
    using assms(1) by (auto simp: label_hits_def)
  have l: "length hs = nq"
    using mapr_length [OF m] by simp
  have "hs ! i \<le> k" if lt: "i < nq" for i
  proof -
    obtain ls ts where "plain_truth gt i = Inr ts" "overlap ls ts = hs ! i"
      using mapr_Inr_nth [OF m, of i] lt by auto
    then show ?thesis
      using overlap_le [of ls ts] plain_truth_len [OF assms(2)] by fastforce
  qed
  then have "\<forall>h \<in> set hs. h \<le> k"
    using l by (auto simp: in_set_conv_nth)
  then have "sum_list hs \<le> length hs * k"
    by (induction hs) auto
  then show ?thesis
    using h l by simp
qed

lemma hnswlib_row_recall:
  assumes "hnswlib_row hl clk queries gt w ef = (w', Inr (recall, qps))" "list_all (\<lambda>r. length r \<le> knn) gt"
  shows "0 \<le> recall \<and> recall \<le> 1"
proof -
  obtain labels hits where h: "label_hits labels gt (length queries) = Inr hits"
    and r: "fdiv (of_nat hits) (of_nat (length queries * knn)) = Inr recall"
    using assms(1) by (auto simp: hnswlib_row_def split: result_splits)
  have "hits \<le> length queries * knn"
    using label_hits_bound [OF h assms(2)] .
  moreover have "0 < length queries * knn"
    using r by (auto simp: fdiv_def split: if_splits)
  ultimately show ?thesis
    using ratio_unit [of hits "length queries * knn"] r by auto
qed

section \<open>A service that takes its time\<close>

text \<open>The world is the number of pauses until the index is finished.\<close>

definition slow_qdrant :: "nat \<Rightarrow> nat qdrant" where
  "slow_qdrant n =
     \<lparr>qd_exists = (\<lambda>w. (w, Inr False)), qd_delete = (\<lambda>w. (w, Inr ())), qd_create = (\<lambda>w _. (w, Inr ())),
      qd_upload = (\<lambda>w vs ids b p. (length vs, Inr ())),
      qd_info = (\<lambda>w. (w, Inr (if w = 0 then ''green'' else ''yellow'', Some (int (n - w))))),
      qd_query = (\<lambda>w q k ef. (w, Inr (map int [0..<k])))\<rparr>"

lemma p99_index_le: "p99_index n \<le> n"
  using p99_index_bounds [of n] by (cases "n = 0") (auto simp: p99_index_def fmul_def ftrunc_def)

interpretation slow: polling "qdrant_ready (slow_qdrant n) n" "\<lambda>w. w - 1" "\<lambda>w. w" for n
proof unfold_locales
  fix w :: nat
  show "\<exists>w' b. qdrant_ready (slow_qdrant n) n w = (w', Inr b) \<and> (\<not> b \<longrightarrow> w' - 1 < w)"
    using p99_index_le [of n]
    by (auto simp: qdrant_ready_def slow_qdrant_def indexed_count_def ends_with_def)
qed

end
