(* ===== verification/Report_Facts.thy ===== *)
theory Report_Facts
  imports Engine_Facts
begin

text \<open>
  What the SIFT-1M programs show. The contracts say who prints: nobody but the program. \<open>bench_console\<close> is
  a console beside quiet clocks, and its extensions add the quiet service of each harness; \<open>redis_service\<close>
  also says what the service stores and finds. The lemmas give the lines a run shows, in order, and the recall
  of its rows; they are interpreted on worlds that keep their console.
\<close>

section \<open>Quiet loops\<close>

lemma quietI: "(\<And>w w' x. f w = (w', x) \<Longrightarrow> shown w' = shown w) \<Longrightarrow> quiet shown f"
  by (simp add: quiet_def)

lemma hit_loop_quiet:
  assumes "\<And>i. quiet shown (\<lambda>w. ask w i)"
  shows "quiet shown (hit_loop ask truth is hits)"
proof (rule quietI)
  show "hit_loop ask truth is hits w = (w', x) \<Longrightarrow> shown w' = shown w" for w w' x
  proof (induction "is" arbitrary: hits w)
    case Nil
    then show ?case by simp
  next
    case (Cons i "is")
    from Cons.prems show ?case
      by (auto split: result_splits dest!: Cons.IH quietD [OF assms])
  qed
qed

lemma poll_quiet:
  assumes "poll ready sleep w = Some (w', x)" "quiet shown ready" "\<And>v. shown (sleep v) = shown v"
  shows "shown w' = shown w"
proof -
  have "r = ready \<longrightarrow> s = sleep \<longrightarrow> shown (fst y) = shown v" if "poll r s v = Some y" for r s v y
    using that
  proof (rule poll.raw_induct [rotated], intro impI)
    fix p :: "('a \<Rightarrow> 'a \<times> bool result) \<Rightarrow> ('a \<Rightarrow> 'a) \<Rightarrow> 'a \<Rightarrow> ('a \<times> unit result) option" and r s v y
    assume IH: "\<And>r s v y. p r s v = Some y \<Longrightarrow> r = ready \<longrightarrow> s = sleep \<longrightarrow> shown (fst y) = shown v"
      and run: "(case r v of (w1, Inl e) \<Rightarrow> Some (w1, Inl e) | (w1, Inr b) \<Rightarrow> if b then Some (w1, Inr ()) else p r s (s w1)) = Some y"
      and eqs: "r = ready" "s = sleep"
    obtain w1 z where r: "ready v = (w1, z)" by fastforce
    have "shown w1 = shown v"
      using quietD [OF assms(2) r] .
    then show "shown (fst y) = shown v"
      using run IH [of ready sleep "sleep w1" y] assms(3) [of w1] unfolding eqs r
      by (auto split: sum.splits if_splits)
  qed
  then show ?thesis
    using assms(1) by fastforce
qed

section \<open>A console beside a clock\<close>

lemma sweep_keys: "sweep run efs w = (w', Inr rs) \<Longrightarrow> map fst rs = efs"
  by (induction efs arbitrary: w rs) (auto split: result_splits)

lemma sweep_rows:
  "sweep run efs w = (w', Inr rs) \<Longrightarrow> (ef, r) \<in> set rs \<Longrightarrow> \<exists>v v'. run v ef = (v', Inr r)"
  by (induction efs arbitrary: w rs) (fastforce split: result_splits)+

lemma sweep_rows_kept:
  assumes "sweep run efs w = (w', Inr rs)" "P w" "\<And>v ef v' r. run v ef = (v', Inr r) \<Longrightarrow> P v \<Longrightarrow> P v'"
  shows "P w' \<and> (\<forall>(ef, r) \<in> set rs. \<exists>v v'. P v \<and> run v ef = (v', Inr r))"
  using assms(1,2)
proof (induction efs arbitrary: w rs)
  case Nil
  then show ?case by simp
next
  case (Cons ef efs)
  then obtain w1 r rs' where r: "run w ef = (w1, Inr r)" "sweep run efs w1 = (w', Inr rs')" "rs = (ef, r) # rs'"
    by (auto split: result_splits)
  from Cons.IH [OF r(2) assms(3) [OF r(1) Cons.prems(2)]] Cons.prems(2) r(1,3) show ?case
    by auto
qed

text \<open>The hits of a row are counted exactly, whatever keeps the engine to its answers.\<close>

lemma hit_loop_exact:
  assumes "hit_loop ask truth is hits w = (w', Inr hits')" "P w"
    and "\<And>v i v' ids. ask v i = (v', Inr ids) \<Longrightarrow> P v \<Longrightarrow> P v' \<and> ids = res i"
    and "\<And>i ts. truth i = Inr ts \<Longrightarrow> ts = tr i"
  shows "P w' \<and> hits' = hits + sum_list (map (\<lambda>i. overlap (res i) (tr i)) is)"
  using assms(1,2)
proof (induction "is" arbitrary: hits w)
  case Nil
  then show ?case by simp
next
  case (Cons i "is")
  then obtain w1 ids ts where a: "ask w i = (w1, Inr ids)" "truth i = Inr ts"
    "hit_loop ask truth is (hits + overlap ids ts) w1 = (w', Inr hits')"
    by (auto split: result_splits)
  show ?case
    using Cons.IH [OF a(3)] assms(3) [OF a(1) Cons.prems(2)] assms(4) [OF a(2)] by simp
qed

lemma bench_row_exact:
  assumes "bench_row clk ask truth nq w = (w', Inr (recall, qps))" "P w"
    and clock: "\<And>v v' t. wall_time clk v = (v', t) \<Longrightarrow> P v \<Longrightarrow> P v'"
    and ask: "\<And>v i v' ids. ask v i = (v', Inr ids) \<Longrightarrow> P v \<Longrightarrow> P v' \<and> ids = res i"
    and truth: "\<And>i ts. truth i = Inr ts \<Longrightarrow> ts = tr i"
  shows "P w' \<and> recall = rnd (of_nat (\<Sum>i < nq. card (set (res i) \<inter> set (tr i))) / of_nat (nq * knn))"
proof -
  obtain w1 t1 w2 hits t2 where r: "wall_time clk w = (w1, t1)" "hit_loop ask truth [0..<nq] 0 w1 = (w2, Inr hits)"
    "wall_time clk w2 = (w', t2)" "fdiv (of_nat hits) (of_nat (nq * knn)) = Inr recall"
    using assms(1) by (auto simp: bench_row_def split: result_splits)
  have "P w2 \<and> hits = 0 + sum_list (map (\<lambda>i. overlap (res i) (tr i)) [0..<nq])"
    using hit_loop_exact [where P = P and res = res and tr = tr, OF r(2) clock [OF r(1) assms(2)] ask truth] .
  then show ?thesis
    using clock [OF r(3)] r(4)
    by (auto simp: overlap_card interv_sum_list_conv_sum_set_nat atLeast0LessThan fdiv_def split: if_splits)
qed

lemma printed_Inr: "printed pr line run w ef = (w', Inr r) \<longleftrightarrow> (\<exists>w1. run w ef = (w1, Inr r) \<and> w' = pr (line ef r) w1)"
  by (auto simp: printed_def split: result_splits)

locale bench_console = console pr shown for pr :: "'w printer" and shown +
  fixes clk :: "'w clock"
  assumes clock: "quiet_clock shown clk"
begin

lemma wall_quiet: "wall_time clk w = (w', t) \<Longrightarrow> shown w' = shown w"
  and perf_quiet: "perf_counter clk w = (w', t) \<Longrightarrow> shown w' = shown w"
  using clock by (auto simp: quiet_clock_def dest: quietD)

lemma sweep_shown:
  assumes "sweep (printed pr line run) efs w = (w', Inr rs)" "\<And>ef. quiet shown (\<lambda>w. run w ef)"
  shows "shown w' = shown w @ map (\<lambda>(ef, r). line ef r) rs"
  using assms(1)
proof (induction efs arbitrary: w rs)
  case Nil
  then show ?case by simp
next
  case (Cons ef efs)
  then obtain w1 r w2 rs' where "run w ef = (w1, Inr r)" "sweep (printed pr line run) efs (pr (line ef r) w1) = (w', Inr rs')"
    "rs = (ef, r) # rs'"
    by (auto split: result_splits simp: printed_Inr)
  then show ?case
    using Cons.IH quietD [OF assms(2)] by (simp add: shown_pr)
qed

lemma bench_row_quiet:
  assumes "\<And>i. quiet shown (\<lambda>w. ask w i)"
  shows "quiet shown (bench_row clk ask truth nq)"
  by (rule quietI) (auto simp: bench_row_def split: result_splits dest!: wall_quiet quietD [OF hit_loop_quiet [OF assms]])

lemma bench_report_shown:
  assumes "bench_report pr n build heads col row w = (w', Inr (rate, rows))" "\<And>ef. quiet shown (\<lambda>w. row w ef)"
  shows "shown w' = shown w @ heads rate @ map (\<lambda>(ef, r). sweep_row col ef r) rows" "map fst rows = ef_sweep_bench"
    "\<And>ef r. (ef, r) \<in> set rows \<Longrightarrow> \<exists>v v'. row v ef = (v', Inr r)"
proof -
  obtain w1 where s: "sweep (printed pr (sweep_row col) row) ef_sweep_bench (prints pr (heads rate) w) = (w', Inr rows)"
    using assms(1) by (auto simp: bench_report_def split: result_splits)
  show "shown w' = shown w @ heads rate @ map (\<lambda>(ef, r). sweep_row col ef r) rows"
    using sweep_shown [OF s assms(2)] by (simp add: shown_prints)
  show "map fst rows = ef_sweep_bench"
    using s by (rule sweep_keys)
  show "\<exists>v v'. row v ef = (v', Inr r)" if "(ef, r) \<in> set rows" for ef r
    using sweep_rows [OF s that] by (auto simp: printed_Inr)
qed

end

section \<open>Qdrant\<close>

locale qdrant_console = bench_console pr shown clk for pr :: "'w printer" and shown clk +
  fixes qd :: "'w qdrant" and sleep :: "nat \<Rightarrow> 'w \<Rightarrow> 'w"
  assumes calls: "quiet shown (qd_exists qd)" "quiet shown (qd_delete qd)" "quiet shown (\<lambda>w. qd_create qd w coll)"
      "quiet shown (\<lambda>w. qd_upload qd w vs ids b p)" "quiet shown (qd_info qd)" "quiet shown (\<lambda>w. qd_query qd w q k ef)"
    and sleep: "shown (sleep s w) = shown w"
begin

lemma recreate_quiet: "qdrant_recreate qd coll w = (w', x) \<Longrightarrow> shown w' = shown w"
  by (auto simp: qdrant_recreate_def split: result_splits if_splits dest!: quietD [OF calls(1)] quietD [OF calls(2)] quietD [OF calls(3)])

lemma ready_quiet: "quiet shown (qdrant_ready qd n)"
  by (rule quietI) (auto simp: qdrant_ready_def split: result_splits dest!: quietD [OF calls(5)])

lemma ingest_quiet: "qdrant_ingest qd sleep vectors w = Some (w', x) \<Longrightarrow> shown w' = shown w"
  by (auto simp: qdrant_ingest_def sleep split: result_splits dest!: quietD [OF calls(4)] poll_quiet [OF _ ready_quiet])

lemma ask_quiet: "quiet shown (\<lambda>w. qdrant_ask qd ef queries w i)"
  by (rule quietI) (auto simp: qdrant_ask_def split: result_splits sum.splits dest!: quietD [OF calls(6)])

lemma main_qdrant_bench_shown:
  assumes "main_qdrant_bench nf pr sift qd sleep clk sq8 w = Some (w', Inr (rate, rows))"
  shows "\<exists>n d build. shown w' = shown w @ [config_line sq8, qdrant_marker] @ qdrant_heads n d build rate @
      map (\<lambda>(ef, r). sweep_row 20 ef r) rows \<and> fdiv (of_nat n) build = Inr rate"
    "map fst rows = ef_sweep_bench" "(ef, recall, qps) \<in> set rows \<Longrightarrow> 0 \<le> recall \<and> recall \<le> 1"
proof -
  obtain vectors queries full where d: "sift_data nf sift = Inr (vectors, queries, map (take knn) full)"
    using assms by (auto simp: main_qdrant_bench_def sift_data_def split: result_splits)
  let ?n = "length vectors" and ?d = "width vectors"
  let ?row = "\<lambda>w ef. bench_row clk (qdrant_ask qd ef queries) (plain_truth (map (take knn) full)) (length queries) w"
  obtain w1 w2 t0 w3 w4 t1 where run: "qdrant_recreate qd (bench_params sq8 ?d) w = (w1, Inr ())"
    "wall_time clk (pr (config_line sq8) w1) = (w2, t0)" "qdrant_ingest qd sleep vectors w2 = Some (w3, Inr ())"
    "wall_time clk w3 = (w4, t1)"
    and rep: "bench_report pr ?n (fsub t1 t0) (qdrant_heads ?n ?d (fsub t1 t0)) 20 ?row (sleep 20 (pr qdrant_marker w4)) = (w', Inr (rate, rows))"
    using assms d by (auto simp: main_qdrant_bench_def split: result_splits option.splits)
  note out = bench_report_shown [OF rep bench_row_quiet [OF ask_quiet]]
  have "shown w4 = shown w @ [config_line sq8]"
    using recreate_quiet [OF run(1)] wall_quiet [OF run(2)] ingest_quiet [OF run(3)] wall_quiet [OF run(4)] by (simp add: shown_pr)
  moreover have "fdiv (of_nat ?n) (fsub t1 t0) = Inr rate"
    using rep by (auto simp: bench_report_def split: result_splits)
  ultimately show "\<exists>n d build. shown w' = shown w @ [config_line sq8, qdrant_marker] @ qdrant_heads n d build rate @
      map (\<lambda>(ef, r). sweep_row 20 ef r) rows \<and> fdiv (of_nat n) build = Inr rate"
    using out(1) by (intro exI [of _ ?n] exI [of _ ?d] exI [of _ "fsub t1 t0"]) (simp add: sleep shown_pr)
  show "map fst rows = ef_sweep_bench"
    by (rule out(2))
  show "0 \<le> recall \<and> recall \<le> 1" if "(ef, recall, qps) \<in> set rows"
    using out(3) [OF that] bench_row_recall by (fastforce simp: list_all_iff)
qed

end

section \<open>Redis\<close>

locale redis_console = bench_console pr shown clk for pr :: "'w printer" and shown clk +
  fixes rd :: "'w redis" and sleep :: "nat \<Rightarrow> 'w \<Rightarrow> 'w"
  assumes calls: "quiet shown (rd_ping rd)" "quiet shown (\<lambda>w. rd_command rd w cmd)" "quiet shown (\<lambda>w. rd_exec rd w cmds)"
    and sleep: "shown (sleep s w) = shown w"
begin

lemma recreate_quiet: "redis_recreate rd d w = (w', x) \<Longrightarrow> shown w' = shown w"
  by (auto simp: redis_recreate_def split: result_splits dest!: quietD [OF calls(1)] quietD [OF calls(2)])

lemma load_quiet: "redis_load (rd_exec rd) vs i pipe w = (w', x) \<Longrightarrow> shown w' = shown w"
  by (induction vs arbitrary: i pipe w) (auto simp: Let_def split: if_splits result_splits dest!: quietD [OF calls(3)])

lemma ready_quiet: "quiet shown (redis_ready rd float_of)"
  by (rule quietI) (auto simp: redis_ready_def split: result_splits dest!: quietD [OF calls(2)])

lemma wait_quiet: "poll (redis_ready rd float_of) (sleep s) w = Some (w', x) \<Longrightarrow> shown w' = shown w"
  by (erule poll_quiet) (simp_all add: ready_quiet sleep)

lemma ask_quiet: "quiet shown (\<lambda>w. redis_ask rd tobytes queries ef w i)"
  by (rule quietI) (auto simp: redis_ask_def split: result_splits dest!: quietD [OF calls(2)])

lemma ingest_shown:
  assumes "redis_ingest pr rd sleep clk float_of blobs w = Some (w', Inr build)"
  obtains w1 t0 w2 w3 t1 rate v v' t2 where "wall_time clk w = (w1, t0)" "redis_load (rd_exec rd) blobs 0 [] w1 = (w2, Inr ())"
    "wall_time clk w2 = (w3, t1)" "fdiv (of_nat (length blobs)) (fsub t1 t0) = Inr rate"
    "poll (redis_ready rd float_of) (sleep 2) (pr (load_line (length blobs) (fsub t1 t0) rate) w3) = Some (v', Inr ())"
    "redis_ready rd float_of v = (v', Inr True)" "wall_time clk v' = (w', t2)" "build = fsub t2 t0"
    "shown w' = shown w @ [load_line (length blobs) (fsub t1 t0) rate]"
proof -
  obtain w1 t0 w2 w3 t1 rate w4 t2 where run: "wall_time clk w = (w1, t0)" "redis_load (rd_exec rd) blobs 0 [] w1 = (w2, Inr ())"
      "wall_time clk w2 = (w3, t1)" "fdiv (of_nat (length blobs)) (fsub t1 t0) = Inr rate"
      "poll (redis_ready rd float_of) (sleep 2) (pr (load_line (length blobs) (fsub t1 t0) rate) w3) = Some (w4, Inr ())"
      "wall_time clk w4 = (w', t2)" "build = fsub t2 t0"
    using assms by (auto simp: redis_ingest_def split: result_splits option.splits)
  obtain v where v: "redis_ready rd float_of v = (w4, Inr True)"
    using poll_ready [OF run(5)] by blast
  have "shown w' = shown w @ [load_line (length blobs) (fsub t1 t0) rate]"
    using wall_quiet [OF run(1)] load_quiet [OF run(2)] wall_quiet [OF run(3)] wait_quiet [OF run(5)]
      wall_quiet [OF run(6)] by (simp add: shown_pr)
  then show thesis
    by (rule that [OF run(1-5) v run(6,7)])
qed

end

text \<open>
  The service behind the harness: dropping the index with \<open>DD\<close> deletes its hashes, a pipeline stores its
  hashes, no other command changes them, and a search answers with what the service finds, which searches, clock and
  console do not change.
\<close>

locale redis_service = redis_console pr shown clk rd sleep + pipe_store "rd_exec rd" stored
  for pr :: "'w printer" and shown and clk and rd :: "'w redis" and sleep and stored +
  fixes found :: "'w \<Rightarrow> nat \<Rightarrow> bytes \<Rightarrow> (nat \<times> resp) list"
  assumes dropped: "rd_command rd w drop_command = (w', out) \<Longrightarrow> stored w' = (case out of Inl _ \<Rightarrow> stored w | Inr _ \<Rightarrow> [])"
    and keeps: "cmd \<noteq> drop_command \<Longrightarrow> quiet stored (\<lambda>w. rd_command rd w cmd)" "quiet stored (rd_ping rd)" "quiet_clock stored clk"
      "stored (pr s w) = stored w" "stored (sleep secs w) = stored w"
    and answers: "rd_command rd w (search_command ef blob) = (w', Inr reply) \<Longrightarrow> reply = RArr (search_reply (found w ef blob))"
    and steady: "quiet found (\<lambda>w. rd_command rd w (search_command ef blob))" "quiet_clock found clk" "found (pr s w) = found w"
begin

lemma other_commands: "create_command d \<noteq> drop_command" "info_command \<noteq> drop_command" "search_command ef blob \<noteq> drop_command"
  by (simp_all add: create_command_def info_command_def search_command_def drop_command_def)

lemma recreate_stored:
  assumes "redis_recreate rd d w = (w', Inr ())"
  shows "stored w' = [] \<or> stored w' = stored w"
  using assms by (auto simp: redis_recreate_def split: result_splits sum.splits py_error.splits
      dest!: dropped quietD [OF keeps(2)] quietD [OF keeps(1) [OF other_commands(1)]])

lemma ready_stored: "quiet stored (redis_ready rd float_of)"
  by (rule quietI) (auto simp: redis_ready_def split: result_splits dest!: quietD [OF keeps(1) [OF other_commands(2)]])

lemma ask_stored: "quiet stored (\<lambda>w. redis_ask rd tobytes queries ef w i)"
  by (rule quietI) (auto simp: redis_ask_def split: result_splits dest!: quietD [OF keeps(1) [OF other_commands(3)]])

lemma ask_found:
  assumes "redis_ask rd tobytes queries ef w i = (w', Inr ids)"
  shows "found w' = found w \<and> ids = map (int \<circ> fst) (found w ef (tobytes (queries ! i)))"
proof -
  obtain reply where c: "rd_command rd w (search_command ef (tobytes (queries ! i))) = (w', Inr reply)"
    and i: "rbind (reply_items reply) reply_ids = Inr ids"
    using assms by (auto simp: redis_ask_def row_at_def split: result_splits if_splits)
  show ?thesis
    using quietD [OF steady(1) c] answers [OF c] i by (simp add: reply_items_def reply_ids_search_reply)
qed

lemma report_found:
  assumes "bench_report pr n build heads col (\<lambda>w ef. bench_row clk (redis_ask rd tobytes queries ef) (plain_truth gt) nq w) w = (w', Inr (rate, rows))"
    and "(ef, recall, qps) \<in> set rows"
  shows "recall = rnd (of_nat (\<Sum>i < nq. card (set (map (int \<circ> fst) (found w' ef (tobytes (queries ! i)))) \<inter> set (map sint (gt ! i)))) / of_nat (nq * knn))"
proof -
  let ?run = "printed pr (sweep_row col) (\<lambda>w ef. bench_row clk (redis_ask rd tobytes queries ef) (plain_truth gt) nq w)"
  let ?F = "found (prints pr (heads rate) w)"
  let ?recall = "\<lambda>ef. rnd (of_nat (\<Sum>i < nq. card (set (map (int \<circ> fst) (?F ef (tobytes (queries ! i)))) \<inter> set (map sint (gt ! i)))) / of_nat (nq * knn))"
  have clock: "wall_time clk v = (v', t) \<Longrightarrow> found v = ?F \<Longrightarrow> found v' = ?F" for v v' t
    using steady(2) by (auto simp: quiet_clock_def dest: quietD)
  have truth: "plain_truth gt i = Inr ts \<Longrightarrow> ts = map sint (gt ! i)" for i ts
    by (auto simp: plain_truth_def row_at_def split: if_splits)
  have row: "found v' = ?F \<and> fst r = ?recall ef" if run: "?run v ef = (v', Inr r)" and v: "found v = ?F" for v v' ef r
  proof -
    obtain v1 where b: "bench_row clk (redis_ask rd tobytes queries ef) (plain_truth gt) nq v = (v1, Inr (fst r, snd r))"
      and v': "v' = pr (sweep_row col ef r) v1"
      using run by (auto simp: printed_Inr)
    have "found v1 = ?F \<and> fst r = ?recall ef"
    proof (rule bench_row_exact [OF b, of "\<lambda>v. found v = ?F"])
      show "found u' = ?F \<and> ids = map (int \<circ> fst) (?F ef (tobytes (queries ! i)))"
        if "redis_ask rd tobytes queries ef u i = (u', Inr ids)" "found u = ?F" for u i u' ids
        using ask_found [OF that(1)] that(2) by simp
    qed (fact v clock truth)+
    then show ?thesis
      using v' steady(3) by simp
  qed
  have s: "sweep ?run ef_sweep_bench (prints pr (heads rate) w) = (w', Inr rows)"
    using assms(1) by (auto simp: bench_report_def split: result_splits)
  have "found w' = ?F \<and> (\<forall>(ef, r) \<in> set rows. \<exists>v v'. found v = ?F \<and> ?run v ef = (v', Inr r))"
    by (rule sweep_rows_kept [where P = "\<lambda>v. found v = ?F", OF s]) (use row in auto)
  then show ?thesis
    using row assms(2) by fastforce
qed

lemma wall_stored: "wall_time clk w = (w', t) \<Longrightarrow> stored w' = stored w"
  using keeps(3) by (auto simp: quiet_clock_def dest: quietD)

lemma prints_stored: "stored (prints pr ls w) = stored w"
  unfolding prints_def by (induction ls arbitrary: w) (simp_all add: keeps(4))

lemma report_stored:
  assumes "bench_report pr n build heads col (\<lambda>w ef. bench_row clk (redis_ask rd tobytes queries ef) truth nq w) w = (w', Inr (rate, rows))"
  shows "stored w' = stored w"
proof -
  let ?run = "printed pr (sweep_row col) (\<lambda>w ef. bench_row clk (redis_ask rd tobytes queries ef) truth nq w)"
  let ?S = "stored (prints pr (heads rate) w)"
  have s: "sweep ?run ef_sweep_bench (prints pr (heads rate) w) = (w', Inr rows)"
    using assms by (auto simp: bench_report_def split: result_splits)
  have "stored w' = ?S"
    by (rule sweep_rows_kept [where P = "\<lambda>v. stored v = ?S", OF s, THEN conjunct1])
      (auto simp: printed_Inr bench_row_def keeps(4) split: result_splits dest!: wall_stored quietD [OF hit_loop_quiet [OF ask_stored]])
  then show ?thesis
    by (simp add: prints_stored)
qed

lemma main_redis_run:
  assumes data: "sift_data nf sift = Inr (vectors, queries, gt)"
    and run: "main_redis nf pr sift rd tobytes sleep clk float_of w = Some (w', Inr (rate, rows))"
  shows "\<exists>u0 u1 t0 u2 u3 t1 load_rate v v' u4 t2.
    redis_recreate rd (width vectors) w = (u0, Inr ()) \<and> wall_time clk u0 = (u1, t0) \<and>
    redis_load (rd_exec rd) (map tobytes vectors) 0 [] u1 = (u2, Inr ()) \<and> wall_time clk u2 = (u3, t1) \<and>
    redis_ready rd float_of v = (v', Inr True) \<and> wall_time clk v' = (u4, t2) \<and> stored v' = stored w' \<and>
    fdiv (of_nat (length vectors)) (fsub t1 t0) = Inr load_rate \<and> fdiv (of_nat (length vectors)) (fsub t2 t0) = Inr rate \<and>
    shown w' = shown w @ [load_line (length vectors) (fsub t1 t0) load_rate, redis_marker] @
      redis_heads (length vectors) (width vectors) (fsub t2 t0) rate @ map (\<lambda>(ef, r). sweep_row 20 ef r) rows \<and>
    (stored u0 = [] \<or> stored u0 = stored w) \<and> stored w' = stored u0 @ redis_cmds 0 (map tobytes vectors)"
    (is "\<exists>u0 u1 t0 u2 u3 t1 load_rate v v' u4 t2. ?P u0 u1 t0 u2 u3 t1 load_rate v v' u4 t2")
    "map fst rows = ef_sweep_bench"
    "(ef, recall, qps) \<in> set rows \<Longrightarrow> recall = rnd (of_nat (\<Sum>i < length queries.
      card (set (map (int \<circ> fst) (found w' ef (tobytes (queries ! i)))) \<inter> set (map sint (gt ! i)))) / of_nat (length queries * knn))"
proof -
  let ?n = "length vectors" and ?d = "width vectors"
  let ?row = "\<lambda>w ef. bench_row clk (redis_ask rd tobytes queries ef) (plain_truth gt) (length queries) w"
  obtain u0 w2 build where r: "redis_recreate rd ?d w = (u0, Inr ())"
    "redis_ingest pr rd sleep clk float_of (map tobytes vectors) u0 = Some (w2, Inr build)"
    and rep: "bench_report pr ?n build (redis_heads ?n ?d build) 20 ?row (sleep 15 (pr redis_marker w2)) = (w', Inr (rate, rows))"
    using run data by (auto simp: main_redis_def split: result_splits option.splits)
  note out = bench_report_shown [OF rep bench_row_quiet [OF ask_quiet]]
  obtain u1 t0 u2 u3 t1 load_rate v v' t2 where
    i: "wall_time clk u0 = (u1, t0)" "redis_load (rd_exec rd) (map tobytes vectors) 0 [] u1 = (u2, Inr ())"
      "wall_time clk u2 = (u3, t1)" "fdiv (of_nat (length (map tobytes vectors))) (fsub t1 t0) = Inr load_rate"
      "poll (redis_ready rd float_of) (sleep 2) (pr (load_line (length (map tobytes vectors)) (fsub t1 t0) load_rate) u3) = Some (v', Inr ())"
      "redis_ready rd float_of v = (v', Inr True)" "wall_time clk v' = (w2, t2)" "build = fsub t2 t0"
      "shown w2 = shown u0 @ [load_line (length (map tobytes vectors)) (fsub t1 t0) load_rate]"
    by (rule ingest_shown [OF r(2)])
  have "stored v' = stored u3"
    using poll_quiet [OF i(5) ready_stored] by (simp add: keeps(4,5))
  then have st: "stored v' = stored u0 @ redis_cmds 0 (map tobytes vectors)"
    using redis_load_stored [OF i(2)] wall_stored [OF i(1)] wall_stored [OF i(3)] by simp
  have w': "stored w' = stored v'"
    using report_stored [OF rep] wall_stored [OF i(7)] by (simp add: keeps(4,5))
  have rate: "fdiv (of_nat ?n) (fsub t2 t0) = Inr rate"
    using rep i(8) by (auto simp: bench_report_def split: result_splits)
  have sh: "shown w' = shown w @ [load_line ?n (fsub t1 t0) load_rate, redis_marker] @ redis_heads ?n ?d (fsub t2 t0) rate @
      map (\<lambda>(ef, r). sweep_row 20 ef r) rows"
    using out(1) i(8,9) recreate_quiet [OF r(1)] by (simp add: sleep shown_pr)
  have "?P u0 u1 t0 u2 u3 t1 load_rate v v' w2 t2"
    using r(1) i(1-4,6,7) recreate_stored [OF r(1)] w' st rate sh by simp
  then show "\<exists>u0 u1 t0 u2 u3 t1 load_rate v v' u4 t2. ?P u0 u1 t0 u2 u3 t1 load_rate v v' u4 t2" by blast
  show "map fst rows = ef_sweep_bench"
    by (rule out(2))
  show "recall = rnd (of_nat (\<Sum>i < length queries. card (set (map (int \<circ> fst) (found w' ef (tobytes (queries ! i)))) \<inter>
      set (map sint (gt ! i)))) / of_nat (length queries * knn))" if "(ef, recall, qps) \<in> set rows"
    by (rule report_found [OF rep that])
qed

end

section \<open>hnswlib\<close>

locale hnswlib_console = bench_console pr shown clk for pr :: "'w printer" and shown clk +
  fixes hl :: "'w hnswlib" and statm :: "'w \<Rightarrow> 'w \<times> string result"
  assumes calls: "quiet shown (\<lambda>w. hl_index hl w space d)" "quiet shown (\<lambda>w. hl_init_index hl w ps)"
      "quiet shown (\<lambda>w. hl_add_items hl w vs ids threads)" "quiet shown (\<lambda>w. hl_knn_query hl w qs k threads)" "quiet shown statm"
    and set_ef: "shown (hl_set_ef hl w ef) = shown w"
begin

lemma row_quiet: "quiet shown (\<lambda>w. hnswlib_row hl clk queries gt w ef)"
  by (rule quietI) (auto simp: hnswlib_row_def set_ef split: result_splits dest!: wall_quiet quietD [OF calls(4)])

lemma statm_quiet: "statm_mb statm page w = (w', x) \<Longrightarrow> shown w' = shown w"
  by (auto simp: statm_mb_def split: prod.splits dest!: quietD [OF calls(5)])

lemma build_quiet: "timed_build clk (hnswlib_build hl vectors) w = (w', x) \<Longrightarrow> shown w' = shown w"
  by (auto simp: timed_build_def hnswlib_build_def split: result_splits
      dest!: wall_quiet quietD [OF calls(2)] quietD [OF calls(3)])

lemma main_hnswlib_shown:
  assumes "main_hnswlib nf pr sift hl clk statm page w = (w', Inr (mem, rate, rows))"
  shows "\<exists>n d build. shown w' = shown w @ hnswlib_heads n d build mem rate @ map (\<lambda>(ef, r). sweep_row 12 ef r) rows"
    "map fst rows = ef_sweep_bench" "(ef, recall, qps) \<in> set rows \<Longrightarrow> 0 \<le> recall \<and> recall \<le> 1"
proof -
  obtain queries full where q: "read_fvecs nf (sift @ ''/sift_query.fvecs'') = Inr queries"
    "read_ivecs nf (sift @ ''/sift_groundtruth.ivecs'') = Inr full"
    using assms by (auto simp: main_hnswlib_def split: result_splits)
  obtain w0 m0 vectors w1 w2 build w3 m1 where run: "statm_mb statm page w = (w0, Inr m0)"
    "hl_index hl w0 ''l2'' (width vectors) = (w1, Inr ())" "timed_build clk (hnswlib_build hl vectors) w1 = (w2, Inr build)"
    "statm_mb statm page w2 = (w3, Inr m1)"
    and rep: "bench_report pr (length vectors) build (hnswlib_heads (length vectors) (width vectors) build mem) 12
      (hnswlib_row hl clk queries (map (take knn) full)) w3 = (w', Inr (rate, rows))"
    using assms q by (auto simp: main_hnswlib_def Let_def split: result_splits)
  note out = bench_report_shown [OF rep row_quiet]
  show "\<exists>n d build. shown w' = shown w @ hnswlib_heads n d build mem rate @ map (\<lambda>(ef, r). sweep_row 12 ef r) rows"
    using out(1) statm_quiet [OF run(1)] quietD [OF calls(1) run(2)] build_quiet [OF run(3)] statm_quiet [OF run(4)]
    by (intro exI [of _ "length vectors"] exI [of _ "width vectors"] exI [of _ build]) simp
  show "map fst rows = ef_sweep_bench"
    by (rule out(2))
  show "0 \<le> recall \<and> recall \<le> 1" if "(ef, recall, qps) \<in> set rows"
    using out(3) [OF that] hnswlib_row_recall by (fastforce simp: list_all_iff)
qed

end

section \<open>The latency programs\<close>

lemma burst_quiet:
  assumes "\<And>i. quiet shown (\<lambda>w. ask w i)"
  shows "burst ask m c i n w = (w', x) \<Longrightarrow> shown w' = shown w"
  by (induction c arbitrary: i n w) (auto split: if_splits result_splits dest!: quietD [OF assms])

lemma worker_loop_quiet:
  assumes "worker_loop clk ask m stop i n w = Some (w', x)" "quiet_clock shown clk" "\<And>i. quiet shown (\<lambda>w. ask w i)"
  shows "shown w' = shown w"
proof -
  have wall: "quiet shown (wall_time clk)"
    using assms(2) by (simp add: quiet_clock_def)
  have "c = clk \<longrightarrow> a = ask \<longrightarrow> shown (fst y) = shown v" if "worker_loop c a m stop i n v = Some y" for c a m stop i n v y
    using that
  proof (rule worker_loop.raw_induct [rotated], intro impI)
    fix p :: "'a clock \<Rightarrow> 'a engine \<Rightarrow> nat \<Rightarrow> rat \<Rightarrow> nat \<Rightarrow> nat \<Rightarrow> 'a \<Rightarrow> ('a \<times> nat result) option" and c a m stop i n v y
    assume IH: "\<And>c a m stop i n v y. p c a m stop i n v = Some y \<Longrightarrow> c = clk \<longrightarrow> a = ask \<longrightarrow> shown (fst y) = shown v"
      and run: "(case wall_time c v of
        (w1, t) \<Rightarrow>
          if t < stop then
            (case burst a m 16 i n w1 of
               (w2, Inl e) \<Rightarrow> Some (w2, Inl e)
             | (w2, Inr (i', n')) \<Rightarrow> p c a m stop i' n' w2)
          else Some (w1, Inr n)) = Some y"
      and eqs: "c = clk" "a = ask"
    obtain w1 t w2 z where r: "wall_time clk v = (w1, t)" "burst ask m 16 i n w1 = (w2, z)" by fastforce
    have "shown w1 = shown v" "shown w2 = shown v"
      using quietD [OF wall r(1)] burst_quiet [OF assms(3) r(2)] by simp_all
    moreover have "shown (fst y) = shown w2" if "p clk ask m stop i' n' w2 = Some y" for i' n'
      using IH [OF that] by simp
    ultimately show "shown (fst y) = shown v"
      using run unfolding eqs by (auto simp: r split: if_splits sum.splits)
  qed
  then show ?thesis
    using assms(1) by fastforce
qed

text \<open>A worker whose every answer adds one to a tally adds its count.\<close>

lemma burst_tally:
  assumes "\<And>w i w' ids. ask w i = (w', Inr ids) \<Longrightarrow> tally w' = tally w + (1 :: nat)"
  shows "burst ask m c i n w = (w', Inr z) \<Longrightarrow> tally w' = tally w + c"
  by (induction c arbitrary: i n w) (auto split: if_splits result_splits dest!: assms)

lemma worker_loop_tally:
  assumes "quiet tally (wall_time clk)" "\<And>w i w' ids. ask w i = (w', Inr ids) \<Longrightarrow> tally w' = tally w + (1 :: nat)"
  shows "worker_loop clk ask m stop i n w = Some y \<Longrightarrow> snd y = Inr n' \<Longrightarrow> n \<le> n' \<and> tally (fst y) = tally w + (n' - n)"
proof (induction rule: worker_loop_induct)
  case (stop i n w w1 t)
  then show ?case using quietD [OF assms(1)] by auto
next
  case (error i n w w1 t w2 e)
  then show ?case by simp
next
  case (round i n w w1 t w2 i2 n2 y)
  have "n2 = n + 16" "tally w2 = tally w + 16"
    using burst_counts [OF round.hyps(2)] burst_tally [where tally = tally, OF assms(2) round.hyps(2)] quietD [OF assms(1) round.hyps(1)] by simp_all
  moreover have "n2 \<le> n' \<and> tally (fst y) = tally w2 + (n' - n2)"
    using round by blast
  ultimately show ?case by simp
qed

lemma qps_worker_tally:
  assumes "quiet tally (wall_time clk)" "\<And>w i w' ids. ask w i = (w', Inr ids) \<Longrightarrow> tally w' = tally w + (1 :: nat)"
    and "qps_worker clk ask dur m wid w = Some (w', Inr n)"
  shows "tally w' = tally w + n"
proof -
  obtain w1 t where t: "wall_time clk w = (w1, t)" by fastforce
  with assms(3) have "worker_loop clk ask m (fadd t dur) wid 0 w1 = Some (w', Inr n)"
    by (simp add: qps_worker_def)
  from worker_loop_tally [where tally = tally, OF assms(1,2) this] show ?thesis
    using quietD [OF assms(1) t] by simp
qed

text \<open>Processes whose work prints nothing print nothing.\<close>

locale latency_console = bench_console pr shown clk for pr :: "'w printer" and shown clk +
  fixes pool :: "'w pool"
  assumes pool_quiet: "(\<And>v j v' y. worker v j = Some (v', y) \<Longrightarrow> shown v' = shown v) \<Longrightarrow> pool worker w ws = (w', x) \<Longrightarrow> shown w' = shown w"
begin

lemma worker_quiet: "(\<And>i. quiet shown (\<lambda>w. ask w i)) \<Longrightarrow> qps_worker clk ask dur m wid w = Some (w', x) \<Longrightarrow> shown w' = shown w"
  by (auto simp: qps_worker_def split: prod.splits dest!: wall_quiet worker_loop_quiet [OF _ clock])

lemma pool_qps_quiet:
  assumes "pool_qps clk (pool worker) conc w = (w', x)" "\<And>v j v' y. worker v j = Some (v', y) \<Longrightarrow> shown v' = shown v"
  shows "shown w' = shown w"
proof -
  have "shown v' = shown v" if "pool worker v ws = (v', z)" for v ws v' z
    using assms(2) that by (rule pool_quiet)
  then show ?thesis
    using assms(1) by (auto simp: pool_qps_def split: if_splits result_splits dest!: wall_quiet)
qed

lemma main_grpc_shown:
  assumes "\<And>rq. quiet shown (\<lambda>w. stub w rq)" "main_grpc nf pr stub clk py_sum pool sift addr conc dur w = (w', Inr (s, qps))"
  shows "shown w' = shown w @ [grpc_banner addr conc dur, latency_header, latency_row 64 (s, qps)]"
proof -
  obtain queries full w1 w2 where lat: "latency_grpc stub clk py_sum queries (map (take knn) full) (pr (grpc_banner addr conc dur) w) = (w1, Inr s)"
    and sat: "saturated_qps_grpc stub clk pool (nat conc) dur queries w1 = (w2, Inr qps)"
    and w': "w' = prints pr [latency_header, latency_row 64 (s, qps)] w2"
    using assms(2) by (auto simp: main_grpc_def split: result_splits)
  have "shown w1 = shown (pr (grpc_banner addr conc dur) w)"
    using lat by (auto simp: latency_grpc_def split: result_splits dest!: quietD [OF timed_loop_quiet [OF clock assms(1)]])
  moreover have "shown w2 = shown w1"
    using pool_qps_quiet [OF sat [unfolded saturated_qps_grpc_def]] worker_quiet [OF assms(1)] by (auto simp: qps_worker_grpc_def)
  ultimately show "shown w' = shown w @ [grpc_banner addr conc dur, latency_header, latency_row 64 (s, qps)]"
    unfolding w' by (simp add: shown_prints shown_pr)
qed

end

lemma recv_loop_quiet:
  assumes "\<And>n. quiet shown (\<lambda>w. sk_recv sk w n)"
  shows "recv_loop sk n got w = (w', x) \<Longrightarrow> shown w' = shown w"
  using assms
proof (induction sk n got w arbitrary: w' x rule: recv_loop.induct)
  case (1 sk n got w)
  obtain w1 z where r: "sk_recv sk w (n - length got) = (w1, z)" by fastforce
  have "shown w1 = shown w"
    using quietD [OF 1(3) r] .
  moreover have "shown w' = shown w1" if "length got < n" "z = Inr b" "b \<noteq> []" "recv_loop sk n (got @ b) w1 = (w', x)" for b
    using "1.IH" [OF that(1) r [symmetric] that(2-4) 1(3)] .
  ultimately show ?case
    using 1(2) unfolding recv_loop.simps [of sk n got w] by (auto simp: r split: if_splits sum.splits)
qed

text \<open>A socket whose calls print nothing.\<close>

definition quiet_sock :: "('w \<Rightarrow> string list) \<Rightarrow> 'w sock \<Rightarrow> bool" where
  "quiet_sock shown sk \<longleftrightarrow>
     (\<forall>bs. quiet shown (\<lambda>w. sk_sendall sk w bs)) \<and> (\<forall>n. quiet shown (\<lambda>w. sk_recv sk w n)) \<and> (\<forall>w. shown (sk_close sk w) = shown w)"

lemma rpc_search_quiet:
  assumes "quiet_sock shown sk"
  shows "search sk w frame = (w', x) \<Longrightarrow> shown w' = shown w"
proof -
  have q: "sk_sendall sk v bs = (v', y) \<Longrightarrow> shown v' = shown v" "recvn sk v n = (v', z) \<Longrightarrow> shown v' = shown v" for v v' y z bs n
    using assms recv_loop_quiet [of shown sk n "[]" v v' z] by (auto simp: quiet_sock_def recvn_def dest: quietD)
  show "search sk w frame = (w', x) \<Longrightarrow> shown w' = shown w"
    by (auto simp: search_def split: result_splits dest!: q)
qed

lemma frame_ask_quiet: "quiet_sock shown sk \<Longrightarrow> quiet shown (\<lambda>w. frame_ask sk frames w i)"
  by (rule quietI) (auto simp: frame_ask_def split: prod.splits dest!: rpc_search_quiet)

context latency_console
begin

lemma main_py_shown:
  assumes dial: "\<And>host port v v' sk. dial host port v = (v', Inr sk) \<Longrightarrow> shown v' = shown v \<and> quiet_sock shown sk"
    "\<And>host port v v' e. dial host port v = (v', Inl e) \<Longrightarrow> shown v' = shown v"
    and run: "main_py nf pr dial clk py_sum pool sift addr conc dur w = (w', Inr (s, qps))"
  shows "shown w' = shown w @ [py_banner addr conc dur, latency_header, latency_row 64 (s, qps)]"
proof -
  have con: "connect dial addr v = (v', Inr sk) \<Longrightarrow> shown v' = shown v \<and> quiet_sock shown sk"
    "connect dial addr v = (v', Inl e) \<Longrightarrow> shown v' = shown v" for v v' sk e
    using dial by (auto simp: connect_def split: list.splits sum.splits)
  have close: "quiet_sock shown sk \<Longrightarrow> shown (sk_close sk v) = shown v" for sk v
    by (simp add: quiet_sock_def)
  obtain queries full w1 w2 where lat: "latency_py dial clk py_sum addr queries (map (take knn) full) (pr (py_banner addr conc dur) w) = (w1, Inr s)"
    and sat: "saturated_qps_py dial clk pool addr (nat conc) dur queries w1 = (w2, Inr qps)"
    and w': "w' = prints pr [latency_header, latency_row 64 (s, qps)] w2"
    using run by (auto simp: main_py_def split: result_splits)
  have loop: "shown v' = shown v" if "qps_worker clk (frame_ask sk frames) dur m j v = Some (v', y)" "quiet_sock shown sk" for sk frames m v j v' y
    using that(1) by (rule worker_quiet [OF frame_ask_quiet [OF that(2)]])
  have worker: "qps_worker_py dial clk addr dur frames v j = Some (v', y) \<Longrightarrow> shown v' = shown v" for frames v j v' y
    by (auto simp: qps_worker_py_def close split: result_splits option.splits dest!: con dest: loop)
  obtain v sk frames lats hits v' where c: "connect dial addr (pr (py_banner addr conc dur) w) = (v, Inr sk)"
    and l: "timed_loop clk (frame_ask sk frames) (truth_row (map (take knn) full)) [0..<lat_n] [] 0 v = (v', Inr (lats, hits))"
    and w1: "w1 = sk_close sk v'"
    using lat by (auto simp: latency_py_def split: result_splits)
  have "shown w1 = shown (pr (py_banner addr conc dur) w)"
    using con(1) [OF c] quietD [OF timed_loop_quiet [OF clock frame_ask_quiet] l] by (simp add: w1 close)
  moreover have "shown w2 = shown w1"
    using sat pool_qps_quiet [OF _ worker] by (auto simp: saturated_qps_py_def split: sum.splits)
  ultimately show ?thesis
    unfolding w' by (simp add: shown_prints shown_pr)
qed

end

locale qdrant_latency_console = qdrant_console pr shown clk qd sleep + latency_console pr shown clk pool
  for pr :: "'w printer" and shown clk qd sleep pool
begin

lemma build_shown:
  assumes "announced_build pr qd sleep clk vectors w = Some (w', Inr ())"
  shows "\<exists>t. shown w' = shown w @ [''[qdrant] building '' @ size_text (length vectors) (width vectors) @ '' (M=16, efC=200)...'',
    ''[qdrant] built in '' @ fmt_fixed 1 t @ ''s'']"
proof -
  have "qdrant_build qd sleep vectors d v = Some (v', x) \<Longrightarrow> shown v' = shown v" for d v v' x
    by (auto simp: qdrant_build_def split: result_splits dest!: recreate_quiet ingest_quiet)
  then show ?thesis
    using assms by (auto simp: announced_build_def shown_pr split: result_splits option.splits dest!: wall_quiet)
qed

lemma measure_quiet: "quiet shown (\<lambda>w. measure_qdrant qd clk py_sum pool conc dur queries gt w ef)"
proof (rule quietI)
  have worker: "qps_worker_qdrant qd clk dur queries ef v j = Some (v', y) \<Longrightarrow> shown v' = shown v" for v j v' y
    unfolding qps_worker_qdrant_def by (rule worker_quiet [OF ask_quiet])
  have sat: "saturated_qps_qdrant qd clk pool conc dur queries ef v = (v', y) \<Longrightarrow> shown v' = shown v" for v v' y
    unfolding saturated_qps_qdrant_def by (rule pool_qps_quiet [OF _ worker])
  have lat: "latency_qdrant qd clk py_sum queries gt ef v = (v', y) \<Longrightarrow> shown v' = shown v" for v v' y
    by (auto simp: latency_qdrant_def split: result_splits dest!: quietD [OF timed_loop_quiet [OF clock ask_quiet]])
  show "measure_qdrant qd clk py_sum pool conc dur queries gt w ef = (w', x) \<Longrightarrow> shown w' = shown w" for w w' x
    by (auto simp: measure_qdrant_def split: result_splits dest!: lat sat)
qed

lemma reusable_quiet: "qdrant_reusable qd n w = (w', x) \<Longrightarrow> shown w' = shown w"
  by (auto simp: qdrant_reusable_def split: result_splits bool.splits dest!: quietD [OF calls(1)] quietD [OF calls(5)])

lemma main_qdrant_shown:
  assumes "main_qdrant nf pr sift qd sleep clk py_sum pool conc dur w = Some (w', Inr rows)"
  shows "\<exists>size t setup. shown w' = shown w @ setup @ [qdrant_banner conc dur, latency_header] @ map (\<lambda>(ef, r). latency_row ef r) rows \<and>
      (setup = [''[qdrant] reusing existing collection ('' @ size @ '')''] \<or>
       setup = [''[qdrant] building '' @ size @ '' (M=16, efC=200)...'', ''[qdrant] built in '' @ fmt_fixed 1 t @ ''s''])"
    "map fst rows = ef_sweep"
proof -
  obtain vectors queries gt w1 skip w2 where d: "sift_data nf sift = Inr (vectors, queries, gt)"
    and r: "qdrant_reusable qd (length vectors) w = (w1, Inr skip)"
    and b: "(if skip then Some (pr (''[qdrant] reusing existing collection ('' @ size_text (length vectors) (width vectors) @ '')'') w1, Inr ())
             else announced_build pr qd sleep clk vectors w1) = Some (w2, Inr ())"
    and m: "sweep (printed pr latency_row (measure_qdrant qd clk py_sum pool (nat conc) dur queries gt)) ef_sweep
              (prints pr [qdrant_banner conc dur, latency_header] w2) = (w', Inr rows)"
    using assms by (auto simp: main_qdrant_def split: result_splits option.splits)
  let ?size = "size_text (length vectors) (width vectors)"
  show "map fst rows = ef_sweep"
    using m by (rule sweep_keys)
  have w': "shown w' = shown w2 @ [qdrant_banner conc dur, latency_header] @ map (\<lambda>(ef, r). latency_row ef r) rows"
    using sweep_shown [OF m measure_quiet] by (simp add: shown_prints)
  show "\<exists>size t setup. shown w' = shown w @ setup @ [qdrant_banner conc dur, latency_header] @ map (\<lambda>(ef, r). latency_row ef r) rows \<and>
      (setup = [''[qdrant] reusing existing collection ('' @ size @ '')''] \<or>
       setup = [''[qdrant] building '' @ size @ '' (M=16, efC=200)...'', ''[qdrant] built in '' @ fmt_fixed 1 t @ ''s''])"
  proof (cases skip)
    case True
    then have "shown w2 = shown w @ [''[qdrant] reusing existing collection ('' @ ?size @ '')'']"
      using b reusable_quiet [OF r] by (auto simp: shown_pr)
    then show ?thesis
      unfolding w' by (intro exI [of _ ?size]) simp
  next
    case False
    then obtain t where "shown w2 = shown w @ [''[qdrant] building '' @ ?size @ '' (M=16, efC=200)...'', ''[qdrant] built in '' @ fmt_fixed 1 t @ ''s'']"
      using b reusable_quiet [OF r] build_shown [of vectors w1 w2] by auto
    then show ?thesis
      unfolding w' by (intro exI [of _ ?size] exI [of _ t]) simp
  qed
qed

end

section \<open>A world with a console\<close>

text \<open>A counter that the wall clock shows and the lines printed so far; services that answer at once; a pool that runs its workers in turn.\<close>

definition paper_pr :: "(nat \<times> string list) printer" where
  "paper_pr s w = (fst w, snd w @ [s])"

definition paper_clock :: "(nat \<times> string list) clock" where
  "paper_clock = \<lparr>perf_counter = (\<lambda>w. (w, 0)), wall_time = (\<lambda>w. ((fst w + 1, snd w), of_nat (fst w)))\<rparr>"

lemma paper_wall: "wall_time paper_clock (n, ls) = ((Suc n, ls), of_nat n)"
  by (simp add: paper_clock_def)

definition no_sleep :: "nat \<Rightarrow> 'w \<Rightarrow> 'w" where
  "no_sleep s w = w"

definition green_qdrant :: "'w qdrant" where
  "green_qdrant =
     \<lparr>qd_exists = (\<lambda>w. (w, Inr False)), qd_delete = (\<lambda>w. (w, Inr ())), qd_create = (\<lambda>w _. (w, Inr ())),
      qd_upload = (\<lambda>w vs ids b p. (w, Inr ())), qd_info = (\<lambda>w. (w, Inr (''green'', Some 1))),
      qd_query = (\<lambda>w q k ef. (w, Inr [3]))\<rparr>"

text \<open>Beside the console, the hashes kept by a Redis that finds the first ten of them for every query.\<close>

type_synonym shelf = "(nat \<times> string list) \<times> hset list"

definition shelf_pr :: "shelf printer" where
  "shelf_pr s w = (paper_pr s (fst w), snd w)"

definition shelf_clock :: "shelf clock" where
  "shelf_clock = \<lparr>perf_counter = (\<lambda>w. (w, 0)), wall_time = (\<lambda>w. ((fst (wall_time paper_clock (fst w)), snd w), of_nat (fst (fst w))))\<rparr>"

definition shelf_found :: "shelf \<Rightarrow> nat \<Rightarrow> bytes \<Rightarrow> (nat \<times> resp) list" where
  "shelf_found w ef blob = map (\<lambda>i. (i, RNil)) [0..<min knn (length (snd w))]"

definition shelf_redis :: "shelf redis" where
  "shelf_redis =
     \<lparr>rd_ping = (\<lambda>w. (w, Inr ())),
      rd_command = (\<lambda>w cmd. if cmd = drop_command then ((fst w, []), Inr RNil)
                            else if prefix [AText ''FT.SEARCH''] cmd then (w, Inr (RArr (search_reply (shelf_found w 0 []))))
                            else (w, Inr (RArr []))),
      rd_exec = (\<lambda>w cmds. ((fst w, snd w @ cmds), Inr ()))\<rparr>"

definition one_label :: "'w hnswlib" where
  "one_label =
     \<lparr>hl_index = (\<lambda>w space d. (w, Inr ())), hl_init_index = (\<lambda>w p. (w, Inr ())),
      hl_add_items = (\<lambda>w vs ids t. (w, Inr ())), hl_set_ef = (\<lambda>w ef. w),
      hl_knn_query = (\<lambda>w qs k t. (w, Inr (map (\<lambda>_. [3]) qs)))\<rparr>"

fun seq_pool :: "'w pool" where
  "seq_pool worker w [] = (w, Inr [])"
| "seq_pool worker w (x # xs) =
     (case worker w x of
        Some (w1, Inr c) \<Rightarrow> (case seq_pool worker w1 xs of
                             (w2, Inl e) \<Rightarrow> (w2, Inl e)
                           | (w2, Inr cs) \<Rightarrow> (w2, Inr (c # cs)))
      | _ \<Rightarrow> (w, Inl (RuntimeError ''worker'')))"

lemma seq_pool_quiet:
  assumes "\<And>v j v' y. worker v j = Some (v', y) \<Longrightarrow> shown v' = shown v"
  shows "seq_pool worker w ws = (w', x) \<Longrightarrow> shown w' = shown w"
  by (induction ws arbitrary: w x) (fastforce split: option.splits result_splits dest: assms)+

interpretation paper: console paper_pr snd
  by unfold_locales (simp add: paper_pr_def)

interpretation paper_bench: bench_console paper_pr snd paper_clock
  by unfold_locales (simp add: quiet_clock_def paper_clock_def quiet_def)

interpretation paper_pool: latency_console paper_pr snd paper_clock seq_pool
  by unfold_locales (rule seq_pool_quiet)

interpretation paper_qdrant: qdrant_latency_console paper_pr snd paper_clock green_qdrant no_sleep seq_pool
  by unfold_locales (simp_all add: quiet_def green_qdrant_def no_sleep_def)

interpretation shelf_bench: redis_service shelf_pr "snd \<circ> fst" shelf_clock shelf_redis no_sleep snd shelf_found
  by unfold_locales (auto simp: shelf_pr_def paper_pr_def shelf_clock_def paper_clock_def quiet_clock_def quiet_def no_sleep_def
      shelf_redis_def shelf_found_def search_command_def drop_command_def fun_eq_iff split: if_splits)

interpretation paper_hnswlib: hnswlib_console paper_pr snd paper_clock one_label "\<lambda>w. (w, Inr ''9 4 1'')"
  by unfold_locales (auto simp: quiet_def one_label_def)

end
