(* ===== verification/Bench.thy ===== *)
theory Bench
  imports Report_Facts
begin

text \<open>
  The properties of the SIFT-1M clients and harnesses (\<open>sift1m/*.py\<close>), stated over their definitions
  and proved from the component theories; each witness runs a property against one of the
  interpreted sockets, clocks or services.
\<close>

section \<open>The binary RPC\<close>

text \<open>
  C17. A search request is read back by the documented layout: the operation, the collection, k and
  the query narrowed to float32, with the documented length; every length prefix fits.
\<close>

theorem rpc_request_roundtrip:
  assumes "list_all fits_f32 q" "k < 2 ^ 32" "length q < 2 ^ 29"
  shows "\<exists>bs. encode_search q (int k) = Inr bs \<and>
    decode_request bs = Some \<lparr>rpc_op = op_name, rpc_coll = coll_name, rpc_k = k, rpc_query = map f64_to_f32 q\<rparr> \<and>
    length bs = 36 + 4 * length q"
  using assms by (rule decode_encode_search)

theorem rpc_request_roundtrip_witness:
  "\<exists>bs. encode_search [0, 0x3FF0000000000000] 10 = Inr bs \<and>
    decode_request bs = Some \<lparr>rpc_op = op_name, rpc_coll = coll_name, rpc_k = 10, rpc_query = map f64_to_f32 [0, 0x3FF0000000000000]\<rparr> \<and>
    length bs = 44"
proof -
  have "f64_to_f32 0 = 0" "f64_to_f32 0x3FF0000000000000 = 0x3F800000"
    by (simp_all add: f64_to_f32_def Let_def f64_sign_def f64_exp_def f64_frac_def mk_f32_def round_shift_def)
  then have "list_all fits_f32 [0, 0x3FF0000000000000]"
    by (simp add: fits_f32_def f32_is_inf_def f32_exp_def f32_frac_def)
  from rpc_request_roundtrip [OF this, of 10] show ?thesis by simp
qed

text \<open>
  C18. Receiving \<open>n\<close> bytes from a connected socket yields exactly the next \<open>n\<close> bytes of the stream,
  in whatever pieces they arrive, and leaves the rest; a stream that ends earlier is a connection
  error, never a short buffer.
\<close>

theorem receive_exact:
  assumes "byte_stream sk pending"
  shows "\<exists>w'. (if n \<le> length (pending w)
      then recvn sk w n = (w', Inr (take n (pending w))) \<and> pending w' = drop n (pending w)
      else recvn sk w n = (w', Inl (ConnectionError ''server closed'')))"
proof (cases "n \<le> length (pending w)")
  case True
  then show ?thesis using byte_stream.recvn_enough [OF assms True] by simp
next
  case False
  then show ?thesis using byte_stream.recvn_short [OF assms, of w n] by simp
qed

theorem receive_exact_witness:
  "\<exists>w'. recvn (seg_sock (\<lambda>_. [])) [[1], [2, 3], [], [4]] 3 = (w', Inr [1, 2, 3]) \<and> concat w' = [4]"
  using receive_exact [OF seg.byte_stream_axioms, of 3 "[[1], [2, 3], [], [4]]" "\<lambda>_. []"] by simp

text \<open>
  C19. A search over a connection with no bytes left over from before returns the ids of the server's
  hits, in order, and reads the response to its end: what follows it is left for the next call.
\<close>

theorem rpc_search_hits:
  assumes "rpc_server sk pending reply" "pending w = []"
    and "reply w f = enc_counted 4 (response_body 0 (hits_payload hs)) @ rest"
    and "12 * length hs < 2 ^ 32 - 9" "list_all (\<lambda>h. fst h < 2 ^ 64) hs"
  shows "\<exists>w'. search sk w f = (w', Inr (map fst hs)) \<and> pending w' = rest"
  using assms by (rule rpc_server.search_hits)

theorem rpc_search_hits_witness:
  "\<exists>w'. search (seg_sock (hits_server (\<lambda>_. [(5, 0), (18446744073709551615, 1)]))) [] [7] = (w', Inr [5, 18446744073709551615]) \<and>
    concat w' = []"
  using rpc_search_hits [OF seg.rpc_server_axioms, of "[]" "hits_server (\<lambda>_. [(5, 0), (18446744073709551615, 1)])" "[7]"
      "[(5, 0), (18446744073709551615, 1)]" "[]"]
  by (simp add: hits_server_def)

text \<open>
  C20. The ids a response body gives are all or nothing: a body with room for the hits it counts
  gives the number at each position of twelve bytes, a shorter one, an empty one or one with a
  non-zero status raises.
\<close>

theorem response_all_or_nothing:
  "read_response body =
     (if body = [] then Inl (IndexError ''bytearray index out of range'')
      else if body ! 0 \<noteq> 0 then Inl (RuntimeError (''server status '' @ dec_nat (unat (body ! 0))))
      else if length body < 9 then Inl (StructError ''unpack requires a buffer of the format's size'')
      else (let c = be_nat (py_slice body 5 9)
            in if c = 0 \<or> 12 * c + 5 \<le> length body
               then Inr (map (\<lambda>j. be_nat (py_slice body (9 + 12 * j) (9 + 12 * j + 8))) [0..<c])
               else Inl (StructError ''unpack requires a buffer of the format's size'')))"
proof -
  have "length (py_slice body 5 9) = 4 \<longleftrightarrow> \<not> length body < 9"
    by (auto simp: min_def)
  moreover have "9 + 12 * (c - 1) + 8 \<le> length body \<longleftrightarrow> 12 * c + 5 \<le> length body" if "c \<noteq> 0" for c
    using that by (cases c) simp_all
  ultimately show ?thesis
    by (auto simp: read_response_def unpack_uint_def read_ids_total Let_def)
qed

section \<open>The data set\<close>

text \<open>
  C21. A vector file written in the documented format, every vector preceded by its dimension, is
  read back as its rows, for the float and for the integer files.
\<close>

theorem vector_file_roundtrip:
  assumes "np_files_spec nf" "np_fromfile nf path = Inr (vecs_file d rows)"
    and "rows \<noteq> []" "list_all (\<lambda>r. length r = d) rows" "d < 2 ^ 31"
  shows "read_ivecs nf path = Inr rows \<and> read_fvecs nf path = Inr rows"
  using read_vecs [OF assms] by simp

definition sample_files :: np_files where
  "sample_files =
     \<lparr>np_fromfile = (\<lambda>_. Inr [2, 7, 8, 2, 9, 10]),
      np_reshape = (\<lambda>xs c. if 0 < c \<and> nat c dvd length xs then Inr (chunks (nat c) xs) else Inl (ValueError ''cannot reshape''))\<rparr>"

theorem vector_file_roundtrip_witness:
  "read_ivecs sample_files ''q'' = Inr [[7, 8], [9, 10]] \<and> read_fvecs sample_files ''q'' = Inr [[7, 8], [9, 10]]"
proof -
  have "np_files_spec sample_files"
    by (auto simp: np_files_spec_def sample_files_def)
  then show ?thesis
    by (rule vector_file_roundtrip [where d = 2]) (simp_all add: sample_files_def vecs_file_def)
qed

section \<open>Recall and latency\<close>

text \<open>
  C22. Against a server that answers every request with hits, the latency measurement of the RPC
  client succeeds. Its recall is the correctly rounded fraction of ground-truth ids (shifted by one,
  as Rostam numbers from one) among the answers, between 0 and 1. Its latencies are those of the run: of the 2000 times
  between the readings of the clock around each query, in microseconds, the median and the 99th percentile are the ones
  at positions 1000 and 1980 in ascending order, with at least 1001 and 1981 at or below them and at least 20 at or
  above the latter, and the mean is their sum divided by 2000.
\<close>

theorem latency_py_recall:
  assumes "rpc_hits sk pending reply clk hits_of" "connect dial addr w = (w1, Inr sk)" "pending w1 = []"
    and "lat_n \<le> length queries" "list_all (\<lambda>q. length q < 2 ^ 29) queries"
    and "lat_n \<le> length gt" "list_all (\<lambda>r. length r \<le> knn) gt"
  shows "\<exists>w' s. latency_py dial clk py_sum addr queries gt w = (w', Inr s) \<and>
    timed_summary py_sum (query_times clk (frame_ask sk (map frame_of (take lat_n queries))) [0..<lat_n] w1) s \<and> ls_recall s = rnd (of_nat (total_hits (\<lambda>i. map (int \<circ> fst) (hits_of (frame_of (queries ! i))))
      (\<lambda>i. map (\<lambda>x. sint x + 1) (gt ! i))) / of_nat (lat_n * knn))"
  using assms by (rule rpc_hits.latency_py_ok)

definition sample_dial :: "string \<Rightarrow> int \<Rightarrow> (bytes list \<times> nat) \<Rightarrow> (bytes list \<times> nat) \<times> (bytes list \<times> nat) sock result" where
  "sample_dial host port w = (([], snd w), Inr (tick_sock (hits_server echo_hits)))"

theorem latency_py_recall_witness:
  "\<exists>w' s. latency_py sample_dial tick_clock (\<lambda>_. 0) ''h:7700'' (replicate 2000 [0, 0]) (replicate 2000 [3, 4]) ([], 0) = (w', Inr s) \<and>
    ls_p50 s = sort (query_times tick_clock (frame_ask (tick_sock (hits_server echo_hits)) (map frame_of (replicate 2000 [0, 0]))) [0..<2000] ([], 0)) ! 1000"
proof -
  have c: "connect sample_dial ''h:7700'' ([], 0) = (([], 0), Inr (tick_sock (hits_server echo_hits)))"
  proof -
    have "split_char (CHR '':'') ''h:7700'' = [''h'', ''7700'']" "int_of_str ''7700'' = Inr 7700"
      by code_simp+
    then show ?thesis by (simp add: connect_def sample_dial_def)
  qed
  show ?thesis
    using latency_py_recall [OF echo.rpc_hits_axioms c, where py_sum = "\<lambda>_. 0"
        and queries = "replicate 2000 [0, 0]" and gt = "replicate 2000 [3, 4]"]
    by (auto simp: lat_n_def knn_def list_all_iff timed_summary_def)
qed

text \<open>
  C23. The same for Qdrant, whose ids are the row numbers, at every \<open>ef\<close> of the sweep: the recall is the correctly rounded
  fraction of ground-truth ids among the answers, and the median, the 99th percentile and the mean are those of the
  2000 times between the readings of the clock around each query.
\<close>

theorem latency_qdrant_recall:
  assumes q: "\<And>w q. \<exists>w'. qd_query qd w q knn ef = (w', Inr (res q))"
    and n: "lat_n \<le> length queries" "lat_n \<le> length gt" "list_all (\<lambda>r. length r \<le> knn) gt"
  shows "\<exists>w' s. latency_qdrant qd clk py_sum queries gt ef w = (w', Inr s) \<and>
    timed_summary py_sum (query_times clk (qdrant_ask qd ef queries) [0..<lat_n] w) s \<and> ls_recall s = rnd (of_nat (total_hits (\<lambda>i. res (queries ! i))
      (\<lambda>i. map sint (gt ! i))) / of_nat (lat_n * knn))"
proof -
  have e: "answering_engine clk (qdrant_ask qd ef queries) (\<lambda>_. True) (\<lambda>i. res (queries ! i)) lat_n"
    using q n(1) by unfold_locales (simp_all add: qdrant_ask_def row_at_def)
  have t: "plain_truth gt i = Inr (map sint (gt ! i)) \<and> length (map sint (gt ! i) :: int list) \<le> knn" if "i < lat_n" for i
    using n(2,3) that by (simp add: plain_truth_def row_at_def list_all_length)
  show ?thesis
    using answering_engine.measured [where truth = "plain_truth gt" and tr = "\<lambda>i. map sint (gt ! i)" and w = w and py_sum = py_sum,
        OF e TrueI order_refl t]
    unfolding latency_qdrant_def by fastforce
qed

theorem latency_qdrant_recall_witness:
  "\<exists>w' s. latency_qdrant (slow_qdrant 5) \<lparr>perf_counter = (\<lambda>w. (w, 0)), wall_time = (\<lambda>w. (w, 0))\<rparr> (\<lambda>_. 0)
      (replicate 2000 [0]) (replicate 2000 [3, 4]) 16 0 = (w', Inr s) \<and> ls_mean s = 0 \<and> ls_p50 s \<le> ls_p99 s"
  using latency_qdrant_recall [where qd = "slow_qdrant 5" and res = "\<lambda>_. map int [0..<knn]" and ef = 16
      and queries = "replicate 2000 [0]" and gt = "replicate 2000 [3, 4]" and py_sum = "\<lambda>_. 0" and w = 0
      and clk = "\<lparr>perf_counter = (\<lambda>w. (w, 0)), wall_time = (\<lambda>w. (w, 0))\<rparr>"]
  by (auto simp: slow_qdrant_def lat_n_def knn_def list_all_iff timed_summary_def good_summary_def)

section \<open>Throughput\<close>

text \<open>
  C24. A worker that returns a count has made exactly that many requests, a multiple of sixteen, and
  took them round robin from the prepared ones, starting at its own number.
\<close>

theorem worker_round_robin:
  assumes "qps_worker (log_clock clk) (log_ask ask) dur m wid (w, []) = Some ((w', reqs), Inr n)"
  shows "16 dvd n \<and> reqs = round_robin m wid n"
proof -
  obtain w1 t where "wall_time clk w = (w1, t)" by fastforce
  then have t: "wall_time (log_clock clk) (w, []) = ((w1, []), t)"
    by (simp add: log_clock_def)
  then have l: "worker_loop (log_clock clk) (log_ask ask) m (fadd t dur) wid 0 (w1, []) = Some ((w', reqs), Inr n)"
    using assms by (simp add: qps_worker_def)
  from worker_loop_multiple [OF l] worker_loop_log [OF l] show ?thesis
    by fastforce
qed

definition step_clock :: "nat clock" where
  "step_clock = \<lparr>perf_counter = (\<lambda>w. (w + 1, of_nat w)), wall_time = (\<lambda>w. (w + 1, of_nat w))\<rparr>"

lemma step_run:
  "qps_worker (log_clock step_clock) (log_ask (\<lambda>w i. (w, Inr []))) 2 3 1 (0, []) =
    Some ((3, [1, 2, 0, 1, 2, 0, 1, 2, 0, 1, 2, 0, 1, 2, 0, 1]), Inr 16)"
proof -
  have b: "burst (log_ask (\<lambda>w i. (w, Inr []))) 3 16 1 0 (2 :: nat, []) =
      ((2, [1, 2, 0, 1, 2, 0, 1, 2, 0, 1, 2, 0, 1, 2, 0, 1]), Inr (17, 16))"
    by code_simp
  have s: "fadd 0 2 = 2"
    using rnd_of_nat [of 2] by (simp add: fadd_def)
  have "worker_loop (log_clock step_clock) (log_ask (\<lambda>w i. (w, Inr []))) 3 2 17 16
      (2, [1, 2, 0, 1, 2, 0, 1, 2, 0, 1, 2, 0, 1, 2, 0, 1]) = Some ((3, [1, 2, 0, 1, 2, 0, 1, 2, 0, 1, 2, 0, 1, 2, 0, 1]), Inr 16)"
    by (subst worker_loop.simps) (simp add: log_clock_def step_clock_def)
  then have "worker_loop (log_clock step_clock) (log_ask (\<lambda>w i. (w, Inr []))) 3 2 1 0 (1, []) =
      Some ((3, [1, 2, 0, 1, 2, 0, 1, 2, 0, 1, 2, 0, 1, 2, 0, 1]), Inr 16)"
    using b by (subst worker_loop.simps) (simp add: log_clock_def step_clock_def numeral_2_eq_2 [symmetric])
  then show ?thesis
    using s by (simp add: qps_worker_def log_clock_def step_clock_def)
qed

theorem worker_round_robin_witness:
  "\<exists>reqs. qps_worker (log_clock step_clock) (log_ask (\<lambda>w i. (w, Inr []))) 2 3 1 (0, []) = Some ((3, reqs), Inr 16) \<and>
    reqs = round_robin 3 1 16"
  using worker_round_robin [OF step_run] step_run by blast

text \<open>
  C25. A worker always returns, with its count or the exception of a query, when the wall clock runs:
  it shows at least the time passed and every answer takes at least one tick.
\<close>

theorem worker_returns:
  assumes "running_clock clk ask ticks tick"
  shows "\<exists>w' out. qps_worker clk ask dur m wid w = Some (w', out) \<and> (\<forall>n. out = Inr n \<longrightarrow> 16 dvd n)"
proof -
  obtain y where y: "qps_worker clk ask dur m wid w = Some y"
    using running_clock.qps_worker_returns [OF assms] by blast
  then obtain w1 stop where l: "worker_loop clk ask m stop wid 0 w1 = Some y"
    by (auto simp: qps_worker_def split: prod.splits)
  have "16 dvd n" if "snd y = Inr n" for n
    using worker_loop_multiple [OF l that] by auto
  then show ?thesis
    using y by (intro exI [of _ "fst y"] exI [of _ "snd y"]) simp
qed

theorem worker_returns_witness:
  "\<exists>w' out. qps_worker tick_clock (frame_ask (tick_sock (hits_server echo_hits)) [[1], [2]]) 3 2 0 ([], 0) = Some (w', out)"
  using worker_returns [OF ticking.running_clock_axioms, of "hits_server echo_hits" "[[1], [2]]" 3 2 0 "([], 0)"] by blast

lemma qps_worker_multiple: "qps_worker clk ask dur m wid w = Some (w', Inr n) \<Longrightarrow> 16 dvd n"
  using worker_loop_multiple by (fastforce simp: qps_worker_def split: prod.splits)

text \<open>The parts of a run of the gRPC client that succeeds.\<close>

lemma main_grpc_run:
  assumes "main_grpc nf pr stub clk py_sum pool sift addr conc dur w = (w', Inr (s, qps))"
  shows "\<exists>queries full v0 v1 v2 v3 t0 t1 counts. read_fvecs nf (sift @ ''/sift_query.fvecs'') = Inr queries \<and>
    read_ivecs nf (sift @ ''/sift_groundtruth.ivecs'') = Inr full \<and>
    latency_grpc stub clk py_sum queries (map (take knn) full) (pr (grpc_banner addr conc dur) w) = (v0, Inr s) \<and>
    wall_time clk v0 = (v1, t0) \<and>
    pool (qps_worker_grpc stub clk dur (map search_request_of queries)) v1 [0..<nat conc] = (v2, Inr counts) \<and>
    wall_time clk v2 = (v3, t1) \<and> w' = prints pr [latency_header, latency_row 64 (s, qps)] v3 \<and> 0 < nat conc \<and>
    fdiv (rnd (of_nat (sum_list counts))) (fsub t1 t0) = Inr qps"
  using assms
  by (auto simp: main_grpc_def saturated_qps_grpc_def pool_qps_def split: result_splits if_splits)

lemma pool_spec_seq_pool: "pool_spec seq_pool"
proof -
  have "length cs = length ws \<and> (\<forall>j < length ws. \<exists>v v'. worker v (ws ! j) = Some (v', Inr (cs ! j)))"
    if "seq_pool worker w ws = (w', Inr cs)" for worker :: "'w \<Rightarrow> nat \<Rightarrow> ('w \<times> nat result) option" and w ws w' cs
    using that
  proof (induction ws arbitrary: w cs)
    case Nil
    then show ?case by simp
  next
    case (Cons x xs)
    then obtain w1 c cs' where x: "worker w x = Some (w1, Inr c)" "seq_pool worker w1 xs = (w', Inr cs')" "cs = c # cs'"
      by (auto split: option.splits result_splits)
    from Cons.IH [OF x(2)] x show ?case
      by (auto simp: nth_Cons split: nat.split)
  qed
  then show ?thesis
    unfolding pool_spec_def by blast
qed

text \<open>
  C26. A run of the gRPC client that succeeds has shown three lines, in this order: its settings, the head of
  its table and one row. The row is read back as ef 64 and the measured recall, percentiles, mean and
  throughput, to within half a unit of the last printed digit. The summary is that of the latency measurement on the data
  files, made after the first line. The throughput is that of the pool: between two readings of the wall clock, one before
  the pool starts, right after the latency measurement, and one after it has ended, right before the other lines, one
  worker per process returned a count, each a multiple of sixteen; the throughput is the number of requests the stub
  answered in between, which is the sum of these counts, divided by the non-zero time between the readings.
\<close>

theorem grpc_run_report:
  assumes "latency_console pr shown clk pool" "pool_spec pool" "\<And>rq. quiet shown (\<lambda>w. stub w rq)"
    and "pool_adds answered pool" "quiet answered (wall_time clk)"
    and "\<And>w rq w' ids. stub w rq = (w', Inr ids) \<Longrightarrow> answered w' = answered w + 1"
    and "main_grpc nf pr stub clk py_sum pool sift addr conc dur w = (w', Inr (s, qps))"
  shows "shown w' = shown w @ [grpc_banner addr conc dur, latency_header, latency_row 64 (s, qps)] \<and>
    (\<exists>r a b c q. read_row (latency_row 64 (s, qps)) = (64, [r, a, b, c, q]) \<and> \<bar>r - ls_recall s\<bar> \<le> 1 / 20000 \<and>
      \<bar>a - ls_p50 s\<bar> \<le> 1 / 20 \<and> \<bar>b - ls_p99 s\<bar> \<le> 1 / 20 \<and> \<bar>c - ls_mean s\<bar> \<le> 1 / 20 \<and> \<bar>q - qps\<bar> \<le> 1 / 2) \<and>
    (\<exists>queries full v0 v1 v2 v3 t0 t1 counts. read_fvecs nf (sift @ ''/sift_query.fvecs'') = Inr queries \<and>
      read_ivecs nf (sift @ ''/sift_groundtruth.ivecs'') = Inr full \<and>
      latency_grpc stub clk py_sum queries (map (take knn) full) (pr (grpc_banner addr conc dur) w) = (v0, Inr s) \<and>
      wall_time clk v0 = (v1, t0) \<and>
      pool (qps_worker_grpc stub clk dur (map search_request_of queries)) v1 [0..<nat conc] = (v2, Inr counts) \<and>
      wall_time clk v2 = (v3, t1) \<and> w' = prints pr [latency_header, latency_row 64 (s, qps)] v3 \<and>
      0 < conc \<and> int (length counts) = conc \<and> list_all (\<lambda>c. 16 dvd c) counts \<and> fsub t1 t0 \<noteq> 0 \<and>
      answered v3 = answered v0 + sum_list counts \<and> qps = rnd (rnd (of_nat (answered v3 - answered v0)) / fsub t1 t0))"
proof -
  obtain queries full v0 v1 v2 v3 t0 t1 counts where run: "read_fvecs nf (sift @ ''/sift_query.fvecs'') = Inr queries"
      "read_ivecs nf (sift @ ''/sift_groundtruth.ivecs'') = Inr full"
      "latency_grpc stub clk py_sum queries (map (take knn) full) (pr (grpc_banner addr conc dur) w) = (v0, Inr s)"
      "wall_time clk v0 = (v1, t0)"
      "pool (qps_worker_grpc stub clk dur (map search_request_of queries)) v1 [0..<nat conc] = (v2, Inr counts)"
      "wall_time clk v2 = (v3, t1)" "w' = prints pr [latency_header, latency_row 64 (s, qps)] v3"
    and q: "0 < nat conc" "fdiv (rnd (of_nat (sum_list counts))) (fsub t1 t0) = Inr qps"
    using main_grpc_run [OF assms(7)] by blast
  let ?worker = "qps_worker_grpc stub clk dur (map search_request_of queries)"
  have c: "length counts = nat conc" "\<forall>j < nat conc. \<exists>v v'. ?worker v j = Some (v', Inr (counts ! j))"
    using assms(2) run(5) unfolding pool_spec_def by fastforce+
  have m: "list_all (\<lambda>c. 16 dvd c) counts"
    unfolding list_all_length using c by (metis qps_worker_multiple qps_worker_grpc_def)
  have "answered v' = answered v + n" if "?worker v j = Some (v', Inr n)" for v j v' n
    by (rule qps_worker_tally [OF assms(5) _ that [unfolded qps_worker_grpc_def]]) (rule assms(6))
  then have "answered v2 = answered v1 + sum_list counts"
    using assms(4) run(5) unfolding pool_adds_def by blast
  then have a: "answered v3 = answered v0 + sum_list counts"
    using quietD [OF assms(5) run(4)] quietD [OF assms(5) run(6)] by simp
  have d: "fsub t1 t0 \<noteq> 0" "qps = rnd (rnd (of_nat (answered v3 - answered v0)) / fsub t1 t0)"
    using q(2) a by (auto simp: fdiv_def split: if_splits)
  have n: "0 < conc" "int (length counts) = conc"
    using q(1) c(1) by simp_all
  show ?thesis
    using latency_console.main_grpc_shown [OF assms(1,3,7)] read_latency_row [of 64 s qps] run n m d a by blast
qed

text \<open>The files of a data set all of whose vectors are the one-dimensional \<open>x\<close>.\<close>

definition constant_files :: "nat \<Rightarrow> 32 word \<Rightarrow> np_files" where
  "constant_files n x =
     \<lparr>np_fromfile = (\<lambda>_. Inr (vecs_file 1 (replicate n [x]))),
      np_reshape = (\<lambda>xs c. if 0 < c \<and> nat c dvd length xs then Inr (chunks (nat c) xs) else Inl (ValueError ''cannot reshape''))\<rparr>"

lemma constant_files:
  assumes "n \<noteq> 0"
  shows "read_fvecs (constant_files n x) path = Inr (replicate n [x])" "read_ivecs (constant_files n x) path = Inr (replicate n [x])"
proof -
  have "np_files_spec (constant_files n x)"
    by (auto simp: np_files_spec_def constant_files_def)
  moreover have "np_fromfile (constant_files n x) path = Inr (vecs_file 1 (replicate n [x]))"
    by (simp add: constant_files_def)
  moreover have "list_all (\<lambda>r. length r = 1) (replicate n [x])"
    by (simp add: list_all_iff)
  ultimately show "read_fvecs (constant_files n x) path = Inr (replicate n [x])" "read_ivecs (constant_files n x) path = Inr (replicate n [x])"
    using assms by (simp_all add: read_vecs)
qed

text \<open>The world with a console beside a tally of the answered requests.\<close>

type_synonym tally_state = "(nat \<times> string list) \<times> nat"

definition tally_pr :: "tally_state printer" where
  "tally_pr line w = (paper_pr line (fst w), snd w)"

definition tally_clock :: "tally_state clock" where
  "tally_clock = \<lparr>perf_counter = (\<lambda>w. (w, 0)), wall_time = (\<lambda>w. (((fst (fst w) + 1, snd (fst w)), snd w), of_nat (fst (fst w))))\<rparr>"

definition tally_stub :: "tally_state stub" where
  "tally_stub w rq = ((fst w, snd w + 1), Inr [1])"

lemma tally_wall: "wall_time tally_clock ((n, ls), k) = (((Suc n, ls), k), of_nat n)"
  by (simp add: tally_clock_def)

interpretation tally_pool: latency_console tally_pr "snd \<circ> fst" tally_clock seq_pool
proof unfold_locales
  show "(snd \<circ> fst) w' = (snd \<circ> fst) w"
    if "\<And>v j v' y. worker v j = Some (v', y) \<Longrightarrow> (snd \<circ> fst) v' = (snd \<circ> fst) v" "seq_pool worker w ws = (w', x)"
    for worker :: "tally_state \<Rightarrow> nat \<Rightarrow> (tally_state \<times> nat result) option" and w ws w' x
    using that by (rule seq_pool_quiet)
qed (simp_all add: tally_pr_def paper_pr_def quiet_clock_def quiet_def tally_clock_def)

lemma seq_pool_adds: "pool_adds (tally :: 'a \<Rightarrow> nat) seq_pool"
proof -
  have "tally w' = tally w + sum_list cs"
    if "\<And>v j v' n. worker v j = Some (v', Inr n) \<Longrightarrow> tally v' = tally v + n" "seq_pool worker w ws = (w', Inr cs)"
    for worker :: "'a \<Rightarrow> nat \<Rightarrow> ('a \<times> nat result) option" and w ws w' cs
    using that(2)
  proof (induction ws arbitrary: w cs)
    case Nil
    then show ?case by simp
  next
    case (Cons x xs)
    then obtain w1 c cs' where x: "worker w x = Some (w1, Inr c)" "seq_pool worker w1 xs = (w', Inr cs')" "cs = c # cs'"
      by (auto split: option.splits result_splits)
    from Cons.IH [OF x(2)] that(1) [OF x(1)] x(3) show ?case by simp
  qed
  then show ?thesis
    unfolding pool_adds_def by blast
qed

lemma tally_latency:
  "\<exists>s n. latency_grpc tally_stub tally_clock py_sum (replicate 2000 [0]) (replicate 2000 [0]) (w, k) = ((w, n), Inr s)"
proof -
  let ?reqs = "map (\<lambda>i. search_request_of [0]) [0..<lat_n]" and ?gt = "replicate 2000 [0 :: 32 word]"
  have frames: "mapr (\<lambda>i. rbind (row_at (replicate 2000 [0]) i) (\<lambda>q. Inr (search_request_of q))) [0..<lat_n] = Inr ?reqs"
    by (intro mapr_Inr_map) (simp add: row_at_def lat_n_def)
  have truth: "truth_row ?gt i = Inr [1] \<and> length [1 :: int] \<le> knn" if "i < lat_n" for i
    using that by (simp add: truth_row_def row_at_def lat_n_def knn_def)
  have "answering_engine tally_clock (\<lambda>w i. tally_stub w (?reqs ! i)) (\<lambda>v. fst v = w) (\<lambda>_. [1]) lat_n"
    by unfold_locales (simp_all add: tally_stub_def tally_clock_def)
  from answering_engine.measured [OF this _ order_refl, where w = "(w, k)" and truth = "truth_row ?gt" and tr = "\<lambda>_. [1]" and py_sum = py_sum,
      OF _ truth]
  obtain v lats hits s where "timed_loop tally_clock (\<lambda>w i. tally_stub w (?reqs ! i)) (truth_row ?gt) [0..<lat_n] [] 0 (w, k) = (v, Inr (lats, hits))"
    "fst v = w" "summarize py_sum hits lats = Inr s"
    by auto
  then show ?thesis
    by (cases v) (simp add: latency_grpc_def frames)
qed

lemma burst_tally_stub: "m \<noteq> 0 \<Longrightarrow> burst (\<lambda>w i. tally_stub w (f i)) m c i n (w, k) = ((w, k + c), Inr (i + c, n + c))"
  by (induction c arbitrary: i n k) (simp_all add: tally_stub_def)

lemma tally_saturated:
  "saturated_qps_grpc tally_stub tally_clock seq_pool 1 2 (replicate 2000 [0]) ((0, ls), k) = (((5, ls), k + 16), Inr 4)"
proof -
  let ?reqs = "replicate 2000 (search_request_of [0])"
  let ?ask = "\<lambda>w i. tally_stub w (?reqs ! i)"
  have b: "burst ?ask 2000 16 0 0 ((3 :: nat, ls), k) = (((3, ls), k + 16), Inr (16, 16))"
    by (subst burst_tally_stub) simp_all
  have r: "rnd 3 = 3" "rnd 4 = 4" "rnd 16 = 16"
    using rnd_of_nat [of 3] rnd_of_nat [of 4] rnd_of_nat [of 16] by simp_all
  have "worker_loop tally_clock ?ask 2000 3 16 16 ((3, ls), k + 16) = Some (((4, ls), k + 16), Inr 16)"
    by (subst worker_loop.simps) (simp add: tally_wall)
  then have "worker_loop tally_clock ?ask 2000 3 0 0 ((2, ls), k) = Some (((4, ls), k + 16), Inr 16)"
    using b by (subst worker_loop.simps) (simp add: tally_wall numeral_3_eq_3 [symmetric])
  then have "qps_worker_grpc tally_stub tally_clock 2 ?reqs ((1, ls), k) 0 = Some (((4, ls), k + 16), Inr 16)"
    using r by (simp add: qps_worker_grpc_def qps_worker_def tally_wall fadd_def numeral_2_eq_2 [symmetric])
  then show ?thesis
    using r by (simp add: saturated_qps_grpc_def pool_qps_def tally_wall float_ops)
qed

theorem grpc_run_report_witness:
  "\<exists>w' s. main_grpc (constant_files 2000 0) tally_pr tally_stub tally_clock (\<lambda>_. 0) seq_pool ''/sift'' ''h:1'' 1 2 ((0, []), 0) = (w', Inr (s, 4)) \<and>
    snd (fst w') = [grpc_banner ''h:1'' 1 2, latency_header, latency_row 64 (s, 4)]"
proof -
  have t: "map (take knn) (replicate 2000 [0]) = replicate 2000 [0 :: 32 word]"
    by (simp add: knn_def)
  obtain s n where "latency_grpc tally_stub tally_clock (\<lambda>_. 0) (replicate 2000 [0]) (map (take knn) (replicate 2000 [0]))
      ((0, [grpc_banner ''h:1'' 1 2]), 0) = (((0, [grpc_banner ''h:1'' 1 2]), n), Inr s)"
    unfolding t using tally_latency by blast
  then obtain w' where run: "main_grpc (constant_files 2000 0) tally_pr tally_stub tally_clock (\<lambda>_. 0) seq_pool ''/sift'' ''h:1'' 1 2 ((0, []), 0) =
      (w', Inr (s, 4))"
    by (simp add: main_grpc_def constant_files tally_pr_def paper_pr_def tally_saturated [unfolded One_nat_def])
  have "quiet (snd \<circ> fst) (\<lambda>w. tally_stub w rq)" "quiet snd (wall_time tally_clock)" for rq
    by (auto simp: quiet_def tally_stub_def tally_clock_def)
  moreover have "tally_stub w rq = (w', Inr ids) \<Longrightarrow> snd w' = snd w + 1" for w rq w' ids
    by (auto simp: tally_stub_def)
  ultimately show ?thesis
    using grpc_run_report [OF tally_pool.latency_console_axioms pool_spec_seq_pool _ seq_pool_adds, of tally_stub snd, OF _ _ _ run] run by auto
qed

section \<open>Building an index\<close>

text \<open>
  C27. A Qdrant build that returns without an error has seen the collection green with at least
  \<open>int(n * 0.99)\<close> vectors indexed, at its last look; that bound is below the number of vectors and at
  least half of it.
\<close>

theorem qdrant_build_waits:
  assumes "qdrant_build qd sleep vectors d w = Some (w', Inr ())" "vectors \<noteq> []"
  shows "\<exists>v status indexed. qd_info qd v = (w', Inr (status, indexed)) \<and> ends_with status ''green'' \<and>
    int (length vectors div 2) \<le> indexed_count indexed \<and> int (p99_index (length vectors)) \<le> indexed_count indexed \<and>
    p99_index (length vectors) < length vectors"
proof -
  obtain w1 where p: "poll (qdrant_ready qd (length vectors)) (sleep 2) w1 = Some (w', Inr ())"
    using assms(1) by (auto simp: qdrant_build_def qdrant_ingest_def split: result_splits)
  obtain v where "qdrant_ready qd (length vectors) v = (w', Inr True)"
    using poll_ready [OF p] by blast
  then show ?thesis
    using p99_index_bounds [of "length vectors"] assms(2) unfolding qdrant_ready_True by fastforce
qed

text \<open>
  C28. The build returns whenever creation and upload succeed and every pause brings the service
  nearer to a finished index.
\<close>

theorem qdrant_build_returns:
  assumes "polling (qdrant_ready qd (length vectors)) (sleep 2) left"
    and "qdrant_recreate qd (build_params d) w = (w1, Inr ())"
    and "qd_upload qd w1 vectors [0..<length vectors] 2000 2 = (w2, Inr ())"
  shows "\<exists>w'. qdrant_build qd sleep vectors d w = Some (w', Inr ())"
  using polling.poll_returns [OF assms(1), of w2] assms(2,3) by (simp add: qdrant_build_def qdrant_ingest_def)

definition nap :: "nat \<Rightarrow> nat \<Rightarrow> nat" where
  "nap seconds w = w - 1"

lemma slow_polling: "polling (qdrant_ready (slow_qdrant n) n) (nap 2) (\<lambda>w. w)"
proof -
  have "nap 2 = (\<lambda>w. w - 1)"
    by (simp add: fun_eq_iff nap_def)
  then show ?thesis
    using slow.polling_axioms by simp
qed

lemma slow_recreate: "qdrant_recreate (slow_qdrant n) coll w = (w, Inr ())"
  "qd_upload (slow_qdrant n) w vs ids b p = (length vs, Inr ())"
  by (simp_all add: qdrant_recreate_def slow_qdrant_def)

theorem qdrant_build_returns_witness:
  "\<exists>w'. qdrant_build (slow_qdrant 2) nap [[0], [1]] 1 0 = Some (w', Inr ())"
  using qdrant_build_returns [where qd = "slow_qdrant 2" and vectors = "[[0], [1]]" and sleep = nap and d = 1 and w = 0,
      OF _ slow_recreate(1) slow_recreate(2)] slow_polling [of 2]
  by (simp add: numeral_2_eq_2)

theorem qdrant_build_waits_witness:
  "\<exists>w' v indexed. qdrant_build (slow_qdrant 2) nap [[0], [1]] 1 0 = Some (w', Inr ()) \<and>
    qd_info (slow_qdrant 2) v = (w', Inr (''green'', Some indexed)) \<and> 1 \<le> indexed"
proof -
  have "polling (qdrant_ready (slow_qdrant 2) (length [[0], [1 :: f32]])) (nap 2) (\<lambda>w. w)"
    using slow_polling [of 2] by (simp add: numeral_2_eq_2)
  from polling.poll_returns [OF this, of "Suc (Suc 0)"]
  obtain w' where b: "qdrant_build (slow_qdrant 2) nap [[0], [1]] 1 0 = Some (w', Inr ())"
    by (auto simp: qdrant_build_def qdrant_ingest_def slow_recreate)
  from qdrant_build_waits [OF b] obtain v status indexed where
    "qd_info (slow_qdrant 2) v = (w', Inr (status, indexed))" "ends_with status ''green''" "1 \<le> indexed_count indexed"
    by auto
  then show ?thesis
    using b by (intro exI [of _ w'] exI [of _ v]) (auto simp: slow_qdrant_def indexed_count_def ends_with_def split: if_splits)
qed

text \<open>
  C29. A Redis load that succeeds has stored every vector exactly once, in order, under the key of its
  row number; each key has the prefix, and each hash the field, that the index was created on.
\<close>

theorem redis_load_stores:
  assumes "pipe_store exec stored" "redis_load exec vs 0 [] w = (w', Inr ())"
  shows "stored w' = stored w @ map (\<lambda>(i, v). (redis_key i, [(''vec'', v)])) (zip [0..<length vs] vs) \<and>
    (\<forall>i. prefix key_prefix (redis_key i)) \<and>
    prefix (map AText [''FT.CREATE'', idx_name, ''ON'', ''HASH'', ''PREFIX'', ''1'', key_prefix, ''SCHEMA'', ''vec'', ''VECTOR'']) (create_command d)"
proof -
  have "redis_cmds 0 vs = map (\<lambda>(i, v). (redis_key i, [(''vec'', v)])) (zip [0..<length vs] vs)"
    by (simp add: redis_cmds_def hset_of_def)
  then show ?thesis
    using pipe_store.redis_load_stored [OF assms] by (simp add: redis_key_def create_command_def)
qed

theorem redis_load_stores_witness:
  "\<exists>w'. redis_load batch_exec [[1], [2]] 0 [] [] = (w', Inr ()) \<and>
    concat w' = [(''v:0'', [(''vec'', [1])]), (''v:1'', [(''vec'', [2])])]"
proof -
  have l: "redis_load batch_exec [[1], [2]] 0 [] [] = ([[hset_of 0 [1], hset_of 1 [2]]], Inr ())"
    by (simp add: batch_exec_def)
  have "redis_key 0 = ''v:0''" "redis_key 1 = ''v:1''"
    by code_simp+
  with redis_load_stores [OF batches.pipe_store_axioms l] l show ?thesis
    by simp
qed

text \<open>
  The pipelined load sends full batches of two thousand commands and one last, shorter batch, and
  nothing else.
\<close>

lemma redis_load_batch_sizes:
  "\<exists>new final. redis_load batch_exec vs 0 [] [] = (new @ [final], Inr ()) \<and> list_all (\<lambda>b. length b = 2000) new \<and>
    length final = length vs mod 2000 \<and> concat new @ final = redis_cmds 0 vs"
proof -
  obtain new final where l: "redis_load batch_exec vs 0 [] [] = (new @ [final], Inr ())"
    and s: "list_all (\<lambda>b. length b = 2000) new" "length final < 2000"
    using redis_load_batches [of "[]" 0 vs "[]"] by auto
  have c: "concat new @ final = redis_cmds 0 vs"
    using batches.redis_load_stored [OF l] by simp
  have "length (concat new @ final) = length new * 2000 + length final"
    using length_concat_const [OF s(1)] by simp
  then have "length vs = length new * 2000 + length final"
    using c by (simp add: redis_cmds_def)
  then have "length final = length vs mod 2000"
    using s(2) by simp
  then show ?thesis
    using l s(1) c by blast
qed

text \<open>
  C31. A query of the Redis harness sends one \<open>FT.SEARCH\<close> for its row, with the row's bytes and the ef of the
  sweep; the ids it takes from a reply are the row numbers in the reply's keys, in order, and an exception of
  the command is its own. The declared attribute count of the index is the number of words that follow it.
\<close>

theorem redis_query_ids:
  assumes "row_at queries i = Inr q" "rd_command rd w (search_command ef (tobytes q)) = (w', out)"
  shows "redis_ask rd tobytes queries ef w i =
      (w', case out of Inl e \<Rightarrow> Inl e | Inr reply \<Rightarrow> rbind (reply_items reply) reply_ids) \<and>
    reply_items (RArr (search_reply hs)) = Inr (search_reply hs) \<and>
    reply_ids (search_reply hs) = Inr (map (int \<circ> fst) hs) \<and>
    int_of_str ''10'' = Inr (int (length (tl (dropWhile (\<lambda>a. a \<noteq> AText ''10'') (create_command d)))))"
proof -
  have "int_of_str ''10'' = Inr 10"
    by code_simp
  moreover have "length (tl (dropWhile (\<lambda>a. a \<noteq> AText ''10'') (create_command d))) = 10"
    by (simp add: create_command_def idx_name_def key_prefix_def)
  ultimately show ?thesis
    using assms by (auto simp: redis_ask_def reply_items_def reply_ids_search_reply split: sum.split)
qed

definition one_reply_redis :: "word_arg list list redis" where
  "one_reply_redis =
     \<lparr>rd_ping = (\<lambda>w. (w, Inr ())), rd_command = (\<lambda>w cmd. (w @ [cmd], Inr (RArr (search_reply [(7, RNil), (3, RNil)])))),
      rd_exec = (\<lambda>w cmds. (w, Inr ()))\<rparr>"

theorem redis_query_ids_witness:
  "redis_ask one_reply_redis (\<lambda>q. [1, 2]) [[0]] 64 [] 0 = ([search_command 64 [1, 2]], Inr [7, 3])"
proof -
  have q: "row_at [[0 :: f32]] 0 = Inr [0]"
    by (simp add: row_at_def)
  have c: "rd_command one_reply_redis [] (search_command 64 [1, 2]) =
      ([search_command 64 [1, 2]], Inr (RArr (search_reply [(7, RNil), (3, RNil)])))"
    by (simp add: one_reply_redis_def)
  from redis_query_ids [OF q, where tobytes = "\<lambda>q. [1, 2]", OF c, of "[(7, RNil), (3, RNil)]"] show ?thesis
    by simp
qed

section \<open>Recall of the sweeps\<close>

text \<open>
  C32. A run of the Qdrant harness that succeeds has shown, in this order and nothing else: the quantization, the
  memory marker, the corpus with the build time and rate, the head of the table and one line for each ef of the sweep. Each
  line is read back as its ef with the measured recall and throughput, to within half a unit of the last
  printed digit; every recall lies between 0 and 1, whatever the service answers.
\<close>

theorem qdrant_bench_report:
  assumes "qdrant_console pr shown clk qd sleep"
    and "main_qdrant_bench nf pr sift qd sleep clk sq8 w = Some (w', Inr (rate, rows))"
  shows "\<exists>n d build table. shown w' = shown w @ [config_line sq8, qdrant_marker] @ qdrant_heads n d build rate @ table \<and>
    fdiv (of_nat n) build = Inr rate \<and> map fst rows = [16, 32, 64, 128, 256, 512] \<and>
    list_all2 (\<lambda>line (ef, recall, qps). 0 \<le> recall \<and> recall \<le> 1 \<and>
      (\<exists>r q. read_row line = (ef, [r, q]) \<and> \<bar>r - recall\<bar> \<le> 1 / 20000 \<and> \<bar>q - qps\<bar> \<le> 1 / 2)) table rows"
proof -
  note out = qdrant_console.main_qdrant_bench_shown [OF assms]
  let ?table = "map (\<lambda>(ef, r). sweep_row 20 ef r) rows"
  have "list_all2 (\<lambda>line (ef, recall, qps). 0 \<le> recall \<and> recall \<le> 1 \<and>
      (\<exists>r q. read_row line = (ef, [r, q]) \<and> \<bar>r - recall\<bar> \<le> 1 / 20000 \<and> \<bar>q - qps\<bar> \<le> 1 / 2)) ?table rows"
    using out(3) read_sweep_row by (auto simp: list_all2_map1 list.rel_refl_strong intro!: list.rel_refl_strong)
  moreover obtain n d build where "shown w' = shown w @ [config_line sq8, qdrant_marker] @ qdrant_heads n d build rate @ ?table"
    "fdiv (of_nat n) build = Inr rate"
    using out(1) by blast
  ultimately show ?thesis
    using out(2) unfolding ef_sweep_bench_def by (intro exI [of _ n] exI [of _ d] exI [of _ build] exI [of _ ?table]) simp
qed

lemma sweep_total: "(\<And>w ef. \<exists>w' r. run w ef = (w', Inr r)) \<Longrightarrow> \<exists>w' rs. sweep run efs w = (w', Inr rs)"
proof (induction efs arbitrary: w)
  case Nil
  then show ?case by simp
next
  case (Cons ef efs)
  obtain w1 r where "run w ef = (w1, Inr r)"
    using Cons.prems by blast
  then show ?case
    using Cons.IH [OF Cons.prems, of w1] by auto
qed

lemma paper_bench_row:
  "\<exists>w' r. bench_row paper_clock (qdrant_ask green_qdrant ef [[3]]) (plain_truth [[3]]) 1 w = (w', Inr r)"
proof -
  have "rnd 1 \<noteq> 0"
    using rnd_of_nat [of 1] by simp
  then show ?thesis
    by (simp add: bench_row_def paper_clock_def qdrant_ask_def green_qdrant_def plain_truth_def row_at_def float_ops knn_def)
qed

lemma green_ready: "qdrant_ingest green_qdrant no_sleep [[3]] w = Some (w, Inr ())"
proof -
  have "qdrant_ready green_qdrant 1 w = (w, Inr True)"
    using p99_index_le [of 1] by (simp add: qdrant_ready_def green_qdrant_def ends_with_def indexed_count_def)
  then show ?thesis
    by (simp add: qdrant_ingest_def green_qdrant_def [abs_def] poll.simps)
qed

theorem qdrant_bench_report_witness:
  "\<exists>w' rate rows n d build table. main_qdrant_bench (constant_files 1 3) paper_pr ''/sift'' green_qdrant no_sleep paper_clock True (0, []) =
      Some (w', Inr (rate, rows)) \<and> snd w' = [config_line True, qdrant_marker] @ qdrant_heads n d build rate @ table \<and>
    map fst rows = [16, 32, 64, 128, 256, 512] \<and> length table = 6"
proof -
  let ?row = "\<lambda>w ef. bench_row paper_clock (qdrant_ask green_qdrant ef [[3]]) (plain_truth [[3]]) 1 w"
  have total: "\<exists>w' rows. sweep (printed paper_pr (sweep_row 20) ?row) ef_sweep_bench v = (w', Inr rows)" for v
  proof (rule sweep_total)
    show "\<exists>w' r. printed paper_pr (sweep_row 20) ?row w ef = (w', Inr r)" for w ef
      using paper_bench_row [of ef w] unfolding printed_Inr by blast
  qed
  have "\<exists>w' rate rows. main_qdrant_bench (constant_files 1 3) paper_pr ''/sift'' green_qdrant no_sleep paper_clock True (0, []) =
      Some (w', Inr (rate, rows))"
  proof -
    have data: "sift_data (constant_files 1 3) ''/sift'' = Inr ([[3]], [[3]], [[3]])"
      by (simp add: sift_data_def constant_files knn_def)
    have create: "qdrant_recreate green_qdrant coll v = (v, Inr ())" for coll and v :: "nat \<times> string list"
      by (simp add: qdrant_recreate_def green_qdrant_def)
    have rate: "fdiv 1 (fsub 1 0) = Inr 1"
      using rnd_of_nat [of 1] by (simp add: float_ops)
    show ?thesis
      using total [of "prints paper_pr (qdrant_heads 1 1 (fsub 1 0) 1) (2, [config_line True, qdrant_marker])"]
      by (auto simp: main_qdrant_bench_def data [unfolded One_nat_def] create green_ready paper_wall paper_pr_def no_sleep_def numeral_2_eq_2 bench_report_def width_def rate)
  qed
  then obtain w' rate rows where run: "main_qdrant_bench (constant_files 1 3) paper_pr ''/sift'' green_qdrant no_sleep paper_clock True (0, []) =
      Some (w', Inr (rate, rows))" by blast
  from qdrant_bench_report [OF paper_qdrant.qdrant_console_axioms run]
  obtain n d build table where "snd w' = [config_line True, qdrant_marker] @ qdrant_heads n d build rate @ table"
    "map fst rows = [16, 32, 64, 128, 256, 512]" "length table = length rows"
    by (elim exE conjE) (drule list_all2_lengthD, simp)
  moreover from this have "length table = 6"
    using length_map [of fst rows] by simp
  ultimately show ?thesis
    using run by (intro exI [of _ w'] exI [of _ rate] exI [of _ rows] exI [of _ n] exI [of _ d] exI [of _ build] exI [of _ table]) simp
qed

text \<open>
  C39. A run of the Redis harness that succeeds has stored every base vector exactly once, in order, under the key of its
  row number, after whatever the drop of the old index left; it has seen the index ready, with all of them stored, before
  it took the build time. The lines it shows are the load with its rate, the marker, the corpus with
  the build rate, the head and one line for each ef, where both times are differences of the clock's readings. The recall
  of each line is the correctly rounded fraction of the ground-truth ids among the row numbers the service finds for the
  queries at that ef.
\<close>

theorem redis_run_report:
  assumes "redis_service pr shown clk rd sleep stored found"
    and "sift_data nf sift = Inr (vectors, queries, gt)"
    and "main_redis nf pr sift rd tobytes sleep clk float_of w = Some (w', Inr (rate, rows))"
  shows "map fst rows = [16, 32, 64, 128, 256, 512] \<and>
    (\<forall>(ef, recall, qps) \<in> set rows. recall = rnd (of_nat (\<Sum>i < length queries.
      card (set (map (int \<circ> fst) (found w' ef (tobytes (queries ! i)))) \<inter> set (map sint (gt ! i)))) / of_nat (length queries * 10))) \<and>
    (\<exists>u0 u1 t0 u2 u3 t1 load_rate v v' u4 t2.
      redis_recreate rd (width vectors) w = (u0, Inr ()) \<and> wall_time clk u0 = (u1, t0) \<and>
      redis_load (rd_exec rd) (map tobytes vectors) 0 [] u1 = (u2, Inr ()) \<and> wall_time clk u2 = (u3, t1) \<and>
      redis_ready rd float_of v = (v', Inr True) \<and> wall_time clk v' = (u4, t2) \<and> stored v' = stored w' \<and>
      fdiv (of_nat (length vectors)) (fsub t1 t0) = Inr load_rate \<and> fdiv (of_nat (length vectors)) (fsub t2 t0) = Inr rate \<and>
      shown w' = shown w @ [load_line (length vectors) (fsub t1 t0) load_rate, redis_marker] @
        redis_heads (length vectors) (width vectors) (fsub t2 t0) rate @ map (\<lambda>(ef, r). sweep_row 20 ef r) rows \<and>
      (stored u0 = [] \<or> stored u0 = stored w) \<and>
      stored w' = stored u0 @ map (\<lambda>(i, q). (''v:'' @ dec_nat i, [(''vec'', tobytes q)])) (zip [0..<length vectors] vectors))"
proof -
  note run = redis_service.main_redis_run [OF assms]
  have cmds: "redis_cmds 0 (map tobytes vectors) = map (\<lambda>(i, q). (''v:'' @ dec_nat i, [(''vec'', tobytes q)])) (zip [0..<length vectors] vectors)"
    by (simp add: redis_cmds_def hset_of_def redis_key_def key_prefix_def zip_map2 split_beta)
  have "\<forall>(ef, recall, qps) \<in> set rows. recall = rnd (of_nat (\<Sum>i < length queries.
      card (set (map (int \<circ> fst) (found w' ef (tobytes (queries ! i)))) \<inter> set (map sint (gt ! i)))) / of_nat (length queries * 10))"
    using run(3) by (auto simp: knn_def)
  with run(1) [unfolded cmds] run(2) [unfolded ef_sweep_bench_def] show ?thesis
    by (intro conjI)
qed

lemma shelf_bench_row:
  "\<exists>w' r. bench_row shelf_clock (redis_ask shelf_redis tobytes [[0]] ef) (plain_truth [[0]]) 1 w = (w', Inr r)"
proof -
  have "rnd 1 \<noteq> 0"
    using rnd_of_nat [of 1] by simp
  then show ?thesis
    by (simp add: bench_row_def shelf_clock_def paper_clock_def redis_ask_def shelf_redis_def search_command_def drop_command_def
        reply_items_def reply_ids_search_reply plain_truth_def row_at_def float_ops knn_def)
qed

lemma shelf_run:
  "\<exists>w' rate rows. main_redis (constant_files 1 0) shelf_pr ''/sift'' shelf_redis (\<lambda>_. [7]) no_sleep shelf_clock (\<lambda>_. Inr 1) ((0, []), []) =
    Some (w', Inr (rate, rows))"
proof -
  let ?row = "\<lambda>w ef. bench_row shelf_clock (redis_ask shelf_redis (\<lambda>_. [7]) [[0]] ef) (plain_truth [[0]]) 1 w"
  have total: "\<exists>w' rows. sweep (printed shelf_pr (sweep_row 20) ?row) ef_sweep_bench v = (w', Inr rows)" for v
  proof (rule sweep_total)
    show "\<exists>w' r. printed shelf_pr (sweep_row 20) ?row w ef = (w', Inr r)" for w ef
      using shelf_bench_row [of "\<lambda>_. [7]" ef w] unfolding printed_Inr by blast
  qed
  have data: "sift_data (constant_files 1 0) ''/sift'' = Inr ([[0]], [[0]], [[0]])"
    by (simp add: sift_data_def constant_files knn_def)
  have ready: "redis_ready shelf_redis (\<lambda>_. Inr 1) v = (v, Inr True)" for v
    by (simp add: redis_ready_def shelf_redis_def info_command_def drop_command_def reply_items_def info_get_def resp_int_def)
  have rate: "fdiv 1 (fsub 1 0) = Inr 1" "fdiv 1 (fsub 2 0) \<noteq> Inl e" for e
    using rnd_of_nat [of 1] rnd_of_nat [of 2] by (simp_all add: float_ops)
  obtain r2 where r2: "fdiv 1 (fsub 2 0) = Inr r2"
    using rate(2) by (cases "fdiv 1 (fsub 2 0)") auto
  have create: "redis_recreate shelf_redis d v = ((fst v, []), Inr ())" for d v
    by (simp add: redis_recreate_def shelf_redis_def create_command_def drop_command_def)
  have wall: "wall_time shelf_clock ((n, ls), hs) = (((Suc n, ls), hs), of_nat n)" for n ls hs
    by (simp add: shelf_clock_def paper_clock_def)
  have exec: "rd_exec shelf_redis v cmds = ((fst v, snd v @ cmds), Inr ())" for v cmds
    by (simp add: shelf_redis_def)
  have ingest: "redis_ingest shelf_pr shelf_redis no_sleep shelf_clock (\<lambda>_. Inr 1) [[7]] ((0, []), []) =
      Some (((3, [load_line 1 (fsub 1 0) 1]), [hset_of 0 [7]]), Inr (fsub 2 0))"
    by (simp add: redis_ingest_def exec wall rate(1) poll.simps ready shelf_pr_def paper_pr_def)
  let ?start = "prints shelf_pr (redis_heads 1 1 (fsub 2 0) r2)
    (no_sleep 15 (shelf_pr redis_marker ((3, [load_line 1 (fsub 1 0) 1]), [hset_of 0 [7]])))"
  show ?thesis
    using total [of ?start] by (auto simp: main_redis_def data [unfolded One_nat_def] create ingest width_def bench_report_def r2)
qed

theorem redis_run_report_witness:
  "\<exists>w' rate rows. main_redis (constant_files 1 0) shelf_pr ''/sift'' shelf_redis (\<lambda>_. [7]) no_sleep shelf_clock (\<lambda>_. Inr 1) ((0, []), []) =
      Some (w', Inr (rate, rows)) \<and> snd w' = [(''v:0'', [(''vec'', [7])])] \<and> map fst rows = [16, 32, 64, 128, 256, 512] \<and>
    (\<forall>(ef, recall, qps) \<in> set rows. recall = rnd (1 / 10))"
proof -
  obtain w' rate rows where run: "main_redis (constant_files 1 0) shelf_pr ''/sift'' shelf_redis (\<lambda>_. [7]) no_sleep shelf_clock (\<lambda>_. Inr 1) ((0, []), []) =
      Some (w', Inr (rate, rows))"
    using shelf_run by blast
  have data: "sift_data (constant_files 1 0) ''/sift'' = Inr ([[0]], [[0]], [[0]])"
    by (simp add: sift_data_def constant_files knn_def)
  note out = redis_run_report [OF shelf_bench.redis_service_axioms data run]
  have zero: "dec_nat 0 = ''0''"
    by code_simp
  have s: "snd w' = [(''v:0'', [(''vec'', [7])])]"
    using out by (auto simp: zero)
  have "\<forall>(ef, recall, qps) \<in> set rows. recall = rnd (1 / 10)"
    using out s by (auto simp: shelf_found_def knn_def)
  then show ?thesis
    using run s conjunct1 [OF out] by (intro exI [of _ w'] exI [of _ rate] exI [of _ rows] conjI)
qed

text \<open>The same holds of the recall of the hnswlib harness.\<close>

lemma hnswlib_recall_unit:
  assumes "hnswlib_row hl clk queries gt w ef = (w', Inr (recall, qps))" "list_all (\<lambda>r. length r \<le> knn) gt"
  shows "0 \<le> recall \<and> recall \<le> 1"
  using assms by (rule hnswlib_row_recall)

lemma hnswlib_recall_unit_sample:
  "\<exists>w' recall qps. hnswlib_row one_label step_clock [[0]] [[3]] 0 16 = (w', Inr (recall, qps)) \<and> 0 \<le> recall \<and> recall \<le> 1"
proof -
  have r: "rnd 1 \<noteq> 0"
    using rnd_of_nat [of 1] by simp
  obtain w' recall qps where b: "hnswlib_row one_label step_clock [[0]] [[3]] 0 16 = (w', Inr (recall, qps))"
    using r by (simp add: hnswlib_row_def one_label_def step_clock_def label_hits_def plain_truth_def row_at_def float_ops knn_def)
  with hnswlib_recall_unit [OF b] show ?thesis
    by (auto simp: knn_def)
qed

end
