(* ===== verification/Proto.thy ===== *)
theory Proto
  imports Bytes Py_Text
begin

text \<open>
  The protobuf wire format as its documentation gives it, as far as \<open>sift1m/grpc_stubs/vector_pb2.py\<close> needs it:
  variable-length integers, tagged fields, and a message as the sequence of its fields. Reading back
  what was written is proved once for integers and fields, through the codec interface of \<open>Bytes\<close>, and
  used for the messages of the search service and for the descriptor the generated module embeds.
\<close>

section \<open>Variable-length integers\<close>

function enc_varint :: "nat \<Rightarrow> bytes" where
  "enc_varint n = (if n < 128 then [of_nat n] else of_nat (n mod 128 + 128) # enc_varint (n div 128))"
  by pat_completeness auto
termination
  by (relation "measure id") auto

declare enc_varint.simps [simp del]

fun take_varint :: "bytes \<Rightarrow> (nat \<times> bytes) option" where
  "take_varint [] = None"
| "take_varint (b # bs) =
     (if unat b < 128 then Some (unat b, bs)
      else (case take_varint bs of
              None \<Rightarrow> None
            | Some (n, rest) \<Rightarrow> Some (unat b - 128 + 128 * n, rest)))"

lemma take_enc_varint: "take_varint (enc_varint n @ rest) = Some (n, rest)"
proof (induction n rule: enc_varint.induct)
  case (1 n)
  show ?case
  proof (cases "n < 128")
    case True
    then show ?thesis
      by (simp add: enc_varint.simps [of n] unat_byte_of_nat)
  next
    case False
    have "unat (of_nat (n mod 128 + 128) :: byte) = n mod 128 + 128"
      unfolding unat_byte_of_nat by (rule mod_less) (use mod_less_divisor [of 128 n] in linarith)
    with False 1 show ?thesis
      by (simp add: enc_varint.simps [of n])
  qed
qed

interpretation varint: stream_codec enc_varint take_varint "\<lambda>_. True"
  by unfold_locales (rule take_enc_varint)

lemma take_varint_shorter: "take_varint bs = Some (n, rest) \<Longrightarrow> length rest < length bs"
  by (induction bs arbitrary: n) (auto split: if_splits option.splits intro: less_SucI)

section \<open>Fields\<close>

datatype wire = Varint nat | I64 "64 word" | Len bytes | I32 f32

fun wire_type :: "wire \<Rightarrow> nat" where
  "wire_type (Varint _) = 0"
| "wire_type (I64 _) = 1"
| "wire_type (Len _) = 2"
| "wire_type (I32 _) = 5"

text \<open>Fixed-width items are little-endian.\<close>

definition le32 :: "f32 \<Rightarrow> bytes" where
  "le32 v = rev (be_bytes 4 (unat v))"

definition take_le32 :: "bytes \<Rightarrow> (f32 \<times> bytes) option" where
  "take_le32 bs = (if 4 \<le> length bs then Some (of_nat (be_nat (rev (take 4 bs))), drop 4 bs) else None)"

definition le64 :: "64 word \<Rightarrow> bytes" where
  "le64 v = rev (be_bytes 8 (unat v))"

definition take_le64 :: "bytes \<Rightarrow> (64 word \<times> bytes) option" where
  "take_le64 bs = (if 8 \<le> length bs then Some (of_nat (be_nat (rev (take 8 bs))), drop 8 bs) else None)"

lemma length_le32 [simp]: "length (le32 v) = 4"
  by (simp add: le32_def)

lemma take_le32_le32: "take_le32 (le32 v @ rest) = Some (v, rest)"
proof -
  have "unat v < 256 ^ 4"
    using unsigned_less [of v] by simp
  then show ?thesis
    by (simp add: take_le32_def le32_def be_nat_be_bytes)
qed

lemma take_le64_le64: "take_le64 (le64 v @ rest) = Some (v, rest)"
proof -
  have "unat v < 256 ^ 8"
    using unsigned_less [of v] by simp
  then show ?thesis
    by (simp add: take_le64_def le64_def be_nat_be_bytes)
qed

interpretation le32: fixed_codec le32 take_le32 "\<lambda>_. True" 4
  by unfold_locales (simp_all add: take_le32_le32)

fun enc_payload :: "wire \<Rightarrow> bytes" where
  "enc_payload (Varint n) = enc_varint n"
| "enc_payload (I64 v) = le64 v"
| "enc_payload (Len bs) = enc_varint (length bs) @ bs"
| "enc_payload (I32 v) = le32 v"

definition enc_field :: "nat \<times> wire \<Rightarrow> bytes" where
  "enc_field f = enc_varint (8 * fst f + wire_type (snd f)) @ enc_payload (snd f)"

definition take_len :: "bytes \<Rightarrow> (bytes \<times> bytes) option" where
  "take_len bs =
     (case take_varint bs of
        None \<Rightarrow> None
      | Some (n, rest) \<Rightarrow> if n \<le> length rest then Some (take n rest, drop n rest) else None)"

definition take_payload :: "nat \<Rightarrow> bytes \<Rightarrow> (wire \<times> bytes) option" where
  "take_payload t bs =
     (if t = 0 then map_option (map_prod Varint id) (take_varint bs)
      else if t = 1 then map_option (map_prod I64 id) (take_le64 bs)
      else if t = 2 then map_option (map_prod Len id) (take_len bs)
      else if t = 5 then map_option (map_prod I32 id) (take_le32 bs)
      else None)"

definition take_field :: "bytes \<Rightarrow> ((nat \<times> wire) \<times> bytes) option" where
  "take_field bs =
     (case take_varint bs of
        None \<Rightarrow> None
      | Some (tag, rest) \<Rightarrow> map_option (map_prod (Pair (tag div 8)) id) (take_payload (tag mod 8) rest))"

lemma take_payload_enc: "take_payload (wire_type w) (enc_payload w @ rest) = Some (w, rest)"
  by (cases w) (simp_all add: take_payload_def take_len_def take_enc_varint take_le32_le32 take_le64_le64)

lemma wire_type_less: "wire_type w < 8"
  by (cases w) simp_all

interpretation field: stream_codec enc_field take_field "\<lambda>_. True"
proof unfold_locales
  fix f :: "nat \<times> wire" and rest
  have "(8 * fst f + wire_type (snd f)) div 8 = fst f" "(8 * fst f + wire_type (snd f)) mod 8 = wire_type (snd f)"
    using wire_type_less [of "snd f"] by simp_all
  then show "take_field (enc_field f @ rest) = Some (f, rest)"
    by (simp add: take_field_def enc_field_def take_enc_varint take_payload_enc)
qed

section \<open>Messages\<close>

lemma take_payload_shorter: "take_payload t bs = Some (w, rest) \<Longrightarrow> length rest \<le> length bs"
  by (auto simp: take_payload_def take_len_def take_le32_def take_le64_def split: if_splits option.splits
      dest!: take_varint_shorter)

lemma take_field_shorter: "take_field bs = Some (f, rest) \<Longrightarrow> length rest < length bs"
  by (auto simp: take_field_def split: option.splits dest!: take_varint_shorter take_payload_shorter)

function read_fields :: "bytes \<Rightarrow> (nat \<times> wire) list option" where
  "read_fields bs =
     (if bs = [] then Some []
      else (case take_field bs of
              None \<Rightarrow> None
            | Some (f, rest) \<Rightarrow> map_option ((#) f) (read_fields rest)))"
  by pat_completeness auto
termination
  by (relation "measure length") (auto dest: take_field_shorter)

declare read_fields.simps [simp del]

definition write_fields :: "(nat \<times> wire) list \<Rightarrow> bytes" where
  "write_fields fs = concat (map enc_field fs)"

lemma enc_varint_not_Nil [simp]: "enc_varint n \<noteq> []"
  by (simp add: enc_varint.simps [of n])

lemma enc_field_not_Nil [simp]: "enc_field f \<noteq> []"
  by (simp add: enc_field_def)

lemma read_write_fields: "read_fields (write_fields fs) = Some fs"
proof (induction fs)
  case Nil
  then show ?case by (simp add: write_fields_def read_fields.simps)
next
  case (Cons f fs)
  then show ?case
    by (simp add: write_fields_def read_fields.simps [of "enc_field f @ _"] field.dec_enc)
qed

text \<open>Access by field number: the last scalar of a number counts, a repeated field has all of them.\<close>

definition all_len :: "nat \<Rightarrow> (nat \<times> wire) list \<Rightarrow> bytes list" where
  "all_len n fs = [b. (m, Len b) \<leftarrow> fs, m = n]"

definition last_len :: "nat \<Rightarrow> (nat \<times> wire) list \<Rightarrow> bytes" where
  "last_len n fs = (if all_len n fs = [] then [] else last (all_len n fs))"

definition last_int :: "nat \<Rightarrow> (nat \<times> wire) list \<Rightarrow> nat" where
  "last_int n fs = (let vs = [v. (m, Varint v) \<leftarrow> fs, m = n] in if vs = [] then 0 else last vs)"

definition last_i32 :: "nat \<Rightarrow> (nat \<times> wire) list \<Rightarrow> f32" where
  "last_i32 n fs = (let vs = [v. (m, I32 v) \<leftarrow> fs, m = n] in if vs = [] then 0 else last vs)"

definition ascii_text :: "bytes \<Rightarrow> string" where
  "ascii_text bs = map (char_of \<circ> unat) bs"

end
