(* ===== verification/Vector_Pb2.thy ===== *)
theory Vector_Pb2
  imports Proto Float_Bits
begin

text \<open>
  The generated module \<open>sift1m/grpc_stubs/vector_pb2.py\<close>: the serialized descriptor it registers, the byte spans it
  records for its messages and its service, and the schema \<open>vector.proto\<close> they were generated from. The
  message classes are built by the protobuf runtime from the descriptor; here they are records, and
  what the runtime does with them is \<open>pb2\<close>, an argument of the stubs with a contract (\<open>message_runtime\<close>).
  The contract is interpreted on the documented wire format.
\<close>

section \<open>Descriptors\<close>

datatype field_type = TFloat | TUint64 | TString | TUint32 | TMessage string

record field_desc =
  fd_name :: string
  fd_number :: nat
  fd_repeated :: bool
  fd_type :: field_type

record message_desc =
  md_name :: string
  md_fields :: "field_desc list"

record method_desc =
  rd_name :: string
  rd_input :: string
  rd_output :: string

record service_desc =
  sd_name :: string
  sd_methods :: "method_desc list"

record file_desc =
  file_name :: string
  file_package :: string
  file_messages :: "message_desc list"
  file_services :: "service_desc list"
  file_go_package :: string
  file_syntax :: string

text \<open>
  Reading a descriptor: it is itself a protobuf message, whose field numbers and type codes are those
  of \<open>descriptor.proto\<close>.
\<close>

definition type_of_code :: "nat \<Rightarrow> string \<Rightarrow> field_type option" where
  "type_of_code c name =
     (if c = 2 then Some TFloat else if c = 4 then Some TUint64 else if c = 9 then Some TString
      else if c = 13 then Some TUint32 else if c = 11 then Some (TMessage name) else None)"

definition read_all :: "(bytes \<Rightarrow> 'a option) \<Rightarrow> bytes list \<Rightarrow> 'a list option" where
  "read_all rd bs = (if None \<in> set (map rd bs) then None else Some (map (the \<circ> rd) bs))"

definition read_field_desc :: "bytes \<Rightarrow> field_desc option" where
  "read_field_desc bs =
     (case read_fields bs of
        None \<Rightarrow> None
      | Some fs \<Rightarrow>
          map_option (\<lambda>t. \<lparr>fd_name = ascii_text (last_len 1 fs), fd_number = last_int 3 fs, fd_repeated = (last_int 4 fs = 3), fd_type = t\<rparr>)
            (type_of_code (last_int 5 fs) (ascii_text (last_len 6 fs))))"

definition read_message_desc :: "bytes \<Rightarrow> message_desc option" where
  "read_message_desc bs =
     (case read_fields bs of
        None \<Rightarrow> None
      | Some fs \<Rightarrow>
          map_option (\<lambda>xs. \<lparr>md_name = ascii_text (last_len 1 fs), md_fields = xs\<rparr>) (read_all read_field_desc (all_len 2 fs)))"

definition read_method_desc :: "bytes \<Rightarrow> method_desc option" where
  "read_method_desc bs =
     map_option (\<lambda>fs. \<lparr>rd_name = ascii_text (last_len 1 fs), rd_input = ascii_text (last_len 2 fs), rd_output = ascii_text (last_len 3 fs)\<rparr>)
       (read_fields bs)"

definition read_service_desc :: "bytes \<Rightarrow> service_desc option" where
  "read_service_desc bs =
     (case read_fields bs of
        None \<Rightarrow> None
      | Some fs \<Rightarrow>
          map_option (\<lambda>xs. \<lparr>sd_name = ascii_text (last_len 1 fs), sd_methods = xs\<rparr>) (read_all read_method_desc (all_len 2 fs)))"

definition read_options :: "bytes \<Rightarrow> string option" where
  "read_options bs = map_option (\<lambda>fs. ascii_text (last_len 11 fs)) (read_fields bs)"

definition read_file_desc :: "bytes \<Rightarrow> file_desc option" where
  "read_file_desc bs =
     (case read_fields bs of
        None \<Rightarrow> None
      | Some fs \<Rightarrow>
          (case (read_all read_message_desc (all_len 4 fs), read_all read_service_desc (all_len 6 fs), read_options (last_len 8 fs)) of
             (Some ms, Some ss, Some go) \<Rightarrow>
               Some \<lparr>file_name = ascii_text (last_len 1 fs), file_package = ascii_text (last_len 2 fs), file_messages = ms,
                     file_services = ss, file_go_package = go, file_syntax = ascii_text (last_len 12 fs)\<rparr>
           | _ \<Rightarrow> None))"

section \<open>The generated module\<close>

text \<open>The bytes handed to \<open>AddSerializedFile\<close>.\<close>

definition descriptor_bytes :: bytes where
  "descriptor_bytes =
     [0x0A, 0x0C, 0x76, 0x65, 0x63, 0x74, 0x6F, 0x72, 0x2E, 0x70, 0x72, 0x6F, 0x74, 0x6F, 0x12, 0x0B, 0x76, 0x65, 0x63, 0x74,
      0x6F, 0x72, 0x62, 0x65, 0x6E, 0x63, 0x68, 0x22, 0x3D, 0x0A, 0x0D, 0x53, 0x65, 0x61, 0x72, 0x63, 0x68, 0x52, 0x65, 0x71,
      0x75, 0x65, 0x73, 0x74, 0x12, 0x12, 0x0A, 0x0A, 0x63, 0x6F, 0x6C, 0x6C, 0x65, 0x63, 0x74, 0x69, 0x6F, 0x6E, 0x18, 0x01,
      0x20, 0x01, 0x28, 0x09, 0x12, 0x09, 0x0A, 0x01, 0x6B, 0x18, 0x02, 0x20, 0x01, 0x28, 0x0D, 0x12, 0x0D, 0x0A, 0x05, 0x71,
      0x75, 0x65, 0x72, 0x79, 0x18, 0x03, 0x20, 0x03, 0x28, 0x02, 0x22, 0x23, 0x0A, 0x03, 0x48, 0x69, 0x74, 0x12, 0x0A, 0x0A,
      0x02, 0x69, 0x64, 0x18, 0x01, 0x20, 0x01, 0x28, 0x04, 0x12, 0x10, 0x0A, 0x08, 0x64, 0x69, 0x73, 0x74, 0x61, 0x6E, 0x63,
      0x65, 0x18, 0x02, 0x20, 0x01, 0x28, 0x02, 0x22, 0x30, 0x0A, 0x0E, 0x53, 0x65, 0x61, 0x72, 0x63, 0x68, 0x52, 0x65, 0x73,
      0x70, 0x6F, 0x6E, 0x73, 0x65, 0x12, 0x1E, 0x0A, 0x04, 0x68, 0x69, 0x74, 0x73, 0x18, 0x01, 0x20, 0x03, 0x28, 0x0B, 0x32,
      0x10, 0x2E, 0x76, 0x65, 0x63, 0x74, 0x6F, 0x72, 0x62, 0x65, 0x6E, 0x63, 0x68, 0x2E, 0x48, 0x69, 0x74, 0x32, 0x51, 0x0A,
      0x0C, 0x56, 0x65, 0x63, 0x74, 0x6F, 0x72, 0x53, 0x65, 0x61, 0x72, 0x63, 0x68, 0x12, 0x41, 0x0A, 0x06, 0x53, 0x65, 0x61,
      0x72, 0x63, 0x68, 0x12, 0x1A, 0x2E, 0x76, 0x65, 0x63, 0x74, 0x6F, 0x72, 0x62, 0x65, 0x6E, 0x63, 0x68, 0x2E, 0x53, 0x65,
      0x61, 0x72, 0x63, 0x68, 0x52, 0x65, 0x71, 0x75, 0x65, 0x73, 0x74, 0x1A, 0x1B, 0x2E, 0x76, 0x65, 0x63, 0x74, 0x6F, 0x72,
      0x62, 0x65, 0x6E, 0x63, 0x68, 0x2E, 0x53, 0x65, 0x61, 0x72, 0x63, 0x68, 0x52, 0x65, 0x73, 0x70, 0x6F, 0x6E, 0x73, 0x65,
      0x42, 0x14, 0x5A, 0x12, 0x72, 0x6F, 0x73, 0x74, 0x61, 0x6D, 0x67, 0x72, 0x70, 0x63, 0x62, 0x65, 0x6E, 0x63, 0x68, 0x2F,
      0x70, 0x62, 0x62, 0x06, 0x70, 0x72, 0x6F, 0x74, 0x6F, 0x33]"

text \<open>\<open>_serialized_start\<close> and \<open>_serialized_end\<close> of the messages and of the service, and \<open>_serialized_options\<close>.\<close>

definition message_spans :: "(string \<times> nat \<times> nat) list" where
  "message_spans = [(''_SEARCHREQUEST'', 29, 90), (''_HIT'', 92, 127), (''_SEARCHRESPONSE'', 129, 177)]"

definition service_spans :: "(string \<times> nat \<times> nat) list" where
  "service_spans = [(''_VECTORSEARCH'', 179, 260)]"

definition serialized_options :: bytes where
  "serialized_options = [0x5A, 18] @ encode ''rostamgrpcbench/pb''"

section \<open>The schema\<close>

definition scalar_field :: "string \<Rightarrow> nat \<Rightarrow> field_type \<Rightarrow> field_desc" where
  "scalar_field name n t = \<lparr>fd_name = name, fd_number = n, fd_repeated = False, fd_type = t\<rparr>"

definition repeated_field :: "string \<Rightarrow> nat \<Rightarrow> field_type \<Rightarrow> field_desc" where
  "repeated_field name n t = \<lparr>fd_name = name, fd_number = n, fd_repeated = True, fd_type = t\<rparr>"

text \<open>The text of \<open>vector.proto\<close>; the names of types are resolved in its package.\<close>

definition search_request_desc :: message_desc where
  "search_request_desc =
     \<lparr>md_name = ''SearchRequest'',
      md_fields = [scalar_field ''collection'' 1 TString, scalar_field ''k'' 2 TUint32, repeated_field ''query'' 3 TFloat]\<rparr>"

definition hit_desc :: message_desc where
  "hit_desc = \<lparr>md_name = ''Hit'', md_fields = [scalar_field ''id'' 1 TUint64, scalar_field ''distance'' 2 TFloat]\<rparr>"

definition search_response_desc :: message_desc where
  "search_response_desc = \<lparr>md_name = ''SearchResponse'', md_fields = [repeated_field ''hits'' 1 (TMessage ''.vectorbench.Hit'')]\<rparr>"

definition vector_search_desc :: service_desc where
  "vector_search_desc =
     \<lparr>sd_name = ''VectorSearch'',
      sd_methods = [\<lparr>rd_name = ''Search'', rd_input = ''.vectorbench.SearchRequest'', rd_output = ''.vectorbench.SearchResponse''\<rparr>]\<rparr>"

definition vector_proto :: file_desc where
  "vector_proto =
     \<lparr>file_name = ''vector.proto'', file_package = ''vectorbench'',
      file_messages = [search_request_desc, hit_desc, search_response_desc], file_services = [vector_search_desc],
      file_go_package = ''rostamgrpcbench/pb'', file_syntax = ''proto3''\<rparr>"

text \<open>The path of a method, as gRPC forms it from the descriptor.\<close>

definition method_path :: "file_desc \<Rightarrow> service_desc \<Rightarrow> method_desc \<Rightarrow> string" where
  "method_path f s m = ''/'' @ file_package f @ ''.'' @ sd_name s @ ''/'' @ rd_name m"

text \<open>The readers, unfolded for a byte string that is written out.\<close>

lemmas field_eval = read_fields.simps take_field_def take_payload_def take_len_def all_len_def last_len_def last_int_def
  ascii_text_def char_of_def bit_0 py_slice_def

lemmas desc_eval = field_eval read_all_def type_of_code_def read_message_desc_def read_field_desc_def read_service_desc_def
  read_method_desc_def

lemmas schema_defs = search_request_desc_def hit_desc_def search_response_desc_def vector_search_desc_def scalar_field_def
  repeated_field_def

lemma search_request_span: "read_message_desc (py_slice descriptor_bytes 29 90) = Some search_request_desc"
  by (simp add: descriptor_bytes_def desc_eval schema_defs)

lemma hit_span: "read_message_desc (py_slice descriptor_bytes 92 127) = Some hit_desc"
  by (simp add: descriptor_bytes_def desc_eval schema_defs)

lemma search_response_span: "read_message_desc (py_slice descriptor_bytes 129 177) = Some search_response_desc"
  by (simp add: descriptor_bytes_def desc_eval schema_defs)

lemma vector_search_span: "read_service_desc (py_slice descriptor_bytes 179 260) = Some vector_search_desc"
  by (simp add: descriptor_bytes_def desc_eval schema_defs)

lemma options_read: "read_options serialized_options = Some ''rostamgrpcbench/pb''"
  by (simp add: serialized_options_def read_options_def encode_def utf8_char_def field_eval)

lemma options_span: "serialized_options = py_slice descriptor_bytes 262 282"
  by (simp add: serialized_options_def descriptor_bytes_def encode_def utf8_char_def py_slice_def)

lemma descriptor_fields:
  "read_fields descriptor_bytes =
     Some [(1, Len (encode ''vector.proto'')), (2, Len (encode ''vectorbench'')),
       (4, Len (py_slice descriptor_bytes 29 90)), (4, Len (py_slice descriptor_bytes 92 127)),
       (4, Len (py_slice descriptor_bytes 129 177)), (6, Len (py_slice descriptor_bytes 179 260)),
       (8, Len serialized_options), (12, Len (encode ''proto3''))]"
  by (simp add: descriptor_bytes_def serialized_options_def encode_def utf8_char_def read_fields.simps take_field_def
      take_payload_def take_len_def py_slice_def)

lemma ascii_text_encode: "is_ascii s \<Longrightarrow> ascii_text (encode s) = s"
  by (induction s) (simp_all add: ascii_text_def is_ascii_def encode_def utf8_char_def unat_of_nat)

lemma ascii_text_Nil: "ascii_text [] = []"
  by (simp add: ascii_text_def)

lemma descriptor_read: "read_file_desc descriptor_bytes = Some vector_proto"
  by (simp add: read_file_desc_def descriptor_fields vector_proto_def read_all_def all_len_def last_len_def ascii_text_encode
      is_ascii_def search_request_span hit_span search_response_span vector_search_span options_read)

section \<open>Messages\<close>

record search_message =
  sm_collection :: string
  sm_k :: "32 word"
  sm_query :: "f32 list"

record hit_message =
  hm_id :: "64 word"
  hm_distance :: f32

record search_response =
  rs_hits :: "hit_message list"

text \<open>
  What the generated module gets from the protobuf runtime: the constructor of a request and the two
  directions of each message class.
\<close>

record pb2 =
  new_request :: "string \<Rightarrow> nat \<Rightarrow> f64 list \<Rightarrow> search_message"
  request_to_string :: "search_message \<Rightarrow> bytes"
  request_from_string :: "bytes \<Rightarrow> search_message result"
  response_to_string :: "search_response \<Rightarrow> bytes"
  response_from_string :: "bytes \<Rightarrow> search_response result"

text \<open>
  Its contract: a \<open>float\<close> field keeps a value that is a float32, and a message that was serialized is
  parsed back.
\<close>

locale message_runtime =
  fixes pb :: pb2
  assumes new_exact: "k < 2 ^ 32 \<Longrightarrow> list_all (\<lambda>x. \<not> f32_is_nan x) q \<Longrightarrow>
      new_request pb coll k (map f32_to_f64 q) = \<lparr>sm_collection = coll, sm_k = of_nat k, sm_query = q\<rparr>"
    and request_back: "is_ascii (sm_collection m) \<Longrightarrow> request_from_string pb (request_to_string pb m) = Inr m"
    and response_back: "response_from_string pb (response_to_string pb r) = Inr r"
begin

lemma request_to_string_inject:
  "is_ascii (sm_collection m) \<Longrightarrow> is_ascii (sm_collection m') \<Longrightarrow> request_to_string pb m = request_to_string pb m' \<Longrightarrow> m = m'"
  by (metis request_back sum.inject(2))

end

section \<open>The documented wire format\<close>

text \<open>Fields with their default value are left out; repeated floats are packed.\<close>

definition request_fields :: "search_message \<Rightarrow> (nat \<times> wire) list" where
  "request_fields m =
     (if sm_collection m = [] then [] else [(1, Len (encode (sm_collection m)))]) @
     (if sm_k m = 0 then [] else [(2, Varint (unat (sm_k m)))]) @
     (if sm_query m = [] then [] else [(3, Len (concat (map le32 (sm_query m))))])"

definition hit_fields :: "hit_message \<Rightarrow> (nat \<times> wire) list" where
  "hit_fields h =
     (if hm_id h = 0 then [] else [(1, Varint (unat (hm_id h)))]) @
     (if hm_distance h = 0 then [] else [(2, I32 (hm_distance h))])"

definition response_fields :: "search_response \<Rightarrow> (nat \<times> wire) list" where
  "response_fields r = map (\<lambda>h. (1, Len (write_fields (hit_fields h)))) (rs_hits r)"

definition read_packed :: "bytes \<Rightarrow> f32 list option" where
  "read_packed bs =
     (if 4 dvd length bs then map_option fst (decode_n take_le32 (length bs div 4) bs) else None)"

definition read_request :: "bytes \<Rightarrow> search_message option" where
  "read_request bs =
     (case read_fields bs of
        None \<Rightarrow> None
      | Some fs \<Rightarrow>
          map_option (\<lambda>qs. \<lparr>sm_collection = ascii_text (last_len 1 fs), sm_k = of_nat (last_int 2 fs), sm_query = concat qs\<rparr>)
            (read_all read_packed (all_len 3 fs)))"

definition read_hit :: "bytes \<Rightarrow> hit_message option" where
  "read_hit bs = map_option (\<lambda>fs. \<lparr>hm_id = of_nat (last_int 1 fs), hm_distance = last_i32 2 fs\<rparr>) (read_fields bs)"

definition read_response_message :: "bytes \<Rightarrow> search_response option" where
  "read_response_message bs =
     (case read_fields bs of
        None \<Rightarrow> None
      | Some fs \<Rightarrow> map_option (\<lambda>hs. \<lparr>rs_hits = hs\<rparr>) (read_all read_hit (all_len 1 fs)))"

definition or_decode_error :: "'a option \<Rightarrow> 'a result" where
  "or_decode_error x = (case x of None \<Rightarrow> Inl (DecodeError ''Error parsing message'') | Some v \<Rightarrow> Inr v)"

definition wire_pb2 :: pb2 where
  "wire_pb2 =
     \<lparr>new_request = (\<lambda>coll k q. \<lparr>sm_collection = coll, sm_k = of_nat k, sm_query = map f64_to_f32 q\<rparr>),
      request_to_string = (\<lambda>m. write_fields (request_fields m)),
      request_from_string = (\<lambda>bs. or_decode_error (read_request bs)),
      response_to_string = (\<lambda>r. write_fields (response_fields r)),
      response_from_string = (\<lambda>bs. or_decode_error (read_response_message bs))\<rparr>"

lemma read_packed_floats: "read_packed (concat (map le32 q)) = Some q"
  using le32.decode_n_enc [of q "[]"] le32.length_concat_enc [of q] by (simp add: read_packed_def list_all_iff)

lemma read_all_map: "(\<And>x. x \<in> set xs \<Longrightarrow> rd (f x) = Some x) \<Longrightarrow> read_all rd (map f xs) = Some xs"
  by (auto simp: read_all_def map_idI)

lemmas field_access = all_len_def last_len_def last_int_def last_i32_def Let_def

lemma read_request_fields:
  assumes "is_ascii (sm_collection m)"
  shows "read_request (write_fields (request_fields m)) = Some m"
  using assms
  by (cases m) (simp add: read_request_def read_write_fields request_fields_def field_access read_all_def read_packed_floats
      ascii_text_encode ascii_text_Nil)

lemma read_hit_fields: "read_hit (write_fields (hit_fields h)) = Some h"
  by (cases h) (simp add: read_hit_def read_write_fields hit_fields_def field_access)

lemma all_len_response: "all_len 1 (response_fields r) = map (\<lambda>h. write_fields (hit_fields h)) (rs_hits r)"
  unfolding response_fields_def all_len_def by (induction "rs_hits r") (simp_all add: comp_def)

lemma read_response_fields: "read_response_message (write_fields (response_fields r)) = Some r"
  using read_all_map [of "rs_hits r" read_hit "\<lambda>h. write_fields (hit_fields h)"]
  by (cases r) (simp add: read_response_message_def read_write_fields all_len_response [simplified] read_hit_fields)

interpretation wire_format: message_runtime wire_pb2
proof unfold_locales
  fix k :: nat and q :: "f32 list" and coll
  assume "list_all (\<lambda>x. \<not> f32_is_nan x) q"
  then have "map (f64_to_f32 \<circ> f32_to_f64) q = q"
    by (intro map_idI) (simp add: list_all_iff f64_to_f32_widened)
  then show "new_request wire_pb2 coll k (map f32_to_f64 q) = \<lparr>sm_collection = coll, sm_k = of_nat k, sm_query = q\<rparr>"
    by (simp add: wire_pb2_def)
qed (simp_all add: wire_pb2_def or_decode_error_def read_request_fields read_response_fields)

end
