(* ===== verification/Grpc_Stubs.thy ===== *)
theory Grpc_Stubs
  imports Sift_Facts Vector_Pb2
begin

text \<open>
  The generated module \<open>sift1m/grpc_stubs/vector_pb2_grpc.py\<close> (version check, client stub, servicer base class,
  registration, one-shot call) and what \<open>sift1m/rostam_grpc_client.py\<close> makes of it. The \<open>grpc\<close> package is not
  part of the repository: channels, servers and one-shot calls are arguments, and \<open>grpc_runtime\<close> is what
  its documentation promises of them. \<open>search_service\<close> puts the stub, the registration and the message
  classes together, and gives the timed loop of the gRPC client an engine that answers.
\<close>

section \<open>The version check\<close>

definition grpc_generated_version :: string where
  "grpc_generated_version = ''1.81.0''"

text \<open>
  Importing the module. The comparison of versions comes from a private module of \<open>grpc\<close>; \<open>None\<close> stands
  for one that cannot be imported.
\<close>

definition import_stubs :: "(string \<Rightarrow> string \<Rightarrow> bool) option \<Rightarrow> string \<Rightarrow> unit result" where
  "import_stubs first_version_is_lower grpc_version =
     (let not_supported = (case first_version_is_lower of None \<Rightarrow> True | Some f \<Rightarrow> f grpc_version grpc_generated_version)
      in if not_supported then
           Inl (RuntimeError (''The grpc package installed is at version '' @ grpc_version @ '','' @
             '' but the generated code in vector_pb2_grpc.py depends on'' @
             '' grpcio>='' @ grpc_generated_version @ ''.'' @
             '' Please upgrade your grpc module to grpcio>='' @ grpc_generated_version @
             '' or downgrade your generated code using grpcio-tools<='' @ grpc_version @ ''.''))
         else Inr ())"

section \<open>The client side\<close>

type_synonym 'w rpc = "'w \<Rightarrow> search_message \<Rightarrow> 'w \<times> search_response result"

text \<open>\<open>channel.unary_unary(path, request_serializer, response_deserializer, _registered_method)\<close>\<close>

record 'w channel =
  unary_unary :: "string \<Rightarrow> (search_message \<Rightarrow> bytes) \<Rightarrow> (bytes \<Rightarrow> search_response result) \<Rightarrow> bool \<Rightarrow> 'w rpc"

record 'w vector_search_stub =
  stub_Search :: "'w rpc"

definition VectorSearchStub :: "pb2 \<Rightarrow> 'w channel \<Rightarrow> 'w vector_search_stub" where
  "VectorSearchStub pb channel =
     \<lparr>stub_Search = unary_unary channel ''/vectorbench.VectorSearch/Search'' (request_to_string pb) (response_from_string pb) True\<rparr>"

section \<open>The server side\<close>

text \<open>The status a handler has set (none set means success) and its details.\<close>

record rpc_context =
  ctx_code :: "string option"
  ctx_details :: "string option"

definition fresh_context :: rpc_context where
  "fresh_context = \<lparr>ctx_code = None, ctx_details = None\<rparr>"

type_synonym 'w behavior = "search_message \<Rightarrow> rpc_context \<Rightarrow> 'w \<Rightarrow> 'w \<times> rpc_context \<times> search_response result"

record 'w servicer =
  svc_Search :: "'w behavior"

text \<open>The base class: a servicer that does not define \<open>Search\<close>.\<close>

definition VectorSearchServicer :: "'w servicer" where
  "VectorSearchServicer =
     \<lparr>svc_Search = (\<lambda>request ctx w.
        (w, ctx\<lparr>ctx_code := Some ''UNIMPLEMENTED'', ctx_details := Some ''Method not implemented!''\<rparr>,
         Inl (NotImplementedError ''Method not implemented!'')))\<rparr>"

record 'w handler =
  h_behavior :: "'w behavior"
  h_deserializer :: "bytes \<Rightarrow> search_message result"
  h_serializer :: "search_response \<Rightarrow> bytes"

record 'w generic_handler =
  gh_service :: string
  gh_methods :: "(string \<times> 'w handler) list"

record ('s, 'w) server_ops =
  add_generic_rpc_handlers :: "'s \<Rightarrow> 'w generic_handler list \<Rightarrow> 's"
  add_registered_method_handlers :: "'s \<Rightarrow> string \<Rightarrow> (string \<times> 'w handler) list \<Rightarrow> 's"

definition add_VectorSearchServicer_to_server :: "('s, 'w) server_ops \<Rightarrow> pb2 \<Rightarrow> 'w servicer \<Rightarrow> 's \<Rightarrow> 's" where
  "add_VectorSearchServicer_to_server ops pb servicer server =
     (let rpc_method_handlers =
            [(''Search'', \<lparr>h_behavior = svc_Search servicer, h_deserializer = request_from_string pb,
                           h_serializer = response_to_string pb\<rparr>)];
          generic_handler = \<lparr>gh_service = ''vectorbench.VectorSearch'', gh_methods = rpc_method_handlers\<rparr>;
          server1 = add_generic_rpc_handlers ops server [generic_handler]
      in add_registered_method_handlers ops server1 ''vectorbench.VectorSearch'' rpc_method_handlers)"

section \<open>The one-shot call\<close>

text \<open>The keyword arguments of \<open>VectorSearch.Search\<close>, with their defaults; credentials and compression are opaque.\<close>

record 'c call_options =
  co_options :: "(string \<times> string) list"
  co_channel_credentials :: "'c option"
  co_call_credentials :: "'c option"
  co_insecure :: bool
  co_compression :: "'c option"
  co_wait_for_ready :: "bool option"
  co_timeout :: "rat option"
  co_metadata :: "(string \<times> string) list option"

definition default_call_options :: "'c call_options" where
  "default_call_options =
     \<lparr>co_options = [], co_channel_credentials = None, co_call_credentials = None, co_insecure = False, co_compression = None,
      co_wait_for_ready = None, co_timeout = None, co_metadata = None\<rparr>"

text \<open>\<open>grpc.experimental.unary_unary\<close>, its arguments in their order.\<close>

type_synonym ('w, 'c) unary_call =
  "search_message \<Rightarrow> string \<Rightarrow> string \<Rightarrow> (search_message \<Rightarrow> bytes) \<Rightarrow> (bytes \<Rightarrow> search_response result) \<Rightarrow> (string \<times> string) list
    \<Rightarrow> 'c option \<Rightarrow> bool \<Rightarrow> 'c option \<Rightarrow> 'c option \<Rightarrow> bool option \<Rightarrow> rat option \<Rightarrow> (string \<times> string) list option \<Rightarrow> bool
    \<Rightarrow> 'w \<Rightarrow> 'w \<times> search_response result"

definition VectorSearch_Search ::
  "('w, 'c) unary_call \<Rightarrow> pb2 \<Rightarrow> search_message \<Rightarrow> string \<Rightarrow> 'c call_options \<Rightarrow> 'w \<Rightarrow> 'w \<times> search_response result" where
  "VectorSearch_Search unary pb request target opts =
     unary request target ''/vectorbench.VectorSearch/Search'' (request_to_string pb) (response_from_string pb)
       (co_options opts) (co_channel_credentials opts) (co_insecure opts) (co_call_credentials opts) (co_compression opts)
       (co_wait_for_ready opts) (co_timeout opts) (co_metadata opts) True"

section \<open>The gRPC client on the stub\<close>

definition new_stub :: "(string \<Rightarrow> 'w channel) \<Rightarrow> pb2 \<Rightarrow> string \<Rightarrow> 'w vector_search_stub" where
  "new_stub insecure_channel pb addr = VectorSearchStub pb (insecure_channel addr)"

text \<open>A call of \<open>stub.Search\<close> on a request as the client builds it, with the ids of the hits.\<close>

definition search_ids :: "pb2 \<Rightarrow> 'w vector_search_stub \<Rightarrow> 'w stub" where
  "search_ids pb stub w rq =
     (case stub_Search stub w (new_request pb (sr_collection rq) (sr_k rq) (sr_query rq)) of
        (w', Inl e) \<Rightarrow> (w', Inl e)
      | (w', Inr resp) \<Rightarrow> (w', Inr (map (\<lambda>h. int (unat (hm_id h))) (rs_hits resp))))"

section \<open>What the grpc package promises\<close>

text \<open>
  A call that reaches a handler: the request is parsed, the method runs with a fresh context, and its
  response is serialized; a status the method has set, or the exception it raised, reaches the caller
  as an \<open>RpcError\<close>, with the details that were set or a description of the exception.
\<close>

definition failed_status :: "(py_error \<Rightarrow> string) \<Rightarrow> rpc_context \<Rightarrow> py_error \<Rightarrow> py_error" where
  "failed_status describe ctx e =
     RpcError (case ctx_code ctx of None \<Rightarrow> ''UNKNOWN'' | Some c \<Rightarrow> c) (case ctx_details ctx of None \<Rightarrow> describe e | Some d \<Rightarrow> d)"

definition set_status :: "rpc_context \<Rightarrow> string \<Rightarrow> py_error" where
  "set_status ctx c = RpcError c (case ctx_details ctx of None \<Rightarrow> [] | Some d \<Rightarrow> d)"

definition serve ::
  "(py_error \<Rightarrow> string) \<Rightarrow> 'w handler \<Rightarrow> (search_message \<Rightarrow> bytes) \<Rightarrow> (bytes \<Rightarrow> search_response result) \<Rightarrow> 'w rpc" where
  "serve describe h ser par w q =
     (case h_deserializer h (ser q) of
        Inl e \<Rightarrow> (w, Inl (RpcError ''INTERNAL'' ''Exception deserializing request!''))
      | Inr m \<Rightarrow>
          (case h_behavior h m fresh_context w of
             (w', ctx, Inl e) \<Rightarrow> (w', Inl (failed_status describe ctx e))
           | (w', ctx, Inr r) \<Rightarrow>
               (w', case ctx_code ctx of
                      Some c \<Rightarrow> Inl (set_status ctx c)
                    | None \<Rightarrow> (case par (h_serializer h r) of
                                Inl e \<Rightarrow> Inl (RpcError ''INTERNAL'' ''Exception deserializing response!'')
                              | Inr r' \<Rightarrow> Inr r'))))"

definition method_routes :: "string \<Rightarrow> (string \<times> 'w handler) list \<Rightarrow> (string \<times> 'w handler) list" where
  "method_routes service hs = map (\<lambda>(m, h). (''/'' @ service @ ''/'' @ m, h)) hs"

fun first_route :: "'w generic_handler list \<Rightarrow> string \<Rightarrow> 'w handler option" where
  "first_route [] path = None"
| "first_route (g # gs) path =
     (case map_of (method_routes (gh_service g) (gh_methods g)) path of Some h \<Rightarrow> Some h | None \<Rightarrow> first_route gs path)"

text \<open>
  The routes of a server: generic handlers are asked in the order they were added, registered
  methods come before them. A channel to a running server calls the handler of the path; a path
  nobody handles is unimplemented.
\<close>

locale grpc_runtime =
  fixes ops :: "('s, 'w) server_ops"
    and routes :: "'s \<Rightarrow> string \<Rightarrow> 'w handler option"
    and dial :: "'s \<Rightarrow> 'w channel"
    and describe :: "py_error \<Rightarrow> string"
  assumes add_generic: "routes (add_generic_rpc_handlers ops s gs) path =
      (case routes s path of Some h \<Rightarrow> Some h | None \<Rightarrow> first_route gs path)"
    and add_registered: "routes (add_registered_method_handlers ops s service hs) path =
      (case map_of (method_routes service hs) path of Some h \<Rightarrow> Some h | None \<Rightarrow> routes s path)"
    and call: "unary_unary (dial s) path ser par reg w q =
      (case routes s path of
         None \<Rightarrow> (w, Inl (RpcError ''UNIMPLEMENTED'' ''Method not found!''))
       | Some h \<Rightarrow> serve describe h ser par w q)"
begin

lemma servicer_routes:
  "routes (add_VectorSearchServicer_to_server ops pb servicer s) path =
     (if path = ''/vectorbench.VectorSearch/Search''
      then Some \<lparr>h_behavior = svc_Search servicer, h_deserializer = request_from_string pb, h_serializer = response_to_string pb\<rparr>
      else routes s path)"
  by (auto simp: add_VectorSearchServicer_to_server_def Let_def add_registered add_generic method_routes_def split: option.splits)

end

locale search_link = message_runtime pb + grpc_runtime ops routes dial describe
  for pb and ops :: "('s, 'w) server_ops" and routes dial describe
begin

text \<open>Through the stub, the caller sees exactly what the servicer's method does.\<close>

lemma stub_calls_servicer:
  assumes "is_ascii (sm_collection m)"
  shows "stub_Search (VectorSearchStub pb (dial (add_VectorSearchServicer_to_server ops pb servicer s))) w m =
    (case svc_Search servicer m fresh_context w of
       (w', ctx, Inl e) \<Rightarrow> (w', Inl (failed_status describe ctx e))
     | (w', ctx, Inr r) \<Rightarrow> (w', case ctx_code ctx of None \<Rightarrow> Inr r | Some c \<Rightarrow> Inl (set_status ctx c)))"
  by (simp add: VectorSearchStub_def call servicer_routes serve_def request_back [OF assms] response_back
      split: prod.splits sum.splits option.splits)

lemma stub_unrouted:
  assumes "routes s ''/vectorbench.VectorSearch/Search'' = None"
  shows "stub_Search (VectorSearchStub pb (dial s)) w m = (w, Inl (RpcError ''UNIMPLEMENTED'' ''Method not found!''))"
  by (simp add: VectorSearchStub_def call assms)

end

section \<open>The gRPC client against a service that answers\<close>

locale search_service = search_link pb ops routes dial describe
  for pb and ops :: "('s, 'w) server_ops" and routes dial describe +
  fixes servicer :: "'w servicer" and answers :: "search_message \<Rightarrow> hit_message list" and idle :: "'w \<Rightarrow> bool" and clk :: "'w clock"
  assumes search_ok: "idle w \<Longrightarrow> \<exists>w' ctx. svc_Search servicer m fresh_context w = (w', ctx, Inr \<lparr>rs_hits = answers m\<rparr>) \<and>
      ctx_code ctx = None \<and> idle w'"
    and clock_idle: "idle w \<Longrightarrow> idle (fst (perf_counter clk w))"
begin

abbreviation service_stub :: "'s \<Rightarrow> 'w stub" where
  "service_stub s \<equiv> search_ids pb (VectorSearchStub pb (dial (add_VectorSearchServicer_to_server ops pb servicer s)))"

lemma search_ids_ok:
  assumes "idle w" "list_all (\<lambda>x. \<not> f32_is_nan x) q"
  shows "\<exists>w'. service_stub s w (search_request_of q) =
      (w', Inr (map (\<lambda>h. int (unat (hm_id h))) (answers \<lparr>sm_collection = ''sift'', sm_k = 10, sm_query = q\<rparr>))) \<and> idle w'"
proof -
  let ?m = "\<lparr>sm_collection = ''sift'', sm_k = 10, sm_query = q\<rparr>"
  have n: "new_request pb ''sift'' knn (map f32_to_f64 q) = ?m"
    using new_exact [of knn q "''sift''"] assms(2) by (simp add: knn_def)
  have a: "is_ascii (sm_collection ?m)"
    by (simp add: is_ascii_def)
  obtain w' ctx where s: "svc_Search servicer ?m fresh_context w = (w', ctx, Inr \<lparr>rs_hits = answers ?m\<rparr>)" "ctx_code ctx = None" "idle w'"
    using search_ok [OF assms(1)] by blast
  have "stub_Search (VectorSearchStub pb (dial (add_VectorSearchServicer_to_server ops pb servicer s))) w ?m =
      (w', Inr \<lparr>rs_hits = answers ?m\<rparr>)"
    using stub_calls_servicer [OF a, of servicer s w] s(1,2) by simp
  then show ?thesis
    using n s(3) by (simp add: search_ids_def search_request_of_def)
qed

lemma latency_grpc_ok:
  assumes "idle w"
    and "lat_n \<le> length queries" "list_all (list_all (\<lambda>x. \<not> f32_is_nan x)) queries"
    and "lat_n \<le> length gt" "list_all (\<lambda>r. length r \<le> knn) gt"
  shows "\<exists>w' s. latency_grpc (service_stub srv) clk py_sum queries gt w = (w', Inr s) \<and>
    timed_summary py_sum (query_times clk (\<lambda>w i. service_stub srv w (search_request_of (queries ! i))) [0..<lat_n] w) s \<and>
    ls_recall s = rnd (of_nat (total_hits
      (\<lambda>i. map (\<lambda>h. int (unat (hm_id h))) (answers \<lparr>sm_collection = ''sift'', sm_k = 10, sm_query = queries ! i\<rparr>))
      (\<lambda>i. map (\<lambda>x. sint x + 1) (gt ! i))) / of_nat (lat_n * knn)) \<and> idle w'"
proof -
  let ?reqs = "map (\<lambda>i. search_request_of (queries ! i)) [0..<lat_n]"
  let ?res = "\<lambda>i. map (\<lambda>h. int (unat (hm_id h))) (answers \<lparr>sm_collection = ''sift'', sm_k = 10, sm_query = queries ! i\<rparr>)"
  let ?tr = "\<lambda>i. map (\<lambda>x. sint x + 1) (gt ! i)"
  have r: "mapr (\<lambda>i. rbind (row_at queries i) (\<lambda>q. Inr (search_request_of q))) [0..<lat_n] = Inr ?reqs"
    using assms(2) by (intro mapr_Inr_map) (simp add: row_at_def)
  have e: "answering_engine clk (\<lambda>w i. service_stub srv w (?reqs ! i)) idle ?res lat_n"
    using search_ids_ok [of _ _ srv] clock_idle assms(2,3) by unfold_locales (simp_all add: list_all_length)
  have t: "truth_row gt i = Inr (?tr i) \<and> length (?tr i) \<le> knn" if "i < lat_n" for i
    using assms(4,5) that by (simp add: truth_row_def row_at_def list_all_length)
  have q: "query_times clk (\<lambda>w i. service_stub srv w (search_request_of (queries ! i))) [0..<lat_n] w =
      query_times clk (\<lambda>w i. service_stub srv w (?reqs ! i)) [0..<lat_n] w"
    by (rule query_times_cong) simp
  show ?thesis
    unfolding q using answering_engine.measured [where truth = "truth_row gt" and tr = ?tr and py_sum = py_sum, OF e assms(1) order_refl t]
    unfolding latency_grpc_def r by fastforce
qed

end

section \<open>A runtime in one process\<close>

definition loop_ops :: "(string \<Rightarrow> 'w handler option, 'w) server_ops" where
  "loop_ops =
     \<lparr>add_generic_rpc_handlers = (\<lambda>s gs path. case s path of Some h \<Rightarrow> Some h | None \<Rightarrow> first_route gs path),
      add_registered_method_handlers = (\<lambda>s service hs path.
        case map_of (method_routes service hs) path of Some h \<Rightarrow> Some h | None \<Rightarrow> s path)\<rparr>"

definition loop_dial :: "(string \<Rightarrow> 'w handler option) \<Rightarrow> 'w channel" where
  "loop_dial s =
     \<lparr>unary_unary = (\<lambda>path ser par reg w q.
        case s path of
          None \<Rightarrow> (w, Inl (RpcError ''UNIMPLEMENTED'' ''Method not found!''))
        | Some h \<Rightarrow> serve (\<lambda>_. ''Exception calling application'') h ser par w q)\<rparr>"

interpretation loop: search_link wire_pb2 loop_ops "\<lambda>s. s" loop_dial "\<lambda>_. ''Exception calling application''"
  by unfold_locales (simp_all add: loop_ops_def loop_dial_def)

text \<open>A servicer with a counter of its calls, whose hits are the first \<open>k\<close> ids from one, and a clock that shows the counter.\<close>

definition first_ids :: "search_message \<Rightarrow> hit_message list" where
  "first_ids m = map (\<lambda>i. \<lparr>hm_id = of_nat (i + 1), hm_distance = 0\<rparr>) [0..<unat (sm_k m)]"

definition counting_servicer :: "nat servicer" where
  "counting_servicer = \<lparr>svc_Search = (\<lambda>m ctx w. (w + 1, ctx, Inr \<lparr>rs_hits = first_ids m\<rparr>))\<rparr>"

definition counting_clock :: "nat clock" where
  "counting_clock = \<lparr>perf_counter = (\<lambda>w. (w, of_nat w)), wall_time = (\<lambda>w. (w, of_nat w))\<rparr>"

interpretation counting: search_service wire_pb2 loop_ops "\<lambda>s. s" loop_dial "\<lambda>_. ''Exception calling application''"
  counting_servicer first_ids "\<lambda>_. True" counting_clock
  by unfold_locales (simp_all add: counting_servicer_def fresh_context_def)

end
