(* ===== verification/Grpc.thy ===== *)
theory Grpc
  imports Grpc_Stubs
begin

text \<open>
  The properties of the gRPC side of the SIFT-1M benchmark: the generated modules of
  \<open>sift1m/grpc_stubs/\<close> agree with each other and with the schema, a call through the stub is a call of the
  servicer, and the measurement of \<open>sift1m/rostam_grpc_client.py\<close> goes through all of it.
\<close>

section \<open>The client through the stub\<close>

text \<open>
  C12. The latency measurement of the gRPC client, from the client's requests through the message
  classes, the stub, the channel and the registration to the servicer's method and back: against a
  servicer that answers, it succeeds, every query reaches the method as the float32 row it was, and the
  recall is the correctly rounded fraction of ground-truth ids (shifted by one) among the ids of the
  hits the servicer returned; the median, the 99th percentile and the mean are those of the 2000 times between the
  readings of the clock around each call.
\<close>

theorem latency_grpc_recall:
  assumes "search_service pb ops routes dial describe servicer answers idle clk"
    and "insecure_channel addr = dial (add_VectorSearchServicer_to_server ops pb servicer srv)" "idle w"
    and "lat_n \<le> length queries" "list_all (list_all (\<lambda>x. \<not> f32_is_nan x)) queries"
    and "lat_n \<le> length gt" "list_all (\<lambda>r. length r \<le> knn) gt"
  shows "\<exists>w' s. latency_grpc (search_ids pb (new_stub insecure_channel pb addr)) clk py_sum queries gt w = (w', Inr s) \<and>
    timed_summary py_sum (query_times clk (\<lambda>w i. search_ids pb (new_stub insecure_channel pb addr) w (search_request_of (queries ! i)))
      [0..<lat_n] w) s \<and>
    ls_recall s = rnd (of_nat (total_hits
      (\<lambda>i. map (\<lambda>h. int (unat (hm_id h))) (answers \<lparr>sm_collection = ''sift'', sm_k = 10, sm_query = queries ! i\<rparr>))
      (\<lambda>i. map (\<lambda>x. sint x + 1) (gt ! i))) / of_nat (lat_n * knn)) \<and> idle w'"
  using search_service.latency_grpc_ok [OF assms(1,3-7), of srv py_sum] by (simp add: new_stub_def assms(2))

theorem latency_grpc_recall_witness:
  "\<exists>w' s. latency_grpc (search_ids wire_pb2 (new_stub (\<lambda>addr. loop_dial (add_VectorSearchServicer_to_server loop_ops wire_pb2
        counting_servicer (\<lambda>_. None))) wire_pb2 ''h:7701'')) counting_clock (\<lambda>_. 0) (replicate 2000 [0]) (replicate 2000 [3, 4]) 0 = (w', Inr s) \<and>
    ls_p50 s \<le> ls_p99 s"
proof -
  have "list_all (list_all (\<lambda>x. \<not> f32_is_nan x)) (replicate 2000 [0])" "list_all (\<lambda>r. length r \<le> knn) (replicate 2000 [3, 4 :: 32 word])"
    by (simp_all add: list_all_iff f32_is_nan_def f32_exp_def f32_frac_def knn_def)
  with latency_grpc_recall [OF counting.search_service_axioms, where srv = "\<lambda>_. None" and addr = "''h:7701''" and w = 0
      and queries = "replicate 2000 [0]" and gt = "replicate 2000 [3, 4]" and py_sum = "\<lambda>_. 0"
      and insecure_channel = "\<lambda>_. loop_dial (add_VectorSearchServicer_to_server loop_ops wire_pb2 counting_servicer (\<lambda>_. None))"]
  show ?thesis
    by (auto simp: lat_n_def timed_summary_def good_summary_def)
qed

section \<open>The stub and the servicer\<close>

text \<open>
  C30. A call of \<open>Search\<close> through the stub, on a channel to a server the servicer was registered at, is a
  call of the servicer's method: the response, a status the method set, or its exception reach the
  caller. The base class answers every call with UNIMPLEMENTED, as does a server without the
  registration; the registration adds that one method and changes no other route; the one-shot
  call of the experimental interface, made insecurely, does the same as the stub.
\<close>

theorem stub_reaches_servicer:
  assumes "search_link pb ops routes dial describe" "is_ascii (sm_collection m)"
    and "\<And>q path ser par os cred call_cred compr wait timeout md reg.
      unary q target path ser par os cred True call_cred compr wait timeout md reg = (\<lambda>w. unary_unary channel path ser par reg w q)"
    and "channel = dial (add_VectorSearchServicer_to_server ops pb servicer s)" "co_insecure opts"
  shows "stub_Search (VectorSearchStub pb channel) w m =
      (case svc_Search servicer m fresh_context w of
         (w', ctx, Inl e) \<Rightarrow> (w', Inl (failed_status describe ctx e))
       | (w', ctx, Inr r) \<Rightarrow> (w', case ctx_code ctx of None \<Rightarrow> Inr r | Some c \<Rightarrow> Inl (set_status ctx c))) \<and>
    VectorSearch_Search unary pb m target opts w = stub_Search (VectorSearchStub pb channel) w m \<and>
    stub_Search (VectorSearchStub pb (dial (add_VectorSearchServicer_to_server ops pb VectorSearchServicer s))) w m =
      (w, Inl (RpcError ''UNIMPLEMENTED'' ''Method not implemented!'')) \<and>
    (routes s ''/vectorbench.VectorSearch/Search'' = None \<longrightarrow>
       stub_Search (VectorSearchStub pb (dial s)) w m = (w, Inl (RpcError ''UNIMPLEMENTED'' ''Method not found!''))) \<and>
    (path \<noteq> ''/vectorbench.VectorSearch/Search'' \<longrightarrow> routes (add_VectorSearchServicer_to_server ops pb servicer s) path = routes s path)"
proof (intro conjI impI)
  have runtime: "grpc_runtime ops routes dial describe"
    using assms(1) by (simp add: search_link_def)
  note link = search_link.stub_calls_servicer [OF assms(1,2)]
  show "stub_Search (VectorSearchStub pb channel) w m =
      (case svc_Search servicer m fresh_context w of
         (w', ctx, Inl e) \<Rightarrow> (w', Inl (failed_status describe ctx e))
       | (w', ctx, Inr r) \<Rightarrow> (w', case ctx_code ctx of None \<Rightarrow> Inr r | Some c \<Rightarrow> Inl (set_status ctx c)))"
    unfolding assms(4) by (rule link)
  show "VectorSearch_Search unary pb m target opts w = stub_Search (VectorSearchStub pb channel) w m"
    using assms(3,5) by (simp add: VectorSearch_Search_def VectorSearchStub_def)
  show "stub_Search (VectorSearchStub pb (dial (add_VectorSearchServicer_to_server ops pb VectorSearchServicer s))) w m =
      (w, Inl (RpcError ''UNIMPLEMENTED'' ''Method not implemented!''))"
    unfolding link by (simp add: VectorSearchServicer_def failed_status_def)
  show "routes (add_VectorSearchServicer_to_server ops pb servicer s) path = routes s path" if "path \<noteq> ''/vectorbench.VectorSearch/Search''"
    using that by (simp add: grpc_runtime.servicer_routes [OF runtime])
qed (rule search_link.stub_unrouted [OF assms(1)])

definition loop_unary :: "nat channel \<Rightarrow> (nat, unit) unary_call" where
  "loop_unary channel q target path ser par os cred insecure call_cred compr wait timeout md reg w =
     (if insecure then unary_unary channel path ser par reg w q else (w, Inl (ValueError ''credentials required'')))"

theorem stub_reaches_servicer_witness:
  "\<exists>w' hs. VectorSearch_Search (loop_unary (loop_dial (add_VectorSearchServicer_to_server loop_ops wire_pb2 counting_servicer (\<lambda>_. None))))
      wire_pb2 \<lparr>sm_collection = ''sift'', sm_k = 2, sm_query = [1]\<rparr> ''h:7701'' (default_call_options\<lparr>co_insecure := True\<rparr>) 0 =
      (w', Inr \<lparr>rs_hits = hs\<rparr>) \<and> map hm_id hs = [1, 2]"
proof -
  let ?ch = "loop_dial (add_VectorSearchServicer_to_server loop_ops wire_pb2 counting_servicer (\<lambda>_. None))"
  let ?m = "\<lparr>sm_collection = ''sift'', sm_k = 2, sm_query = [1]\<rparr>"
  have a: "is_ascii (sm_collection ?m)"
    by (simp add: is_ascii_def)
  have u: "loop_unary ?ch q ''h:7701'' path ser par os cred True call_cred compr wait timeout md reg = (\<lambda>w. unary_unary ?ch path ser par reg w q)"
    for q path ser par os cred call_cred compr wait timeout md reg
    by (simp add: fun_eq_iff loop_unary_def)
  have "map hm_id (first_ids ?m) = [1, 2]"
    by (simp add: first_ids_def upt_rec)
  then show ?thesis
    using stub_reaches_servicer [where channel = ?ch and unary = "loop_unary ?ch" and servicer = counting_servicer and s = "\<lambda>_. None"
        and opts = "default_call_options\<lparr>co_insecure := True\<rparr>" and w = 0, OF loop.search_link_axioms a u refl]
    by (simp add: counting_servicer_def fresh_context_def)
qed

section \<open>The generated modules and the schema\<close>

text \<open>
  C33. The descriptor that \<open>vector_pb2.py\<close> registers, read by the wire format, is the schema of
  \<open>vector.proto\<close>: its package, its messages with the numbers, labels and types of their fields, its
  service, its options. Every recorded span cuts out the descriptor of its own message or service, and
  the stub of \<open>vector_pb2_grpc.py\<close> calls the path of the schema's only method, whose input and output
  are the messages it serializes and parses.
\<close>

theorem descriptor_is_schema:
  "read_file_desc descriptor_bytes = Some vector_proto \<and>
   map (\<lambda>(_, a, b). read_message_desc (py_slice descriptor_bytes a b)) message_spans = map Some (file_messages vector_proto) \<and>
   map (\<lambda>(_, a, b). read_service_desc (py_slice descriptor_bytes a b)) service_spans = map Some (file_services vector_proto) \<and>
   read_options serialized_options = Some (file_go_package vector_proto) \<and>
   map (\<lambda>sd. map (\<lambda>rd. (method_path vector_proto sd rd, rd_input rd, rd_output rd)) (sd_methods sd)) (file_services vector_proto) =
     [[(''/vectorbench.VectorSearch/Search'', ''.'' @ file_package vector_proto @ ''.'' @ md_name search_request_desc,
        ''.'' @ file_package vector_proto @ ''.'' @ md_name search_response_desc)]] \<and>
   stub_Search (VectorSearchStub pb channel) =
     unary_unary channel (method_path vector_proto vector_search_desc (hd (sd_methods vector_search_desc)))
       (request_to_string pb) (response_from_string pb) True"
proof (intro conjI)
  show "read_file_desc descriptor_bytes = Some vector_proto"
    by (rule descriptor_read)
  show "map (\<lambda>(_, a, b). read_message_desc (py_slice descriptor_bytes a b)) message_spans = map Some (file_messages vector_proto)"
    by (simp add: message_spans_def vector_proto_def search_request_span hit_span search_response_span)
  show "map (\<lambda>(_, a, b). read_service_desc (py_slice descriptor_bytes a b)) service_spans = map Some (file_services vector_proto)"
    by (simp add: service_spans_def vector_proto_def vector_search_span)
  show "read_options serialized_options = Some (file_go_package vector_proto)"
    by (simp add: options_read vector_proto_def)
qed (simp_all add: vector_proto_def schema_defs method_path_def VectorSearchStub_def)

end
