(* ===== verification/Smoke.thy ===== *)
theory Smoke
  imports Measure_Facts Report Session
begin

text \<open>
  The end-to-end test \<open>vectordbbench/smoke_test.py\<close>: it drives the plugin's object through its whole life (create,
  load, build, search) on a subset of SIFT-1M and compares the hits with a brute-force ground truth.
  numpy is \<open>smoke_np\<close> next to the \<open>numpy\<close> of the client, the server is the transport, and printing is an
  argument; the text of the assertion about an insert error is shortened. \<open>managed_server\<close> extends the
  contract of builds and queries by what else the test needs of a server (dropping and creating a collection, and time
  that passes) and that only the test prints; against such a server the verdict of the test is a function of the hits.
\<close>

section \<open>The script\<close>

text \<open>
  \<open>np.fromfile\<close> with a count (-1 for all), \<open>reshape(-1, c)\<close>, and \<open>np.argsort\<close> of the distances of a
  query to the rows.
\<close>

record smoke_np =
  fromfile_count :: "string \<Rightarrow> int \<Rightarrow> 32 word list result"
  reshape_rows :: "32 word list \<Rightarrow> int \<Rightarrow> 32 word list list result"
  argsort_distance :: "f32 list list \<Rightarrow> f32 list \<Rightarrow> nat list result"

definition read_fvecs_limit :: "smoke_np \<Rightarrow> string \<Rightarrow> int \<Rightarrow> f32 list list result" where
  "read_fvecs_limit nps path limit =
     rbind (fromfile_count nps path (if limit \<noteq> 0 then limit * 129 else - 1)) (\<lambda>x.
     rbind (case x of [] \<Rightarrow> Inl (IndexError ''index 0 is out of bounds'') | d # _ \<Rightarrow> Inr (sint d)) (\<lambda>d.
     rbind (reshape_rows nps x (d + 1)) (\<lambda>rows.
       Inr (map (drop 1) rows))))"

text \<open>\<open>xs[:n]\<close>\<close>

definition py_take :: "int \<Rightarrow> 'a list \<Rightarrow> 'a list" where
  "py_take n xs = (if 0 \<le> n then take (nat n) xs else take (length xs - nat (- n)) xs)"

definition ground_truth :: "smoke_np \<Rightarrow> f32 list list \<Rightarrow> f32 list list \<Rightarrow> int list list result" where
  "ground_truth nps vecs query =
     mapr (\<lambda>q. rbind (argsort_distance nps vecs q) (\<lambda>order. Inr (map int (take knn order)))) query"

definition smoke_case :: "int \<Rightarrow> hnsw_config" where
  "smoke_case ef = default_hnsw\<lparr>metric_type := Some L2, hnsw_m := 16, ef_construction := 200, ef_search := ef\<rparr>"

fun smoke_searches ::
  "numpy \<Rightarrow> 'w transport \<Rightarrow> int list list \<Rightarrow> (nat \<times> f32 list) list \<Rightarrow> nat \<Rightarrow> rostam \<Rightarrow> 'w \<Rightarrow> 'w \<times> rostam \<times> nat result" where
  "smoke_searches np send gt [] hits r w = (w, r, Inr hits)"
| "smoke_searches np send gt ((i, q) # qs) hits r w =
     (case search_embedding np send r w (PyVec (map (np_f64 np) q)) (int knn) of
        (w', r', Inl e) \<Rightarrow> (w', r', Inl e)
      | (w', r', Inr ids) \<Rightarrow>
          (case row_at gt i of
             Inl e \<Rightarrow> (w', r', Inl e)
           | Inr truth \<Rightarrow> smoke_searches np send gt qs (hits + overlap ids truth) r' w'))"

text \<open>
  The body of the \<open>with\<close> statement: load, build, search; the recall, or what it raises. Of the clock readings,
  those that only feed a printed duration are left out; the one of the search rate divides.
\<close>

text \<open>The lines the test prints; the check mark of the last one is its UTF-8 encoding.\<close>

definition size_line :: "nat \<Rightarrow> nat \<Rightarrow> nat \<Rightarrow> int \<Rightarrow> string" where
  "size_line n nq d ef = ''[smoke] base='' @ dec_nat n @ '' query='' @ dec_nat nq @ '' dim='' @ dec_nat d @ '' ef='' @ str_int ef"

definition staged_line :: "int \<Rightarrow> rat \<Rightarrow> string" where
  "staged_line cnt t = ''[smoke] staged '' @ str_int cnt @ '' vectors in '' @ fmt_fixed 1 t @ ''s; building...''"

definition built_line :: "rat \<Rightarrow> string" where
  "built_line t = ''[smoke] index built in '' @ fmt_fixed 1 t @ ''s; searching...''"

definition recall_line :: "rat \<Rightarrow> rat \<Rightarrow> string" where
  "recall_line recall qps = ''[smoke] recall@'' @ dec_nat knn @ ''='' @ fmt_fixed 4 recall @ ''  qps='' @ fmt_fixed 0 qps"

definition ok_line :: string where
  "ok_line = ''SMOKE OK '' @ [CHR 0xE2, CHR 0x9C, CHR 0x85] @ ''  (create -> insert -> build -> search all work; recall sane)''"

definition too_low :: "rat \<Rightarrow> string" where
  "too_low recall = ''recall '' @ fmt_fixed 4 recall @ '' too low '' @ [CHR 0xE2, CHR 0x80, CHR 0x94] @ '' adapter likely wrong''"

definition smoke_body ::
  "numpy \<Rightarrow> 'w printer \<Rightarrow> 'w transport \<Rightarrow> 'w clock \<Rightarrow> f32 list list \<Rightarrow> f32 list list \<Rightarrow> int list list \<Rightarrow> rostam \<Rightarrow> 'w \<Rightarrow> 'w \<times> rostam \<times> rat result" where
  "smoke_body np pr send clk vecs query gt r w =
     (case wall_time clk w of
        (w0, t0) \<Rightarrow>
     (case insert_embeddings np send r w0 (map (map (np_f64 np)) vecs) (PyIds (map int [0..<length vecs])) of
        (w1, r1, Inl e) \<Rightarrow> (w1, r1, Inl e)
      | (w1, r1, Inr (cnt, err)) \<Rightarrow>
          if err \<noteq> None then (w1, r1, Inl (AssertionError ''insert error''))
          else if cnt \<noteq> int (length vecs) then
            (w1, r1, Inl (AssertionError (''inserted '' @ str_int cnt @ '' != '' @ dec_nat (length vecs))))
          else
            (case wall_time clk w1 of
               (w2, t1) \<Rightarrow>
            (case wall_time clk (pr (staged_line cnt (fsub t1 t0)) w2) of
               (w3, t2) \<Rightarrow>
            (case optimize send r1 w3 of
               (w4, Inl e) \<Rightarrow> (w4, r1, Inl e)
             | (w4, Inr _) \<Rightarrow>
                 (case wall_time clk w4 of
                    (w5, t3) \<Rightarrow>
                 (case wall_time clk (pr (built_line (fsub t3 t2)) w5) of
                    (w6, t4) \<Rightarrow>
                      (case smoke_searches np send gt (enumerate 0 query) 0 r1 w6 of
                         (w7, r2, Inl e) \<Rightarrow> (w7, r2, Inl e)
                       | (w7, r2, Inr hits) \<Rightarrow>
                           (case wall_time clk w7 of
                              (w8, t5) \<Rightarrow>
                                (case rbind (fdiv (of_nat hits) (of_nat (length query * knn))) (\<lambda>recall.
                                      rbind (fdiv (rnd (of_nat (length query))) (fsub t5 t4)) (\<lambda>qps. Inr (recall, qps))) of
                                   Inl e \<Rightarrow> (w8, r2, Inl e)
                                 | Inr (recall, qps) \<Rightarrow> (pr (recall_line recall qps) w8, r2, Inr recall)))))))))))"

text \<open>\<open>with db.init(): ...\<close>: the session is closed on every way out of the body.\<close>

definition with_init :: "(rostam \<Rightarrow> 'w \<Rightarrow> 'w \<times> rostam \<times> 'a result) \<Rightarrow> rostam \<Rightarrow> 'w \<Rightarrow> 'w \<times> rostam \<times> 'a result" where
  "with_init body r w =
     (case body (init_enter r) w of
        (w', r', out) \<Rightarrow> (case init_exit r' of (r'', Inl e) \<Rightarrow> (w', r'', Inl e) | (r'', Inr _) \<Rightarrow> (w', r'', out)))"

definition smoke_main ::
  "numpy \<Rightarrow> smoke_np \<Rightarrow> 'w printer \<Rightarrow> 'w transport \<Rightarrow> 'w clock \<Rightarrow> string \<Rightarrow> string \<Rightarrow> int \<Rightarrow> int \<Rightarrow> int \<Rightarrow> 'w \<Rightarrow> 'w \<times> rat result" where
  "smoke_main np nps pr send clk sift server_url n_base n_query ef w =
     (case read_fvecs_limit nps (sift @ ''/sift_base.fvecs'') n_base of
        Inl e \<Rightarrow> (w, Inl e)
      | Inr rows \<Rightarrow>
          (case read_fvecs_limit nps (sift @ ''/sift_query.fvecs'') n_query of
             Inl e \<Rightarrow> (w, Inl e)
           | Inr qrows \<Rightarrow>
               (let vecs = py_take n_base rows;
                    query = py_take n_query qrows;
                    d = (case rows of [] \<Rightarrow> 0 | r # _ \<Rightarrow> length r)
                in case ground_truth nps vecs query of
                     Inl e \<Rightarrow> (pr (size_line (length vecs) (length query) d ef) w, Inl e)
                   | Inr gt \<Rightarrow>
                       (case rostam_init send (pr (size_line (length vecs) (length query) d ef) w) (int d) (to_dict (default_config\<lparr>cfg_url := server_url\<rparr>)) (smoke_case ef) ''smoke_sift'' True of
                          (w1, Inl e) \<Rightarrow> (w1, Inl e)
                        | (w1, Inr db) \<Rightarrow>
                            (case with_init (smoke_body np pr send clk vecs query gt) db w1 of
                               (w2, db', Inl e) \<Rightarrow> (w2, Inl e)
                             | (w2, db', Inr recall) \<Rightarrow>
                                 if flit (9 / 10) < recall then (pr ok_line w2, Inr recall)
                                 else (w2, Inl (AssertionError (too_low recall))))))))"

section \<open>Reading a subset\<close>

text \<open>numpy reads the first items of the file and cuts them into rows.\<close>

definition smoke_np_spec :: "smoke_np \<Rightarrow> (string \<Rightarrow> 32 word list) \<Rightarrow> bool" where
  "smoke_np_spec nps file \<longleftrightarrow>
     (\<forall>path c. 0 < c \<longrightarrow> fromfile_count nps path c = Inr (take (nat c) (file path))) \<and>
     (\<forall>xs c. 0 < c \<longrightarrow> c dvd length xs \<longrightarrow> reshape_rows nps xs (int c) = Inr (chunks c xs))"

lemma take_vecs_file:
  "list_all (\<lambda>r. length r = d) rows \<Longrightarrow> take (n * (d + 1)) (vecs_file d rows) = vecs_file d (take n rows)"
proof (induction rows arbitrary: n)
  case Nil
  then show ?case by (simp add: vecs_file_def)
next
  case (Cons r rows)
  then show ?case
    by (cases n) (simp_all add: vecs_file_def)
qed

lemma read_subset:
  assumes spec: "smoke_np_spec nps file" and content: "file path = vecs_file 128 rows"
    and rows: "list_all (\<lambda>r. length r = 128) rows" "rows \<noteq> []" and n: "0 < n"
  shows "read_fvecs_limit nps path (int n) = Inr (take n rows)"
proof -
  let ?x = "vecs_file 128 (take n rows)"
  have sub: "list_all (\<lambda>r. length r = 128) (take n rows)"
    using rows(1) by (auto simp: list_all_iff dest: in_set_takeD)
  have "fromfile_count nps path (int n * 129) = Inr ?x"
    using spec content n take_vecs_file [OF rows(1), of n] by (simp add: smoke_np_spec_def nat_mult_distrib)
  moreover have "reshape_rows nps ?x (int 129) = Inr (map (\<lambda>r. of_nat 128 # r) (take n rows))"
    using spec vecs_file_chunks [OF sub] unfolding smoke_np_spec_def by (simp del: of_nat_numeral)
  moreover obtain xs where "?x = of_nat 128 # xs"
    using rows(2) n by (cases rows; cases n) (simp_all add: vecs_file_def)
  moreover have "sint (of_nat 128 :: 32 word) = 128"
    by simp
  ultimately show ?thesis
    using n by (simp add: read_fvecs_limit_def comp_def)
qed

section \<open>Against a server\<close>

locale managed_server = vector_server send stored fr narrow u speaks su bu False live qspeaks hits + console pr shown
  for send :: "'w transport" and stored :: "'w \<Rightarrow> point list" and fr :: "f64 \<Rightarrow> string" and narrow :: "f64 \<Rightarrow> f32"
    and u :: string and speaks :: "'w \<Rightarrow> bool" and su bu :: string and live :: "'w \<Rightarrow> point list" and qspeaks :: "'w \<Rightarrow> bool"
    and hits :: "point list \<Rightarrow> query_msg \<Rightarrow> int list" and pr :: "'w printer" and shown :: "'w \<Rightarrow> string list" +
  fixes au cu :: string and clk :: "'w clock" and seconds :: "'w \<Rightarrow> rat"
  assumes dropped: "rq_method rq = ''DELETE'' \<Longrightarrow> rq_url rq = cu \<Longrightarrow>
      \<exists>w' resp. send w s rq = (w', Inr resp) \<and> stored w' = [] \<and> live w' = []"
    and created: "rq_method rq = ''POST'' \<Longrightarrow> rq_url rq = au \<Longrightarrow> stored w = [] \<Longrightarrow> live w = [] \<Longrightarrow>
      \<exists>w' resp. send w s rq = (w', Inr resp) \<and> status_code resp = 201 \<and> stored w' = [] \<and> live w' = []"
    and clock: "wall_time clk w = (w, seconds w)"
    and takes_time: "send w s rq = (w', x) \<Longrightarrow> seconds w + 1 / 10 ^ 9 \<le> seconds w'"
    and send_quiet: "send w s rq = (w', x) \<Longrightarrow> shown w' = shown w"
    and print_keeps: "stored (pr line w) = stored w" "live (pr line w) = live w" "speaks (pr line w) = speaks w"
      "qspeaks (pr line w) = qspeaks w"
begin

lemma constructed:
  assumes "rostam_fields d db coll = Inr r" "au = url r []" "cu = url r [collection_name r]"
  shows "\<exists>w'. rostam_init send w d db (smoke_case ef) coll True = (w', Inr r) \<and> stored w' = [] \<and> live w' = [] \<and> shown w' = shown w"
proof -
  obtain w1 resp where w1: "send w (new_session r) (delete_request r) = (w1, Inr resp)" "stored w1 = []" "live w1 = []"
    using dropped [of "delete_request r" w "new_session r"] assms(3) by (auto simp: delete_request_def)
  obtain cfg where cfg: "create_config d (index_param (smoke_case ef)) = Inr cfg"
    by (simp add: create_config_def index_param_def smoke_case_def Let_def)
  let ?rq = "post_json (url r []) (JObj [(''name'', JStr (collection_name r)), (''config'', cfg)]) 120"
  obtain w2 resp2 where w2: "send w1 (new_session r) ?rq = (w2, Inr resp2)" "status_code resp2 = 201" "stored w2 = []" "live w2 = []"
    using created [of ?rq w1 "new_session r"] w1(2,3) assms(2) by (auto simp: post_json_def)
  show ?thesis
    using assms(1) w1(1) cfg w2 send_quiet [OF w1(1)] send_quiet [OF w2(1)] by (simp add: rostam_init_def drop_collection_def create_def)
qed

lemma builds:
  assumes "bu = points_url r [''bulk'', ''build'']" "load_path r = ''bulk''" "live w = []" "stored w \<noteq> []"
  shows "\<exists>w'. optimize send r w = (w', Inr ()) \<and> stored w' = stored w \<and> live w' = stored w \<and> speaks w' = speaks w \<and>
    qspeaks w' = qspeaks w \<and> shown w' = shown w"
proof -
  obtain w' x where opt: "optimize send r w = (w', x)" by fastforce
  note b = build_world [OF assms(1) _ opt]
  have "shown w' = shown w"
    using opt assms(2) by (auto simp: optimize_def split: prod.splits sum.splits dest: send_quiet)
  then show ?thesis
    using b(1-3,5,6) opt assms(2-4) by simp
qed

lemma search_takes: "search_embedding np send r w q k = (w', r', Inr ids) \<Longrightarrow> seconds w + 1 / 10 ^ 9 \<le> seconds w'"
  by (auto simp: search_embedding_def search_json_def Let_def split: if_splits result_splits option.splits dest!: takes_time)

lemma search_quiet: "search_embedding np send r w q k = (w', r', Inr ids) \<Longrightarrow> shown w' = shown w"
  by (auto simp: search_embedding_def search_json_def Let_def split: if_splits result_splits option.splits dest!: send_quiet)

lemma search_step:
  assumes np: "numpy_spec np" "narrow = np_f32 np" and c: "coupled fr u su bu False speaks qspeaks path (r, w)" and f: "query_filter r = None"
    and fit: "fits_wires np fr (Query q k)"
  shows "\<exists>w' r'. search_embedding np send r w q k = (w', r', Inr (hits (live w) (spec_message np fr None q k))) \<and>
    coupled fr u su bu False speaks qspeaks path (r', w') \<and> query_filter r' = None \<and> stored w' = stored w \<and> live w' = live w \<and>
    seconds w + 1 / 10 ^ 9 \<le> seconds w' \<and> active_session r' = active_session r \<and> shown w' = shown w"
proof -
  obtain w' r' x where call: "search_embedding np send r w q k = (w', r', x)"
    by (metis prod_cases3)
  have "coupled fr u su bu False speaks qspeaks path (r', w')" "x = Inr (hits (live w) (spec_message np fr None q k))"
      "stored w' = stored w" "live w' = live w" "query_filter r' = None"
    using query_refines [OF np c fit, of "(r', w')" "Found x"] call f by (simp_all add: abs_db_def)
  moreover have "active_session r' = active_session r"
    using call by (auto simp: search_embedding_def Let_def split: if_splits result_splits option.splits)
  ultimately show ?thesis
    using call search_takes search_quiet by blast
qed

lemma searches_ok:
  assumes np: "numpy_spec np" "narrow = np_f32 np"
  shows "coupled fr u su bu False speaks qspeaks path (r, w) \<Longrightarrow> query_filter r = None \<Longrightarrow>
    list_all (\<lambda>(i, q). fits_wires np fr (Query (PyVec (map (np_f64 np) q)) (int knn)) \<and> i < length gt) qs \<Longrightarrow>
    \<exists>w' r'. smoke_searches np send gt qs acc r w =
      (w', r', Inr (acc + sum_list (map (\<lambda>(i, q). overlap (hits (live w) (spec_message np fr None (PyVec (map (np_f64 np) q)) (int knn)))
        (gt ! i)) qs))) \<and>
      seconds w + (if qs = [] then 0 else 1 / 10 ^ 9) \<le> seconds w' \<and> stored w' = stored w \<and> live w' = live w \<and> active_session r' = active_session r \<and>
      shown w' = shown w"
proof (induction qs arbitrary: acc r w)
  case Nil
  then show ?case by simp
next
  case (Cons iq qs)
  obtain i q where iq: "iq = (i, q)" by (cases iq)
  let ?q = "PyVec (map (np_f64 np) q)"
  obtain w1 r1 where s: "search_embedding np send r w ?q (int knn) = (w1, r1, Inr (hits (live w) (spec_message np fr None ?q (int knn))))"
    and c: "coupled fr u su bu False speaks qspeaks path (r1, w1)" "query_filter r1 = None" "stored w1 = stored w" "live w1 = live w"
      "seconds w + 1 / 10 ^ 9 \<le> seconds w1" "active_session r1 = active_session r" "shown w1 = shown w"
    using search_step [OF np Cons.prems(1,2), of ?q "int knn"] Cons.prems(3) by (auto simp: iq)
  obtain w' r' where rest: "smoke_searches np send gt qs (acc + overlap (hits (live w) (spec_message np fr None ?q (int knn))) (gt ! i)) r1 w1 =
      (w', r', Inr (acc + overlap (hits (live w) (spec_message np fr None ?q (int knn))) (gt ! i) +
        sum_list (map (\<lambda>(i, q). overlap (hits (live w1) (spec_message np fr None (PyVec (map (np_f64 np) q)) (int knn))) (gt ! i)) qs)))"
    "seconds w1 + (if qs = [] then 0 else 1 / 10 ^ 9) \<le> seconds w'" "stored w' = stored w1" "live w' = live w1" "active_session r' = active_session r1" "shown w' = shown w1"
    using Cons.IH [OF c(1,2)] Cons.prems(3) by fastforce
  have "seconds w + 1 / 10 ^ 9 \<le> seconds w'"
    using rest(2) c(5) by (auto split: if_splits)
  then show ?case
    using s rest c Cons.prems(3) by (simp add: iq row_at_def add.assoc)
qed

lemma load_step:
  assumes np: "numpy_spec np" "narrow = np_f32 np" and c: "coupled fr u su bu False speaks qspeaks path (r, w)" and f: "query_filter r = None"
    and fit: "fits_wires np fr (Load emb md)"
  shows "\<exists>w' r'. insert_embeddings np send r w emb md = (w', r', Inr (int (length (to_ints md)), None)) \<and>
    coupled fr u su bu False speaks qspeaks path (r', w') \<and> query_filter r' = None \<and> active_session r' = active_session r \<and>
    points_url r' = points_url r \<and> shown w' = shown w \<and> (path \<noteq> ''batch'' \<longrightarrow> live w' = live w) \<and>
    stored w' = stored w @ load_points (path \<in> {''payload'', ''batch''}) (to_ints md) (map (map (np_f32 np)) emb)"
proof -
  obtain w' r' x where call: "insert_embeddings np send r w emb md = (w', r', x)"
    by (metis prod_cases3)
  obtain b p where r': "r' = r\<lparr>binary := b, binary_proven := p\<rparr>"
    using insert_run_frame [OF insert_embeddings_rel [OF call]] by blast
  have "shown w' = shown w"
    by (rule insert_embeddings_world [OF send_quiet call])
  then show ?thesis
    using load_refines [OF np c fit, of "(r', w')" "Loaded x"] call f r' by (auto simp: abs_db_def points_url_frame fun_eq_iff Let_def)
qed

end

section \<open>The verdict\<close>

lemma flit_90_value: "flit (9 / 10) = 8106479329266893 / 2 ^ 53"
proof -
  have "rnd (9 / 10) = of_int (half_even (9 / 10 / 2 powi (- 1 - 52))) * 2 powi (- 1 - 52)"
    by (rule rnd_numeral) (simp_all add: power_int_minus)
  moreover have "half_even (9 / 10 * 9007199254740992) = 8106479329266893"
    by (rule half_even_nearest) simp_all
  ultimately show ?thesis
    by (simp add: flit_def power_int_minus)
qed

text \<open>The comparison of the rounded recall with the rounded 0.90 is the comparison of the fractions.\<close>

lemma recall_threshold:
  assumes "0 < m" "m \<le> 2 ^ 49"
  shows "flit (9 / 10) < rnd (of_nat h / of_nat m) \<longleftrightarrow> 9 * m < 10 * h"
proof
  assume "9 * m < 10 * h"
  then have "9 * m + 1 \<le> 10 * h" by simp
  then have "9 * (of_nat m :: rat) + 1 \<le> 10 * of_nat h"
    by (metis (mono_tags, lifting) of_nat_le_iff of_nat_add of_nat_mult of_nat_numeral of_nat_1)
  then have "(9 * of_nat m + 1) / (10 * of_nat m) \<le> (10 * of_nat h / (10 * of_nat m) :: rat)"
    by (intro divide_right_mono) simp_all
  moreover have "(9 * of_nat m + 1) / (10 * of_nat m) = (9 / 10 + 1 / (10 * of_nat m) :: rat)"
    using assms(1) by (simp add: add_divide_distrib)
  ultimately have "9 / 10 + 1 / (10 * of_nat m) \<le> (of_nat h / of_nat m :: rat)"
    by simp
  moreover have "(of_nat m :: rat) \<le> 2 ^ 49"
    using assms(2) by (metis of_nat_le_iff of_nat_numeral of_nat_power)
  then have "1 / (10 * 2 ^ 49) \<le> (1 / (10 * of_nat m) :: rat)"
    using assms(1) by (simp add: divide_simps)
  ultimately have "8106479329266894 / 2 ^ 53 \<le> (of_nat h / of_nat m :: rat)"
    by simp
  then have "rnd (8106479329266894 / 2 ^ 53) \<le> rnd (of_nat h / of_nat m)"
    by (rule rnd_mono)
  moreover have "rnd (8106479329266894 / 2 ^ 53) = of_int (half_even (8106479329266894 / 2 ^ 53 / 2 powi (- 1 - 52))) * 2 powi (- 1 - 52)"
    by (rule rnd_numeral) (simp_all add: power_int_minus)
  moreover have "half_even (8106479329266894) = 8106479329266894"
    by (rule half_even_nearest) simp_all
  ultimately show "flit (9 / 10) < rnd (of_nat h / of_nat m)"
    by (simp add: flit_90_value power_int_minus)
next
  assume l: "flit (9 / 10) < rnd (of_nat h / of_nat m)"
  have "\<not> of_nat h / of_nat m \<le> (9 / 10 :: rat)"
    using rnd_mono [of "of_nat h / of_nat m" "9 / 10"] l by (auto simp: flit_def)
  then have "9 * (of_nat m :: rat) < 10 * of_nat h"
    using assms(1) by (simp add: field_simps)
  then show "9 * m < 10 * h"
    by (metis (mono_tags, lifting) of_nat_less_iff of_nat_mult of_nat_numeral)
qed
text \<open>The object the test constructs.\<close>

definition smoke_client :: "int \<Rightarrow> string \<Rightarrow> rostam" where
  "smoke_client d server_url =
     \<lparr>dim = d, collection_name = ''smoke_sift'', base = rstrip_char (CHR ''/'') server_url, api_key = JNull, load_path = ''bulk'',
      query_filter = None, binary = True, binary_proven = False, binary_query = True, binary_query_proven = False,
      filter_blob = [], active_session = None\<rparr>"

lemma smoke_fields: "rostam_fields d (to_dict (default_config\<lparr>cfg_url := server_url\<rparr>)) ''smoke_sift'' = Inr (smoke_client d server_url)"
  by (simp add: rostam_fields_def to_dict_def default_config_def load_path_of_def load_paths_def flag_of_def smoke_client_def)

lemma points_url_enter: "points_url (init_enter r) = points_url r"
  by (simp add: fun_eq_iff points_url_def url_def init_enter_def)

text \<open>The hits the test counts: the ids of a query's hits on the loaded points that are among its nearest rows.\<close>

definition smoke_hits :: "(point list \<Rightarrow> query_msg \<Rightarrow> int list) \<Rightarrow> (f32 list \<Rightarrow> nat list) \<Rightarrow> f32 list list \<Rightarrow> f32 list list \<Rightarrow> nat" where
  "smoke_hits hits near vecs query =
     sum_list (map (\<lambda>q. overlap (hits (load_points False (map int [0..<length vecs]) vecs) \<lparr>q_k = knn, q_vec = q, q_filter = None\<rparr>)
       (map int (take knn (near q)))) query)"

text \<open>Rows without infinities and NaNs: through \<open>tolist\<close> and back they are what they were.\<close>

lemma finite_widened: "numpy_spec np \<Longrightarrow> finite_row q \<Longrightarrow> map (np_f32 np) (map (np_f64 np) q) = q"
  using numpy_specD(1) [of np] by (auto simp: finite_row_def f32_is_nan_def list_all_iff intro!: map_idI)

lemma finite_rows: "numpy_spec np \<Longrightarrow> list_all finite_row rows \<Longrightarrow> map (map (np_f32 np)) (map (map (np_f64 np)) rows) = rows"
  using finite_widened [of np] by (simp add: list_all_iff map_idI)

lemma finite_load_fits:
  assumes "numpy_spec np" "list_all finite_row vecs" "rectangular d vecs" "d < 2 ^ 32" "length vecs \<le> 2 ^ 64"
  shows "fits_wires np fr (Load (map (map (np_f64 np)) vecs) (PyIds (map int [0..<length vecs])))"
proof -
  have "rectangular d (map (map (np_f64 np)) vecs)"
    using assms(3) by (simp add: rectangular_def list_all_iff)
  moreover have "list_all u64_id (map int [0..<length vecs])"
    using assms(5) by (auto simp: list_all_iff u64_id_def)
  moreover have "list_all (\<lambda>row. finite_row (map (np_f32 np) row)) (map (map (np_f64 np)) vecs)"
    using assms(2) finite_widened [OF assms(1)] by (simp add: list_all_iff del: map_map)
  ultimately show ?thesis
    using assms(4) by (auto simp: to_ints_def simp del: map_map)
qed

lemma finite_query:
  assumes "numpy_spec np" "finite_row q" "length q < 2 ^ 32"
  shows "fits_wires np fr (Query (PyVec (map (np_f64 np) q)) (int knn))"
    "spec_message np fr None (PyVec (map (np_f64 np) q)) (int knn) = \<lparr>q_k = knn, q_vec = q, q_filter = None\<rparr>"
  using finite_widened [OF assms(1,2)] assms(2,3) by (simp_all add: as_f4_def spec_message_def knn_def del: map_map)

lemma finite_take: "list_all finite_row rows \<Longrightarrow> list_all finite_row (take n rows)"
  by (auto simp: list_all_iff dest: in_set_takeD)

lemma ground_truth_near:
  assumes "\<And>q. q \<in> set query \<Longrightarrow> argsort_distance nps vecs q = Inr (near q)"
  shows "ground_truth nps vecs query = Inr (map (\<lambda>q. map int (take knn (near q))) query)"
  unfolding ground_truth_def by (rule mapr_Inr_map) (simp add: assms)

lemma fsub_elapsed: "t0 + 1 / 10 ^ 9 \<le> t1 \<Longrightarrow> fsub t1 t0 \<noteq> 0"
proof -
  assume "t0 + 1 / 10 ^ 9 \<le> t1"
  moreover have "(2 :: rat) powi (- 1022) \<le> 1 / 10 ^ 9"
    by (simp add: power_int_minus)
  ultimately have "(2 :: rat) powi (- 1022) \<le> t1 - t0"
    by linarith
  then show ?thesis
    using rnd_pos by (simp add: fsub_def less_imp_neq [symmetric])
qed

context managed_server
begin

lemma body_ok:
  assumes np: "numpy_spec np" "narrow = np_f32 np" and c: "coupled fr u su bu False speaks qspeaks ''bulk'' (r, w)" "query_filter r = None"
    and empty: "stored w = []" "live w = []"
    and v: "list_all finite_row vecs" "rectangular 128 vecs" "length vecs \<le> 2 ^ 64" "vecs \<noteq> []"
    and q: "list_all finite_row query" "rectangular 128 query" "query \<noteq> []"
    and recall: "recall = rnd (of_nat (smoke_hits hits near vecs query) / of_nat (length query * knn))"
  shows "\<exists>w' r'. smoke_body np pr send clk vecs query (map (\<lambda>q. map int (take knn (near q))) query) r w = (w', r', Inr recall) \<and>
    stored w' = load_points False (map int [0..<length vecs]) vecs \<and> live w' = stored w' \<and> active_session r' = active_session r \<and>
    (\<exists>t1 t2 qps. shown w' = shown w @ [staged_line (int (length vecs)) t1, built_line t2, recall_line recall qps])"
proof -
  let ?gt = "map (\<lambda>q. map int (take knn (near q))) query"
  let ?pts = "load_points False (map int [0..<length vecs]) vecs"
  obtain w1 r1 where ins: "insert_embeddings np send r w (map (map (np_f64 np)) vecs) (PyIds (map int [0..<length vecs])) =
      (w1, r1, Inr (int (length vecs), None))"
    and c1: "coupled fr u su bu False speaks qspeaks ''bulk'' (r1, w1)" "query_filter r1 = None" "active_session r1 = active_session r"
      "points_url r1 = points_url r" "stored w1 = ?pts" "shown w1 = shown w"
      "live w1 = []"
    using load_step [OF np c finite_load_fits [OF np(1) v(1,2) _ v(3)]] empty finite_rows [OF np(1) v(1)]
    by (auto simp: to_ints_def simp del: map_map)
  have ne: "?pts \<noteq> []"
    using v(4) by (cases vecs) (simp_all add: load_points_def upt_conv_Cons del: upt_Suc)
  define w2 where "w2 = pr (staged_line (int (length vecs)) (fsub (seconds w1) (seconds w))) w1"
  obtain w3 where opt: "optimize send r1 w2 = (w3, Inr ())" and w3: "stored w3 = stored w1" "speaks w3 = speaks w1"
      "qspeaks w3 = qspeaks w1" "live w3 = stored w1" "shown w3 = shown w1 @ [staged_line (int (length vecs)) (fsub (seconds w1) (seconds w))]"
    using builds [of r1 w2] c1(1,5,7) ne by (auto simp: coupled_def w2_def print_keeps shown_pr)
  define w4 where "w4 = pr (built_line (fsub (seconds w3) (seconds w2))) w3"
  have c4: "coupled fr u su bu False speaks qspeaks ''bulk'' (r1, w4)"
    using c1(1) w3(2,3) by (simp add: coupled_def w4_def print_keeps)
  have len: "length q' < 2 ^ 32" if "q' \<in> set query" for q'
    using q(2) that by (simp add: rectangular_def list_all_iff)
  have fin: "finite_row q'" if "q' \<in> set query" for q'
    using q(1) that by (simp add: list_all_iff)
  have fit: "list_all (\<lambda>(i, q). fits_wires np fr (Query (PyVec (map (np_f64 np) q)) (int knn)) \<and> i < length ?gt) (enumerate 0 query)"
    using finite_query(1) [OF np(1) fin len] by (auto simp: list_all_iff enumerate_eq_zip simp del: fits_wires.simps dest: set_zip_leftD set_zip_rightD)
  have st4: "stored w4 = ?pts" "live w4 = ?pts"
    using w3(1,4) c1(5) by (simp_all add: w4_def print_keeps)
  have tot: "sum_list (map (\<lambda>(i, q). overlap (hits (live w4) (spec_message np fr None (PyVec (map (np_f64 np) q)) (int knn))) (?gt ! i))
      (enumerate 0 query)) = smoke_hits hits near vecs query"
    unfolding smoke_hits_def st4(2)
    by (intro arg_cong [of _ _ sum_list] nth_equalityI)
      (simp_all add: nth_enumerate_eq finite_query(2) [OF np(1) fin [OF nth_mem] len [OF nth_mem]])
  obtain w5 r2 where srch: "smoke_searches np send ?gt (enumerate 0 query) 0 r1 w4 = (w5, r2, Inr (smoke_hits hits near vecs query))"
    and w5: "seconds w4 + 1 / 10 ^ 9 \<le> seconds w5" "stored w5 = stored w4" "live w5 = live w4" "active_session r2 = active_session r1" "shown w5 = shown w4"
    using searches_ok [OF np c4 c1(2) fit, of 0] q(3) unfolding tot by (auto simp: enumerate_eq_zip)
  have dt: "fsub (seconds w5) (seconds w4) \<noteq> 0"
    using w5(1) by (rule fsub_elapsed)
  define qps where "qps = rnd (rnd (of_nat (length query)) / fsub (seconds w5) (seconds w4))"
  have "smoke_body np pr send clk vecs query ?gt r w = (pr (recall_line recall qps) w5, r2, Inr recall)"
    using ins opt srch dt q(3) by (simp add: smoke_body_def clock w2_def [symmetric] w4_def [symmetric] fdiv_def knn_def recall qps_def)
  then show ?thesis
    using w5 st4 c1(3) by (auto simp: print_keeps shown_pr w3(5) c1(6) w4_def)
qed

lemma verdict:
  assumes np: "numpy_spec np" "narrow = np_f32 np" and nps: "smoke_np_spec nps file"
    and urls: "au = url (smoke_client 128 server_url) []" "cu = url (smoke_client 128 server_url) [''smoke_sift'']"
      "u = points_url (smoke_client 128 server_url) [''bulk'']" "bu = points_url (smoke_client 128 server_url) [''bulk'', ''build'']"
      "su = points_url (smoke_client 128 server_url) [''search'']"
    and rows: "file (sift @ ''/sift_base.fvecs'') = vecs_file 128 rows" "rectangular 128 rows" "rows \<noteq> []" "list_all finite_row rows"
    and qrows: "file (sift @ ''/sift_query.fvecs'') = vecs_file 128 qrows" "rectangular 128 qrows" "qrows \<noteq> []" "list_all finite_row qrows"
    and n: "0 < n" "n \<le> 2 ^ 64" "0 < nq" "10 * nq \<le> 2 ^ 49"
    and near: "\<And>q. q \<in> set (take nq qrows) \<Longrightarrow> argsort_distance nps (take n rows) q = Inr (near q)"
    and recall: "recall = rnd (of_nat (smoke_hits hits near (take n rows) (take nq qrows)) / of_nat (length (take nq qrows) * knn))"
  shows "\<exists>w'. smoke_main np nps pr send clk sift server_url (int n) (int nq) ef w =
      (w', if 9 * length (take nq qrows) < smoke_hits hits near (take n rows) (take nq qrows) then Inr recall
           else Inl (AssertionError (too_low recall))) \<and>
    stored w' = load_points False (map int [0..<min n (length rows)]) (take n rows) \<and> live w' = stored w' \<and>
    (\<exists>t1 t2 qps. shown w' = shown w @
      [size_line (min n (length rows)) (min nq (length qrows)) 128 ef, staged_line (int (min n (length rows))) t1, built_line t2,
       recall_line recall qps] @
      (if 9 * length (take nq qrows) < smoke_hits hits near (take n rows) (take nq qrows) then [ok_line] else []))"
proof -
  let ?r = "smoke_client 128 server_url" and ?v = "take n rows" and ?q = "take nq qrows"
  have rd: "read_fvecs_limit nps (sift @ ''/sift_base.fvecs'') (int n) = Inr ?v"
    "read_fvecs_limit nps (sift @ ''/sift_query.fvecs'') (int nq) = Inr ?q"
    using read_subset [OF nps rows(1) _ rows(3) n(1)] read_subset [OF nps qrows(1) _ qrows(3) n(3)] rows(2) qrows(2)
    by (simp_all add: rectangular_def)
  have rect: "rectangular 128 ?v" "rectangular 128 ?q"
    using rows(2) qrows(2) by (auto simp: rectangular_def list_all_iff dest: in_set_takeD)
  have d: "(case ?v of [] \<Rightarrow> 0 | r # _ \<Rightarrow> length r) = 128"
    using rows(2,3) n(1) by (cases rows; cases n) (simp_all add: rectangular_def)
  let ?w = "pr (size_line (length ?v) (length ?q) 128 ef) w"
  obtain w1 where init: "rostam_init send ?w 128 (to_dict (default_config\<lparr>cfg_url := server_url\<rparr>)) (smoke_case ef) ''smoke_sift'' True =
      (w1, Inr ?r)" "stored w1 = []" "live w1 = []" "shown w1 = shown ?w"
    using constructed [OF smoke_fields, of 128 server_url] urls(1,2) by (auto simp: smoke_client_def)
  have c: "coupled fr u su bu False speaks qspeaks ''bulk'' (init_enter ?r, w1)"
    using urls(3-5)
    by (simp add: coupled_def points_url_enter)
      (simp add: smoke_client_def init_enter_def client_inv_def load_paths_def filter_agrees_def filter_is_object_def)
  have f: "query_filter (init_enter ?r) = None" "active_session (init_enter ?r) \<noteq> None"
    by (simp_all add: smoke_client_def init_enter_def)
  obtain w2 r2 t1 t2 qps where body:
    "smoke_body np pr send clk ?v ?q (map (\<lambda>q. map int (take knn (near q))) ?q) (init_enter ?r) w1 = (w2, r2, Inr recall)"
    "stored w2 = load_points False (map int [0..<length ?v]) ?v" "live w2 = stored w2" "active_session r2 \<noteq> None"
    "shown w2 = shown w1 @ [staged_line (int (length ?v)) t1, built_line t2, recall_line recall qps]"
    using body_ok [OF np c f(1) init(2,3) finite_take [OF rows(4)] rect(1) _ _ finite_take [OF qrows(4)] rect(2) _ recall]
      rows(3) qrows(3) n f(2) by fastforce
  obtain r3 where "init_exit r2 = (r3, Inr ())"
    using body(4) by (auto simp: init_exit_def)
  with body have "with_init (smoke_body np pr send clk ?v ?q (map (\<lambda>q. map int (take knn (near q))) ?q)) ?r w1 = (w2, r3, Inr recall)"
    by (simp add: with_init_def)
  moreover have "flit (9 / 10) < recall \<longleftrightarrow> 9 * length ?q < smoke_hits hits near ?v ?q"
    unfolding recall using recall_threshold [of "length ?q * knn"] n(3,4) qrows(3) by (simp add: knn_def)
  ultimately have "smoke_main np nps pr send clk sift server_url (int n) (int nq) ef w =
      (if 9 * length ?q < smoke_hits hits near ?v ?q then (pr ok_line w2, Inr recall) else (w2, Inl (AssertionError (too_low recall))))"
    using rd d init(1) ground_truth_near [of ?q nps ?v near] near by (simp add: smoke_main_def py_take_def Let_def)
  then show ?thesis
    using body(2,3,5) init(4) by (auto simp: print_keeps shown_pr min.commute)
qed

end

section \<open>The reference server with collections\<close>

text \<open>
  The reference server with builds next to a counter of its requests, which its clock shows, and a console. A collection
  is dropped and created at its own address.
\<close>

type_synonym managed_state = "db_state \<times> nat \<times> string list"

definition one_request :: "nat \<times> string list \<Rightarrow> nat \<times> string list" where
  "one_request c = (fst c + 1, snd c)"

definition managed_pr :: "managed_state printer" where
  "managed_pr line w = (fst w, fst (snd w), snd (snd w) @ [line])"

definition managed_send ::
  "(f64 \<Rightarrow> string) \<Rightarrow> (f64 \<Rightarrow> f32) \<Rightarrow> (point list \<Rightarrow> query_msg \<Rightarrow> int list) \<Rightarrow> string \<Rightarrow> managed_state transport" where
  "managed_send fr narrow hits au w s rq =
     (if rq_method rq = ''DELETE'' \<and> rq_url rq = au @ ''/smoke_sift'' then
        ((((fst (fst w))\<lparr>srv_points := []\<rparr>, [], snd (snd (fst w))), one_request (snd w)), Inr (answer 200 [] JNull))
      else if rq_method rq = ''POST'' \<and> rq_url rq = au then ((fst w, one_request (snd w)), Inr (answer 201 [] JNull))
      else (case db_send fr narrow False hits (au @ ''/smoke_sift/points'') (fst w) s rq of (st, out) \<Rightarrow> ((st, one_request (snd w)), out)))"

definition request_clock :: "managed_state clock" where
  "request_clock = \<lparr>perf_counter = (\<lambda>w. (w, of_nat (fst (snd w)))), wall_time = (\<lambda>w. (w, of_nat (fst (snd w))))\<rparr>"

text \<open>At the addresses of the collection's points the managed server is the server with builds.\<close>

definition points_part :: "string \<Rightarrow> request \<Rightarrow> bool" where
  "points_part au rq \<longleftrightarrow> rq_url rq \<in> {au @ ''/smoke_sift/points/bulk'', au @ ''/smoke_sift/points/search'', au @ ''/smoke_sift/points/bulk/build''}"

lemma managed_points:
  assumes "points_part au rq"
  shows "managed_send fr narrow hits au w s rq = (w', out) \<longleftrightarrow>
    db_send fr narrow False hits (au @ ''/smoke_sift/points'') (fst w) s rq = (fst w', out) \<and> snd w' = one_request (snd w)"
  using assms by (cases w') (auto simp: managed_send_def points_part_def split: prod.splits)

lemma managed_point:
  assumes "points_part au rq" "\<exists>st resp. db_send fr narrow False hits (au @ ''/smoke_sift/points'') (fst w) s rq = (st, Inr resp) \<and> P st resp"
  shows "\<exists>w' resp. managed_send fr narrow hits au w s rq = (w', Inr resp) \<and> P (fst w') resp"
proof -
  obtain st resp where "db_send fr narrow False hits (au @ ''/smoke_sift/points'') (fst w) s rq = (st, Inr resp)" "P st resp"
    using assms(2) by blast
  then have "managed_send fr narrow hits au w s rq = ((st, one_request (snd w)), Inr resp) \<and> P (fst (st, one_request (snd w))) resp"
    by (simp add: managed_points [OF assms(1)])
  then show ?thesis by blast
qed

lemma managed_speaks:
  "managed_send fr narrow hits au w s rq = (w', x) \<Longrightarrow>
    srv_speaks (fst (fst w')) = srv_speaks (fst (fst w)) \<and> snd (snd (fst w')) = snd (snd (fst w)) \<and> snd w' = one_request (snd w)"
  using db_send_speaks [of fr narrow False hits "au @ ''/smoke_sift/points''" "fst w" s rq]
  by (auto simp: managed_send_def split: if_splits prod.splits)

lemmas managed_laws = db.accepted db.rejected db.append_only db.json_ok db.raw_answer db.load_live db.build db.raw_query
  db.raw_query_rejected db.json_query

interpretation managed: managed_server "managed_send fr narrow hits au" "srv_points \<circ> fst \<circ> fst" fr narrow
  "au @ ''/smoke_sift/points/bulk''" "srv_speaks \<circ> fst \<circ> fst" "au @ ''/smoke_sift/points/search''" "au @ ''/smoke_sift/points/bulk/build''"
  "fst \<circ> snd \<circ> fst" "snd \<circ> snd \<circ> fst" hits managed_pr "\<lambda>w. snd (snd w)" au "au @ ''/smoke_sift''" request_clock "\<lambda>w. of_nat (fst (snd w))"
  for fr narrow hits au
proof unfold_locales
  let ?p = "au @ ''/smoke_sift/points''"
  have urls: "au @ ''/smoke_sift/points/bulk'' = ?p @ load_part False" "au @ ''/smoke_sift/points/search'' = ?p @ ''/search''"
      "au @ ''/smoke_sift/points/bulk/build'' = ?p @ ''/bulk/build''"
    by (simp_all add: load_part_def)
  note laws = managed_laws [where p = ?p and hits = hits and inline = False and fr = fr and narrow = narrow, folded urls, unfolded comp_apply if_False]
  have part: "points_part au rq" if "rq_url rq = au @ ''/smoke_sift/points/bulk'' \<or> rq_url rq = au @ ''/smoke_sift/points/search'' \<or>
      rq_url rq = au @ ''/smoke_sift/points/bulk/build''" for rq
    using that by (simp add: points_part_def)
  note one = managed_point [OF part]
  show "(srv_points \<circ> fst \<circ> fst) w' = (srv_points \<circ> fst \<circ> fst) w @ pts"
    if "managed_send fr narrow hits au w s rq = (w', Inr resp)" "rq_method rq = ''POST''" "rq_url rq = au @ ''/smoke_sift/points/bulk''"
      "status_code resp = 200" "body_points fr narrow (rq_body rq) = Some pts" for w s rq w' resp pts
    using that laws(1) [of "fst w" s rq "fst w'"] by (simp add: managed_points part)
  show "(srv_points \<circ> fst \<circ> fst) w' = (srv_points \<circ> fst \<circ> fst) w"
    if "managed_send fr narrow hits au w s rq = (w', Inr resp)" "rq_url rq = au @ ''/smoke_sift/points/bulk''"
      "status_code resp \<in> set binary_unsupported" for w s rq w' resp
    using that laws(2) [of "fst w" s rq "fst w'"] by (simp add: managed_points part)
  show "prefix ((srv_points \<circ> fst \<circ> fst) w) ((srv_points \<circ> fst \<circ> fst) w')"
    if "managed_send fr narrow hits au w s rq = (w', x)" "rq_url rq = au @ ''/smoke_sift/points/bulk''" for w s rq w' x
    using that laws(3) [of "fst w" s rq "fst w'"] by (simp add: managed_points part)
  show "\<exists>w' resp. managed_send fr narrow hits au w s rq = (w', Inr resp) \<and> status_code resp = 200"
    if "rq_method rq = ''POST''" "rq_url rq = au @ ''/smoke_sift/points/bulk''" "rq_body rq = JsonBody j"
      "json_points fr narrow j = Some pts" for rq j pts w s
    by (rule one [OF _ laws(4) [OF that]]) (simp add: that(2))
  show "\<exists>w' resp. managed_send fr narrow hits au w s rq = (w', Inr resp) \<and>
      (if (srv_speaks \<circ> fst \<circ> fst) w then status_code resp = 200 else status_code resp \<in> set binary_unsupported)"
    if "rq_method rq = ''POST''" "rq_url rq = au @ ''/smoke_sift/points/bulk''" "rq_body rq = RawBody bs"
      "body_points fr narrow (RawBody bs) = Some pts" for rq bs pts w s
    unfolding comp_apply by (rule one [OF _ laws(5) [OF that]]) (simp add: that(2))
  show "(fst \<circ> snd \<circ> fst) w' = (if False then (fst \<circ> snd \<circ> fst) w @ drop (length ((srv_points \<circ> fst \<circ> fst) w)) ((srv_points \<circ> fst \<circ> fst) w')
      else (fst \<circ> snd \<circ> fst) w)"
    if "managed_send fr narrow hits au w s rq = (w', x)" "rq_url rq = au @ ''/smoke_sift/points/bulk''" for w s rq w' x
    using that laws(6) [of "fst w" s rq "fst w'"] by (simp add: managed_points part)
  show "\<exists>w' resp. managed_send fr narrow hits au w s rq = (w', Inr resp) \<and> (srv_points \<circ> fst \<circ> fst) w' = (srv_points \<circ> fst \<circ> fst) w \<and>
      (if status_code resp = 200 then (fst \<circ> snd \<circ> fst) w = [] \<and> (fst \<circ> snd \<circ> fst) w' = (srv_points \<circ> fst \<circ> fst) w
       else (fst \<circ> snd \<circ> fst) w' = (fst \<circ> snd \<circ> fst) w) \<and>
      ((fst \<circ> snd \<circ> fst) w = [] \<and> (srv_points \<circ> fst \<circ> fst) w \<noteq> [] \<longrightarrow> status_code resp = 200)"
    if "rq_method rq = ''POST''" "rq_url rq = au @ ''/smoke_sift/points/bulk/build''" for rq w s
    unfolding comp_apply by (rule one [OF _ laws(7) [OF that]]) (simp add: that(2))
  show "\<exists>w' resp. managed_send fr narrow hits au w s rq = (w', Inr resp) \<and> (srv_points \<circ> fst \<circ> fst) w' = (srv_points \<circ> fst \<circ> fst) w \<and>
      (fst \<circ> snd \<circ> fst) w' = (fst \<circ> snd \<circ> fst) w \<and> status_code resp = 200 \<and> resp_raises resp = None \<and>
      resp_json resp = Inr (hits_json (hits ((fst \<circ> snd \<circ> fst) w) m))"
    if "(snd \<circ> snd \<circ> fst) w" "rq_url rq = au @ ''/smoke_sift/points/search''" "rq_body rq = RawBody bs" "decode_query bs = Some m" for w rq bs m s
    unfolding comp_apply by (rule one [OF _ laws(8) [OF that [unfolded comp_apply]]]) (simp add: that(2))
  show "\<exists>w' resp. managed_send fr narrow hits au w s rq = (w', Inr resp) \<and> (srv_points \<circ> fst \<circ> fst) w' = (srv_points \<circ> fst \<circ> fst) w \<and>
      (fst \<circ> snd \<circ> fst) w' = (fst \<circ> snd \<circ> fst) w \<and> status_code resp \<in> set binary_unsupported"
    if "\<not> (snd \<circ> snd \<circ> fst) w" "rq_url rq = au @ ''/smoke_sift/points/search''" "rq_body rq = RawBody bs" for w rq bs s
    unfolding comp_apply by (rule one [OF _ laws(9) [OF that [unfolded comp_apply]]]) (simp add: that(2))
  show "\<exists>w' resp. managed_send fr narrow hits au w s rq = (w', Inr resp) \<and> (srv_points \<circ> fst \<circ> fst) w' = (srv_points \<circ> fst \<circ> fst) w \<and>
      (fst \<circ> snd \<circ> fst) w' = (fst \<circ> snd \<circ> fst) w \<and> resp_raises resp = None \<and>
      resp_json resp = Inr (hits_json (hits ((fst \<circ> snd \<circ> fst) w) m))"
    if "rq_url rq = au @ ''/smoke_sift/points/search''" "rq_body rq = JsonBody j" "read_json_query fr narrow j = Some m" for rq j m w s
    unfolding comp_apply by (rule one [OF _ laws(10) [OF that]]) (simp add: that(1))
  show "\<And>w s rq w' x. managed_send fr narrow hits au w s rq = (w', x) \<Longrightarrow> (srv_speaks \<circ> fst \<circ> fst) w' = (srv_speaks \<circ> fst \<circ> fst) w"
    "\<And>w s rq w' x. managed_send fr narrow hits au w s rq = (w', x) \<Longrightarrow> (snd \<circ> snd \<circ> fst) w' = (snd \<circ> snd \<circ> fst) w"
    "\<And>w s rq w' x. managed_send fr narrow hits au w s rq = (w', x) \<Longrightarrow> rat_of_nat (fst (snd w)) + 1 / 10 ^ 9 \<le> rat_of_nat (fst (snd w'))"
    "\<And>w s rq w' x. managed_send fr narrow hits au w s rq = (w', x) \<Longrightarrow> snd (snd w') = snd (snd w)"
    by (drule managed_speaks, simp add: one_request_def)+
qed (auto simp: managed_send_def request_clock_def answer_def managed_pr_def)

section \<open>The property\<close>

text \<open>
  C9. The smoke test decides what it claims to decide. Against a server that drops, creates and loads a collection,
  makes the staged points queryable by a build and answers queries over the queryable points only, on data files in
  the documented format, the whole script runs without another error: afterwards the collection holds exactly the rows of
  the subset, numbered from 0, whatever it held before, all of them queryable, and the test passes if and only if more than nine tenths of the nearest rows
  were among the hits (the comparison of two rounded floats decides the exact fractions), with that
  fraction as its recall; otherwise its last assertion fails. It shows the sizes, the time of the load, the
  time of the build and the recall, in this order, and the line of success if and only if it passes.
\<close>

theorem smoke_test_verdict:
  assumes "managed_server send stored fr (np_f32 np) u speaks su bu live qspeaks hits pr shown au cu clk seconds" "numpy_spec np" "smoke_np_spec nps file"
    and "au = url (smoke_client 128 server_url) []" "cu = url (smoke_client 128 server_url) [''smoke_sift'']"
      "u = points_url (smoke_client 128 server_url) [''bulk'']" "bu = points_url (smoke_client 128 server_url) [''bulk'', ''build'']"
      "su = points_url (smoke_client 128 server_url) [''search'']"
    and "file (sift @ ''/sift_base.fvecs'') = vecs_file 128 rows" "rectangular 128 rows" "rows \<noteq> []" "list_all finite_row rows"
    and "file (sift @ ''/sift_query.fvecs'') = vecs_file 128 qrows" "rectangular 128 qrows" "qrows \<noteq> []" "list_all finite_row qrows"
    and "0 < n" "n \<le> 2 ^ 64" "0 < nq" "10 * nq \<le> 2 ^ 49"
    and "\<And>q. q \<in> set (take nq qrows) \<Longrightarrow> argsort_distance nps (take n rows) q = Inr (near q)"
    and "recall = rnd (of_nat (smoke_hits hits near (take n rows) (take nq qrows)) / of_nat (length (take nq qrows) * knn))"
  shows "\<exists>w'. smoke_main np nps pr send clk sift server_url (int n) (int nq) ef w =
      (w', if 9 * length (take nq qrows) < smoke_hits hits near (take n rows) (take nq qrows) then Inr recall
           else Inl (AssertionError (too_low recall))) \<and>
    stored w' = load_points False (map int [0..<min n (length rows)]) (take n rows) \<and> live w' = stored w' \<and>
    (\<exists>t1 t2 qps. shown w' = shown w @
      [size_line (min n (length rows)) (min nq (length qrows)) 128 ef, staged_line (int (min n (length rows))) t1, built_line t2,
       recall_line recall qps] @
      (if 9 * length (take nq qrows) < smoke_hits hits near (take n rows) (take nq qrows) then [ok_line] else []))"
  by (rule managed_server.verdict [OF assms(1,2) refl assms(3-)])

definition zero_rows :: "f32 list list" where
  "zero_rows = replicate 10 (replicate 128 0)"

definition zero_np :: smoke_np where
  "zero_np =
     \<lparr>fromfile_count = (\<lambda>_ c. Inr (if c < 0 then vecs_file 128 zero_rows else take (nat c) (vecs_file 128 zero_rows))),
      reshape_rows = (\<lambda>xs c. if 0 < c \<and> nat c dvd length xs then Inr (chunks (nat c) xs) else Inl (ValueError ''cannot reshape'')),
      argsort_distance = (\<lambda>_ _. Inr [0..<10])\<rparr>"

definition every_id :: "point list \<Rightarrow> query_msg \<Rightarrow> int list" where
  "every_id pts m = map pt_id pts"

lemma zero_rows_fit: "rectangular 128 zero_rows" "zero_rows \<noteq> []" "list_all finite_row zero_rows" "length zero_rows = 10"
  by (simp_all add: zero_rows_def rectangular_def finite_row_def list_all_iff f32_exp_def)

lemma zero_hits: "smoke_hits every_id (\<lambda>_. [0..<10]) (take 10 zero_rows) (take 1 zero_rows) = 10"
proof -
  have "map pt_id (load_points False (map int [0..<10]) zero_rows) = map int [0..<10]"
    using zero_rows_fit(4) by (simp add: load_points_def comp_def case_prod_unfold)
  moreover have "overlap (map int [0..<10]) (map int (take knn [0..<10])) = 10"
    by code_simp
  moreover have "take 10 zero_rows = zero_rows" "take 1 zero_rows = [replicate 128 0]"
    by (simp_all add: zero_rows_def numeral_eq_Suc)
  ultimately show ?thesis
    by (simp add: smoke_hits_def every_id_def zero_rows_fit(4))
qed

theorem smoke_test_verdict_witness:
  "\<exists>w'. smoke_main np_ref zero_np managed_pr (managed_send (\<lambda>_. []) f64_to_f32 every_id ''http://h/v1/collections'') request_clock ''d'' ''http://h''
      10 1 64 ((\<lparr>srv_points = [\<lparr>pt_id = 3, pt_vec = [], pt_meta = None\<rparr>], srv_speaks = False\<rparr>, [\<lparr>pt_id = 3, pt_vec = [], pt_meta = None\<rparr>], True), 0, []) = (w', Inr 1) \<and>
    length (srv_points (fst (fst w'))) = 10 \<and> fst (snd (fst w')) = srv_points (fst (fst w')) \<and> length (snd (snd w')) = 5 \<and> last (snd (snd w')) = ok_line"
proof -
  have base: "rstrip_char (CHR ''/'') ''http://h'' = ''http://h''"
    by code_simp
  have nps: "smoke_np_spec zero_np (\<lambda>_. vecs_file 128 zero_rows)"
    by (simp add: smoke_np_spec_def zero_np_def)
  have one: "rnd (of_nat 10 / of_nat (1 * knn)) = 1"
    using rnd_of_nat [of 1] by (simp add: knn_def)
  have len: "length (take 1 zero_rows) = 1"
    using zero_rows_fit(4) by simp
  let ?w = "((\<lparr>srv_points = [\<lparr>pt_id = 3, pt_vec = [], pt_meta = None\<rparr>], srv_speaks = False\<rparr>,
      [\<lparr>pt_id = 3, pt_vec = [], pt_meta = None\<rparr>], True), 0 :: nat, [])"
  have ms: "managed_server (managed_send (\<lambda>_. []) f64_to_f32 every_id ''http://h/v1/collections'') (srv_points \<circ> fst \<circ> fst) (\<lambda>_. [])
      (np_f32 np_ref) (''http://h/v1/collections'' @ ''/smoke_sift/points/bulk'') (srv_speaks \<circ> fst \<circ> fst)
      (''http://h/v1/collections'' @ ''/smoke_sift/points/search'') (''http://h/v1/collections'' @ ''/smoke_sift/points/bulk/build'')
      (fst \<circ> snd \<circ> fst) (snd \<circ> snd \<circ> fst) every_id managed_pr (\<lambda>w. snd (snd w)) ''http://h/v1/collections''
      (''http://h/v1/collections'' @ ''/smoke_sift'') request_clock (\<lambda>w. of_nat (fst (snd w)))"
    using managed.managed_server_axioms by (simp only: np_ref_def numpy.simps)
  have "\<exists>w'. smoke_main np_ref zero_np managed_pr (managed_send (\<lambda>_. []) f64_to_f32 every_id ''http://h/v1/collections'') request_clock ''d'' ''http://h''
      (int 10) (int 1) 64 ?w =
      (w', if 9 * length (take 1 zero_rows) < smoke_hits every_id (\<lambda>_. [0..<10]) (take 10 zero_rows) (take 1 zero_rows) then Inr 1
           else Inl (AssertionError (too_low 1))) \<and>
    (srv_points \<circ> fst \<circ> fst) w' = load_points False (map int [0..<min 10 (length zero_rows)]) (take 10 zero_rows) \<and>
    (fst \<circ> snd \<circ> fst) w' = (srv_points \<circ> fst \<circ> fst) w' \<and>
    (\<exists>t1 t2 qps. snd (snd w') = snd (snd ?w) @
      [size_line (min 10 (length zero_rows)) (min 1 (length zero_rows)) 128 64, staged_line (int (min 10 (length zero_rows))) t1, built_line t2,
       recall_line 1 qps] @
      (if 9 * length (take 1 zero_rows) < smoke_hits every_id (\<lambda>_. [0..<10]) (take 10 zero_rows) (take 1 zero_rows) then [ok_line] else []))"
    by (rule smoke_test_verdict [OF ms numpy_spec_np_ref nps _ _ _ _ _ refl zero_rows_fit(1-3) refl zero_rows_fit(1-3)])
      (simp_all only: zero_hits len one, simp_all add: url_def points_url_def smoke_client_def base zero_np_def)
  then show ?thesis
    unfolding zero_hits len by (elim exE conjE) (simp add: zero_rows_fit(4))
qed

end
