(* ===== verification/Scripts.thy ===== *)
theory Scripts
  imports Grpc_Stubs Engines Smoke
begin

text \<open>
  The scripts as they are started: the settings each reads from its environment when it is loaded, with
  their defaults, and the main program on them. A setting that does not convert ends the script
  before it does anything. \<open>float()\<close> of a text is an argument.
\<close>

section \<open>Settings\<close>

type_synonym env = "string \<Rightarrow> string option"

definition getenv :: "env \<Rightarrow> string \<Rightarrow> string \<Rightarrow> string" where
  "getenv env name dflt = (case env name of None \<Rightarrow> dflt | Some v \<Rightarrow> v)"

record bench_settings =
  st_sift :: string
  st_addr :: string
  st_conc :: int
  st_dur :: rat

definition py_settings :: "env \<Rightarrow> (string \<Rightarrow> rat result) \<Rightarrow> bench_settings result" where
  "py_settings env float_of =
     rbind (int_of_str (getenv env ''ROSTAM_CONC'' ''32'')) (\<lambda>conc.
     rbind (float_of (getenv env ''ROSTAM_QPS_SECONDS'' ''3'')) (\<lambda>dur.
       Inr \<lparr>st_sift = getenv env ''ROSTAM_SIFT_DIR'' ''/tmp/rostam-sift1m/sift'',
            st_addr = getenv env ''ROSTAM_BENCH_ADDR'' ''127.0.0.1:7700'', st_conc = conc, st_dur = dur\<rparr>))"

definition grpc_settings :: "env \<Rightarrow> (string \<Rightarrow> rat result) \<Rightarrow> bench_settings result" where
  "grpc_settings env float_of =
     rbind (int_of_str (getenv env ''ROSTAM_CONC'' ''32'')) (\<lambda>conc.
     rbind (float_of (getenv env ''ROSTAM_QPS_SECONDS'' ''3'')) (\<lambda>dur.
       Inr \<lparr>st_sift = getenv env ''ROSTAM_SIFT_DIR'' ''/tmp/rostam-sift1m/sift'',
            st_addr = getenv env ''ROSTAM_GRPC_ADDR'' ''127.0.0.1:7701'', st_conc = conc, st_dur = dur\<rparr>))"

definition qdrant_sift :: string where
  "qdrant_sift = ''/tmp/rostam-sift1m/sift''"

definition qdrant_settings :: "env \<Rightarrow> (string \<Rightarrow> rat result) \<Rightarrow> (int \<times> rat) result" where
  "qdrant_settings env float_of =
     rbind (int_of_str (getenv env ''QDRANT_CONC'' ''32'')) (\<lambda>conc.
     rbind (float_of (getenv env ''QDRANT_QPS_SECONDS'' ''3'')) (\<lambda>dur. Inr (conc, dur)))"

definition bench_sift :: string where
  "bench_sift = ''/tmp/rostam-sift1m/sift''"

definition redis_sift :: string where
  "redis_sift = ''/tmp/rostam-sift1m/sift''"

definition hnswlib_sift :: string where
  "hnswlib_sift = ''/tmp/rostam-sift1m/sift''"

definition qdrant_sq8 :: "env \<Rightarrow> bool" where
  "qdrant_sq8 env \<longleftrightarrow> env ''QDRANT_SQ8'' = Some ''1''"

record smoke_settings =
  sm_sift :: string
  sm_url :: string
  sm_base :: int
  sm_queries :: int
  sm_ef :: int

definition smoke_env :: "env \<Rightarrow> smoke_settings result" where
  "smoke_env env =
     rbind (int_of_str (getenv env ''N'' ''20000'')) (\<lambda>n.
     rbind (int_of_str (getenv env ''NQ'' ''200'')) (\<lambda>nq.
     rbind (int_of_str (getenv env ''EF'' ''64'')) (\<lambda>ef.
       Inr \<lparr>sm_sift = getenv env ''SIFT'' ''/tmp/rostam-sift1m/sift'', sm_url = getenv env ''ROSTAM_URL'' ''http://127.0.0.1:8080'',
            sm_base = n, sm_queries = nq, sm_ef = ef\<rparr>)))"

section \<open>The scripts\<close>

text \<open>A pool of no processes is refused by \<open>multiprocessing.Pool\<close>, whether the number is 0 or negative.\<close>

definition py_client ::
  "env \<Rightarrow> (string \<Rightarrow> rat result) \<Rightarrow> np_files \<Rightarrow> 'w printer \<Rightarrow> (string \<Rightarrow> int \<Rightarrow> 'w \<Rightarrow> 'w \<times> 'w sock result) \<Rightarrow> 'w clock \<Rightarrow> (rat list \<Rightarrow> rat)
    \<Rightarrow> 'w pool \<Rightarrow> 'w \<Rightarrow> 'w \<times> (latency_summary \<times> rat) result" where
  "py_client env float_of nf pr dial clk py_sum pool w =
     (case py_settings env float_of of
        Inl e \<Rightarrow> (w, Inl e)
      | Inr st \<Rightarrow> main_py nf pr dial clk py_sum pool (st_sift st) (st_addr st) (st_conc st) (st_dur st) w)"

text \<open>The gRPC client imports the stubs first, which may fail.\<close>

definition grpc_client ::
  "env \<Rightarrow> (string \<Rightarrow> rat result) \<Rightarrow> (string \<Rightarrow> string \<Rightarrow> bool) option \<Rightarrow> string \<Rightarrow> (string \<Rightarrow> 'w channel) \<Rightarrow> pb2 \<Rightarrow> np_files \<Rightarrow> 'w printer \<Rightarrow> 'w clock
    \<Rightarrow> (rat list \<Rightarrow> rat) \<Rightarrow> 'w pool \<Rightarrow> 'w \<Rightarrow> 'w \<times> (latency_summary \<times> rat) result" where
  "grpc_client env float_of first_version_is_lower grpc_version insecure_channel pb nf pr clk py_sum pool w =
     (case rbind (import_stubs first_version_is_lower grpc_version) (\<lambda>_. grpc_settings env float_of) of
        Inl e \<Rightarrow> (w, Inl e)
      | Inr st \<Rightarrow> main_grpc nf pr (search_ids pb (new_stub insecure_channel pb (st_addr st))) clk py_sum pool (st_sift st)
                    (st_addr st) (st_conc st) (st_dur st) w)"

definition qdrant_script ::
  "env \<Rightarrow> (string \<Rightarrow> rat result) \<Rightarrow> np_files \<Rightarrow> 'w printer \<Rightarrow> (qd_endpoint \<Rightarrow> 'w qdrant) \<Rightarrow> (nat \<Rightarrow> 'w \<Rightarrow> 'w) \<Rightarrow> 'w clock \<Rightarrow> (rat list \<Rightarrow> rat) \<Rightarrow> 'w pool \<Rightarrow> 'w
    \<Rightarrow> ('w \<times> (nat \<times> latency_summary \<times> rat) list result) option" where
  "qdrant_script env float_of nf pr open_client sleep clk py_sum pool w =
     (case qdrant_settings env float_of of
        Inl e \<Rightarrow> Some (w, Inl e)
      | Inr (conc, dur) \<Rightarrow> main_qdrant nf pr qdrant_sift (new_client open_client) sleep clk py_sum pool conc dur w)"

definition qdrant_bench_script ::
  "env \<Rightarrow> np_files \<Rightarrow> 'w printer \<Rightarrow> (qd_endpoint \<Rightarrow> 'w qdrant) \<Rightarrow> (nat \<Rightarrow> 'w \<Rightarrow> 'w) \<Rightarrow> 'w clock \<Rightarrow> 'w \<Rightarrow> ('w \<times> (rat \<times> (nat \<times> rat \<times> rat) list) result) option" where
  "qdrant_bench_script env nf pr open_client sleep clk w = main_qdrant_bench nf pr bench_sift (new_client open_client) sleep clk (qdrant_sq8 env) w"

definition redis_script ::
  "np_files \<Rightarrow> 'w printer \<Rightarrow> (rd_endpoint \<Rightarrow> 'w redis) \<Rightarrow> (f32 list \<Rightarrow> bytes) \<Rightarrow> (nat \<Rightarrow> 'w \<Rightarrow> 'w) \<Rightarrow> 'w clock \<Rightarrow> (resp \<Rightarrow> rat result) \<Rightarrow> 'w
    \<Rightarrow> ('w \<times> (rat \<times> (nat \<times> rat \<times> rat) list) result) option" where
  "redis_script nf pr open_redis tobytes sleep clk float_of w = main_redis nf pr redis_sift (redis_client open_redis) tobytes sleep clk float_of w"

definition hnswlib_script ::
  "np_files \<Rightarrow> 'w printer \<Rightarrow> 'w hnswlib \<Rightarrow> 'w clock \<Rightarrow> ('w \<Rightarrow> 'w \<times> string result) \<Rightarrow> int \<Rightarrow> 'w
    \<Rightarrow> 'w \<times> (memory \<times> rat \<times> (nat \<times> rat \<times> rat) list) result" where
  "hnswlib_script nf pr hl clk statm page w = main_hnswlib nf pr hnswlib_sift hl clk statm page w"

definition smoke_script :: "env \<Rightarrow> numpy \<Rightarrow> smoke_np \<Rightarrow> 'w printer \<Rightarrow> 'w transport \<Rightarrow> 'w clock \<Rightarrow> 'w \<Rightarrow> 'w \<times> rat result" where
  "smoke_script env np nps pr send clk w =
     (case smoke_env env of
        Inl e \<Rightarrow> (w, Inl e)
      | Inr st \<Rightarrow> smoke_main np nps pr send clk (sm_sift st) (sm_url st) (sm_base st) (sm_queries st) (sm_ef st) w)"

section \<open>Defaults and refusals\<close>

text \<open>Without variables every setting has its default, and the integers of the defaults convert.\<close>

lemma default_settings:
  assumes "float_of ''3'' = Inr 3"
  shows "py_settings (\<lambda>_. None) float_of =
      Inr \<lparr>st_sift = ''/tmp/rostam-sift1m/sift'', st_addr = ''127.0.0.1:7700'', st_conc = 32, st_dur = 3\<rparr>"
    "grpc_settings (\<lambda>_. None) float_of =
      Inr \<lparr>st_sift = ''/tmp/rostam-sift1m/sift'', st_addr = ''127.0.0.1:7701'', st_conc = 32, st_dur = 3\<rparr>"
    "qdrant_settings (\<lambda>_. None) float_of = Inr (32, 3)" "\<not> qdrant_sq8 (\<lambda>_. None)"
proof -
  have "int_of_str ''32'' = Inr 32"
    by code_simp
  then show "py_settings (\<lambda>_. None) float_of =
      Inr \<lparr>st_sift = ''/tmp/rostam-sift1m/sift'', st_addr = ''127.0.0.1:7700'', st_conc = 32, st_dur = 3\<rparr>"
    "grpc_settings (\<lambda>_. None) float_of =
      Inr \<lparr>st_sift = ''/tmp/rostam-sift1m/sift'', st_addr = ''127.0.0.1:7701'', st_conc = 32, st_dur = 3\<rparr>"
    "qdrant_settings (\<lambda>_. None) float_of = Inr (32, 3)"
    using assms by (simp_all add: py_settings_def grpc_settings_def qdrant_settings_def getenv_def)
qed (simp add: qdrant_sq8_def)

text \<open>The two Rostam clients take the same settings but for the address.\<close>

lemma rostam_settings_agree:
  "py_settings env float_of = Inr p \<Longrightarrow> grpc_settings env float_of = Inr (p\<lparr>st_addr := getenv env ''ROSTAM_GRPC_ADDR'' ''127.0.0.1:7701''\<rparr>)"
  by (auto simp: py_settings_def grpc_settings_def)

text \<open>An unsupported version of the \<open>grpc\<close> package, or a setting that does not convert, ends the script before anything happens.\<close>

lemma grpc_client_refuses:
  assumes "first_version_is_lower = None \<or> (\<exists>f. first_version_is_lower = Some f \<and> f v grpc_generated_version) \<or>
    (\<exists>e. int_of_str (getenv env ''ROSTAM_CONC'' ''32'') = Inl e) \<or> (\<exists>e. float_of (getenv env ''ROSTAM_QPS_SECONDS'' ''3'') = Inl e)"
  shows "\<exists>e. grpc_client env float_of first_version_is_lower v insecure_channel pb nf pr clk py_sum pool w = (w, Inl e)"
proof -
  have "\<exists>e. rbind (import_stubs first_version_is_lower v) (\<lambda>_. grpc_settings env float_of) = Inl e"
    using assms by (cases "import_stubs first_version_is_lower v"; cases "int_of_str (getenv env ''ROSTAM_CONC'' ''32'')")
      (auto simp: import_stubs_def grpc_settings_def Let_def split: option.splits)
  then show ?thesis
    by (auto simp: grpc_client_def)
qed

end
