(* ===== verification/Kv_Charts.thy ===== *)
theory Kv_Charts
  imports Svg_Text
begin

text \<open>
  The chart generator \<open>netkv/charts/mkcharts.py\<close>: geometry, themes, label placement, the two chart forms
  and the writing of the files. A chart is the text of an SVG document, computed with Python's
  float arithmetic; every failing operation (a missing theme, a division by zero, an empty series)
  is a branch. The charts of the README and the order in which they are written are in \<open>Kv_Main\<close>.
\<close>

section \<open>Geometry and themes\<close>

definition chart_w :: int where "chart_w = 760"
definition chart_h :: int where "chart_h = 400"
definition ml :: int where "ml = 66"
definition mr :: int where "mr = 132"
definition mt :: int where "mt = 52"
definition mb :: int where "mb = 66"
definition pw :: int where "pw = chart_w - ml - mr"
definition ph :: int where "ph = chart_h - mt - mb"

record theme =
  surface :: string
  ink :: string
  ink2 :: string
  grid :: string
  rule_ink :: string
  hues :: "string list"

definition light_theme :: theme where
  "light_theme =
     \<lparr>surface = ''#fcfcfb'', ink = ''#0b0b0b'', ink2 = ''#52514e'', grid = ''#e5e4e0'', rule_ink = ''#8a8880'',
      hues = [''#2a78d6'', ''#eb6834'', ''#1baf7a'', ''#eda100'', ''#e87ba4'', ''#008300'', ''#4a3aa7'']\<rparr>"

definition dark_theme :: theme where
  "dark_theme =
     \<lparr>surface = ''#1a1a19'', ink = ''#ffffff'', ink2 = ''#c3c2b7'', grid = ''#33322e'', rule_ink = ''#7a786f'',
      hues = [''#3987e5'', ''#d95926'', ''#199e70'', ''#c98500'', ''#d55181'', ''#008300'', ''#9085e9'']\<rparr>"

definition themes :: "(string \<times> theme) list" where
  "themes = [(''light'', light_theme), (''dark'', dark_theme)]"

definition slot :: "(string \<times> nat) list" where
  "slot = [(''Rostam'', 0), (''Memcached'', 1), (''Dragonfly'', 2), (''Valkey'', 3), (''Redis'', 4), (''KeyDB'', 5),
           (''Aerospike'', 6)]"

text \<open>The colour of the series at position \<open>i\<close>: its entity's slot, or the position for other names.\<close>

definition series_colour :: "theme \<Rightarrow> nat \<Rightarrow> string \<Rightarrow> string result" where
  "series_colour t i name =
     (case map_of slot name of
        Some k \<Rightarrow> row_at (hues t) k
      | None \<Rightarrow> row_at (hues t) i)"

section \<open>Head and vertical axis\<close>

abbreviation f1 :: "rat \<Rightarrow> string" where
  "f1 \<equiv> fmt_fixed 1"

definition nl :: string where
  "nl = [CHR 0x0A]"

definition font :: string where
  "font = ''system-ui,-apple-system,Segoe UI,Roboto,sans-serif''"

definition head :: "theme \<Rightarrow> string \<Rightarrow> string \<Rightarrow> string" where
  \<open>head t title sub =
     ''<svg xmlns="http://www.w3.org/2000/svg" width="'' @ str_int chart_w @ ''" height="'' @ str_int chart_h @
     ''" viewBox="0 0 '' @ str_int chart_w @ '' '' @ str_int chart_h @ ''" role="img" aria-label="'' @ esc title @ ''">'' @ nl @
     ''<rect width="'' @ str_int chart_w @ ''" height="'' @ str_int chart_h @ ''" fill="'' @ surface t @ ''"/>'' @ nl @
     ''<style>'' @ nl @
     '' .ttl{font:600 15px '' @ font @ '';fill:'' @ ink t @ ''}'' @ nl @
     '' .sub{font:400 12px '' @ font @ '';fill:'' @ ink2 t @ ''}'' @ nl @
     '' .ax {font:400 11px '' @ font @ '';fill:'' @ ink2 t @ ''}'' @ nl @
     '' .lb {font:600 11px '' @ font @ '';fill:'' @ ink t @ ''}'' @ nl @
     '' .an {font:400 10.5px '' @ font @ '';fill:'' @ ink2 t @ ''}'' @ nl @
     ''</style>'' @ nl @
     ''<text class="ttl" x="'' @ str_int ml @ ''" y="26">'' @ esc title @ ''</text>'' @ nl @
     ''<text class="sub" x="'' @ str_int ml @ ''" y="43">'' @ esc sub @ ''</text>'' @ nl\<close>

text \<open>\<open>MT + PH - (v / ymax) * PH\<close>\<close>

definition ypos :: "rat \<Rightarrow> rat \<Rightarrow> rat result" where
  "ypos ymax v = rbind (fdiv v ymax) (\<lambda>q. Inr (fsub (of_int (mt + ph)) (fmul q (of_int ph))))"

definition tick_svg :: "theme \<Rightarrow> rat \<Rightarrow> rat \<Rightarrow> string" where
  \<open>tick_svg t y v =
     ''<line x1="'' @ str_int ml @ ''" y1="'' @ f1 y @ ''" x2="'' @ str_int (ml + pw) @ ''" y2="'' @ f1 y @
     ''" stroke="'' @ grid t @ ''" stroke-width="1"/>'' @
     ''<text class="ax" x="'' @ str_int (ml - 9) @ ''" y="'' @ f1 (fadd y 4) @ ''" text-anchor="end">'' @ fmt_g v @ ''</text>''\<close>

definition yaxis :: "theme \<Rightarrow> rat \<Rightarrow> rat list \<Rightarrow> string \<Rightarrow> string result" where
  \<open>yaxis t ymax ticks unit_label =
     rbind (mapr (\<lambda>v. rbind (ypos ymax v) (\<lambda>y. Inr (tick_svg t y v))) ticks) (\<lambda>os.
       Inr (concat os @ ''<text class="ax" x="'' @ str_int (ml - 9) @ ''" y="'' @ str_int (mt - 10) @
            ''" text-anchor="end">'' @ unit_label @ ''</text>''))\<close>

section \<open>Label placement\<close>

definition label_order :: "rat list \<Rightarrow> nat list" where
  "label_order ys = sort_key (\<lambda>i. ys ! i) [0..<length ys]"

text \<open>The top-down pass over consecutive positions of the order, and the bottom-up pass over its reverse.\<close>

fun push_down :: "rat \<Rightarrow> nat list \<Rightarrow> rat list \<Rightarrow> rat list" where
  "push_down gap (i # j # js) out =
     push_down gap (j # js) (if fsub (out ! j) (out ! i) < gap then out[j := fadd (out ! i) gap] else out)"
| "push_down gap _ out = out"

fun pull_up :: "rat \<Rightarrow> nat list \<Rightarrow> rat list \<Rightarrow> rat list" where
  "pull_up gap (j # i # is) out =
     pull_up gap (i # is) (if fsub (out ! j) (out ! i) < gap then out[i := fsub (out ! j) gap] else out)"
| "pull_up gap _ out = out"

definition label_shift :: "rat \<Rightarrow> rat \<Rightarrow> rat list \<Rightarrow> rat" where
  "label_shift lo hi out =
     fsub (max 0 (fsub lo (Min (set out)))) (max 0 (fsub (Max (set out)) hi))"

definition decollide :: "rat list \<Rightarrow> rat \<Rightarrow> rat \<Rightarrow> rat \<Rightarrow> rat list result" where
  "decollide ys gap lo hi =
     (let ord = label_order ys;
          out = pull_up gap (rev ord) (push_down gap ord ys)
      in if out = [] then Inl (ValueError ''min() arg is an empty sequence'')
         else Inr (map (\<lambda>y. fadd y (label_shift lo hi out)) out))"

section \<open>Line charts\<close>

definition xpositions :: "nat \<Rightarrow> rat list result" where
  "xpositions n =
     mapr (\<lambda>i. rbind (fdiv (of_int (pw * int i)) (of_int (int n - 1))) (\<lambda>x. Inr (fadd (of_int ml) x))) [0..<n]"

definition rule_svg :: "theme \<Rightarrow> rat \<Rightarrow> string \<Rightarrow> string" where
  \<open>rule_svg t y txt =
     ''<line x1="'' @ str_int ml @ ''" y1="'' @ f1 y @ ''" x2="'' @ str_int (ml + pw) @ ''" y2="'' @ f1 y @
     ''" stroke="'' @ rule_ink t @ ''" stroke-width="1.5" stroke-dasharray="5 4"/>'' @
     ''<text class="an" x="'' @ str_int (ml + 6) @ ''" y="'' @ f1 (fsub y 7) @ ''">'' @ esc txt @ ''</text>''\<close>

definition xlabel_svg :: "int \<Rightarrow> string \<Rightarrow> string" where
  \<open>xlabel_svg dy xlabel =
     ''<text class="ax" x="'' @ f1 (fadd (of_int ml) (rnd (of_int pw / 2))) @ ''" y="'' @ str_int (mt + ph + dy) @
     ''" text-anchor="middle">'' @ esc xlabel @ ''</text>''\<close>

definition xtick_svg :: "rat \<times> string \<Rightarrow> string" where
  \<open>xtick_svg xl =
     ''<text class="ax" x="'' @ f1 (fst xl) @ ''" y="'' @ str_int (mt + ph + 20) @ ''" text-anchor="middle">'' @ snd xl @ ''</text>''\<close>

definition marker_svg :: "theme \<Rightarrow> string \<Rightarrow> rat \<times> rat \<Rightarrow> string" where
  \<open>marker_svg t c p =
     ''<circle cx="'' @ f1 (fst p) @ ''" cy="'' @ f1 (snd p) @ ''" r="4.5" fill="'' @ c @ ''" stroke="'' @ surface t @
     ''" stroke-width="2"/>''\<close>

definition series_svg :: "theme \<Rightarrow> rat \<Rightarrow> rat list \<Rightarrow> rat list \<Rightarrow> string \<Rightarrow> string result" where
  \<open>series_svg t ymax xpos vals c =
     rbind (mapr (\<lambda>(x, v). rbind (ypos ymax v) (\<lambda>y. Inr (x, y))) (zip xpos vals)) (\<lambda>pts.
       Inr (''<polyline points="'' @ join '' '' (map (\<lambda>p. f1 (fst p) @ '','' @ f1 (snd p)) pts) @
            ''" fill="none" stroke="'' @ c @ ''" stroke-width="2" stroke-linejoin="round" stroke-linecap="round"/>'' @
            concat (map (marker_svg t c) pts)))\<close>

text \<open>An end label, with a leader line when it was moved by more than 1.5.\<close>

definition label_svg :: "string \<times> string \<times> rat \<times> rat \<Rightarrow> string" where
  \<open>label_svg l =
     (case l of
        (name, c, ey, ly) \<Rightarrow>
          (if \<bar>fsub ly ey\<bar> > 3 / 2 then
             ''<path d="M '' @ f1 (of_int (ml + pw + 3)) @ '' '' @ f1 ey @ '' L '' @ f1 (of_int (ml + pw + 9)) @ '' '' @ f1 ly @
             ''" stroke="'' @ c @ ''" stroke-width="1" fill="none" opacity="0.65"/>''
           else []) @
          ''<circle cx="'' @ str_int (ml + pw + 13) @ ''" cy="'' @ f1 ly @ ''" r="4.5" fill="'' @ c @ ''"/>'' @
          ''<text class="lb" x="'' @ str_int (ml + pw + 23) @ ''" y="'' @ f1 (fadd ly 4) @ ''">'' @ esc name @ ''</text>'')\<close>

definition theme_of :: "string \<Rightarrow> theme result" where
  "theme_of name = dict_item themes name"

definition series_end :: "rat \<Rightarrow> rat list \<Rightarrow> rat result" where
  "series_end ymax vals = (if vals = [] then Inl (IndexError ''list index out of range'') else ypos ymax (last vals))"

definition line_chart ::
  "string \<Rightarrow> string \<Rightarrow> string \<Rightarrow> string list \<Rightarrow> (string \<times> rat list) list \<Rightarrow> rat \<Rightarrow> rat list \<Rightarrow> string \<Rightarrow> (rat \<times> string) option
    \<Rightarrow> string result" where
  "line_chart th title sub xs series ymax ticks xlabel rule =
     rbind (theme_of th) (\<lambda>t.
     rbind (yaxis t ymax ticks ''k ops/s'') (\<lambda>axis.
     rbind (xpositions (length xs)) (\<lambda>xpos.
     rbind (case rule of
              None \<Rightarrow> Inr []
            | Some (v, txt) \<Rightarrow> rbind (ypos ymax v) (\<lambda>y. Inr (rule_svg t y txt))) (\<lambda>rule_text.
     rbind (mapr (\<lambda>(i, s). series_colour t i (fst s)) (enumerate 0 series)) (\<lambda>colours.
     rbind (mapr (\<lambda>s. series_end ymax (snd s)) series) (\<lambda>ends.
     rbind (decollide ends 15 (of_int (mt - 6)) (of_int (mt + ph + 6))) (\<lambda>lab_y.
     rbind (mapr (\<lambda>(s, c). series_svg t ymax xpos (snd s) c) (zip series colours)) (\<lambda>lines.
       Inr (head t title sub @ axis @ concat (map xtick_svg (zip xpos xs)) @ xlabel_svg 40 xlabel @ rule_text @
            concat lines @ concat (map label_svg (zip (map fst series) (zip colours (zip ends lab_y)))) @ ''</svg>'')))))))))"

section \<open>Bar charts\<close>

definition bar_width :: "rat \<Rightarrow> nat \<Rightarrow> rat result" where
  "bar_width gw ns = rbind (fdiv (fsub gw 22) (of_nat ns)) (\<lambda>b. Inr (min 46 b))"

definition group_x :: "rat \<Rightarrow> nat \<Rightarrow> rat" where
  "group_x gw gi = fadd (fadd (of_int ml) (fmul gw (of_nat gi))) (rnd (gw / 2))"

definition bar_x :: "rat \<Rightarrow> rat \<Rightarrow> nat \<Rightarrow> nat \<Rightarrow> rat" where
  "bar_x gx bw ns si = fadd (fadd (fsub gx (rnd (fmul (of_nat ns) bw / 2))) (fmul (of_nat si) bw)) 1"

definition bar_svg :: "theme \<Rightarrow> rat \<Rightarrow> rat \<Rightarrow> nat \<Rightarrow> rat \<Rightarrow> nat \<Rightarrow> nat \<times> string \<times> rat list \<Rightarrow> string result" where
  \<open>bar_svg t gx bw ns ymax gi s =
     (case s of
        (si, name, vals) \<Rightarrow>
          rbind (series_colour t si name) (\<lambda>c.
          rbind (row_at vals gi) (\<lambda>v.
          rbind (fdiv v ymax) (\<lambda>q.
            (let bh = fmul q (of_int ph);
                 x = bar_x gx bw ns si;
                 y = fsub (of_int (mt + ph)) bh
             in Inr (''<rect x="'' @ f1 x @ ''" y="'' @ f1 y @ ''" width="'' @ f1 (fsub bw 2) @ ''" height="'' @ f1 bh @
                     ''" fill="'' @ c @ ''" rx="4" ry="4"/>'' @
                     ''<text class="lb" x="'' @ f1 (fadd x (rnd (fsub bw 2 / 2))) @ ''" y="'' @ f1 (fsub y 6) @
                     ''" text-anchor="middle">'' @ fmt_g v @ ''</text>''))))))\<close>

definition group_svg :: "theme \<Rightarrow> rat \<Rightarrow> rat \<Rightarrow> rat \<Rightarrow> (string \<times> rat list) list \<Rightarrow> nat \<times> string \<Rightarrow> string result" where
  \<open>group_svg t gw bw ymax series g =
     (let gx = group_x gw (fst g)
      in rbind (mapr (bar_svg t gx bw (length series) ymax (fst g)) (enumerate 0 series)) (\<lambda>bars.
           Inr (''<text class="ax" x="'' @ f1 gx @ ''" y="'' @ str_int (mt + ph + 20) @ ''" text-anchor="middle">'' @ esc (snd g) @
                ''</text>'' @ concat bars)))\<close>

definition legend_svg :: "theme \<Rightarrow> nat \<times> string \<times> rat list \<Rightarrow> string result" where
  \<open>legend_svg t s =
     (case s of
        (si, name, _) \<Rightarrow>
          rbind (series_colour t si name) (\<lambda>c.
            (let lx = ml + pw + 13; y = mt + 12 + int si * 22
             in Inr (''<rect x="'' @ str_int lx @ ''" y="'' @ str_int (y - 8) @ ''" width="10" height="10" fill="'' @ c @ ''" rx="2"/>'' @
                     ''<text class="lb" x="'' @ str_int (lx + 16) @ ''" y="'' @ str_int (y + 1) @ ''">'' @ esc name @ ''</text>''))))\<close>

definition bar_chart ::
  "string \<Rightarrow> string \<Rightarrow> string \<Rightarrow> string list \<Rightarrow> (string \<times> rat list) list \<Rightarrow> rat \<Rightarrow> rat list \<Rightarrow> string \<Rightarrow> string option
    \<Rightarrow> string result" where
  \<open>bar_chart th title sub groups series ymax ticks xlabel note =
     rbind (theme_of th) (\<lambda>t.
     rbind (yaxis t ymax ticks ''k ops/s'') (\<lambda>axis.
     rbind (fdiv (of_int pw) (of_nat (length groups))) (\<lambda>gw.
     rbind (bar_width gw (length series)) (\<lambda>bw.
     rbind (mapr (group_svg t gw bw ymax series) (enumerate 0 groups)) (\<lambda>bars.
     rbind (mapr (legend_svg t) (if 1 < length series then enumerate 0 series else [])) (\<lambda>legend.
       Inr (head t title sub @ axis @ concat bars @ xlabel_svg 38 xlabel @ concat legend @
            (case note of
               None \<Rightarrow> []
             | Some n \<Rightarrow> if n = [] then []
                         else ''<text class="an" x="'' @ str_int ml @ ''" y="'' @ str_int (chart_h - 10) @ ''">'' @ esc n @ ''</text>'') @
            ''</svg>'')))))))\<close>

section \<open>Output\<close>

text \<open>
  The directories to write to: the script's own and those of the command line, which must exist. One
  chart is written twice, once per theme, to every directory; the world is the list of files
  written, a directory, a name and a text each.
\<close>

type_synonym files = "(string \<times> string \<times> string) list"

fun targets :: "(string \<Rightarrow> bool) \<Rightarrow> string list \<Rightarrow> string list \<Rightarrow> string list result" where
  "targets is_dir acc [] = Inr acc"
| "targets is_dir acc (a # args) =
     (if is_dir a then targets is_dir (acc @ [a]) args
      else Inl (SystemExit (''not a directory: '' @ a)))"

definition emit_theme :: "string list \<Rightarrow> string \<Rightarrow> (string \<Rightarrow> string result) \<Rightarrow> files \<Rightarrow> string \<Rightarrow> files \<times> unit result" where
  "emit_theme dirs stem fn w th =
     (case fn th of
        Inl e \<Rightarrow> (w, Inl e)
      | Inr body \<Rightarrow> (w @ map (\<lambda>d. (d, stem @ ''-'' @ th @ ''.svg'', body)) dirs, Inr ()))"

definition emit :: "string list \<Rightarrow> string \<Rightarrow> (string \<Rightarrow> string result) \<Rightarrow> files \<Rightarrow> files \<times> unit result" where
  "emit dirs stem fn w =
     (case emit_theme dirs stem fn w ''light'' of
        (w1, Inl e) \<Rightarrow> (w1, Inl e)
      | (w1, Inr _) \<Rightarrow> emit_theme dirs stem fn w1 ''dark'')"

text \<open>\<open>pick\<close>: the rows of a table whose entity is named.\<close>

definition pick :: "(string \<times> rat list) list \<Rightarrow> string list \<Rightarrow> (string \<times> rat list) list" where
  "pick rows names = filter (\<lambda>r. fst r \<in> set names) rows"

definition fast_engines :: "string list" where
  "fast_engines = [''Rostam'', ''Memcached'', ''Dragonfly'', ''Aerospike'']"

definition family_engines :: "string list" where
  "family_engines = [''Rostam'', ''Valkey'', ''Redis'', ''KeyDB'']"

definition local_get :: "(string \<times> rat list) list" where
  "local_get =
     [(''Rostam'', map flit [3602 / 10, 7261 / 10, 7324 / 10, 7051 / 10]),
      (''Memcached'', map flit [3678 / 10, 6829 / 10, 6817 / 10, 6671 / 10]),
      (''Dragonfly'', map flit [2341 / 10, 5320 / 10, 5516 / 10, 5187 / 10]),
      (''Aerospike'', map flit [3184 / 10, 5106 / 10, 5169 / 10, 5136 / 10]),
      (''Valkey'', map flit [2103 / 10, 2391 / 10, 2279 / 10, 2213 / 10]),
      (''Redis'', map flit [2132 / 10, 2283 / 10, 2196 / 10, 2085 / 10]),
      (''KeyDB'', map flit [1925 / 10, 2063 / 10, 2088 / 10, 1963 / 10])]"

definition local_put :: "(string \<times> rat list) list" where
  "local_put =
     [(''Rostam'', map flit [3570 / 10, 6880 / 10, 6992 / 10, 6874 / 10]),
      (''Memcached'', map flit [3635 / 10, 6584 / 10, 6715 / 10, 6645 / 10]),
      (''Dragonfly'', map flit [2236 / 10, 4870 / 10, 5151 / 10, 5065 / 10]),
      (''Aerospike'', map flit [3014 / 10, 4991 / 10, 4856 / 10, 4761 / 10]),
      (''Valkey'', map flit [2147 / 10, 2298 / 10, 2241 / 10, 2143 / 10]),
      (''KeyDB'', map flit [1993 / 10, 2106 / 10, 2137 / 10, 2083 / 10]),
      (''Redis'', map flit [1676 / 10, 1975 / 10, 2046 / 10, 1953 / 10])]"

end
