(* ===== verification/Kv_Facts.thy ===== *)
theory Kv_Facts
  imports Kv_Charts
begin

text \<open>
  Lemmas on \<open>netkv/charts/mkcharts.py\<close>: after the two passes of the label placement consecutive labels are
  at least the gap apart, up to the rounding of the float operations, hence any two labels, in the
  order of their points, and labels that fit between the limits end up there; values of the axis range land
  inside the plot area and keep their order; entities have their own colours.
\<close>

section \<open>Label placement\<close>

lemma fadd_close: "\<bar>x + y\<bar> \<le> 2 ^ 20 \<Longrightarrow> \<bar>fadd x y - (x + y)\<bar> \<le> 1 / 1000"
  unfolding fadd_def by (rule rnd_close)

lemma fsub_close: "\<bar>x - y\<bar> \<le> 2 ^ 20 \<Longrightarrow> \<bar>fsub x y - (x - y)\<bar> \<le> 1 / 1000"
  unfolding fsub_def by (rule rnd_close)

lemma update_bound: "\<bar>v\<bar> \<le> C \<Longrightarrow> \<bar>out ! y\<bar> \<le> C \<Longrightarrow> y < length out \<Longrightarrow> \<bar>(if b then out[k := v] else out) ! y\<bar> \<le> (C :: rat)"
  by (cases "y = k") simp_all

lemma length_push_down [simp]: "length (push_down gap ord out) = length out"
  by (induction gap ord out rule: push_down.induct) simp_all

lemma length_pull_up [simp]: "length (pull_up gap ord out) = length out"
  by (induction gap ord out rule: pull_up.induct) simp_all

lemma push_down_bound:
  assumes "\<And>x. x < length out \<Longrightarrow> \<bar>out ! x\<bar> \<le> B" "set ord \<subseteq> {..<length out}" "0 \<le> B" "B + 16 * of_nat (length ord) \<le> 2 ^ 19"
  shows "x < length out \<Longrightarrow> \<bar>push_down 15 ord out ! x\<bar> \<le> B + 16 * of_nat (length ord)"
  using assms
proof (induction "15 :: rat" ord out arbitrary: B rule: push_down.induct)
  case (1 i j js out)
  let ?o = "if fsub (out ! j) (out ! i) < 15 then out[j := fadd (out ! i) 15] else out"
  have b: "\<bar>out ! i\<bar> \<le> B" "B \<le> 2 ^ 19 - 32"
    using "1.prems"(2,3,5) by simp_all
  then have "\<bar>out ! i + 15\<bar> \<le> 2 ^ 20"
    by simp
  with b(1) have "\<bar>fadd (out ! i) 15\<bar> \<le> B + 16"
    using fadd_close [of "out ! i" 15] by linarith
  moreover have "\<bar>out ! y\<bar> \<le> B + 16" if "y < length out" for y
    using "1.prems"(2) [OF that] by simp
  ultimately have o: "\<bar>?o ! y\<bar> \<le> B + 16" if "y < length ?o" for y
    using that by (intro update_bound) (simp_all split: if_splits)
  have "\<bar>push_down 15 (j # js) ?o ! x\<bar> \<le> (B + 16) + 16 * of_nat (length (j # js))"
    by (rule "1.hyps") (use o "1.prems" in auto)
  then show ?case by simp
qed (simp, force intro: order_trans)

lemma pull_up_gaps:
  assumes "distinct (j # is)" "set (j # is) \<subseteq> {..<length out}"
    and "\<And>x. x < length out \<Longrightarrow> \<bar>out ! x\<bar> \<le> B" "0 \<le> B" "B + 16 * of_nat (length is) \<le> 2 ^ 19"
  shows "successively (\<lambda>a b. 15 - 1 / 1000 \<le> pull_up 15 (j # is) out ! a - pull_up 15 (j # is) out ! b) (j # is) \<and>
    (\<forall>x. x \<notin> set is \<longrightarrow> pull_up 15 (j # is) out ! x = out ! x) \<and>
    (\<forall>x < length out. \<bar>pull_up 15 (j # is) out ! x\<bar> \<le> B + 16 * of_nat (length is))"
  using assms
proof (induction "is" arbitrary: j out B)
  case Nil
  then show ?case by simp
next
  case (Cons i "is")
  let ?o = "if fsub (out ! j) (out ! i) < 15 then out[i := fsub (out ! j) 15] else out"
  let ?r = "pull_up 15 (i # is) ?o"
  have b: "\<bar>out ! j\<bar> \<le> B" "\<bar>out ! i\<bar> \<le> B" "B \<le> 2 ^ 19 - 16"
    using Cons.prems(2-5) by auto
  have c: "\<bar>fsub (out ! j) 15 - (out ! j - 15)\<bar> \<le> 1 / 1000" "\<bar>fsub (out ! j) (out ! i) - (out ! j - out ! i)\<bar> \<le> 1 / 1000"
  proof -
    have "\<bar>out ! j - 15\<bar> \<le> 2 ^ 20" "\<bar>out ! j - out ! i\<bar> \<le> 2 ^ 20"
      using b by simp_all
    then show "\<bar>fsub (out ! j) 15 - (out ! j - 15)\<bar> \<le> 1 / 1000" "\<bar>fsub (out ! j) (out ! i) - (out ! j - out ! i)\<bar> \<le> 1 / 1000"
      using fsub_close by blast+
  qed
  have "\<bar>fsub (out ! j) 15\<bar> \<le> B + 16"
    using b(1) c(1) by linarith
  moreover have "\<bar>out ! x\<bar> \<le> B + 16" if "x < length out" for x
    using Cons.prems(3) [OF that] by simp
  ultimately have o: "\<bar>?o ! x\<bar> \<le> B + 16" if "x < length ?o" for x
    using that by (intro update_bound) (simp_all split: if_splits)
  have gap: "15 - 1 / 1000 \<le> out ! j - ?o ! i"
  proof (cases "fsub (out ! j) (out ! i) < 15")
    case True
    then have "?o ! i = fsub (out ! j) 15"
      using Cons.prems(2) by simp
    then show ?thesis using c(1) by linarith
  next
    case False
    then have "?o ! i = out ! i" by simp
    then show ?thesis using c(2) False by linarith
  qed
  have ih: "successively (\<lambda>a b. 15 - 1 / 1000 \<le> ?r ! a - ?r ! b) (i # is) \<and> (\<forall>x. x \<notin> set is \<longrightarrow> ?r ! x = ?o ! x) \<and>
      (\<forall>x < length ?o. \<bar>?r ! x\<bar> \<le> (B + 16) + 16 * of_nat (length is))"
    by (rule Cons.IH) (use Cons.prems o in auto)
  have j: "?r ! j = out ! j" "?r ! i = ?o ! i"
    using ih Cons.prems(1) by auto
  have "\<forall>x. x \<notin> set (i # is) \<longrightarrow> ?r ! x = out ! x"
    using ih by auto
  with ih j gap show ?case
    by (simp add: algebra_simps)
qed

lemma label_order_facts:
  "sorted (map ((!) ys) (label_order ys))" "distinct (label_order ys)"
  "set (label_order ys) = {..<length ys}" "length (label_order ys) = length ys"
  by (simp_all add: label_order_def atLeast_upt)

text \<open>The positions after both passes, and what the common shift makes of them.\<close>

lemma placed_labels:
  assumes "ys \<noteq> []" "\<And>x. x < length ys \<Longrightarrow> \<bar>ys ! x\<bar> \<le> 10000" "length ys \<le> 1000"
  defines "out \<equiv> pull_up 15 (rev (label_order ys)) (push_down 15 (label_order ys) ys)"
  shows "successively (\<lambda>a b. 15 - 1 / 1000 \<le> out ! b - out ! a) (label_order ys)"
    "\<And>x. x < length ys \<Longrightarrow> \<bar>out ! x\<bar> \<le> 42000"
proof -
  let ?ord = "label_order ys"
  let ?d = "push_down 15 ?ord ys"
  have n: "(of_nat (length ys) :: rat) \<le> 1000"
    using assms(3) by simp
  have d: "\<bar>?d ! x\<bar> \<le> 26000" if "x < length ys" for x
    using push_down_bound [of ys 10000 ?ord x] assms(2) that n label_order_facts(3,4) [of ys] by simp
  obtain j "is" where r: "rev ?ord = j # is"
    using assms(1) label_order_facts(4) [of ys] by (cases "rev ?ord") auto
  have l: "length is \<le> 1000"
    using r label_order_facts(4) [of ys] assms(3) by (metis length_Cons length_rev Suc_leD)
  have "distinct (j # is)" "set (j # is) \<subseteq> {..<length ?d}"
    using r label_order_facts(2,3) [of ys] by (metis distinct_rev, metis length_push_down order_refl set_rev)
  moreover have "(of_nat (length is) :: rat) \<le> 1000"
    using l by simp
  ultimately have p: "successively (\<lambda>a b. 15 - 1 / 1000 \<le> out ! a - out ! b) (j # is) \<and>
      (\<forall>x < length ?d. \<bar>out ! x\<bar> \<le> 26000 + 16 * of_nat (length is))"
    using pull_up_gaps [of j "is" ?d 26000] d unfolding out_def r by simp
  then show "successively (\<lambda>a b. 15 - 1 / 1000 \<le> out ! b - out ! a) ?ord"
    using successively_rev [of "\<lambda>a b. 15 - 1 / 1000 \<le> out ! a - out ! b" ?ord] unfolding r by blast
  show "\<bar>out ! x\<bar> \<le> 42000" if "x < length ys" for x
    using p that \<open>(of_nat (length is) :: rat) \<le> 1000\<close> by fastforce
qed

lemma label_shift_bound:
  assumes "out \<noteq> []" "\<And>x. x < length out \<Longrightarrow> \<bar>out ! x\<bar> \<le> 42000" "\<bar>lo\<bar> \<le> 1000" "\<bar>hi\<bar> \<le> 1000"
  shows "\<bar>label_shift lo hi out\<bar> \<le> 90000"
proof -
  have m: "\<bar>y\<bar> \<le> 42000" if "y \<in> set out" for y
    using assms(2) that by (auto simp: in_set_conv_nth)
  have "Min (set out) \<in> set out" "Max (set out) \<in> set out"
    using assms(1) by simp_all
  then have e: "\<bar>Min (set out)\<bar> \<le> 42000" "\<bar>Max (set out)\<bar> \<le> 42000"
    using m by blast+
  then have "\<bar>lo - Min (set out)\<bar> \<le> 43000" "\<bar>Max (set out) - hi\<bar> \<le> 43000"
    using assms(3,4) by linarith+
  moreover from this have "\<bar>fsub lo (Min (set out)) - (lo - Min (set out))\<bar> \<le> 1 / 1000"
    "\<bar>fsub (Max (set out)) hi - (Max (set out) - hi)\<bar> \<le> 1 / 1000"
    using fsub_close [of lo "Min (set out)"] fsub_close [of "Max (set out)" hi] by simp_all
  ultimately have f: "\<bar>fsub lo (Min (set out))\<bar> \<le> 43001" "\<bar>fsub (Max (set out)) hi\<bar> \<le> 43001"
    by linarith+
  let ?a = "max 0 (fsub lo (Min (set out)))" and ?b = "max 0 (fsub (Max (set out)) hi)"
  have ab: "\<bar>?a - ?b\<bar> \<le> 86002"
    using f by linarith
  then have "\<bar>fsub ?a ?b - (?a - ?b)\<bar> \<le> 1 / 1000"
    using fsub_close [of ?a ?b] by simp
  with ab show ?thesis
    unfolding label_shift_def by linarith
qed

lemma decollide_gaps:
  assumes "ys \<noteq> []" "list_all (\<lambda>y. \<bar>y\<bar> \<le> 10000) ys" "length ys \<le> 1000" "\<bar>lo\<bar> \<le> 1000" "\<bar>hi\<bar> \<le> 1000"
  shows "\<exists>res. decollide ys 15 lo hi = Inr res \<and> length res = length ys \<and>
    (\<forall>k. Suc k < length ys \<longrightarrow> 1499 / 100 \<le> res ! (label_order ys ! Suc k) - res ! (label_order ys ! k))"
proof -
  let ?ord = "label_order ys"
  define out where "out = pull_up 15 (rev ?ord) (push_down 15 ?ord ys)"
  have y: "\<bar>ys ! x\<bar> \<le> 10000" if "x < length ys" for x
    using assms(2) that by (simp add: list_all_length)
  have p: "successively (\<lambda>a b. 15 - 1 / 1000 \<le> out ! b - out ! a) ?ord" "\<And>x. x < length ys \<Longrightarrow> \<bar>out ! x\<bar> \<le> 42000"
    unfolding out_def by (rule placed_labels; use assms(1,3) y in simp)+
  have l1: "length out = length ys"
    by (simp add: out_def)
  then have "out \<noteq> []"
    using assms(1) by auto
  note l = l1 this
  define s where "s = label_shift lo hi out"
  have s: "\<bar>s\<bar> \<le> 90000"
    using label_shift_bound [OF l(2) _ assms(4,5)] p(2) l(1) unfolding s_def by simp
  have c: "\<bar>fadd (out ! x) s - (out ! x + s)\<bar> \<le> 1 / 1000" if "x < length ys" for x
  proof -
    have "\<bar>out ! x + s\<bar> \<le> 132000"
      using p(2) [OF that] s by linarith
    then show ?thesis
      by (intro fadd_close) simp
  qed
  have "1499 / 100 \<le> map (\<lambda>y. fadd y s) out ! (?ord ! Suc k) - map (\<lambda>y. fadd y s) out ! (?ord ! k)" if "Suc k < length ys" for k
  proof -
    have i: "?ord ! k < length ys" "?ord ! Suc k < length ys"
      using label_order_facts(3,4) [of ys] that by (metis Suc_lessD lessThan_iff nth_mem)+
    have "15 - 1 / 1000 \<le> out ! (?ord ! Suc k) - out ! (?ord ! k)"
      using successively_nth [OF p(1), of k] that label_order_facts(4) [of ys] by simp
    then have "1499 / 100 \<le> fadd (out ! (?ord ! Suc k)) s - fadd (out ! (?ord ! k)) s"
      using c [OF i(1)] c [OF i(2)] by linarith
    then show ?thesis
      using i l(1) by simp
  qed
  then show ?thesis
    using l by (simp add: decollide_def Let_def out_def s_def)
qed

text \<open>Gaps between neighbours add up, so any two labels are apart and in the order of their points.\<close>

lemma chain_gap:
  fixes f :: "nat \<Rightarrow> rat"
  assumes "\<And>k. Suc k < n \<Longrightarrow> g \<le> f (Suc k) - f k" "0 \<le> g"
  shows "a < b \<Longrightarrow> b < n \<Longrightarrow> g \<le> f b - f a"
proof (induction b)
  case 0
  then show ?case by simp
next
  case (Suc b)
  then show ?case
    using assms(1) [of b] assms(2) by (cases "a = b") fastforce+
qed

lemma order_position: "i < length ys \<Longrightarrow> \<exists>a < length ys. label_order ys ! a = i"
  using label_order_facts(3,4) [of ys] by (metis in_set_conv_nth lessThan_iff)

lemma order_sorted: "a < b \<Longrightarrow> b < length ys \<Longrightarrow> ys ! (label_order ys ! a) \<le> ys ! (label_order ys ! b)"
  using sorted_nth_mono [OF label_order_facts(1) [of ys], of a b] label_order_facts(4) [of ys] by simp

lemma decollide_apart:
  assumes "ys \<noteq> []" "list_all (\<lambda>y. \<bar>y\<bar> \<le> 10000) ys" "length ys \<le> 1000" "\<bar>lo\<bar> \<le> 1000" "\<bar>hi\<bar> \<le> 1000"
  shows "\<exists>res. decollide ys 15 lo hi = Inr res \<and> length res = length ys \<and>
    (\<forall>i < length ys. \<forall>j < length ys. ys ! i < ys ! j \<longrightarrow> 1499 / 100 \<le> res ! j - res ! i) \<and>
    (\<forall>i < length ys. \<forall>j < length ys. i \<noteq> j \<longrightarrow> 1499 / 100 \<le> \<bar>res ! j - res ! i\<bar>)"
proof -
  obtain res where res: "decollide ys 15 lo hi = Inr res" "length res = length ys"
      "\<And>k. Suc k < length ys \<Longrightarrow> 1499 / 100 \<le> res ! (label_order ys ! Suc k) - res ! (label_order ys ! k)"
    using decollide_gaps [OF assms] by blast
  note gap = chain_gap [of "length ys" "1499 / 100" "\<lambda>k. res ! (label_order ys ! k)", OF res(3), simplified]
  have "(ys ! i < ys ! j \<longrightarrow> 1499 / 100 \<le> res ! j - res ! i) \<and> (i \<noteq> j \<longrightarrow> 1499 / 100 \<le> \<bar>res ! j - res ! i\<bar>)"
    if ij: "i < length ys" "j < length ys" for i j
  proof -
    obtain a b where ab: "a < length ys" "b < length ys" "label_order ys ! a = i" "label_order ys ! b = j"
      using order_position [OF ij(1)] order_position [OF ij(2)] by blast
    consider "a = b" | "a < b" | "b < a"
      by linarith
    then show ?thesis
    proof cases
      case 1
      with ab show ?thesis by auto
    next
      case 2
      then show ?thesis using gap [OF 2 ab(2)] ab(3,4) by auto
    next
      case 3
      then show ?thesis using gap [OF 3 ab(1)] order_sorted [OF 3 ab(1)] ab(3,4) by auto
    qed
  qed
  with res(1,2) show ?thesis by blast
qed

text \<open>If the labels fit between the limits, the common shift puts all of them there.\<close>

lemma shift_inside:
  assumes "out \<noteq> []" "\<And>y. y \<in> set out \<Longrightarrow> \<bar>y\<bar> \<le> 42000" "\<bar>lo\<bar> \<le> 1000" "\<bar>hi\<bar> \<le> 1000"
    and fit: "Max (set out) - Min (set out) \<le> hi - lo" and y: "y \<in> set out"
  shows "lo - 1 / 200 \<le> y + label_shift lo hi out \<and> y + label_shift lo hi out \<le> hi + 1 / 200"
proof -
  let ?mn = "Min (set out)" and ?mx = "Max (set out)"
  have b: "?mn \<le> y" "y \<le> ?mx" "?mn \<in> set out" "?mx \<in> set out"
    using y assms(1) by simp_all
  have m: "\<bar>?mn\<bar> \<le> 42000" "\<bar>?mx\<bar> \<le> 42000"
    using assms(2) b(3,4) by blast+
  have "\<bar>lo - ?mn\<bar> \<le> 2 ^ 20" "\<bar>?mx - hi\<bar> \<le> 2 ^ 20"
    using m assms(3,4) by simp_all
  then have f: "\<bar>fsub lo ?mn - (lo - ?mn)\<bar> \<le> 1 / 1000" "\<bar>fsub ?mx hi - (?mx - hi)\<bar> \<le> 1 / 1000"
    using fsub_close by blast+
  let ?a = "max 0 (fsub lo ?mn)" and ?b = "max 0 (fsub ?mx hi)"
  have ab: "\<bar>?a - ?b\<bar> \<le> 90000"
    using f m assms(3,4) by linarith
  then have "\<bar>?a - ?b\<bar> \<le> 2 ^ 20"
    by simp
  then have "\<bar>fsub ?a ?b - (?a - ?b)\<bar> \<le> 1 / 1000"
    by (rule fsub_close)
  then show ?thesis
    unfolding label_shift_def using f fit b(1,2) by linarith
qed

lemma decollide_inside:
  assumes ys: "ys \<noteq> []" "list_all (\<lambda>y. \<bar>y\<bar> \<le> 10000) ys" "length ys \<le> 1000" and lim: "\<bar>lo\<bar> \<le> 1000" "\<bar>hi\<bar> \<le> 1000"
    and res: "decollide ys 15 lo hi = Inr res" and fit: "Max (set res) - Min (set res) \<le> hi - lo - 1 / 100" and y: "y \<in> set res"
  shows "lo - 1 / 100 \<le> y \<and> y \<le> hi + 1 / 100"
proof -
  define out where "out = pull_up 15 (rev (label_order ys)) (push_down 15 (label_order ys) ys)"
  define s where "s = label_shift lo hi out"
  have "\<bar>ys ! x\<bar> \<le> 10000" if "x < length ys" for x
    using ys(2) that by (simp add: list_all_length)
  then have "\<bar>out ! x\<bar> \<le> 42000" if "x < length ys" for x
    unfolding out_def using that by (intro placed_labels(2)) (use ys(1,3) in simp_all)
  moreover have len: "length out = length ys"
    by (simp add: out_def)
  ultimately have b: "\<bar>z\<bar> \<le> 42000" if "z \<in> set out" for z
    using that by (auto simp: in_set_conv_nth)
  have ne: "out \<noteq> []"
    using len ys(1) by auto
  have r: "res = map (\<lambda>y. fadd y s) out"
    using res ne by (simp add: decollide_def Let_def out_def s_def split: if_splits)
  have s: "\<bar>s\<bar> \<le> 90000"
    unfolding s_def by (rule label_shift_bound [OF ne _ lim]) (use b in simp)
  have c: "\<bar>fadd z s - (z + s)\<bar> \<le> 1 / 1000" if "z \<in> set out" for z
  proof -
    have "\<bar>z + s\<bar> \<le> 132000"
      using b [OF that] s by linarith
    then show ?thesis by (intro fadd_close) simp
  qed
  have m: "Min (set out) \<in> set out" "Max (set out) \<in> set out"
    using ne by simp_all
  then have "fadd (Max (set out)) s \<le> Max (set res)" "Min (set res) \<le> fadd (Min (set out)) s"
    unfolding r by (intro Max_ge Min_le; simp)+
  then have "Max (set out) - Min (set out) \<le> hi - lo"
    using fit c [OF m(1)] c [OF m(2)] by linarith
  moreover obtain z where z: "z \<in> set out" "y = fadd z s"
    using y unfolding r by auto
  ultimately have "lo - 1 / 200 \<le> z + s" "z + s \<le> hi + 1 / 200"
    using shift_inside [OF ne b lim] unfolding s_def by simp_all
  then show ?thesis
    using c [OF z(1)] unfolding z(2) by linarith
qed

section \<open>The plot area\<close>

lemma ypos_range:
  assumes "0 < ymax" "0 \<le> v" "v \<le> ymax"
  shows "\<exists>y. ypos ymax v = Inr y \<and> of_int mt \<le> y \<and> y \<le> of_int (mt + ph)"
proof -
  have i: "rnd 1 = 1" "rnd 282 = 282" "rnd 52 = 52" "rnd 334 = 334"
    using rnd_of_nat [of 1] rnd_of_nat [of 282] rnd_of_nat [of 52] rnd_of_nat [of 334] by simp_all
  have "0 \<le> v / ymax" "v / ymax \<le> 1"
    using assms by simp_all
  then have q: "0 \<le> rnd (v / ymax)" "rnd (v / ymax) \<le> 1"
    using rnd_nonneg rnd_mono [of "v / ymax" 1] i(1) by simp_all
  then have m: "0 \<le> fmul (rnd (v / ymax)) 282" "fmul (rnd (v / ymax)) 282 \<le> 282"
    using rnd_nonneg [of "rnd (v / ymax) * 282"] rnd_mono [of "rnd (v / ymax) * 282" 282] i(2) by (simp_all add: fmul_def)
  then have "52 \<le> fsub 334 (fmul (rnd (v / ymax)) 282)" "fsub 334 (fmul (rnd (v / ymax)) 282) \<le> 334"
    using rnd_mono [of 52 "334 - fmul (rnd (v / ymax)) 282"] rnd_mono [of "334 - fmul (rnd (v / ymax)) 282" 334] i(3,4)
    by (simp_all add: fsub_def)
  then show ?thesis
    using assms(1) by (simp add: ypos_def fdiv_def mt_def ph_def chart_h_def mb_def)
qed

lemma ypos_mono:
  assumes "0 < ymax" "v \<le> v'" "ypos ymax v = Inr y" "ypos ymax v' = Inr y'"
  shows "y' \<le> y"
proof -
  have "v / ymax \<le> v' / ymax"
    using assms(1,2) by (intro divide_right_mono) simp_all
  then have "rnd (v / ymax) \<le> rnd (v' / ymax)"
    by (rule rnd_mono)
  then have "rnd (v / ymax) * of_int ph \<le> rnd (v' / ymax) * of_int ph"
    by (intro mult_right_mono) (simp_all add: ph_def chart_h_def mt_def mb_def)
  then have "fmul (rnd (v / ymax)) (of_int ph) \<le> fmul (rnd (v' / ymax)) (of_int ph)"
    unfolding fmul_def by (rule rnd_mono)
  then have "fsub (of_int (mt + ph)) (fmul (rnd (v' / ymax)) (of_int ph)) \<le> fsub (of_int (mt + ph)) (fmul (rnd (v / ymax)) (of_int ph))"
    unfolding fsub_def by (intro rnd_mono diff_left_mono)
  then show ?thesis
    using assms(1,3,4) by (auto simp: ypos_def fdiv_def)
qed

section \<open>Colours\<close>

lemma slot_hues:
  assumes "map_of slot name = Some k" "theme_of th = Inr t"
  shows "k < length (hues t) \<and> distinct (hues t)"
proof -
  have "k < 7"
    using map_of_SomeD [OF assms(1)] by (auto simp: slot_def)
  moreover have "t = light_theme \<or> t = dark_theme"
    using assms(2) by (auto simp: theme_of_def dict_item_def themes_def split: if_splits)
  ultimately show ?thesis
    by (auto simp: light_theme_def dark_theme_def)
qed

lemma slot_inject: "map_of slot a = Some k \<Longrightarrow> map_of slot b = Some k \<Longrightarrow> a = b"
  by (drule map_of_SomeD)+ (auto simp: slot_def)

end
