(* ===== verification/Svg_Scan.thy ===== *)
theory Svg_Scan
  imports Svg_Text
begin

text \<open>
  A scanner for the XML the chart generators write: names of letters, digits and a few signs; tags whose attributes are
  each preceded by a blank, have a quoted value and different names; nested elements of matching names; character data
  in which every ampersand begins one of the three entities of \<open>esc\<close>; no control characters; and one root
  element. What it accepts is well-formed XML (it accepts less: single quotes, blanks around the equals sign,
  comments and declarations do not occur). \<open>well_formed\<close> is the judgement on a document; a text is neutral in a
  place when the scanner returns from it to where it was. Neutral texts compose, so that a document is typed
  from the types of its pieces.
\<close>

section \<open>The scanner\<close>

text \<open>A place of text: character data, or the value of an attribute in a tag with its name and the attributes so far.\<close>

datatype place = Content | Attr string "string list"

datatype lex =
    Start
  | Data place
  | Entity place string
  | Opening string
  | Between string "string list"
  | AttName string "string list" string
  | Equals string "string list"
  | Quoted string "string list"
  | Slash string
  | Closing string
  | Done

definition blank :: "char \<Rightarrow> bool" where
  "blank c \<longleftrightarrow> c = CHR '' '' \<or> c = CHR 0x0A \<or> c = CHR 0x09 \<or> c = CHR 0x0D"

text \<open>The characters of XML, as bytes of the UTF-8 encoding: no control characters but tab, line feed and carriage return.\<close>

definition xml_char :: "char \<Rightarrow> bool" where
  "xml_char c \<longleftrightarrow> (32 :: nat) \<le> of_char c \<or> c = CHR 0x0A \<or> c = CHR 0x09 \<or> c = CHR 0x0D"

definition markup :: "char \<Rightarrow> bool" where
  "markup c \<longleftrightarrow> c = CHR ''<'' \<or> c = CHR ''>'' \<or> c = CHR ''&'' \<or> c = CHR 0x22"

text \<open>The ASCII part of the characters of names.\<close>

definition name_start :: "char \<Rightarrow> bool" where
  "name_start c \<longleftrightarrow> (let n = of_char c :: nat in 97 \<le> n \<and> n \<le> 122 \<or> 65 \<le> n \<and> n \<le> 90) \<or> c = CHR ''_''"

definition name_char :: "char \<Rightarrow> bool" where
  "name_char c \<longleftrightarrow> name_start c \<or> (let n = of_char c :: nat in 48 \<le> n \<and> n \<le> 57) \<or> c = CHR ''-'' \<or> c = CHR ''.'' \<or> c = CHR '':''"

definition outside :: "string list \<Rightarrow> lex" where
  "outside st = (if st = [] then Done else Data Content)"

text \<open>The next character of a name: a start character at the front, a name character behind.\<close>

definition extends_name :: "string \<Rightarrow> char \<Rightarrow> bool" where
  "extends_name n c \<longleftrightarrow> (if n = [] then name_start c else name_char c)"

text \<open>A tag after its name or after an attribute's value: a blank, or the end of the tag.\<close>

definition after_item :: "string \<Rightarrow> string list \<Rightarrow> string list \<Rightarrow> char \<Rightarrow> (lex \<times> string list) option" where
  "after_item n as st c =
     (if blank c then Some (Between n as, st)
      else if c = CHR ''/'' then Some (Slash n, st)
      else if c = CHR ''>'' then Some (Data Content, n # st)
      else None)"

fun scan_char :: "lex \<Rightarrow> string list \<Rightarrow> char \<Rightarrow> (lex \<times> string list) option" where
  "scan_char Start st c = (if c = CHR ''<'' then Some (Opening [], st) else None)"
| "scan_char (Data Content) st c =
     (if c = CHR ''<'' then Some (Opening [], st)
      else if c = CHR ''>'' then None
      else if c = CHR ''&'' then Some (Entity Content [], st)
      else if xml_char c then Some (Data Content, st) else None)"
| "scan_char (Data (Attr n as)) st c =
     (if c = CHR 0x22 then Some (Quoted n as, st)
      else if c = CHR ''&'' then Some (Entity (Attr n as) [], st)
      else if c = CHR ''<'' \<or> c = CHR ''>'' then None
      else if xml_char c then Some (Data (Attr n as), st) else None)"
| "scan_char (Entity p e) st c =
     (if c = CHR '';'' then (if e = ''amp'' \<or> e = ''lt'' \<or> e = ''gt'' then Some (Data p, st) else None)
      else if extends_name e c then Some (Entity p (e @ [c]), st) else None)"
| "scan_char (Opening n) st c =
     (if n = [] \<and> c = CHR ''/'' then Some (Closing [], st)
      else if extends_name n c then Some (Opening (n @ [c]), st)
      else if n = [] then None else after_item n [] st c)"
| "scan_char (Between n as) st c =
     (if name_start c then Some (AttName n as [c], st) else after_item n as st c)"
| "scan_char (AttName n as a) st c =
     (if name_char c then Some (AttName n as (a @ [c]), st)
      else if c = CHR ''='' \<and> a \<notin> set as then Some (Equals n (a # as), st)
      else None)"
| "scan_char (Equals n as) st c = (if c = CHR 0x22 then Some (Data (Attr n as), st) else None)"
| "scan_char (Quoted n as) st c = after_item n as st c"
| "scan_char (Slash n) st c = (if c = CHR ''>'' then Some (outside st, st) else None)"
| "scan_char (Closing n) st c =
     (if c = CHR ''>'' then
        (case st of [] \<Rightarrow> None | m # ms \<Rightarrow> if m = n then Some (outside ms, ms) else None)
      else if extends_name n c then Some (Closing (n @ [c]), st) else None)"
| "scan_char Done st c = (if blank c then Some (Done, st) else None)"

fun scan :: "lex \<Rightarrow> string list \<Rightarrow> string \<Rightarrow> (lex \<times> string list) option" where
  "scan l st [] = Some (l, st)"
| "scan l st (c # cs) = (case scan_char l st c of None \<Rightarrow> None | Some (l', st') \<Rightarrow> scan l' st' cs)"

definition well_formed :: "string \<Rightarrow> bool" where
  "well_formed s \<longleftrightarrow> scan Start [] s = Some (Done, [])"

section \<open>Neutral texts\<close>

definition neutral :: "place \<Rightarrow> string \<Rightarrow> bool" where
  "neutral p s \<longleftrightarrow> (\<forall>st. st \<noteq> [] \<longrightarrow> scan (Data p) st s = Some (Data p, st)) \<and>
     (p \<noteq> Content \<longrightarrow> scan (Data p) [] s = Some (Data p, []))"

named_theorems neutral_text

lemma scan_append: "scan l st (a @ b) = (case scan l st a of None \<Rightarrow> None | Some (l', st') \<Rightarrow> scan l' st' b)"
  by (induction a arbitrary: l st) (simp_all split: option.splits)

lemma scan_neutral:
  "neutral Content a \<Longrightarrow> scan (Data Content) (m # st) (a @ b) = scan (Data Content) (m # st) b"
  "neutral (Attr n as) a \<Longrightarrow> scan (Data (Attr n as)) st (a @ b) = scan (Data (Attr n as)) st b"
  by (cases st; simp add: scan_append neutral_def)+

lemma neutral_Nil [neutral_text]: "neutral p []"
  by (simp add: neutral_def)

lemma neutral_append [neutral_text]: "neutral p a \<Longrightarrow> neutral p b \<Longrightarrow> neutral p (a @ b)"
  by (simp add: neutral_def scan_append)

lemma neutral_concat: "(\<And>s. s \<in> set ss \<Longrightarrow> neutral p s) \<Longrightarrow> neutral p (concat ss)"
  by (induction ss) (simp_all add: neutral_text)

lemma neutral_join: "neutral p sep \<Longrightarrow> (\<And>s. s \<in> set ss \<Longrightarrow> neutral p s) \<Longrightarrow> neutral p (join sep ss)"
  by (induction sep ss rule: join.induct) (simp_all add: neutral_text)

text \<open>A fragment is neutral character data if scanning it inside any element ends where it began.\<close>

lemma neutralI: "(\<And>m st. scan (Data Content) (m # st) s = Some (Data Content, m # st)) \<Longrightarrow> neutral Content s"
  by (metis neutral_def neq_Nil_conv)

lemmas scan_simps = scan_neutral outside_def markup_def blank_def xml_char_def extends_name_def name_char_def name_start_def after_item_def

lemma neutral_mapr:
  assumes "mapr f xs = Inr ys" "\<And>x y. x \<in> set xs \<Longrightarrow> f x = Inr y \<Longrightarrow> neutral p y"
  shows "neutral p (concat ys)"
  by (rule neutral_concat) (use mapr_Inr_set [OF assms(1)] assms(2) in blast)

text \<open>
  Text without control characters is legal; legal text without markup characters is neutral everywhere, escaped
  legal text in character data.
\<close>

definition legal :: "string \<Rightarrow> bool" where
  "legal s \<longleftrightarrow> list_all xml_char s"

definition plain :: "string \<Rightarrow> bool" where
  "plain s \<longleftrightarrow> list_all (\<lambda>c. \<not> markup c \<and> xml_char c) s"

lemma legal_simps [simp]: "legal []" "legal (c # s) \<longleftrightarrow> xml_char c \<and> legal s" "legal (a @ b) \<longleftrightarrow> legal a \<and> legal b"
  by (simp_all add: legal_def)

lemma plain_legal [simp]: "plain s \<Longrightarrow> legal s"
  by (auto simp: plain_def legal_def list_all_iff)

lemma plain_append [simp]: "plain (a @ b) \<longleftrightarrow> plain a \<and> plain b"
  by (simp add: plain_def)

lemma neutral_single: "\<not> markup c \<Longrightarrow> xml_char c \<Longrightarrow> neutral p [c]"
  by (cases p) (simp_all add: neutral_def markup_def)

lemma neutral_plain [neutral_text]: "plain s \<Longrightarrow> neutral p s"
proof (induction s)
  case Nil
  then show ?case by (simp add: neutral_text)
next
  case (Cons c s)
  then have "neutral p [c]" "neutral p s"
    by (simp_all add: plain_def neutral_single)
  then show ?case
    using neutral_append [of p "[c]" s] by simp
qed

lemma neutral_esc_char: "p = Content \<or> c \<noteq> CHR 0x22 \<Longrightarrow> xml_char c \<Longrightarrow> neutral p (esc_char c)"
  by (cases p) (auto simp: neutral_def esc_char_def extends_name_def name_char_def name_start_def)

lemma neutral_esc [neutral_text]: "p = Content \<or> CHR 0x22 \<notin> set s \<Longrightarrow> legal s \<Longrightarrow> neutral p (esc s)"
proof (induction s)
  case Nil
  then show ?case by (simp add: neutral_text)
next
  case (Cons c s)
  then show ?case
    unfolding esc_Cons by (intro neutral_append neutral_esc_char) (auto simp: legal_def)
qed

section \<open>Numbers are plain\<close>

lemma plain_dec_nat [simp]: "plain (dec_nat n)"
  using dec_nat_digits [of n] by (auto simp: plain_def markup_def xml_char_def is_digit_def list_all_iff)

lemma plain_Nil [simp]: "plain []"
  by (simp add: plain_def)

lemma plain_Cons: "plain (c # s) \<longleftrightarrow> \<not> markup c \<and> xml_char c \<and> plain s"
  by (simp add: plain_def)

lemmas plain_lits = plain_Cons markup_def xml_char_def

lemma plain_sign [simp]: "plain ''-''" "plain ''.''" "plain ''+''" "plain ''e''" "plain '' ''" "plain '',''"
  by (simp_all add: plain_lits)

lemma plain_str_int [simp]: "plain (str_int i)"
  by (simp add: str_int_def plain_lits)

lemma plain_zeros: "plain (replicate k (CHR ''0''))"
  by (induction k) (simp_all add: plain_lits)

lemma plain_pad_left [simp]: "plain s \<Longrightarrow> plain (pad_left k s)"
  by (simp add: pad_left_def plain_zeros)

lemma plain_fmt_fixed [simp]: "plain (fmt_fixed k x)"
  by (simp add: fmt_fixed_def Let_def plain_lits)

lemma plain_rstrip [simp]: "plain s \<Longrightarrow> plain (rstrip_char c s)"
  using rstrip_char_append [of s c] by (metis plain_append)

lemma plain_fmt_g [simp]: "plain (fmt_g x)"
  by (simp add: fmt_g_def Let_def strip_zeros_def plain_lits)

end
