(* ===== verification/Kv_Wf.thy ===== *)
theory Kv_Wf
  imports Kv_Facts Svg_Scan
begin

text \<open>
  The documents of \<open>netkv/charts/mkcharts.py\<close> are well formed: every piece of a chart is neutral character data,
  for any theme of the script, any numbers and any names without control characters; only a quotation mark in the title,
  markup in an unescaped tick label and a control character can break a document.
\<close>

definition plain_theme :: "theme \<Rightarrow> bool" where
  "plain_theme t \<longleftrightarrow> plain (surface t) \<and> plain (ink t) \<and> plain (ink2 t) \<and> plain (grid t) \<and> plain (rule_ink t) \<and>
     list_all plain (hues t)"

lemma theme_of_plain: "theme_of th = Inr t \<Longrightarrow> plain_theme t"
  by (auto simp: theme_of_def dict_item_def themes_def light_theme_def dark_theme_def plain_theme_def plain_lits
      split: if_splits)

lemma series_colour_plain: "plain_theme t \<Longrightarrow> series_colour t i name = Inr c \<Longrightarrow> plain c"
  by (auto simp: series_colour_def row_at_def plain_theme_def list_all_length split: option.splits if_splits)

lemma in_enumerate_snd: "x \<in> set (enumerate k xs) \<Longrightarrow> snd x \<in> set xs"
  by (metis in_set_zipE enumerate_eq_zip prod.collapse)

section \<open>Pieces\<close>

lemma tick_neutral: "plain_theme t \<Longrightarrow> neutral Content (tick_svg t y v)"
  by (intro neutralI) (simp add: tick_svg_def plain_theme_def scan_simps neutral_plain)

lemma rule_neutral: "plain_theme t \<Longrightarrow> legal txt \<Longrightarrow> neutral Content (rule_svg t y txt)"
  by (intro neutralI) (simp add: rule_svg_def plain_theme_def scan_simps neutral_plain neutral_esc)

lemma xlabel_neutral: "legal xlabel \<Longrightarrow> neutral Content (xlabel_svg dy xlabel)"
  by (intro neutralI) (simp add: xlabel_svg_def scan_simps neutral_plain neutral_esc)

lemma xtick_neutral: "plain (snd xl) \<Longrightarrow> neutral Content (xtick_svg xl)"
  by (intro neutralI) (simp add: xtick_svg_def scan_simps neutral_plain)

lemma marker_neutral: "plain_theme t \<Longrightarrow> plain c \<Longrightarrow> neutral Content (marker_svg t c p)"
  by (intro neutralI) (simp add: marker_svg_def plain_theme_def scan_simps neutral_plain)

lemma label_neutral: "legal (fst l) \<Longrightarrow> plain (fst (snd l)) \<Longrightarrow> neutral Content (label_svg l)"
  by (intro neutralI) (cases l; simp add: label_svg_def scan_simps neutral_plain neutral_esc)

lemma series_neutral:
  assumes "plain_theme t" "plain c" "series_svg t ymax xpos vals c = Inr s"
  shows "neutral Content s"
proof -
  obtain pts where s: "s = ''<polyline points=\"'' @ join '' '' (map (\<lambda>p. f1 (fst p) @ '','' @ f1 (snd p)) pts) @
      ''\" fill=\"none\" stroke=\"'' @ c @ ''\" stroke-width=\"2\" stroke-linejoin=\"round\" stroke-linecap=\"round\"/>'' @
      concat (map (marker_svg t c) pts)"
    using assms(3) by (auto simp: series_svg_def)
  have "neutral p (join '' '' (map (\<lambda>p. f1 (fst p) @ '','' @ f1 (snd p)) pts))" for p
    by (rule neutral_join) (auto intro!: neutral_plain simp: plain_lits)
  moreover have "neutral Content (concat (map (marker_svg t c) pts))"
    by (rule neutral_concat) (auto simp: marker_neutral assms(1,2))
  ultimately show ?thesis
    using scan_neutral(1) [of "concat (map (marker_svg t c) pts)" _ _ "[]"]
    unfolding s by (intro neutralI) (simp add: scan_simps neutral_plain assms(2))
qed

lemma yaxis_neutral: "plain_theme t \<Longrightarrow> plain u \<Longrightarrow> yaxis t ymax ticks u = Inr s \<Longrightarrow> neutral Content s"
proof -
  assume t: "plain_theme t" and u: "plain u" and y: "yaxis t ymax ticks u = Inr s"
  obtain os where os: "mapr (\<lambda>v. rbind (ypos ymax v) (\<lambda>y. Inr (tick_svg t y v))) ticks = Inr os"
    and s: "s = concat os @ ''<text class=\"ax\" x=\"'' @ str_int (ml - 9) @ ''\" y=\"'' @ str_int (mt - 10) @
      ''\" text-anchor=\"end\">'' @ u @ ''</text>''"
    using y by (auto simp: yaxis_def)
  have "neutral Content x" if "x \<in> set os" for x
    using mapr_Inr_set [OF os that] t by (auto simp: tick_neutral)
  then have "neutral Content (concat os)"
    by (rule neutral_concat)
  then show ?thesis
    unfolding s by (intro neutralI) (simp add: scan_simps neutral_plain u)
qed

lemma bar_neutral: "plain_theme t \<Longrightarrow> bar_svg t gx bw ns ymax gi s = Inr x \<Longrightarrow> neutral Content x"
  by (intro neutralI)
    (auto simp: bar_svg_def Let_def scan_simps neutral_plain dest!: series_colour_plain split: prod.splits)

lemma legend_neutral: "plain_theme t \<Longrightarrow> legal (fst (snd s)) \<Longrightarrow> legend_svg t s = Inr x \<Longrightarrow> neutral Content x"
  by (intro neutralI)
    (auto simp: legend_svg_def Let_def scan_simps neutral_plain neutral_esc dest!: series_colour_plain split: prod.splits)

lemma group_neutral: "plain_theme t \<Longrightarrow> legal (snd g) \<Longrightarrow> group_svg t gw bw ymax series g = Inr x \<Longrightarrow> neutral Content x"
proof -
  assume t: "plain_theme t" and n: "legal (snd g)" and g: "group_svg t gw bw ymax series g = Inr x"
  let ?gx = "group_x gw (fst g)"
  obtain bars where b: "mapr (bar_svg t ?gx bw (length series) ymax (fst g)) (enumerate 0 series) = Inr bars"
    and x: "x = ''<text class=\"ax\" x=\"'' @ f1 ?gx @ ''\" y=\"'' @ str_int (mt + ph + 20) @ ''\" text-anchor=\"middle\">'' @
      esc (snd g) @ ''</text>'' @ concat bars"
    using g by (auto simp: group_svg_def Let_def)
  have "neutral Content s" if "s \<in> set bars" for s
    using mapr_Inr_set [OF b that] t by (auto intro: bar_neutral)
  then have "neutral Content (concat bars)"
    by (rule neutral_concat)
  then show ?thesis
    using scan_neutral(1) [of "concat bars" _ _ "[]"]
    unfolding x by (intro neutralI) (simp add: scan_simps neutral_plain neutral_esc n)
qed

text \<open>The head opens the root element, and anything neutral after it can be closed.\<close>

lemma document_well_formed:
  assumes "plain_theme t" "legal title" "CHR 0x22 \<notin> set title" "legal sub" "neutral Content body"
  shows "well_formed (head t title sub @ body @ ''</svg>'')"
  using assms
  by (simp add: well_formed_def head_def nl_def font_def plain_theme_def scan_simps neutral_plain neutral_esc)

section \<open>Charts\<close>

lemma line_chart_well_formed:
  assumes chart: "line_chart th title sub xs series ymax ticks xlabel rule = Inr doc"
    and title: "legal title" "CHR 0x22 \<notin> set title" and sub: "legal sub" and xs: "list_all plain xs"
    and names: "list_all (\<lambda>s. legal (fst s)) series" and xlabel: "legal xlabel"
    and rule: "\<forall>v txt. rule = Some (v, txt) \<longrightarrow> legal txt"
  shows "well_formed doc"
proof -
  from chart obtain t axis xpos rt cs ends ly ls where
    t: "theme_of th = Inr t" and axis: "yaxis t ymax ticks ''k ops/s'' = Inr axis"
    and rt: "(case rule of None \<Rightarrow> Inr [] | Some (v, txt) \<Rightarrow> rbind (ypos ymax v) (\<lambda>y. Inr (rule_svg t y txt))) = Inr rt"
    and cs: "mapr (\<lambda>(i, s). series_colour t i (fst s)) (enumerate 0 series) = Inr cs"
    and ls: "mapr (\<lambda>(s, c). series_svg t ymax xpos (snd s) c) (zip series cs) = Inr ls"
    and doc: "doc = head t title sub @ (axis @ concat (map xtick_svg (zip xpos xs)) @ xlabel_svg 40 xlabel @ rt @
      concat ls @ concat (map label_svg (zip (map fst series) (zip cs (zip ends ly))))) @ ''</svg>''"
    unfolding line_chart_def by auto
  have p: "plain_theme t"
    using theme_of_plain [OF t] .
  have c: "plain c" if "c \<in> set cs" for c
    using mapr_Inr_set [OF cs that] series_colour_plain [OF p] by (auto split: prod.splits)
  have "neutral Content axis"
    using yaxis_neutral [OF p _ axis] by (simp add: plain_lits)
  moreover have "neutral Content (concat (map xtick_svg (zip xpos xs)))"
    using xs by (intro neutral_concat) (auto simp: list_all_iff intro!: xtick_neutral dest: set_zip_rightD)
  moreover have "neutral Content rt"
    using rt p rule by (auto simp: neutral_Nil rule_neutral split: option.splits)
  moreover have "neutral Content (concat ls)"
    by (rule neutral_mapr [OF ls]) (auto intro!: series_neutral [OF p] c dest: set_zip_rightD)
  moreover have "neutral Content (concat (map label_svg (zip (map fst series) (zip cs (zip ends ly)))))"
    using names by (intro neutral_concat) (auto simp: list_all_iff intro!: label_neutral c elim!: in_set_zipE)
  ultimately show ?thesis
    unfolding doc by (intro document_well_formed p title sub neutral_append xlabel_neutral [OF xlabel])
qed

lemma note_neutral: "legal n \<Longrightarrow> neutral Content (''<text class=\"an\" x=\"'' @ str_int x @ ''\" y=\"'' @ str_int y @ ''\">'' @ esc n @ ''</text>'')"
  by (intro neutralI) (simp add: scan_simps neutral_plain neutral_esc)

lemma bar_chart_well_formed:
  assumes chart: "bar_chart th title sub groups series ymax ticks xlabel note = Inr doc"
    and title: "legal title" "CHR 0x22 \<notin> set title" and sub: "legal sub" and xlabel: "legal xlabel"
    and groups: "list_all legal groups" and names: "list_all (\<lambda>s. legal (fst s)) series"
    and remark: "\<forall>n. note = Some n \<longrightarrow> legal n"
  shows "well_formed doc"
proof -
  let ?note = "case note of None \<Rightarrow> [] | Some n \<Rightarrow> if n = [] then []
     else ''<text class=\"an\" x=\"'' @ str_int ml @ ''\" y=\"'' @ str_int (chart_h - 10) @ ''\">'' @ esc n @ ''</text>''"
  from chart obtain t axis gw bw bs ls where
    t: "theme_of th = Inr t" and axis: "yaxis t ymax ticks ''k ops/s'' = Inr axis"
    and bs: "mapr (group_svg t gw bw ymax series) (enumerate 0 groups) = Inr bs"
    and ls: "mapr (legend_svg t) (if 1 < length series then enumerate 0 series else []) = Inr ls"
    and doc: "doc = head t title sub @ (axis @ concat bs @ xlabel_svg 38 xlabel @ concat ls @ ?note) @ ''</svg>''"
    unfolding bar_chart_def by auto
  have p: "plain_theme t"
    using theme_of_plain [OF t] .
  have "neutral Content axis"
    using yaxis_neutral [OF p _ axis] by (simp add: plain_lits)
  moreover have "neutral Content (concat bs)"
    by (rule neutral_mapr [OF bs]) (use groups in \<open>auto simp: list_all_iff intro!: group_neutral [OF p] dest: in_enumerate_snd\<close>)
  moreover have "neutral Content (concat ls)"
    by (rule neutral_mapr [OF ls]) (use names in \<open>auto simp: list_all_iff intro!: legend_neutral [OF p] dest: in_enumerate_snd split: if_splits\<close>)
  moreover have "neutral Content ?note"
    using note_neutral remark by (auto simp: neutral_Nil split: option.splits)
  ultimately show ?thesis
    unfolding doc by (intro document_well_formed p title sub neutral_append xlabel_neutral [OF xlabel])
qed

end
