(* ===== verification/Kv_Main.thy ===== *)
theory Kv_Main
  imports Kv_Wf "HOL-Library.Char_ord" "HOL-Library.List_Lexorder"
begin

text \<open>
  The body of \<open>netkv/charts/mkcharts.py\<close>: the nine charts with their titles and measurements, the order in which they
  are emitted, and the line that lists the files. Dashes are their UTF-8 encoding. Lemmas: when every
  argument is a directory and every chart can be drawn, each target receives the eighteen files.
\<close>

section \<open>Charts\<close>

definition dash :: string where
  "dash = '' '' @ [CHR 0xE2, CHR 0x80, CHR 0x94] @ '' ''"

definition conns :: "string list" where
  "conns = [''8'', ''64'', ''256'', ''512'']"

definition wire_series :: "(string \<times> rat list) list" where
  "wire_series =
     [(''Rostam'', map flit [389 / 10, 1336 / 10, 1475 / 10, 1504 / 10]),
      (''Memcached'', map flit [389 / 10, 1346 / 10, 1475 / 10, 1498 / 10]),
      (''Dragonfly'', map flit [307 / 10, 1242 / 10, 1414 / 10, 1474 / 10]),
      (''Aerospike'', map flit [371 / 10, 1281 / 10, 1250 / 10, 1224 / 10])]"

definition wire_sweep :: "string \<Rightarrow> string result" where
  "wire_sweep th =
     line_chart th (''GET throughput vs concurrency'' @ dash @ ''single node, over the network'')
       ''Hetzner CCX33, medians of 3, 0 errors. Anything at the dashed line is NIC-bound, not engine-bound.''
       conns wire_series 170 [0, 50, 100, 150] ''concurrent connections''
       (Some (150, ''single-RX-queue NIC ceiling ~150k'' @ dash @ ''three engines tie here because of this''))"

definition local_get_fast :: "string \<Rightarrow> string result" where
  "local_get_fast th =
     line_chart th (''GET'' @ dash @ ''the engines that scale with concurrency (loopback)'')
       ''One machine, all engines in Docker, 8 pinned cores each, 0 errors. Directional: ranking, not absolutes.''
       conns (pick local_get fast_engines) 800 [0, 200, 400, 600, 800] ''concurrent connections'' None"

definition local_get_family :: "string \<Rightarrow> string result" where
  "local_get_family th =
     line_chart th (''GET'' @ dash @ ''the Redis family plateaus (loopback, same run)'')
       ''Redis, Valkey and KeyDB execute commands single-threaded, so extra connections queue instead of adding work.''
       conns (pick local_get family_engines) 800 [0, 200, 400, 600, 800] ''concurrent connections'' None"

definition local_put_fast :: "string \<Rightarrow> string result" where
  "local_put_fast th =
     line_chart th (''PUT'' @ dash @ ''the engines that scale with concurrency (loopback)'')
       ''Same run and conditions as the GET chart.''
       conns (pick local_put fast_engines) 800 [0, 200, 400, 600, 800] ''concurrent connections'' None"

definition local_put_family :: "string \<Rightarrow> string result" where
  "local_put_family th =
     line_chart th (''PUT'' @ dash @ ''the Redis family plateaus (loopback, same run)'')
       ''Same plateau on writes; Rostam shown for scale.''
       conns (pick local_put family_engines) 800 [0, 200, 400, 600, 800] ''concurrent connections'' None"

definition replication :: "string \<Rightarrow> string result" where
  "replication th =
     line_chart th (''What replication costs'' @ dash @ ''PUT throughput, Rostam vs Rostam'')
       ''Local, 4 cores/node, durability matched (raft -nosync -volatile-log; PB has no WAL). Directional.''
       [''64'', ''256'', ''512'']
       [(''single node RF=1'', map flit [4602 / 10, 4528 / 10, 4455 / 10]),
        (''PB RF=2'', map flit [3079 / 10, 3555 / 10, 3515 / 10]),
        (''raft RF=3'', map flit [1124 / 10, 1623 / 10, 1753 / 10])]
       500 [0, 100, 200, 300, 400, 500] ''concurrent connections'' None"

definition sharding :: "string \<Rightarrow> string result" where
  "sharding th =
     bar_chart th (''Sharding and scale-out'' @ dash @ ''PUT, 3-node PB RF=2'')
       ''Shard count is not a throughput lever; the 2->3 node step is (see note).''
       [''4 shards'', ''8'', ''16'', ''32'']
       [(''shard sweep @512 conns'', map flit [3294 / 10, 3463 / 10, 3357 / 10, 3493 / 10])]
       420 [0, 100, 200, 300, 400] ''shards per cluster''
       (Some ''4->8 buys ~5%, then flat. Node scale-out 2->3 at constant RF=2: 190k -> 357k (1.88x for 1.5x nodes).'')"

definition rf2_all :: "(string \<times> rat list) list" where
  "rf2_all =
     [(''Rostam'', map flit [356 / 10, 809 / 10, 1136 / 10]),
      (''Aerospike'', map flit [380 / 10, 570 / 10, 859 / 10]),
      (''Redis / Valkey / KeyDB'', map flit [287 / 10, 422 / 10, 439 / 10])]"

definition rf2_master :: "(string \<times> rat list) list" where
  "rf2_master =
     [(''Rostam'', map flit [578 / 10, 1030 / 10, 1574 / 10]),
      (''Aerospike'', map flit [653 / 10, 942 / 10, 1257 / 10])]"

definition rf2_commit_all :: "string \<Rightarrow> string result" where
  "rf2_commit_all th =
     line_chart th (''Replicated writes (RF=2)'' @ dash @ ''ack only after a replica has the write'')
       (''12-vCPU EPYC Genoa, 3 co-located nodes + generator, n=2 reps, 0 errors. '' @
        ''Third line is Redis/Valkey/KeyDB, which overlap within ~7%.'')
       [''8'', ''32'', ''128''] rf2_all 130 [0, 50, 100] ''concurrent connections'' None"

definition rf2_commit_master :: "string \<Rightarrow> string result" where
  "rf2_commit_master th =
     line_chart th ''Same run, both engines relaxed to ack at the master''
       (''Worth 1.57x to Rostam and 1.58x to Aerospike'' @ dash @ ''the posture flatters neither.'')
       [''8'', ''32'', ''128''] rf2_master 170 [0, 50, 100, 150] ''concurrent connections'' None"

section \<open>The script\<close>

definition first_charts :: "(string \<times> (string \<Rightarrow> string result)) list" where
  "first_charts =
     [(''wire-sweep'', wire_sweep), (''local-get-fast'', local_get_fast), (''local-get-family'', local_get_family),
      (''local-put-fast'', local_put_fast), (''local-put-family'', local_put_family), (''replication'', replication),
      (''sharding'', sharding)]"

definition last_charts :: "(string \<times> (string \<Rightarrow> string result)) list" where
  "last_charts = [(''rf2-commit-all'', rf2_commit_all), (''rf2-commit-master'', rf2_commit_master)]"

fun emit_all :: "string list \<Rightarrow> (string \<times> (string \<Rightarrow> string result)) list \<Rightarrow> files \<Rightarrow> files \<times> unit result" where
  "emit_all dirs [] w = (w, Inr ())"
| "emit_all dirs ((stem, fn) # jobs) w =
     (case emit dirs stem fn w of
        (w', Inl e) \<Rightarrow> (w', Inl e)
      | (w', Inr _) \<Rightarrow> emit_all dirs jobs w')"

text \<open>\<open>sorted(p.name for p in OUT.glob("*.svg"))\<close>; every file of the world is an SVG file.\<close>

definition listing :: "string \<Rightarrow> files \<Rightarrow> string list" where
  "listing own w = sort (remdups (map (fst \<circ> snd) (filter (\<lambda>f. fst f = own) w)))"

text \<open>The names printed after \<open>wrote:\<close>, if the script gets there, beside the files and the outcome.\<close>

definition mkcharts :: "(string \<Rightarrow> bool) \<Rightarrow> string \<Rightarrow> string list \<Rightarrow> files \<Rightarrow> files \<times> string list option \<times> unit result" where
  "mkcharts is_dir own args w =
     (case targets is_dir [own] args of
        Inl e \<Rightarrow> (w, None, Inl e)
      | Inr dirs \<Rightarrow>
          (case emit_all dirs first_charts w of
             (w1, Inl e) \<Rightarrow> (w1, None, Inl e)
           | (w1, Inr _) \<Rightarrow>
               (case emit_all dirs last_charts w1 of (w2, out) \<Rightarrow> (w2, Some (listing own w1), out))))"

section \<open>Every chart can be drawn\<close>

lemma ypos_returns: "ymax \<noteq> 0 \<Longrightarrow> \<exists>y. ypos ymax v = Inr y"
  by (simp add: ypos_def fdiv_def)

lemma yaxis_returns: "ymax \<noteq> 0 \<Longrightarrow> \<exists>s. yaxis t ymax ticks u = Inr s"
proof -
  assume y: "ymax \<noteq> 0"
  have "\<exists>os. mapr (\<lambda>v. rbind (ypos ymax v) (\<lambda>y. Inr (tick_svg t y v))) ticks = Inr os"
    by (rule mapr_returns) (use ypos_returns [OF y] in auto)
  then show ?thesis
    by (auto simp: yaxis_def)
qed

lemma xpositions_returns: "n \<noteq> 1 \<Longrightarrow> \<exists>xs. xpositions n = Inr xs"
  unfolding xpositions_def by (rule mapr_returns) (auto simp: fdiv_def)

lemma series_colour_returns:
  assumes "theme_of th = Inr t" "i < 7"
  shows "\<exists>c. series_colour t i name = Inr c"
proof -
  have "t = light_theme \<or> t = dark_theme"
    using assms(1) by (auto simp: theme_of_def dict_item_def themes_def split: if_splits)
  then have "length (hues t) = 7"
    by (auto simp: light_theme_def dark_theme_def)
  then show ?thesis
    using slot_hues [OF _ assms(1)] assms(2)
    by (auto simp: series_colour_def row_at_def split: option.splits)
qed

lemma decollide_returns: "ys \<noteq> [] \<Longrightarrow> \<exists>ls. decollide ys gap lo hi = Inr ls"
proof -
  assume "ys \<noteq> []"
  then have "pull_up gap (rev (label_order ys)) (push_down gap (label_order ys) ys) \<noteq> []"
    by (metis length_pull_up length_push_down length_0_conv)
  then show ?thesis
    by (simp add: decollide_def Let_def)
qed

lemma series_svg_returns: "ymax \<noteq> 0 \<Longrightarrow> \<exists>s. series_svg t ymax xpos vals c = Inr s"
proof -
  assume y: "ymax \<noteq> 0"
  have "\<exists>pts. mapr (\<lambda>(x, v). rbind (ypos ymax v) (\<lambda>y. Inr (x, y))) (zip xpos vals) = Inr pts"
    by (rule mapr_returns) (use ypos_returns [OF y] in auto)
  then show ?thesis
    by (auto simp: series_svg_def)
qed

lemma line_chart_returns:
  assumes t: "theme_of th = Inr t" and y: "ymax \<noteq> 0" and x: "length xs \<noteq> 1"
    and s: "series \<noteq> []" "length series \<le> 7" "\<forall>r \<in> set series. snd r \<noteq> []"
  shows "\<exists>doc. line_chart th title sub xs series ymax ticks xlabel rule = Inr doc"
proof -
  obtain axis where axis: "yaxis t ymax ticks ''k ops/s'' = Inr axis"
    using yaxis_returns [OF y] by blast
  obtain xpos where xpos: "xpositions (length xs) = Inr xpos"
    using xpositions_returns [OF x] by blast
  have "\<exists>rt. (case rule of None \<Rightarrow> Inr [] | Some (v, txt) \<Rightarrow> rbind (ypos ymax v) (\<lambda>y. Inr (rule_svg t y txt))) = Inr rt"
    using ypos_returns [OF y] by (auto split: option.splits)
  then obtain rt where rt: "(case rule of None \<Rightarrow> Inr [] | Some (v, txt) \<Rightarrow> rbind (ypos ymax v) (\<lambda>y. Inr (rule_svg t y txt))) = Inr rt"
    by blast
  have "\<exists>cs. mapr (\<lambda>(i, r). series_colour t i (fst r)) (enumerate 0 series) = Inr cs"
    by (rule mapr_returns) (use series_colour_returns [OF t] s(2) in \<open>auto simp: in_set_enumerate_eq\<close>)
  then obtain cs where cs: "mapr (\<lambda>(i, r). series_colour t i (fst r)) (enumerate 0 series) = Inr cs"
    by blast
  have "\<exists>ends. mapr (\<lambda>r. series_end ymax (snd r)) series = Inr ends"
    by (rule mapr_returns) (use ypos_returns [OF y] s(3) in \<open>auto simp: series_end_def\<close>)
  then obtain ends where ends: "mapr (\<lambda>r. series_end ymax (snd r)) series = Inr ends"
    by blast
  then have "ends \<noteq> []"
    using mapr_length [OF ends] s(1) by auto
  then obtain ly where ly: "decollide ends 15 (of_int (mt - 6)) (of_int (mt + ph + 6)) = Inr ly"
    using decollide_returns by blast
  have "\<exists>ls. mapr (\<lambda>(r, c). series_svg t ymax xpos (snd r) c) (zip series cs) = Inr ls"
    by (rule mapr_returns) (use series_svg_returns [OF y] in auto)
  then obtain ls where ls: "mapr (\<lambda>(r, c). series_svg t ymax xpos (snd r) c) (zip series cs) = Inr ls"
    by blast
  show ?thesis
    unfolding line_chart_def t axis xpos rt cs ends ly ls rbind.simps by blast
qed

lemma bar_svg_returns:
  assumes "theme_of th = Inr t" "ymax \<noteq> 0" "si < 7" "gi < length vals"
  shows "\<exists>s. bar_svg t gx bw ns ymax gi (si, name, vals) = Inr s"
  using series_colour_returns [OF assms(1,3), of name] assms(2,4)
  by (auto simp: bar_svg_def row_at_def fdiv_def Let_def)

lemma group_svg_returns:
  assumes "theme_of th = Inr t" "ymax \<noteq> 0" "length series \<le> 7" "\<forall>r \<in> set series. fst g < length (snd r)"
  shows "\<exists>s. group_svg t gw bw ymax series g = Inr s"
proof -
  have "\<exists>bars. mapr (bar_svg t gx bw ns ymax (fst g)) (enumerate 0 series) = Inr bars" for gx ns
  proof (rule mapr_returns)
    fix e
    assume e: "e \<in> set (enumerate 0 series)"
    obtain si name vals where d: "e = (si, name, vals)"
      by (rule prod_cases3)
    have "(name, vals) \<in> set series" "si < length series"
      using e enumerate_mem [of si "(name, vals)" 0 series] by (simp_all add: d in_set_enumerate_eq)
    then have "si < 7" "fst g < length vals"
      using assms(3,4) by auto
    then show "\<exists>s. bar_svg t gx bw ns ymax (fst g) e = Inr s"
      unfolding d by (rule bar_svg_returns [OF assms(1,2)])
  qed
  from this [of "group_x gw (fst g)" "length series"] show ?thesis
    by (auto simp: group_svg_def Let_def)
qed

lemma bar_chart_returns:
  assumes t: "theme_of th = Inr t" and y: "ymax \<noteq> 0" and g: "groups \<noteq> []"
    and s: "series \<noteq> []" "length series \<le> 7" "\<forall>r \<in> set series. length groups \<le> length (snd r)"
  shows "\<exists>doc. bar_chart th title sub groups series ymax ticks xlabel note = Inr doc"
proof -
  obtain axis where axis: "yaxis t ymax ticks ''k ops/s'' = Inr axis"
    using yaxis_returns [OF y] by blast
  obtain gw bw where gw: "fdiv (of_int pw) (of_nat (length groups)) = Inr gw" and bw: "bar_width gw (length series) = Inr bw"
    using g s(1) by (simp add: fdiv_def bar_width_def)
  have "\<exists>bs. mapr (group_svg t gw bw ymax series) (enumerate 0 groups) = Inr bs"
    by (intro mapr_returns group_svg_returns [OF t y s(2)]) (use s(3) in \<open>auto simp: in_set_enumerate_eq\<close>)
  then obtain bs where bs: "mapr (group_svg t gw bw ymax series) (enumerate 0 groups) = Inr bs"
    by blast
  have "\<exists>ls. mapr (legend_svg t) (if 1 < length series then enumerate 0 series else []) = Inr ls"
    by (rule mapr_returns)
      (use series_colour_returns [OF t] s(2) in \<open>fastforce simp: legend_svg_def Let_def in_set_enumerate_eq split: if_splits\<close>)
  then obtain ls where ls: "mapr (legend_svg t) (if 1 < length series then enumerate 0 series else []) = Inr ls"
    by blast
  show ?thesis
    unfolding bar_chart_def t axis gw bw bs ls rbind.simps by blast
qed

text \<open>A chart is good when it can be drawn in both themes and is then well formed.\<close>

definition good_chart :: "(string \<Rightarrow> string result) \<Rightarrow> bool" where
  "good_chart fn \<longleftrightarrow> (\<forall>th \<in> {''light'', ''dark''}. \<exists>doc. fn th = Inr doc \<and> well_formed doc)"

lemma theme_names: "th \<in> {''light'', ''dark''} \<Longrightarrow> \<exists>t. theme_of th = Inr t"
  by (auto simp: theme_of_def dict_item_def themes_def)

lemma good_line_chart:
  assumes "ymax \<noteq> 0" "length xs \<noteq> 1" "series \<noteq> []" "length series \<le> 7" "\<forall>r \<in> set series. snd r \<noteq> []"
    and "legal title" "CHR 0x22 \<notin> set title" "legal sub" "list_all plain xs"
    and "list_all (\<lambda>s. legal (fst s)) series" "legal xlabel" "\<forall>v txt. rule = Some (v, txt) \<longrightarrow> legal txt"
  shows "good_chart (\<lambda>th. line_chart th title sub xs series ymax ticks xlabel rule)"
  unfolding good_chart_def
  using line_chart_returns [OF _ assms(1-5)] line_chart_well_formed [OF _ assms(6-12)] theme_names by meson

lemma good_bar_chart:
  assumes "ymax \<noteq> 0" "groups \<noteq> []" "series \<noteq> []" "length series \<le> 7" "\<forall>r \<in> set series. length groups \<le> length (snd r)"
    and "legal title" "CHR 0x22 \<notin> set title" "legal sub" "legal xlabel" "list_all legal groups"
    and "list_all (\<lambda>s. legal (fst s)) series" "\<forall>n. note = Some n \<longrightarrow> legal n"
  shows "good_chart (\<lambda>th. bar_chart th title sub groups series ymax ticks xlabel note)"
  unfolding good_chart_def
  using bar_chart_returns [OF _ assms(1-5)] bar_chart_well_formed [OF _ assms(6-12)] theme_names by meson

lemmas chart_facts = dash_def conns_def plain_lits

lemma good_first_charts: "(stem, fn) \<in> set first_charts \<Longrightarrow> good_chart fn"
proof -
  have "good_chart wire_sweep"
    unfolding wire_sweep_def by (rule good_line_chart) (simp_all add: wire_series_def chart_facts)
  moreover have "good_chart local_get_fast"
    unfolding local_get_fast_def by (rule good_line_chart) (simp_all add: pick_def local_get_def fast_engines_def chart_facts)
  moreover have "good_chart local_get_family"
    unfolding local_get_family_def by (rule good_line_chart) (simp_all add: pick_def local_get_def family_engines_def chart_facts)
  moreover have "good_chart local_put_fast"
    unfolding local_put_fast_def by (rule good_line_chart) (simp_all add: pick_def local_put_def fast_engines_def chart_facts)
  moreover have "good_chart local_put_family"
    unfolding local_put_family_def by (rule good_line_chart) (simp_all add: pick_def local_put_def family_engines_def chart_facts)
  moreover have "good_chart replication"
    unfolding replication_def by (rule good_line_chart) (simp_all add: chart_facts)
  moreover have "good_chart sharding"
    unfolding sharding_def by (rule good_bar_chart) (simp_all add: chart_facts)
  ultimately show "(stem, fn) \<in> set first_charts \<Longrightarrow> good_chart fn"
    by (auto simp: first_charts_def)
qed

lemma good_last_charts: "(stem, fn) \<in> set last_charts \<Longrightarrow> good_chart fn"
proof -
  have "good_chart rf2_commit_all"
    unfolding rf2_commit_all_def by (rule good_line_chart) (simp_all add: rf2_all_def chart_facts)
  moreover have "good_chart rf2_commit_master"
    unfolding rf2_commit_master_def by (rule good_line_chart) (simp_all add: rf2_master_def chart_facts)
  ultimately show "(stem, fn) \<in> set last_charts \<Longrightarrow> good_chart fn"
    by (auto simp: last_charts_def)
qed

section \<open>What the script writes\<close>

definition chart_files :: "string list \<Rightarrow> string \<times> (string \<Rightarrow> string result) \<Rightarrow> files" where
  "chart_files dirs job =
     concat (map (\<lambda>th. map (\<lambda>d. (d, fst job @ ''-'' @ th @ ''.svg'', projr (snd job th))) dirs) [''light'', ''dark''])"

lemma emit_good: "good_chart fn \<Longrightarrow> emit dirs stem fn w = (w @ chart_files dirs (stem, fn), Inr ())"
  by (auto simp: good_chart_def emit_def emit_theme_def chart_files_def)

lemma emit_all_good:
  "(\<And>stem fn. (stem, fn) \<in> set jobs \<Longrightarrow> good_chart fn) \<Longrightarrow>
    emit_all dirs jobs w = (w @ concat (map (chart_files dirs) jobs), Inr ())"
proof (induction dirs jobs w rule: emit_all.induct)
  case (1 dirs w)
  then show ?case by simp
next
  case (2 dirs stem fn jobs w)
  have "emit dirs stem fn w = (w @ chart_files dirs (stem, fn), Inr ())"
    by (rule emit_good) (use "2.prems" in auto)
  moreover have "emit_all dirs jobs (w @ chart_files dirs (stem, fn)) =
      ((w @ chart_files dirs (stem, fn)) @ concat (map (chart_files dirs) jobs), Inr ())"
    by (rule "2.IH") (use "2.prems" \<open>emit dirs stem fn w = _\<close> in auto)
  ultimately show ?case by simp
qed

lemma targets_find:
  "targets is_dir acc args =
     (case find (\<lambda>d. \<not> is_dir d) args of
        Some a \<Rightarrow> Inl (SystemExit (''not a directory: '' @ a))
      | None \<Rightarrow> Inr (acc @ args))"
  by (induction is_dir acc args rule: targets.induct) (simp_all split: option.splits)

lemma mkcharts_refuses:
  assumes "\<not> list_all is_dir args"
  shows "\<exists>a. find (\<lambda>d. \<not> is_dir d) args = Some a \<and>
    mkcharts is_dir own args w = (w, None, Inl (SystemExit (''not a directory: '' @ a)))"
proof -
  obtain a where "find (\<lambda>d. \<not> is_dir d) args = Some a"
    using assms by (metis find_None_iff list_all_iff option.exhaust)
  then show ?thesis
    by (auto simp: mkcharts_def targets_find)
qed

lemma targets_dirs: "list_all is_dir args \<Longrightarrow> targets is_dir acc args = Inr (acc @ args)"
  by (induction is_dir acc args rule: targets.induct) simp_all

lemma mkcharts_writes:
  assumes "list_all is_dir args"
  shows "mkcharts is_dir own args w =
    (w @ concat (map (chart_files (own # args)) (first_charts @ last_charts)),
     Some (listing own (w @ concat (map (chart_files (own # args)) first_charts))), Inr ())"
proof -
  let ?d = "own # args"
  have "emit_all ?d first_charts w = (w @ concat (map (chart_files ?d) first_charts), Inr ())"
    by (rule emit_all_good) (rule good_first_charts)
  moreover have "emit_all ?d last_charts w' = (w' @ concat (map (chart_files ?d) last_charts), Inr ())" for w'
    by (rule emit_all_good) (rule good_last_charts)
  ultimately show ?thesis
    using targets_dirs [OF assms, of "[own]"] by (simp add: mkcharts_def)
qed

lemma good_charts: "(stem, fn) \<in> set (first_charts @ last_charts) \<Longrightarrow> good_chart fn"
  using good_first_charts good_last_charts by auto

lemma mkcharts_files:
  assumes "list_all is_dir args"
  shows "\<exists>new names. mkcharts is_dir own args w = (w @ new, Some names, Inr ()) \<and> length new = 18 * length (own # args) \<and>
    (\<forall>(stem, fn) \<in> set (first_charts @ last_charts). \<forall>th \<in> {''light'', ''dark''}. \<forall>d \<in> set (own # args).
       \<exists>doc. fn th = Inr doc \<and> well_formed doc \<and> (d, stem @ ''-'' @ th @ ''.svg'', doc) \<in> set new)"
proof -
  let ?new = "concat (map (chart_files (own # args)) (first_charts @ last_charts))"
  have l: "length (chart_files dirs job) = 2 * length dirs" for dirs job
    by (simp add: chart_files_def)
  have "length (first_charts @ last_charts) = 9"
    by (simp add: first_charts_def last_charts_def)
  then have "length ?new = 18 * length (own # args)"
    unfolding length_concat map_map comp_def l sum_list_triv by simp
  moreover have "\<exists>doc. fn th = Inr doc \<and> well_formed doc \<and> (d, stem @ ''-'' @ th @ ''.svg'', doc) \<in> set ?new"
    if m: "(stem, fn) \<in> set (first_charts @ last_charts)" "th \<in> {''light'', ''dark''}" "d \<in> set (own # args)" for stem fn th d
  proof -
    obtain doc where doc: "fn th = Inr doc" "well_formed doc"
      using good_charts [OF m(1)] m(2) unfolding good_chart_def by blast
    have "(d, stem @ ''-'' @ th @ ''.svg'', projr (fn th)) \<in> set (chart_files (own # args) (stem, fn))"
      using m(2,3) by (auto simp: chart_files_def)
    then have "(d, stem @ ''-'' @ th @ ''.svg'', projr (fn th)) \<in> set ?new"
      using m(1) unfolding set_concat set_map by blast
    with doc show ?thesis by simp
  qed
  ultimately show ?thesis
    using mkcharts_writes [OF assms] by blast
qed

text \<open>On an empty directory the printed list leaves out the two charts that are emitted after it.\<close>

lemma chart_file_name:
  "f \<in> set (chart_files dirs job) \<Longrightarrow> fst (snd f) = fst job @ ''-light.svg'' \<or> fst (snd f) = fst job @ ''-dark.svg''"
  by (auto simp: chart_files_def)

lemma first_chart_stems: "fst ` set first_charts =
    {''wire-sweep'', ''local-get-fast'', ''local-get-family'', ''local-put-fast'', ''local-put-family'', ''replication'', ''sharding''}"
  by (simp add: first_charts_def)

lemma first_chart_name: "f \<in> set (concat (map (chart_files dirs) first_charts)) \<Longrightarrow> fst (snd f) \<noteq> ''rf2-commit-all-light.svg''"
proof -
  assume "f \<in> set (concat (map (chart_files dirs) first_charts))"
  then obtain job where j: "job \<in> set first_charts" "f \<in> set (chart_files dirs job)"
    by auto
  then have "fst job \<in> fst ` set first_charts"
    by blast
  then show ?thesis
    using chart_file_name [OF j(2)] unfolding first_chart_stems by (elim insertE emptyE disjE) simp_all
qed

lemma listing_mem: "x \<in> set (listing own w) \<Longrightarrow> \<exists>f \<in> set w. fst (snd f) = x"
  by (auto simp: listing_def)

lemma listing_incomplete:
  assumes "list_all is_dir args"
  shows "\<exists>w' names. mkcharts is_dir own args [] = (w', Some names, Inr ()) \<and>
    (own, ''rf2-commit-all-light.svg'', projr (rf2_commit_all ''light'')) \<in> set w' \<and> ''rf2-commit-all-light.svg'' \<notin> set names"
proof -
  have "(''rf2-commit-all'', rf2_commit_all) \<in> set last_charts"
    by (simp add: last_charts_def)
  moreover have "(own, ''rf2-commit-all-light.svg'', projr (rf2_commit_all ''light'')) \<in>
      set (chart_files (own # args) (''rf2-commit-all'', rf2_commit_all))"
    by (simp add: chart_files_def)
  ultimately have "(own, ''rf2-commit-all-light.svg'', projr (rf2_commit_all ''light'')) \<in>
      set (concat (map (chart_files (own # args)) (first_charts @ last_charts)))"
    by fastforce
  moreover have "''rf2-commit-all-light.svg'' \<notin> set (listing own (concat (map (chart_files (own # args)) first_charts)))"
    using first_chart_name [of _ "own # args"] listing_mem [of "''rf2-commit-all-light.svg''" own] by meson
  ultimately show ?thesis
    unfolding mkcharts_writes [OF assms] by simp
qed

end
