(* ===== verification/Vdb_Charts.thy ===== *)
theory Vdb_Charts
  imports Svg_Text
begin

text \<open>
  The chart generator \<open>vectordbbench/charts/make_charts.py\<close>: its measurement tables, the SVG helpers, the three
  charts and the main program. Coordinates are Python floats; numbers that are only printed (font
  sizes, stroke widths, opacities) are the text Python prints for the literal. \<open>math.sqrt\<close> is the
  correctly rounded root; \<open>math.log10\<close> is the platform's function, the argument \<open>lg\<close>. Text outside
  ASCII is its UTF-8 encoding, and paths are opaque names.
\<close>

section \<open>Square roots\<close>

fun isqrt :: "nat \<Rightarrow> nat" where
  "isqrt n = (if n = 0 then 0 else (let r = 2 * isqrt (n div 4) in if (r + 1) ^ 2 \<le> n then r + 1 else r))"

declare isqrt.simps [simp del]

text \<open>
  The root of \<open>x\<close> scaled to at least 55 bits; an inexact root is represented by the middle between its
  neighbours, which rounds like it.
\<close>

definition fsqrt :: "rat \<Rightarrow> rat result" where
  "fsqrt x =
     (if x < 0 then Inl (ValueError ''math domain error'')
      else if x = 0 then Inr 0
      else
        (let k = 56 - expo x div 2;
             y = x * 4 powi k;
             r = of_nat (isqrt (nat \<lfloor>y\<rfloor>))
         in Inr (rnd ((if r * r = y then r else r + 1 / 2) / 2 powi k))))"

definition math_log10 :: "(rat \<Rightarrow> rat) \<Rightarrow> rat \<Rightarrow> rat result" where
  "math_log10 lg q = (if q \<le> 0 then Inl (ValueError ''math domain error'') else Inr (lg q))"

section \<open>Measurements\<close>

text \<open>The literals as written; a program value is the double of its literal.\<close>

definition curve_literals :: "(string \<times> (rat \<times> rat) list) list" where
  "curve_literals =
     [(''rostam'', [(8889 / 10000, 46915 / 10), (9694 / 10000, 26754 / 10), (9877 / 10000, 16609 / 10),
                    (9952 / 10000, 10423 / 10), (9978 / 10000, 7139 / 10)]),
      (''pgvector'', [(9075 / 10000, 28332 / 10), (9747 / 10000, 10871 / 10), (9897 / 10000, 6029 / 10)]),
      (''milvus'', [(9080 / 10000, 25889 / 10), (9838 / 10000, 10232 / 10), (9906 / 10000, 8054 / 10)]),
      (''weaviate'', [(8741 / 10000, 11355 / 10), (9618 / 10000, 9472 / 10), (9829 / 10000, 7569 / 10)]),
      (''redis'', [(8731 / 10000, 8799 / 10), (9616 / 10000, 4239 / 10), (9828 / 10000, 2398 / 10)]),
      (''qdrant'', [(9675 / 10000, 6620 / 10), (9926 / 10000, 3856 / 10), (9968 / 10000, 2769 / 10)])]"

definition curve :: "(string \<times> (rat \<times> rat) list) list" where
  "curve = map (\<lambda>(k, pts). (k, map (\<lambda>(r, q). (flit r, flit q)) pts)) curve_literals"

definition matched :: "(string \<times> (string \<times> int option) list) list" where
  "matched =
     [(''0.95'', [(''rostam'', Some 3161), (''milvus'', Some 1721), (''pgvector'', Some 1729),
                  (''weaviate'', Some 973), (''qdrant'', None), (''redis'', Some 484)]),
      (''0.97'', [(''rostam'', Some 2642), (''milvus'', Some 1308), (''pgvector'', Some 1209),
                  (''weaviate'', Some 873), (''qdrant'', Some 634), (''redis'', Some 351)]),
      (''0.98'', [(''rostam'', Some 2088), (''milvus'', Some 1102), (''pgvector'', Some 916),
                  (''weaviate'', Some 783), (''qdrant'', Some 524), (''redis'', Some 264)]),
      (''0.99'', [(''rostam'', Some 1471), (''milvus'', Some 826), (''pgvector'', None),
                  (''weaviate'', None), (''qdrant'', Some 414), (''redis'', None)])]"

record load_row =
  row_load :: rat
  row_cpu :: rat
  row_cores :: rat
  row_qps :: rat

definition load_literals :: "(string \<times> load_row) list" where
  "load_literals =
     [(''rostam'', \<lparr>row_load = 2822 / 10, row_cpu = 19338 / 10, row_cores = 754 / 100, row_qps = 26754 / 10\<rparr>),
      (''pgvector'', \<lparr>row_load = 3861 / 10, row_cpu = 26370 / 10, row_cores = 1104 / 100, row_qps = 10871 / 10\<rparr>),
      (''milvus'', \<lparr>row_load = 4763 / 10, row_cpu = 26956 / 10, row_cores = 981 / 100, row_qps = 10232 / 10\<rparr>),
      (''qdrant'', \<lparr>row_load = 5922 / 10, row_cpu = 23860 / 10, row_cores = 992 / 100, row_qps = 3856 / 10\<rparr>),
      (''redis'', \<lparr>row_load = 13549 / 10, row_cpu = 13555 / 10, row_cores = 100 / 100, row_qps = 4239 / 10\<rparr>),
      (''weaviate'', \<lparr>row_load = 14327 / 10, row_cpu = 49370 / 10, row_cores = 886 / 100, row_qps = 9472 / 10\<rparr>)]"

definition loads :: "(string \<times> load_row) list" where
  "loads =
     map (\<lambda>(k, d). (k, \<lparr>row_load = flit (row_load d), row_cpu = flit (row_cpu d), row_cores = flit (row_cores d),
                        row_qps = flit (row_qps d)\<rparr>)) load_literals"

definition labels :: "(string \<times> string) list" where
  "labels =
     [(''rostam'', ''Rostam''), (''milvus'', ''Milvus''), (''pgvector'', ''pgvector''), (''weaviate'', ''Weaviate''),
      (''qdrant'', ''Qdrant''), (''redis'', ''Redis'')]"

definition engine_order :: "string list" where
  "engine_order = [''rostam'', ''milvus'', ''pgvector'', ''weaviate'', ''qdrant'', ''redis'']"

record palette =
  p_ink :: string
  p_muted :: string
  p_faint :: string
  p_rule :: string
  p_grid :: string
  p_bg :: string
  p_ok :: string
  p_engines :: "(string \<times> string) list"

definition light_palette :: palette where
  "light_palette =
     \<lparr>p_ink = ''#0F151D'', p_muted = ''#55616F'', p_faint = ''#8994A2'', p_rule = ''#DCE1E7'', p_grid = ''#E7EBEF'',
      p_bg = ''#FFFFFF'', p_ok = ''#0E7C5A'',
      p_engines = [(''rostam'', ''#B45309''), (''milvus'', ''#0E8C86''), (''pgvector'', ''#4457C9''),
                   (''weaviate'', ''#5E8C1F''), (''qdrant'', ''#C2385C''), (''redis'', ''#7B57C4'')]\<rparr>"

definition dark_palette :: palette where
  "dark_palette =
     \<lparr>p_ink = ''#E4E9EF'', p_muted = ''#93A0AE'', p_faint = ''#64717F'', p_rule = ''#2A3542'', p_grid = ''#1E2732'',
      p_bg = ''#0D1117'', p_ok = ''#3FBE8F'',
      p_engines = [(''rostam'', ''#F0A22E''), (''milvus'', ''#35C4BB''), (''pgvector'', ''#7F90F2''),
                   (''weaviate'', ''#9CCB4B''), (''qdrant'', ''#F0708F''), (''redis'', ''#AC8DF0'')]\<rparr>"

definition palettes :: "(string \<times> palette) list" where
  "palettes = [(''light'', light_palette), (''dark'', dark_palette)]"

definition mono_font :: string where
  "mono_font = ''ui-monospace, SFMono-Regular, Menlo, Consolas, monospace''"

section \<open>SVG helpers\<close>

definition text_el :: "rat \<Rightarrow> rat \<Rightarrow> string \<Rightarrow> string \<Rightarrow> string \<Rightarrow> string \<Rightarrow> string \<Rightarrow> string option \<Rightarrow> string" where
  \<open>text_el x y s fill sz anchor weight spacing =
     ''<text x="'' @ fmt_fixed 1 x @ ''" y="'' @ fmt_fixed 1 y @ ''" fill="'' @ fill @ ''" font-family="'' @ mono_font @
     ''" font-size="'' @ sz @ ''" text-anchor="'' @ anchor @ ''" font-weight="'' @ weight @ ''"'' @
     (case spacing of None \<Rightarrow> [] | Some p \<Rightarrow> if p = [] then [] else '' letter-spacing="'' @ p @ ''"'') @ ''>'' @
     esc s @ ''</text>''\<close>

definition line_el :: "rat \<Rightarrow> rat \<Rightarrow> rat \<Rightarrow> rat \<Rightarrow> string \<Rightarrow> string \<Rightarrow> string option \<Rightarrow> string" where
  \<open>line_el xa ya xb yb stroke w dash =
     ''<line x1="'' @ fmt_fixed 1 xa @ ''" y1="'' @ fmt_fixed 1 ya @ ''" x2="'' @ fmt_fixed 1 xb @ ''" y2="'' @ fmt_fixed 1 yb @
     ''" stroke="'' @ stroke @ ''" stroke-width="'' @ w @ ''"'' @
     (case dash of None \<Rightarrow> [] | Some p \<Rightarrow> if p = [] then [] else '' stroke-dasharray="'' @ p @ ''"'') @ ''/>''\<close>

definition rect_el :: "rat \<Rightarrow> rat \<Rightarrow> rat \<Rightarrow> rat \<Rightarrow> string \<Rightarrow> string \<Rightarrow> string \<Rightarrow> string" where
  \<open>rect_el x y w h fill opacity rx =
     ''<rect x="'' @ fmt_fixed 1 x @ ''" y="'' @ fmt_fixed 1 y @ ''" width="'' @ fmt_fixed 1 (max w 0) @ ''" height="'' @
     fmt_fixed 1 (max h 0) @ ''" fill="'' @ fill @ ''" opacity="'' @ opacity @ ''" rx="'' @ rx @ ''"/>''\<close>

definition circle_el :: "rat \<Rightarrow> rat \<Rightarrow> rat \<Rightarrow> string \<Rightarrow> string \<Rightarrow> string \<Rightarrow> string \<Rightarrow> string" where
  \<open>circle_el cx cy r fill stroke sw opacity =
     ''<circle cx="'' @ fmt_fixed 1 cx @ ''" cy="'' @ fmt_fixed 1 cy @ ''" r="'' @ fmt_fixed 1 r @ ''" fill="'' @ fill @
     ''" opacity="'' @ opacity @ ''" stroke="'' @ stroke @ ''" stroke-width="'' @ sw @ ''"/>''\<close>

definition svg :: "int \<Rightarrow> int \<Rightarrow> string \<Rightarrow> palette \<Rightarrow> string \<Rightarrow> string" where
  \<open>svg width height body t title =
     ''<svg xmlns="http://www.w3.org/2000/svg" viewBox="0 0 '' @ str_int width @ '' '' @ str_int height @ ''" width="'' @
     str_int width @ ''" height="'' @ str_int height @ ''" role="img" aria-label="'' @ esc title @ ''">'' @
     ''<title>'' @ esc title @ ''</title>'' @
     ''<rect width="'' @ str_int width @ ''" height="'' @ str_int height @ ''" fill="'' @ p_bg t @ ''"/>'' @
     body @ ''</svg>'' @ [CHR 0x0A]\<close>

text \<open>\<open>format(n, ',.0f')\<close>: commas between groups of three digits, counted from the right.\<close>

fun group_digits :: "string \<Rightarrow> string" where
  "group_digits (a # b # c # d # ds) = a # b # c # CHR '','' # group_digits (d # ds)"
| "group_digits ds = ds"

definition fmt :: "rat \<Rightarrow> string" where
  "fmt n =
     (if n < 0 then ''-'' else []) @ rev (group_digits (rev (dec_nat (nat (half_even \<bar>n\<bar>)))))"

text \<open>The calls that leave the keyword arguments at their defaults.\<close>

abbreviation note_el :: "rat \<Rightarrow> rat \<Rightarrow> string \<Rightarrow> string \<Rightarrow> string \<Rightarrow> string" where
  "note_el x y s fill anchor \<equiv> text_el x y s fill ''10.5'' anchor ''normal'' None"

abbreviation thin_line :: "rat \<Rightarrow> rat \<Rightarrow> rat \<Rightarrow> rat \<Rightarrow> string \<Rightarrow> string" where
  "thin_line xa ya xb yb stroke \<equiv> line_el xa ya xb yb stroke ''1'' None"

text \<open>The plot area of a chart: \<open>x0\<close>, \<open>x1\<close>, \<open>y0\<close> and \<open>y1\<close> of the source.\<close>

record frame =
  left :: int
  right :: int
  bottom :: int
  top :: int

definition frame_of :: "int \<Rightarrow> int \<Rightarrow> int \<Rightarrow> int \<Rightarrow> int \<Rightarrow> int \<Rightarrow> frame" where
  "frame_of w h l r t b = \<lparr>left = l, right = w - r, bottom = h - b, top = t\<rparr>"

text \<open>The label of the vertical axis, turned by a quarter.\<close>

definition axis_label :: "int \<Rightarrow> frame \<Rightarrow> string \<Rightarrow> palette \<Rightarrow> string" where
  \<open>axis_label x f s t =
     (let y = rnd (of_int (bottom f + top f) / 2)
      in ''<g transform="rotate(-90 '' @ str_int x @ '' '' @ fmt_fixed 1 y @ '')">'' @
         text_el (of_int x) y s (p_faint t) ''10'' ''middle'' ''normal'' (Some ''0.12em'') @ ''</g>'')\<close>

section \<open>Recall against throughput\<close>

definition pareto_frame :: frame where
  "pareto_frame = frame_of 880 470 62 112 26 56"

definition pareto_x :: "rat \<Rightarrow> rat result" where
  "pareto_x r =
     rbind (fdiv (fsub r (flit (865 / 1000))) (fsub 1 (flit (865 / 1000)))) (\<lambda>q.
       Inr (fadd (of_int (left pareto_frame)) (fmul q (of_int (right pareto_frame - left pareto_frame)))))"

definition pareto_y :: "(rat \<Rightarrow> rat) \<Rightarrow> rat \<Rightarrow> rat result" where
  "pareto_y lg q =
     rbind (math_log10 lg q) (\<lambda>a.
     rbind (math_log10 lg 200) (\<lambda>b.
     rbind (math_log10 lg 5200) (\<lambda>c.
     rbind (fdiv (fsub a b) (fsub c b)) (\<lambda>d.
       Inr (fsub (of_int (bottom pareto_frame)) (fmul d (of_int (bottom pareto_frame - top pareto_frame))))))))"

definition pareto_row :: "palette \<Rightarrow> (rat \<Rightarrow> rat) \<Rightarrow> rat \<Rightarrow> string result" where
  "pareto_row t lg q =
     rbind (pareto_y lg q) (\<lambda>y.
       Inr (thin_line (of_int (left pareto_frame)) y (of_int (right pareto_frame)) y (p_grid t) @
            note_el (of_int (left pareto_frame - 9)) (fadd y (7 / 2)) (fmt q) (p_faint t) ''end''))"

definition pareto_column :: "palette \<Rightarrow> rat \<Rightarrow> string result" where
  "pareto_column t r =
     rbind (pareto_x r) (\<lambda>x.
       Inr (thin_line x (of_int (bottom pareto_frame)) x (of_int (top pareto_frame)) (p_grid t) @
            note_el x (of_int (bottom pareto_frame + 18)) (fmt_fixed 2 r) (p_faint t) ''middle''))"

definition pareto_point :: "(rat \<Rightarrow> rat) \<Rightarrow> rat \<times> rat \<Rightarrow> (rat \<times> rat) result" where
  "pareto_point lg p = rbind (pareto_x (fst p)) (\<lambda>x. rbind (pareto_y lg (snd p)) (\<lambda>y. Inr (x, y)))"

text \<open>\<open>M\<close> before the first point of a path, \<open>L\<close> before the others.\<close>

definition path_step :: "nat \<times> rat \<times> rat \<Rightarrow> string" where
  "path_step p =
     (case p of (i, x, y) \<Rightarrow> (if i = 0 then ''M'' else ''L'') @ fmt_fixed 1 x @ '','' @ fmt_fixed 1 y)"

definition pareto_engine :: "palette \<Rightarrow> (rat \<Rightarrow> rat) \<Rightarrow> string \<Rightarrow> string result" where
  \<open>pareto_engine t lg k =
     rbind (dict_item curve k) (\<lambda>pts.
     rbind (dict_item (p_engines t) k) (\<lambda>col.
     rbind (mapr (pareto_point lg) pts) (\<lambda>xys.
     rbind (if xys = [] then Inl (IndexError ''list index out of range'') else Inr (last xys)) (\<lambda>end.
     rbind (dict_item labels k) (\<lambda>label.
       (let lead = (k = ''rostam'')
        in Inr (''<path d="'' @ join '' '' (map path_step (enumerate 0 xys)) @ ''" fill="none" stroke="'' @ col @
                ''" stroke-width="'' @ (if lead then ''2.8'' else ''1.6'') @
                ''" stroke-linecap="round" stroke-linejoin="round" opacity="'' @ (if lead then ''1'' else ''0.85'') @ ''"/>'' @
                concat (map (\<lambda>(x, y). circle_el x y (flit (if lead then 44 / 10 else 31 / 10)) (p_bg t) col
                                        (if lead then ''2.5'' else ''1.7'') ''1'') xys) @
                text_el (fadd (fst end) 11) (fadd (snd end) 4) label col ''11.5'' ''start'' ''600'' None)))))))\<close>

definition chart_pareto :: "(rat \<Rightarrow> rat) \<Rightarrow> palette \<Rightarrow> string result" where
  "chart_pareto lg t =
     rbind (mapr (pareto_row t lg) [200, 500, 1000, 2000, 5000]) (\<lambda>rows.
     rbind (mapr (\<lambda>r. pareto_column t (flit r)) [88 / 100, 90 / 100, 92 / 100, 94 / 100, 96 / 100, 98 / 100, 1]) (\<lambda>columns.
     rbind (mapr (pareto_engine t lg) engine_order) (\<lambda>engines.
     rbind (dict_item curve ''rostam'') (\<lambda>pts.
     rbind (pareto_point lg (last pts)) (\<lambda>end.
     rbind (dict_item (p_engines t) ''rostam'') (\<lambda>col.
       Inr (svg 880 470
              (concat rows @ concat columns @
               thin_line (of_int (left pareto_frame)) (of_int (bottom pareto_frame)) (of_int (right pareto_frame))
                 (of_int (bottom pareto_frame)) (p_rule t) @
               text_el (rnd (of_int (left pareto_frame + right pareto_frame) / 2)) (of_int (bottom pareto_frame + 40))
                 ''RECALL @ k=100'' (p_faint t) ''10'' ''middle'' ''normal'' (Some ''0.12em'') @
               axis_label 16 pareto_frame ''QUERIES / SEC'' t @ concat engines @
               text_el (fadd (fst end) 11) (fadd (snd end) 19) ''0.9978'' col ''10.5'' ''start'' ''600'' None)
              t
              (''Recall versus queries per second. Rostam's curve is above every '' @
               ''other engine across the full recall range.''))))))))"

section \<open>Throughput at matched recall\<close>

definition matched_frame :: frame where
  "matched_frame = frame_of 880 400 60 24 20 70"

definition matched_y :: "rat \<Rightarrow> rat result" where
  "matched_y q =
     rbind (fdiv q 3400) (\<lambda>d.
       Inr (fsub (of_int (bottom matched_frame)) (fmul d (of_int (bottom matched_frame - top matched_frame)))))"

definition matched_row :: "palette \<Rightarrow> rat \<Rightarrow> string result" where
  "matched_row t q =
     rbind (matched_y q) (\<lambda>y.
       Inr (thin_line (of_int (left matched_frame)) y (of_int (right matched_frame)) y (p_grid t) @
            note_el (of_int (left matched_frame - 9)) (fadd y (7 / 2)) (fmt q) (p_faint t) ''end''))"

definition matched_bar :: "palette \<Rightarrow> rat \<Rightarrow> rat \<Rightarrow> string \<Rightarrow> int option \<Rightarrow> string result" where
  "matched_bar t x bw k v =
     (case v of
        None \<Rightarrow>
          Inr (note_el (fadd x (rnd (bw / 2))) (of_int (bottom matched_frame - 6)) [CHR 0xE2, CHR 0x80, CHR 0x93]
                 (p_faint t) ''middle'')
      | Some n \<Rightarrow>
          rbind (matched_y (of_int n)) (\<lambda>y.
          rbind (dict_item (p_engines t) k) (\<lambda>col.
            (let lead = (k = ''rostam'')
             in Inr (rect_el x y (fsub bw 3) (fsub (of_int (bottom matched_frame)) y) col (if lead then ''1'' else ''0.8'') ''1'' @
                     (if lead then
                        text_el (fadd x (rnd (fsub bw 3 / 2))) (fsub y 6) (fmt (of_int n)) col ''10.5'' ''middle'' ''600'' None
                      else []))))))"

definition matched_group :: "palette \<Rightarrow> rat \<Rightarrow> rat \<Rightarrow> nat \<times> string \<Rightarrow> string result" where
  "matched_group t gw bw g =
     (let gx = fadd (of_int (left matched_frame)) (fmul (of_nat (fst g)) gw);
          n = of_nat (length engine_order)
      in rbind (dict_item matched (snd g)) (\<lambda>row.
         rbind (mapr (\<lambda>(bi, k). rbind (dict_item row k)
                        (matched_bar t (fadd (fadd gx (rnd (fsub gw (fmul bw n) / 2))) (fmul (of_nat bi) bw)) bw k))
                 (enumerate 0 engine_order)) (\<lambda>bars.
           Inr (concat bars @
                note_el (fadd gx (rnd (gw / 2))) (of_int (bottom matched_frame + 20)) (''recall '' @ snd g) (p_muted t) ''middle''))))"

fun matched_legend :: "palette \<Rightarrow> rat \<Rightarrow> string list \<Rightarrow> string result" where
  "matched_legend t lx [] = Inr []"
| "matched_legend t lx (k # ks) =
     rbind (dict_item (p_engines t) k) (\<lambda>col.
     rbind (dict_item labels k) (\<lambda>label.
     rbind (matched_legend t (fadd lx (fadd (fmul (of_nat (length label)) (13 / 2)) 36)) ks) (\<lambda>rest.
       Inr (rect_el lx (of_int (bottom matched_frame + 40)) 9 9 col ''1'' ''2'' @
            note_el (fadd lx 14) (of_int (bottom matched_frame + 48)) label (p_muted t) ''start'' @ rest))))"

definition chart_matched :: "palette \<Rightarrow> string result" where
  "chart_matched t =
     rbind (mapr (matched_row t) [0, 1000, 2000, 3000]) (\<lambda>rows.
     rbind (fdiv (of_int (right matched_frame - left matched_frame)) 4) (\<lambda>gw.
     rbind (fdiv (fsub gw 34) (of_nat (length engine_order))) (\<lambda>w.
     rbind (mapr (matched_group t gw (min 21 w)) (enumerate 0 [''0.95'', ''0.97'', ''0.98'', ''0.99''])) (\<lambda>groups.
     rbind (matched_legend t (of_int (left matched_frame)) engine_order) (\<lambda>legend.
       Inr (svg 880 400
              (concat rows @ concat groups @
               thin_line (of_int (left matched_frame)) (of_int (bottom matched_frame)) (of_int (right matched_frame))
                 (of_int (bottom matched_frame)) (p_rule t) @ legend)
              t (''Throughput at matched recall for six engines at recall 0.95 '' @ ''through 0.99.'')))))))"

section \<open>Load time against CPU time\<close>

definition load_frame :: frame where
  "load_frame = frame_of 880 420 68 132 28 56"

definition load_x :: "rat \<Rightarrow> rat result" where
  "load_x s =
     rbind (fdiv s 1550) (\<lambda>d.
       Inr (fadd (of_int (left load_frame)) (fmul d (of_int (right load_frame - left load_frame)))))"

definition load_y :: "rat \<Rightarrow> rat result" where
  "load_y c =
     rbind (fdiv c 5200) (\<lambda>d.
       Inr (fsub (of_int (bottom load_frame)) (fmul d (of_int (bottom load_frame - top load_frame)))))"

definition load_grid_row :: "palette \<Rightarrow> rat \<Rightarrow> string result" where
  "load_grid_row t c =
     rbind (load_y c) (\<lambda>y.
       Inr (thin_line (of_int (left load_frame)) y (of_int (right load_frame)) y (p_grid t) @
            note_el (of_int (left load_frame - 9)) (fadd y (7 / 2)) (fmt c) (p_faint t) ''end''))"

definition load_grid_column :: "palette \<Rightarrow> int \<Rightarrow> string result" where
  "load_grid_column t s =
     rbind (load_x (of_int s)) (\<lambda>x.
       Inr (thin_line x (of_int (bottom load_frame)) x (of_int (top load_frame)) (p_grid t) @
            note_el x (of_int (bottom load_frame + 18)) (str_int s @ ''s'') (p_faint t) ''middle''))"

text \<open>\<open>f'{load:.0f}s \<dots> {fmt(cpu)} cpu-s'\<close> with a middle dot between the two.\<close>

definition load_caption :: "load_row \<Rightarrow> string" where
  "load_caption d =
     fmt_fixed 0 (row_load d) @ ''s '' @ [CHR 0xC2, CHR 0xB7] @ '' '' @ fmt (row_cpu d) @ '' cpu-s''"

definition load_engine :: "palette \<Rightarrow> string \<Rightarrow> string result" where
  "load_engine t k =
     rbind (dict_item loads k) (\<lambda>d.
     rbind (dict_item (p_engines t) k) (\<lambda>col.
     rbind (fsqrt (row_cores d)) (\<lambda>s.
     rbind (load_x (row_load d)) (\<lambda>x.
     rbind (load_y (row_cpu d)) (\<lambda>y.
     rbind (dict_item labels k) (\<lambda>label.
       (let lead = (k = ''rostam'');
            r = fadd 5 (fmul s (flit (26 / 10)));
            right = (row_load d \<le> 1100);
            dx = (if right then fadd r 9 else - fadd r 9);
            anchor = (if right then ''start'' else ''end'')
        in Inr (circle_el x y r col col (if lead then ''2.5'' else ''1.6'') (if lead then ''0.95'' else ''0.3'') @
                text_el (fadd x dx) (fsub y 2) label col ''11.5'' anchor ''600'' None @
                text_el (fadd x dx) (fadd y 12) (load_caption d) (if lead then col else p_muted t) ''10.5'' anchor
                  (if lead then ''600'' else ''normal'') None))))))))"

definition chart_loadcpu :: "palette \<Rightarrow> string result" where
  "chart_loadcpu t =
     rbind (mapr (load_grid_row t) [0, 1000, 2000, 3000, 4000, 5000]) (\<lambda>rows.
     rbind (mapr (load_grid_column t) [0, 300, 600, 900, 1200, 1500]) (\<lambda>columns.
     rbind (mapr (load_engine t) engine_order) (\<lambda>engines.
       Inr (svg 880 420
              (concat rows @ concat columns @
               thin_line (of_int (left load_frame)) (of_int (bottom load_frame)) (of_int (right load_frame))
                 (of_int (bottom load_frame)) (p_rule t) @
               text_el (rnd (of_int (left load_frame + right load_frame) / 2)) (of_int (bottom load_frame + 40))
                 ''LOAD WALL-CLOCK'' (p_faint t) ''10'' ''middle'' ''normal'' (Some ''0.12em'') @
               axis_label 18 load_frame ''CPU-SECONDS SPENT'' t @
               text_el (of_int (left load_frame + 6)) (of_int (top load_frame + 10))
                 ([CHR 0xE2, CHR 0x86, CHR 0x90] @ '' faster '' @ [CHR 0xC2, CHR 0xB7] @ '' cheaper '' @ [CHR 0xE2, CHR 0x86, CHR 0x93])
                 (p_ok t) ''10.5'' ''start'' ''normal'' None @
               concat engines)
              t
              (''Load wall-clock against CPU seconds spent. Rostam is fastest '' @ ''and cheapest simultaneously.'')))))"

section \<open>Main program\<close>

text \<open>
  The extra output directories are checked before anything is drawn; then every chart is written in
  both themes to every directory. The world is the list of the files written.
\<close>

type_synonym written = "(string \<times> string \<times> string) list"

definition vdb_targets :: "(string \<Rightarrow> bool) \<Rightarrow> string \<Rightarrow> string list \<Rightarrow> string list result" where
  "vdb_targets is_dir own args =
     (case find (\<lambda>d. \<not> is_dir d) args of
        Some d \<Rightarrow> Inl (SystemExit (''not a directory: '' @ d))
      | None \<Rightarrow> Inr (own # args))"

definition vdb_charts :: "(rat \<Rightarrow> rat) \<Rightarrow> (string \<times> (palette \<Rightarrow> string result)) list" where
  "vdb_charts lg = [(''pareto'', chart_pareto lg), (''matched-recall'', chart_matched), (''load-cpu'', chart_loadcpu)]"

definition wrote_line :: "string \<Rightarrow> string \<Rightarrow> nat \<Rightarrow> string" where
  "wrote_line name th n = ''wrote '' @ name @ ''-'' @ th @ ''.svg  ->  '' @ dec_nat n @ '' location(s)''"

text \<open>The loop returns what is on disk, the lines it prints and how it ends.\<close>

fun write_charts ::
  "string list \<Rightarrow> (string \<times> (palette \<Rightarrow> string result) \<times> string) list \<Rightarrow> written \<Rightarrow> written \<times> string list \<times> unit result" where
  "write_charts dirs [] w = (w, [], Inr ())"
| "write_charts dirs ((name, fn, th) # jobs) w =
     (case rbind (dict_item palettes th) fn of
        Inl e \<Rightarrow> (w, [], Inl e)
      | Inr body \<Rightarrow>
          (case write_charts dirs jobs (w @ map (\<lambda>d. (d, name @ ''-'' @ th @ ''.svg'', body)) dirs) of
             (w', out, r) \<Rightarrow> (w', wrote_line name th (length dirs) # out, r)))"

definition vdb_main :: "(rat \<Rightarrow> rat) \<Rightarrow> (string \<Rightarrow> bool) \<Rightarrow> string \<Rightarrow> string list \<Rightarrow> written \<Rightarrow> written \<times> string list \<times> unit result" where
  "vdb_main lg is_dir own args w =
     (case vdb_targets is_dir own args of
        Inl e \<Rightarrow> (w, [], Inl e)
      | Inr dirs \<Rightarrow>
          write_charts dirs [(name, fn, th). (name, fn) \<leftarrow> vdb_charts lg, th \<leftarrow> [''light'', ''dark'']] w)"

end
