(* ===== verification/Vdb_Wf.thy ===== *)
theory Vdb_Wf
  imports Vdb_Charts Svg_Scan
begin

text \<open>
  The documents of \<open>vectordbbench/charts/make_charts.py\<close> are well formed, in both themes and whatever logarithm the
  platform has, and the square root of the model is the integer root of the scaled argument.
\<close>

section \<open>Texts\<close>

lemma plain_group_digits: "plain s \<Longrightarrow> plain (group_digits s)"
  by (induction s rule: group_digits.induct) (simp_all add: plain_lits)

lemma plain_rev [simp]: "plain (rev s) = plain s"
  by (simp add: plain_def)

lemma plain_fmt [simp]: "plain (fmt q)"
  by (simp add: fmt_def plain_group_digits plain_lits)

lemma label_plain: "dict_item labels k = Inr l \<Longrightarrow> plain l"
  by (auto simp: dict_item_def labels_def plain_lits split: if_splits)

lemma matched_key_plain: "dict_item matched k = Inr row \<Longrightarrow> plain k"
  by (auto simp: dict_item_def matched_def plain_lits split: if_splits)

lemma load_caption_legal: "legal (load_caption d)"
  by (simp add: load_caption_def xml_char_def)

section \<open>Elements\<close>

lemma text_el_neutral:
  assumes "legal s" "plain fill" "plain sz" "plain anchor" "plain weight" "\<And>p. spacing = Some p \<Longrightarrow> plain p"
  shows "neutral Content (text_el x y s fill sz anchor weight spacing)"
  using assms
  by (intro neutralI) (cases spacing; simp add: text_el_def mono_font_def scan_simps neutral_plain neutral_esc)

lemma line_el_neutral:
  assumes "plain stroke" "plain w" "\<And>p. dash = Some p \<Longrightarrow> plain p"
  shows "neutral Content (line_el xa ya xb yb stroke w dash)"
  using assms
  by (intro neutralI) (cases dash; simp add: line_el_def scan_simps neutral_plain)

lemma rect_el_neutral: "plain fill \<Longrightarrow> plain opacity \<Longrightarrow> plain rx \<Longrightarrow> neutral Content (rect_el x y w h fill opacity rx)"
  by (intro neutralI) (simp add: rect_el_def scan_simps neutral_plain)

lemma circle_el_neutral:
  "plain fill \<Longrightarrow> plain stroke \<Longrightarrow> plain sw \<Longrightarrow> plain opacity \<Longrightarrow> neutral Content (circle_el cx cy r fill stroke sw opacity)"
  by (intro neutralI) (simp add: circle_el_def scan_simps neutral_plain)

lemma axis_label_neutral: "legal s \<Longrightarrow> plain (p_faint t) \<Longrightarrow> neutral Content (axis_label x f s t)"
  by (intro neutralI) (simp add: axis_label_def Let_def text_el_def mono_font_def scan_simps neutral_plain neutral_esc)

lemmas element_neutral = neutral_append text_el_neutral line_el_neutral rect_el_neutral circle_el_neutral axis_label_neutral

definition plain_palette :: "palette \<Rightarrow> bool" where
  "plain_palette t \<longleftrightarrow> plain (p_muted t) \<and> plain (p_faint t) \<and> plain (p_rule t) \<and> plain (p_grid t) \<and> plain (p_bg t) \<and>
     plain (p_ok t) \<and> list_all (plain \<circ> snd) (p_engines t)"

lemma palette_plain: "dict_item palettes th = Inr t \<Longrightarrow> plain_palette t"
  by (auto simp: dict_item_def palettes_def light_palette_def dark_palette_def plain_palette_def plain_lits
      split: if_splits)

lemma plain_paletteD:
  assumes "plain_palette t"
  shows "plain (p_muted t)" "plain (p_faint t)" "plain (p_rule t)" "plain (p_grid t)" "plain (p_bg t)" "plain (p_ok t)"
    and "\<And>k c. dict_item (p_engines t) k = Inr c \<Longrightarrow> plain c"
  using assms
  by (auto simp: plain_palette_def dict_item_def list_all_iff split: option.splits dest!: map_of_SomeD)

lemma svg_well_formed:
  assumes "plain_palette t" "legal title" "CHR 0x22 \<notin> set title" "neutral Content body"
  shows "well_formed (svg width height body t title)"
  using assms plain_paletteD(5) [OF assms(1)]
  by (simp add: well_formed_def svg_def scan_simps neutral_plain neutral_esc)

section \<open>Charts\<close>

lemma pareto_row_neutral: "plain_palette t \<Longrightarrow> pareto_row t lg q = Inr s \<Longrightarrow> neutral Content s"
  by (auto simp: pareto_row_def plain_lits plain_paletteD intro!: element_neutral)

lemma pareto_column_neutral: "plain_palette t \<Longrightarrow> pareto_column t r = Inr s \<Longrightarrow> neutral Content s"
  by (auto simp: pareto_column_def plain_lits plain_paletteD intro!: element_neutral)

lemma path_neutral: "neutral p (join '' '' (map path_step ps))"
  by (rule neutral_join) (auto simp: path_step_def plain_lits intro!: neutral_plain)

lemma pareto_engine_neutral:
  assumes t: "plain_palette t" and e: "pareto_engine t lg k = Inr s"
  shows "neutral Content s"
proof -
  let ?lead = "k = ''rostam''"
  from e obtain col xys label x y where label: "dict_item labels k = Inr label" and col: "dict_item (p_engines t) k = Inr col" and
    s: "s = (''<path d=\"'' @ join '' '' (map path_step (enumerate 0 xys)) @ ''\" fill=\"none\" stroke=\"'' @ col @
         ''\" stroke-width=\"'' @ (if ?lead then ''2.8'' else ''1.6'') @
         ''\" stroke-linecap=\"round\" stroke-linejoin=\"round\" opacity=\"'' @ (if ?lead then ''1'' else ''0.85'') @ ''\"/>'') @
       concat (map (\<lambda>(x, y). circle_el x y (flit (if ?lead then 44 / 10 else 31 / 10)) (p_bg t) col
         (if ?lead then ''2.5'' else ''1.7'') ''1'') xys) @
       text_el (fadd x 11) (fadd y 4) label col ''11.5'' ''start'' ''600'' None"
    unfolding pareto_engine_def by (auto simp: Let_def split: if_splits)
  note c = plain_paletteD(5,7) [OF t]
  have path: "neutral Content (''<path d=\"'' @ join '' '' (map path_step (enumerate 0 xys)) @ ''\" fill=\"none\" stroke=\"'' @ col @
         ''\" stroke-width=\"'' @ (if ?lead then ''2.8'' else ''1.6'') @
         ''\" stroke-linecap=\"round\" stroke-linejoin=\"round\" opacity=\"'' @ (if ?lead then ''1'' else ''0.85'') @ ''\"/>'')"
    by (intro neutralI) (simp add: scan_simps neutral_plain path_neutral c(2) [OF col])
  have dots: "neutral Content (concat (map (\<lambda>(x, y). circle_el x y (flit (if ?lead then 44 / 10 else 31 / 10)) (p_bg t) col
         (if ?lead then ''2.5'' else ''1.7'') ''1'') xys))"
    by (rule neutral_concat) (auto simp: c(1) c(2) [OF col] plain_lits intro!: circle_el_neutral)
  have "neutral Content (text_el (fadd x 11) (fadd y 4) label col ''11.5'' ''start'' ''600'' None)"
    by (intro text_el_neutral) (simp_all add: c(2) [OF col] plain_lits label_plain [OF label])
  then show ?thesis
    unfolding s by (rule neutral_append [OF path neutral_append [OF dots]])
qed

lemma matched_row_neutral: "plain_palette t \<Longrightarrow> matched_row t q = Inr s \<Longrightarrow> neutral Content s"
  by (auto simp: matched_row_def plain_lits plain_paletteD intro!: element_neutral)

lemma matched_bar_neutral: "plain_palette t \<Longrightarrow> matched_bar t x bw k v = Inr s \<Longrightarrow> neutral Content s"
  by (auto simp: matched_bar_def Let_def plain_lits plain_paletteD neutral_Nil intro!: element_neutral split: option.splits)

lemma matched_group_neutral:
  assumes t: "plain_palette t" and g: "matched_group t gw bw g = Inr s"
  shows "neutral Content s"
proof -
  let ?gx = "fadd (of_int (left matched_frame)) (fmul (of_nat (fst g)) gw)"
  from g obtain row bars where r: "dict_item matched (snd g) = Inr row" and b: "mapr (\<lambda>(bi, k). rbind (dict_item row k)
        (matched_bar t (fadd (fadd ?gx (rnd (fsub gw (fmul bw (of_nat (length engine_order))) / 2))) (fmul (of_nat bi) bw)) bw k))
      (enumerate 0 engine_order) = Inr bars"
    and s: "s = concat bars @ note_el (fadd ?gx (rnd (gw / 2))) (of_int (bottom matched_frame + 20)) (''recall '' @ snd g) (p_muted t) ''middle''"
    unfolding matched_group_def by (auto simp: Let_def)
  have "neutral Content (concat bars)"
    by (rule neutral_mapr [OF b]) (auto intro: matched_bar_neutral [OF t])
  then show ?thesis
    unfolding s by (intro element_neutral) (simp_all add: plain_paletteD [OF t] plain_lits matched_key_plain [OF r])
qed

lemma matched_legend_neutral: "plain_palette t \<Longrightarrow> matched_legend t lx ks = Inr s \<Longrightarrow> neutral Content s"
proof (induction t lx ks arbitrary: s rule: matched_legend.induct)
  case (1 t lx)
  then show ?case by (simp add: neutral_Nil)
next
  case (2 t lx k ks)
  then show ?case
    by (auto simp: plain_lits plain_paletteD dest: label_plain intro!: element_neutral plain_legal)
qed

lemma load_grid_row_neutral: "plain_palette t \<Longrightarrow> load_grid_row t c = Inr s \<Longrightarrow> neutral Content s"
  by (auto simp: load_grid_row_def plain_lits plain_paletteD intro!: element_neutral)

lemma load_grid_column_neutral: "plain_palette t \<Longrightarrow> load_grid_column t c = Inr s \<Longrightarrow> neutral Content s"
  by (auto simp: load_grid_column_def plain_lits plain_paletteD intro!: element_neutral)

lemma load_engine_neutral: "plain_palette t \<Longrightarrow> load_engine t k = Inr s \<Longrightarrow> neutral Content s"
  by (auto simp: load_engine_def Let_def plain_lits plain_paletteD load_caption_legal dest!: label_plain intro!: element_neutral)

lemma chart_pareto_well_formed:
  assumes t: "plain_palette t" and c: "chart_pareto lg t = Inr doc"
  shows "well_formed doc"
proof -
  note p = plain_paletteD [OF t]
  from c obtain rows columns engines where
    rows: "mapr (pareto_row t lg) [200, 500, 1000, 2000, 5000] = Inr rows"
    and columns: "mapr (\<lambda>r. pareto_column t (flit r)) [88 / 100, 90 / 100, 92 / 100, 94 / 100, 96 / 100, 98 / 100, 1] = Inr columns"
    and engines: "mapr (pareto_engine t lg) engine_order = Inr engines"
    and rest: "rbind (dict_item curve ''rostam'') (\<lambda>pts. rbind (pareto_point lg (last pts)) (\<lambda>end.
      rbind (dict_item (p_engines t) ''rostam'') (\<lambda>col. Inr (svg 880 470
              (concat rows @ concat columns @
               thin_line (of_int (left pareto_frame)) (of_int (bottom pareto_frame)) (of_int (right pareto_frame))
                 (of_int (bottom pareto_frame)) (p_rule t) @
               text_el (rnd (of_int (left pareto_frame + right pareto_frame) / 2)) (of_int (bottom pareto_frame + 40))
                 ''RECALL @ k=100'' (p_faint t) ''10'' ''middle'' ''normal'' (Some ''0.12em'') @
               axis_label 16 pareto_frame ''QUERIES / SEC'' t @ concat engines @
               text_el (fadd (fst end) 11) (fadd (snd end) 19) ''0.9978'' col ''10.5'' ''start'' ''600'' None)
              t
              (''Recall versus queries per second. Rostam's curve is above every '' @
               ''other engine across the full recall range.''))))) = Inr doc"
    unfolding chart_pareto_def rbind_Inr_iff by blast
  have "neutral Content (concat rows)"
    by (rule neutral_mapr [OF rows]) (rule pareto_row_neutral [OF t])
  moreover have "neutral Content (concat columns)"
    by (rule neutral_mapr [OF columns]) (rule pareto_column_neutral [OF t])
  moreover have "neutral Content (concat engines)"
    by (rule neutral_mapr [OF engines]) (rule pareto_engine_neutral [OF t])
  ultimately show ?thesis
    using rest by (auto intro!: svg_well_formed t element_neutral simp: p plain_lits)
qed

lemma chart_matched_well_formed:
  assumes t: "plain_palette t" and c: "chart_matched t = Inr doc"
  shows "well_formed doc"
proof -
  note p = plain_paletteD [OF t]
  from c obtain rows gw w groups legend where
    rows: "mapr (matched_row t) [0, 1000, 2000, 3000] = Inr rows"
    and groups: "mapr (matched_group t gw (min 21 w)) (enumerate 0 [''0.95'', ''0.97'', ''0.98'', ''0.99'']) = Inr groups"
    and legend: "matched_legend t (of_int (left matched_frame)) engine_order = Inr legend"
    and doc: "doc = svg 880 400
              (concat rows @ concat groups @
               thin_line (of_int (left matched_frame)) (of_int (bottom matched_frame)) (of_int (right matched_frame))
                 (of_int (bottom matched_frame)) (p_rule t) @ legend)
              t (''Throughput at matched recall for six engines at recall 0.95 '' @ ''through 0.99.'')"
    unfolding chart_matched_def rbind_Inr_iff sum.inject by blast
  have "neutral Content (concat rows)"
    by (rule neutral_mapr [OF rows]) (rule matched_row_neutral [OF t])
  moreover have "neutral Content (concat groups)"
    by (rule neutral_mapr [OF groups]) (rule matched_group_neutral [OF t])
  moreover note matched_legend_neutral [OF t legend]
  ultimately show ?thesis
    unfolding doc by (auto intro!: svg_well_formed t element_neutral simp: p plain_lits)
qed

lemma chart_loadcpu_well_formed:
  assumes t: "plain_palette t" and c: "chart_loadcpu t = Inr doc"
  shows "well_formed doc"
proof -
  note p = plain_paletteD [OF t]
  from c obtain rows columns engines where
    rows: "mapr (load_grid_row t) [0, 1000, 2000, 3000, 4000, 5000] = Inr rows"
    and columns: "mapr (load_grid_column t) [0, 300, 600, 900, 1200, 1500] = Inr columns"
    and engines: "mapr (load_engine t) engine_order = Inr engines"
    and doc: "doc = svg 880 420
              (concat rows @ concat columns @
               thin_line (of_int (left load_frame)) (of_int (bottom load_frame)) (of_int (right load_frame))
                 (of_int (bottom load_frame)) (p_rule t) @
               text_el (rnd (of_int (left load_frame + right load_frame) / 2)) (of_int (bottom load_frame + 40))
                 ''LOAD WALL-CLOCK'' (p_faint t) ''10'' ''middle'' ''normal'' (Some ''0.12em'') @
               axis_label 18 load_frame ''CPU-SECONDS SPENT'' t @
               text_el (of_int (left load_frame + 6)) (of_int (top load_frame + 10))
                 ([CHR 0xE2, CHR 0x86, CHR 0x90] @ '' faster '' @ [CHR 0xC2, CHR 0xB7] @ '' cheaper '' @ [CHR 0xE2, CHR 0x86, CHR 0x93])
                 (p_ok t) ''10.5'' ''start'' ''normal'' None @
               concat engines)
              t
              (''Load wall-clock against CPU seconds spent. Rostam is fastest '' @ ''and cheapest simultaneously.'')"
    unfolding chart_loadcpu_def rbind_Inr_iff sum.inject by blast
  have "neutral Content (concat rows)"
    by (rule neutral_mapr [OF rows]) (rule load_grid_row_neutral [OF t])
  moreover have "neutral Content (concat columns)"
    by (rule neutral_mapr [OF columns]) (rule load_grid_column_neutral [OF t])
  moreover have "neutral Content (concat engines)"
    by (rule neutral_mapr [OF engines]) (rule load_engine_neutral [OF t])
  ultimately show ?thesis
    unfolding doc by (auto intro!: svg_well_formed t element_neutral simp: p plain_lits)
qed

end
