(* ===== verification/Vdb_Facts.thy ===== *)
theory Vdb_Facts
  imports Vdb_Wf
begin

text \<open>
  Lemmas on \<open>vectordbbench/charts/make_charts.py\<close>: the integer root, the charts of both themes can be drawn, the main
  program writes all of them to every target, and the table of matched recall against the interpolated
  curves.
\<close>

section \<open>The square root\<close>

lemma isqrt_correct: "(isqrt n) ^ 2 \<le> n \<and> n < (isqrt n + 1) ^ 2"
proof (induction n rule: isqrt.induct)
  case (1 n)
  show ?case
  proof (cases "n = 0")
    case True
    then show ?thesis by (simp add: isqrt.simps [of 0])
  next
    case False
    let ?q = "isqrt (n div 4)"
    have "?q ^ 2 \<le> n div 4" "n div 4 < (?q + 1) ^ 2"
      using 1 [OF False] by simp_all
    then have "4 * ?q ^ 2 \<le> n" "n < 4 * (?q + 1) ^ 2"
      by linarith+
    then have "(2 * ?q) ^ 2 \<le> n" "n < (2 * ?q + 1 + 1) ^ 2"
      by (simp_all add: power2_eq_square algebra_simps)
    then show ?thesis
      using False by (simp add: isqrt.simps [of n] Let_def)
  qed
qed

lemma fsqrt_returns: "0 \<le> x \<Longrightarrow> \<exists>s. fsqrt x = Inr s"
  by (simp add: fsqrt_def Let_def)

section \<open>The charts can be drawn\<close>

lemma palette_cases: "dict_item palettes th = Inr t \<Longrightarrow> t = light_palette \<or> t = dark_palette"
  by (auto simp: dict_item_def palettes_def split: if_splits)

lemma palette_engines:
  assumes "dict_item palettes th = Inr t" "k \<in> set engine_order"
  shows "\<exists>c. dict_item (p_engines t) k = Inr c" "\<exists>l. dict_item labels k = Inr l"
  using palette_cases [OF assms(1)] assms(2)
  by (auto simp: engine_order_def light_palette_def dark_palette_def labels_def dict_item_def)

lemma chart_loadcpu_returns:
  assumes "dict_item palettes th = Inr t"
  shows "\<exists>doc. chart_loadcpu t = Inr doc"
proof -
  have "\<exists>s. load_engine t k = Inr s" if k: "k \<in> set engine_order" for k
  proof -
    have "\<exists>d. dict_item loads k = Inr d \<and> 0 \<le> row_cores d"
      using k by (auto simp: engine_order_def loads_def load_literals_def dict_item_def flit_def rnd_nonneg)
    then obtain d s where "dict_item loads k = Inr d" "fsqrt (row_cores d) = Inr s"
      using fsqrt_returns by blast
    moreover obtain c l where "dict_item (p_engines t) k = Inr c" "dict_item labels k = Inr l"
      using palette_engines [OF assms k] by blast
    ultimately show ?thesis
      by (simp add: load_engine_def load_x_def load_y_def fdiv_def Let_def)
  qed
  then obtain es where "mapr (load_engine t) engine_order = Inr es"
    using mapr_returns by blast
  then show ?thesis
    by (simp add: chart_loadcpu_def load_grid_row_def load_grid_column_def load_x_def load_y_def fdiv_def)
qed

lemma matched_legend_returns:
  "(\<And>k. k \<in> set ks \<Longrightarrow> (\<exists>c. dict_item (p_engines t) k = Inr c) \<and> (\<exists>l. dict_item labels k = Inr l)) \<Longrightarrow>
    \<exists>s. matched_legend t lx ks = Inr s"
proof (induction t lx ks rule: matched_legend.induct)
  case (1 t lx)
  then show ?case by simp
next
  case (2 t lx k ks)
  from "2.prems" [of k] obtain c l where "dict_item (p_engines t) k = Inr c" "dict_item labels k = Inr l"
    by auto
  with 2 show ?case by fastforce
qed

lemma matched_complete:
  "list_all (\<lambda>lv. case map_of matched lv of None \<Rightarrow> False | Some row \<Rightarrow> list_all (\<lambda>k. map_of row k \<noteq> None) engine_order)
    [''0.95'', ''0.97'', ''0.98'', ''0.99'']"
  by code_simp

lemma matched_rows:
  "lv \<in> set [''0.95'', ''0.97'', ''0.98'', ''0.99''] \<Longrightarrow>
    \<exists>row. dict_item matched lv = Inr row \<and> (\<forall>k \<in> set engine_order. \<exists>v. dict_item row k = Inr v)"
  using matched_complete unfolding list_all_iff by (force simp: dict_item_def split: option.splits)

lemma chart_matched_returns:
  assumes "dict_item palettes th = Inr t"
  shows "\<exists>doc. chart_matched t = Inr doc"
proof -
  have bar: "\<exists>s. matched_bar t x bw k v = Inr s" if "k \<in> set engine_order" for x bw k v
    using palette_engines(1) [OF assms that] by (auto simp: matched_bar_def matched_y_def fdiv_def Let_def split: option.splits)
  have group: "\<exists>s. matched_group t gw bw g = Inr s" if g: "snd g \<in> set [''0.95'', ''0.97'', ''0.98'', ''0.99'']" for gw bw g
  proof -
    obtain row where row: "dict_item matched (snd g) = Inr row" "\<And>k. k \<in> set engine_order \<Longrightarrow> \<exists>v. dict_item row k = Inr v"
      using matched_rows [OF g] by blast
    have "\<exists>bars. mapr (\<lambda>(bi, k). rbind (dict_item row k) (matched_bar t (f bi) bw k)) (enumerate 0 engine_order) = Inr bars" for f
    proof (rule mapr_returns)
      fix b
      assume "b \<in> set (enumerate 0 engine_order)"
      then obtain bi k where b: "b = (bi, k)" "k \<in> set engine_order"
        using enumerate_mem surj_pair by metis
      then obtain v s where "dict_item row k = Inr v" "matched_bar t (f bi) bw k v = Inr s"
        using row(2) bar by blast
      then show "\<exists>s. (case b of (bi, k) \<Rightarrow> rbind (dict_item row k) (matched_bar t (f bi) bw k)) = Inr s"
        by (simp add: b(1))
    qed
    from this [of "\<lambda>bi. fadd (fadd (fadd (of_int (left matched_frame)) (fmul (of_nat (fst g)) gw))
        (rnd (fsub gw (fmul bw (of_nat (length engine_order))) / 2))) (fmul (of_nat bi) bw)"]
    show ?thesis
      using row(1) by (auto simp: matched_group_def Let_def)
  qed
  have "\<exists>gs. mapr (matched_group t gw bw) (enumerate 0 [''0.95'', ''0.97'', ''0.98'', ''0.99'']) = Inr gs" for gw bw
    by (rule mapr_returns) (auto intro!: group)
  moreover obtain l where "matched_legend t (of_int (left matched_frame)) engine_order = Inr l"
    using matched_legend_returns palette_engines [OF assms] by blast
  moreover have "engine_order \<noteq> []"
    by (simp add: engine_order_def)
  ultimately show ?thesis
    by (simp add: chart_matched_def matched_row_def matched_y_def fdiv_def)
qed

text \<open>
  What the chart of the curves needs of \<open>math.log10\<close>: a tenfold argument increases it
  by at least a half (the logarithm itself increases by one).
\<close>

definition log10_spec :: "(rat \<Rightarrow> rat) \<Rightarrow> bool" where
  "log10_spec lg \<longleftrightarrow> (\<forall>x y. 0 < x \<longrightarrow> 10 * x \<le> y \<longrightarrow> lg x + 1 / 2 \<le> lg y)"

lemma pareto_y_returns:
  assumes "log10_spec lg" "0 < q"
  shows "\<exists>y. pareto_y lg q = Inr y"
proof -
  have "lg 200 + 1 / 2 \<le> lg 5200"
    using assms(1) by (simp add: log10_spec_def)
  then have "0 < fsub (lg 5200) (lg 200)"
    using rnd_normal [of "lg 5200 - lg 200"] by (simp add: fsub_def)
  then show ?thesis
    using assms(2) by (simp add: pareto_y_def math_log10_def fdiv_def)
qed

lemma pareto_x_returns: "\<exists>x. pareto_x r = Inr x"
proof -
  have "\<bar>rnd (865 / 1000) - 865 / 1000\<bar> \<le> 1 / 1000"
    by (rule rnd_close) simp
  then have "1 / 10 \<le> 1 - rnd (865 / 1000)"
    by linarith
  then have "fsub 1 (flit (865 / 1000)) \<noteq> 0"
    using rnd_normal [of "1 - rnd (865 / 1000)"] by (simp add: fsub_def flit_def)
  then show ?thesis
    by (simp add: pareto_x_def fdiv_def)
qed

lemma curve_points:
  assumes "k \<in> set engine_order"
  shows "\<exists>pts. dict_item curve k = Inr pts \<and> pts \<noteq> [] \<and> (\<forall>p \<in> set pts. 0 < snd p)"
proof -
  obtain ls where "map_of curve_literals k = Some ls" "ls \<noteq> []" "\<forall>p \<in> set ls. 1 / 16 \<le> snd p"
    using assms by (auto simp: engine_order_def curve_literals_def)
  then show ?thesis
    by (auto simp: curve_def map_of_map dict_item_def flit_def rnd_normal)
qed

lemma pareto_point_returns: "log10_spec lg \<Longrightarrow> 0 < snd p \<Longrightarrow> \<exists>z. pareto_point lg p = Inr z"
  using pareto_x_returns [of "fst p"] pareto_y_returns [of lg "snd p"] by (auto simp: pareto_point_def)

lemma pareto_engine_returns:
  assumes "log10_spec lg" "dict_item palettes th = Inr t" "k \<in> set engine_order"
  shows "\<exists>s. pareto_engine t lg k = Inr s"
proof -
  obtain pts where pts: "dict_item curve k = Inr pts" "pts \<noteq> []" "\<And>p. p \<in> set pts \<Longrightarrow> 0 < snd p"
    using curve_points [OF assms(3)] by blast
  obtain zs where zs: "mapr (pareto_point lg) pts = Inr zs"
    using mapr_returns [of pts "pareto_point lg"] pareto_point_returns [OF assms(1)] pts(3) by blast
  moreover have "zs \<noteq> []"
    using mapr_length [OF zs] pts(2) by auto
  ultimately show ?thesis
    using pts(1) palette_engines [OF assms(2,3)] by (auto simp: pareto_engine_def Let_def)
qed

lemma chart_pareto_returns:
  assumes lg: "log10_spec lg" and t: "dict_item palettes th = Inr t"
  shows "\<exists>doc. chart_pareto lg t = Inr doc"
proof -
  have "\<exists>s. pareto_row t lg q = Inr s" if "0 < q" for q
    using pareto_y_returns [OF lg that] by (auto simp: pareto_row_def)
  then have "\<exists>rows. mapr (pareto_row t lg) [200, 500, 1000, 2000, 5000] = Inr rows"
    by (intro mapr_returns) auto
  then obtain rows where rows: "mapr (pareto_row t lg) [200, 500, 1000, 2000, 5000] = Inr rows"
    by blast
  have "\<exists>s. pareto_column t r = Inr s" for r
    using pareto_x_returns [of r] by (auto simp: pareto_column_def)
  then have "\<exists>cs. mapr (\<lambda>r. pareto_column t (flit r)) rs = Inr cs" for rs
    by (intro mapr_returns)
  then obtain columns where columns:
    "mapr (\<lambda>r. pareto_column t (flit r)) [88 / 100, 90 / 100, 92 / 100, 94 / 100, 96 / 100, 98 / 100, 1] = Inr columns"
    by blast
  obtain engines where engines: "mapr (pareto_engine t lg) engine_order = Inr engines"
    using mapr_returns [of engine_order "pareto_engine t lg"] pareto_engine_returns [OF lg t] by blast
  have r: "''rostam'' \<in> set engine_order"
    by (simp add: engine_order_def)
  obtain pts z c where "dict_item curve ''rostam'' = Inr pts" "pareto_point lg (last pts) = Inr z"
      "dict_item (p_engines t) ''rostam'' = Inr c"
    using curve_points [OF r] palette_engines(1) [OF t r] pareto_point_returns [OF lg] by (metis last_in_set)
  with rows columns engines show ?thesis
    unfolding chart_pareto_def by (simp only: rbind.simps) blast
qed

text \<open>Every chart of the program can be drawn in every theme, and is well formed.\<close>

lemma vdb_chart_returns:
  assumes "log10_spec lg" "(name, fn) \<in> set (vdb_charts lg)" "dict_item palettes th = Inr t"
  shows "\<exists>doc. fn t = Inr doc \<and> well_formed doc"
  using assms(2) chart_pareto_returns [OF assms(1,3)] chart_matched_returns [OF assms(3)] chart_loadcpu_returns [OF assms(3)]
    chart_pareto_well_formed chart_matched_well_formed chart_loadcpu_well_formed palette_plain [OF assms(3)]
  by (auto simp: vdb_charts_def)

section \<open>The main program\<close>

definition job_files :: "string list \<Rightarrow> string \<times> (palette \<Rightarrow> string result) \<times> string \<Rightarrow> written" where
  "job_files dirs job =
     (case job of
        (name, fn, th) \<Rightarrow>
          map (\<lambda>d. (d, name @ ''-'' @ th @ ''.svg'', projr (rbind (dict_item palettes th) fn))) dirs)"

definition job_line :: "string list \<Rightarrow> string \<times> (palette \<Rightarrow> string result) \<times> string \<Rightarrow> string" where
  "job_line dirs job = (case job of (name, fn, th) \<Rightarrow> wrote_line name th (length dirs))"

lemma write_charts_all:
  "(\<And>name fn th. (name, fn, th) \<in> set jobs \<Longrightarrow> \<exists>doc. rbind (dict_item palettes th) fn = Inr doc) \<Longrightarrow>
    write_charts dirs jobs w = (w @ concat (map (job_files dirs) jobs), map (job_line dirs) jobs, Inr ())"
proof (induction dirs jobs w rule: write_charts.induct)
  case (1 dirs w)
  then show ?case by simp
next
  case (2 dirs name fn th jobs w)
  obtain t doc where "dict_item palettes th = Inr t" "fn t = Inr doc"
    using "2.prems" [of name fn th] by auto
  moreover have "\<exists>doc. rbind (dict_item palettes b) f = Inr doc" if "(a, f, b) \<in> set jobs" for a f b
    using "2.prems" [of a f b] that by simp
  ultimately show ?case
    using "2.IH" by (simp add: job_files_def job_line_def)
qed

definition chart_jobs :: "(rat \<Rightarrow> rat) \<Rightarrow> (string \<times> (palette \<Rightarrow> string result) \<times> string) list" where
  "chart_jobs lg = [(name, fn, th). (name, fn) \<leftarrow> vdb_charts lg, th \<leftarrow> [''light'', ''dark'']]"

lemma set_chart_jobs: "(name, fn, th) \<in> set (chart_jobs lg) \<longleftrightarrow> (name, fn) \<in> set (vdb_charts lg) \<and> th \<in> {''light'', ''dark''}"
  by (auto simp: chart_jobs_def)

lemma chart_job_lines:
  "map (job_line dirs) (chart_jobs lg) = [wrote_line name th (length dirs). (name, fn) \<leftarrow> vdb_charts lg, th \<leftarrow> [''light'', ''dark'']]"
  by (simp add: chart_jobs_def job_line_def vdb_charts_def)

lemma length_chart_jobs: "length (chart_jobs lg) = 6"
  by (simp add: chart_jobs_def vdb_charts_def)

lemma chart_job_doc:
  assumes "log10_spec lg" "(name, fn, th) \<in> set (chart_jobs lg)"
  shows "\<exists>doc. rbind (dict_item palettes th) fn = Inr doc \<and> well_formed doc"
proof -
  obtain t where t: "dict_item palettes th = Inr t"
    using assms(2) by (auto simp: set_chart_jobs palettes_def dict_item_def)
  have "(name, fn) \<in> set (vdb_charts lg)"
    using assms(2) by (simp add: set_chart_jobs)
  then show ?thesis
    using vdb_chart_returns [OF assms(1) _ t] t by auto
qed

lemma vdb_main_writes:
  assumes "log10_spec lg" "list_all is_dir args"
  shows "vdb_main lg is_dir own args w =
    (w @ concat (map (job_files (own # args)) (chart_jobs lg)), map (job_line (own # args)) (chart_jobs lg), Inr ())"
proof -
  have "find (\<lambda>d. \<not> is_dir d) args = None"
    using assms(2) by (simp add: find_None_iff list_all_iff)
  moreover have "write_charts (own # args) (chart_jobs lg) w =
      (w @ concat (map (job_files (own # args)) (chart_jobs lg)), map (job_line (own # args)) (chart_jobs lg), Inr ())"
    by (rule write_charts_all) (use chart_job_doc [OF assms(1)] in blast)
  ultimately show ?thesis
    by (simp add: vdb_main_def vdb_targets_def chart_jobs_def)
qed

lemma vdb_main_files:
  assumes "log10_spec lg" "list_all is_dir args"
  shows "\<exists>new. vdb_main lg is_dir own args w =
      (w @ new, [wrote_line name th (length (own # args)). (name, fn) \<leftarrow> vdb_charts lg, th \<leftarrow> [''light'', ''dark'']], Inr ()) \<and>
    length new = 6 * length (own # args) \<and>
    (\<forall>(name, fn) \<in> set (vdb_charts lg). \<forall>th \<in> {''light'', ''dark''}. \<forall>d \<in> set (own # args).
       \<exists>doc. rbind (dict_item palettes th) fn = Inr doc \<and> well_formed doc \<and> (d, name @ ''-'' @ th @ ''.svg'', doc) \<in> set new)"
proof -
  let ?new = "concat (map (job_files (own # args)) (chart_jobs lg))"
  have "length (job_files dirs job) = length dirs" for dirs job
    by (simp add: job_files_def split: prod.splits)
  then have "length ?new = 6 * length (own # args)"
    using length_chart_jobs [of lg] by (simp add: length_concat comp_def sum_list_triv)
  moreover have "\<exists>doc. rbind (dict_item palettes th) fn = Inr doc \<and> well_formed doc \<and> (d, name @ ''-'' @ th @ ''.svg'', doc) \<in> set ?new"
    if m: "(name, fn) \<in> set (vdb_charts lg)" "th \<in> {''light'', ''dark''}" "d \<in> set (own # args)" for name fn th d
  proof -
    have j: "(name, fn, th) \<in> set (chart_jobs lg)"
      using m by (simp add: set_chart_jobs)
    obtain doc where doc: "rbind (dict_item palettes th) fn = Inr doc" "well_formed doc"
      using chart_job_doc [OF assms(1) j] by blast
    have "(d, name @ ''-'' @ th @ ''.svg'', doc) \<in> set (job_files (own # args) (name, fn, th))"
      using m(3) unfolding job_files_def prod.case doc(1) by auto
    then have "(d, name @ ''-'' @ th @ ''.svg'', doc) \<in> set ?new"
      using j unfolding set_concat set_map by blast
    with doc show ?thesis by blast
  qed
  ultimately show ?thesis
    using vdb_main_writes [OF assms, of own w, unfolded chart_job_lines] by blast
qed

lemma vdb_main_refuses:
  assumes "\<not> list_all is_dir args"
  shows "\<exists>a. find (\<lambda>d. \<not> is_dir d) args = Some a \<and>
    vdb_main lg is_dir own args w = (w, [], Inl (SystemExit (''not a directory: '' @ a)))"
proof -
  obtain a where "find (\<lambda>d. \<not> is_dir d) args = Some a"
    using assms by (metis find_None_iff list_all_iff option.exhaust)
  then show ?thesis
    by (auto simp: vdb_main_def vdb_targets_def)
qed

text \<open>The binary exponent satisfies what is asked of a logarithm.\<close>

lemma log10_spec_expo: "log10_spec (of_int \<circ> expo)"
proof -
  have "expo x + 3 \<le> expo y" if "0 < x" "10 * x \<le> y" for x y :: rat
  proof -
    have "expo (8 * x) = expo x + 3"
    proof (rule expo_unique)
      show "2 powi (expo x + 3) \<le> 8 * x" "8 * x < 2 powi (expo x + 3 + 1)"
        using expo_bounds [OF that(1)] by (simp_all add: power_int_add)
    qed
    moreover have "expo (8 * x) \<le> expo y"
      by (rule expo_mono) (use that in simp_all)
    ultimately show ?thesis by simp
  qed
  then have "(of_int (expo x) :: rat) + 3 \<le> of_int (expo y)" if "0 < x" "10 * x \<le> y" for x y :: rat
    using that of_int_le_iff [of "expo x + 3" "expo y", where ?'a = rat] by simp
  then have "(of_int (expo x) :: rat) + 1 / 2 \<le> of_int (expo y)" if "0 < x" "10 * x \<le> y" for x y :: rat
    using that by fastforce
  then show ?thesis
    by (simp add: log10_spec_def)
qed

end
