(* ===== verification/Charts.thy ===== *)
theory Charts
  imports Kv_Main Vdb_Facts
begin

text \<open>
  The properties of the two chart generators (\<open>netkv/charts/mkcharts.py\<close> and
  \<open>vectordbbench/charts/make_charts.py\<close>), stated over their definitions and proved from the component theories.
\<close>

section \<open>Documents\<close>

text \<open>
  C35. Every document that either generator draws is well-formed XML: one root element, properly nested
  tags of matching names, attributes of distinct names each behind a blank and with a quoted value, character data in which
  every ampersand begins an entity, and no control characters. This holds for arbitrary measurements and for arbitrary
  names, notes and rules without control characters (\<open>legal\<close>), whose markup \<open>esc\<close> makes safe; it needs a title without a
  quotation mark, which \<open>esc\<close> leaves alone inside the attribute \<open>aria-label\<close>, and tick labels without markup, which the
  line chart does not escape. The charts of the other generator need nothing: their texts are the script's own.
\<close>

theorem charts_well_formed:
  assumes "legal title" "CHR 0x22 \<notin> set title" "legal sub" "list_all plain xs"
    and "list_all (\<lambda>s. legal (fst s)) series" "legal xlabel" "\<forall>v txt. rule = Some (v, txt) \<longrightarrow> legal txt"
    and "list_all legal groups" "\<forall>n. remark = Some n \<longrightarrow> legal n"
    and "line_chart th title sub xs series ymax ticks xlabel rule = Inr doc \<or>
      bar_chart th title sub groups series ymax ticks xlabel remark = Inr doc \<or>
      (\<exists>t. dict_item palettes th = Inr t \<and>
         (chart_pareto lg t = Inr doc \<or> chart_matched t = Inr doc \<or> chart_loadcpu t = Inr doc))"
  shows "well_formed doc"
  using assms(10)
proof (elim disjE exE conjE)
  assume "line_chart th title sub xs series ymax ticks xlabel rule = Inr doc"
  then show ?thesis using assms(1-7) by (rule line_chart_well_formed)
next
  assume "bar_chart th title sub groups series ymax ticks xlabel remark = Inr doc"
  then show ?thesis using assms(1-3,6,8,5,9) by (rule bar_chart_well_formed)
qed (rule chart_pareto_well_formed chart_matched_well_formed chart_loadcpu_well_formed, rule palette_plain, assumption+)+

theorem charts_well_formed_witness:
  "\<exists>doc. line_chart ''dark'' ''a < b'' ''&'' [''8'', ''64''] [(''<Rostam> & co'', [1, 2])] 3 [0, 3] ''x'' None = Inr doc \<and> well_formed doc"
proof -
  have t: "theme_of ''dark'' = Inr dark_theme"
    by (simp add: theme_of_def dict_item_def themes_def)
  obtain doc where doc: "line_chart ''dark'' ''a < b'' ''&'' [''8'', ''64''] [(''<Rostam> & co'', [1, 2])] 3 [0, 3] ''x'' None = Inr doc"
    using line_chart_returns [OF t, of 3 "[''8'', ''64'']" "[(''<Rostam> & co'', [1, 2])]"] by fastforce
  have "well_formed doc"
    by (rule charts_well_formed [where groups = "[]" and remark = None, OF _ _ _ _ _ _ _ _ _ disjI1 [OF doc]])
      (simp_all add: plain_lits)
  with doc show ?thesis by blast
qed

section \<open>Label placement\<close>

text \<open>
  C36. The end labels of a line chart never overlap. For up to a thousand labels, after \<open>decollide\<close> any two
  labels are at least 14.99 apart (the gap of 15 up to the rounding of floats), labels are in the order of
  the ends of their lines, and if they fit between the limits at all they lie between them, to within a
  hundredth.
\<close>

theorem labels_apart:
  assumes "ys \<noteq> []" "list_all (\<lambda>y. \<bar>y\<bar> \<le> 10000) ys" "length ys \<le> 1000" "\<bar>lo\<bar> \<le> 1000" "\<bar>hi\<bar> \<le> 1000"
  shows "\<exists>res. decollide ys 15 lo hi = Inr res \<and> length res = length ys \<and>
    (\<forall>i < length ys. \<forall>j < length ys. ys ! i < ys ! j \<longrightarrow> 1499 / 100 \<le> res ! j - res ! i) \<and>
    (\<forall>i < length ys. \<forall>j < length ys. i \<noteq> j \<longrightarrow> 1499 / 100 \<le> \<bar>res ! j - res ! i\<bar>) \<and>
    (Max (set res) - Min (set res) \<le> hi - lo - 1 / 100 \<longrightarrow> (\<forall>y \<in> set res. lo - 1 / 100 \<le> y \<and> y \<le> hi + 1 / 100))"
  using decollide_apart [OF assms] decollide_inside [OF assms] by blast

theorem labels_apart_witness:
  "\<exists>a b c. decollide [100, 100, 90] 15 46 340 = Inr [a, b, c] \<and> 1499 / 100 \<le> a - c \<and> 1499 / 100 \<le> \<bar>b - a\<bar>"
proof -
  obtain res where r: "decollide [100, 100, 90] 15 46 340 = Inr res" "length res = 3"
      "\<forall>i < 3. \<forall>j < 3. [100, 100, 90] ! i < ([100, 100, 90] :: rat list) ! j \<longrightarrow> 1499 / 100 \<le> res ! j - res ! i"
      "\<forall>i < 3. \<forall>j < 3. i \<noteq> j \<longrightarrow> 1499 / 100 \<le> \<bar>res ! j - res ! i\<bar>"
    using labels_apart [of "[100, 100, 90]" 46 340] by auto
  then obtain a b c where "res = [a, b, c]"
    by (auto simp: numeral_3_eq_3 length_Suc_conv)
  with r(1) r(3) [THEN spec, of 2, THEN mp, THEN spec, of 0] r(4) [THEN spec, of 0, THEN mp, THEN spec, of 1] show ?thesis
    by auto
qed

section \<open>Coordinates\<close>

lemma read_f1_mono: "y \<le> y' \<Longrightarrow> read_fixed (f1 y) \<le> read_fixed (f1 y')"
  using half_even_mono [of "y * 10 ^ 1" "y' * 10 ^ 1"] by (simp add: read_fmt_fixed)

text \<open>
  C37. A value on the axis is drawn inside the plot area: for values between 0 and the top of the axis the
  coordinate that is printed reads back to within a twentieth of the one computed, at most a twentieth
  outside the plot area, and a larger value is never printed lower.
\<close>

theorem coordinates_in_plot:
  assumes "0 < ymax" "0 \<le> v" "v \<le> v'" "v' \<le> ymax"
  shows "\<exists>y y'. ypos ymax v = Inr y \<and> ypos ymax v' = Inr y' \<and>
    \<bar>read_fixed (f1 y) - y\<bar> \<le> 1 / 20 \<and> read_fixed (f1 y') \<le> read_fixed (f1 y) \<and>
    of_int mt - 1 / 20 \<le> read_fixed (f1 y') \<and> read_fixed (f1 y) \<le> of_int (mt + ph) + 1 / 20"
proof -
  obtain y y' where y: "ypos ymax v = Inr y" "of_int mt \<le> y" "y \<le> of_int (mt + ph)"
      "ypos ymax v' = Inr y'" "of_int mt \<le> y'" "y' \<le> of_int (mt + ph)"
    using ypos_range [of ymax v] ypos_range [of ymax v'] assms by fastforce
  have "\<bar>read_fixed (f1 z) - z\<bar> \<le> 1 / 20" for z
    using fmt_fixed_error [of 1 z] by simp
  then have e: "\<bar>read_fixed (f1 y) - y\<bar> \<le> 1 / 20" "\<bar>read_fixed (f1 y') - y'\<bar> \<le> 1 / 20"
    by blast+
  then have "of_int mt - 1 / 20 \<le> read_fixed (f1 y')" "read_fixed (f1 y) \<le> of_int (mt + ph) + 1 / 20"
    using y(3,5) by linarith+
  then show ?thesis
    using e(1) y(1,4) read_f1_mono [OF ypos_mono [OF assms(1,3) y(1,4)]] by blast
qed

theorem coordinates_in_plot_witness:
  "\<exists>y y'. ypos 800 200 = Inr y \<and> ypos 800 732 = Inr y' \<and> read_fixed (f1 y') \<le> read_fixed (f1 y)"
  using coordinates_in_plot [of 800 200 732] by auto

section \<open>Colours\<close>

definition chart_colours :: "theme \<Rightarrow> (string \<times> rat list) list \<Rightarrow> string list result" where
  "chart_colours t series = mapr (\<lambda>(i, s). series_colour t i (fst s)) (enumerate 0 series)"

text \<open>
  C38. Colour follows the entity: in a theme an engine of the fixed assignment has one colour, at whatever
  position of whatever chart it is drawn, and two engines never share one; and in the charts of the
  script that compare engines all series have different colours, the collapsed Redis family, which takes the
  colour of its position, included.
\<close>

theorem entity_colours:
  assumes "theme_of th = Inr t" "map_of slot a = Some ka" "map_of slot b = Some kb"
  shows "(\<exists>c. \<forall>i. series_colour t i a = Inr c) \<and> (a \<noteq> b \<longrightarrow> (\<forall>i j. series_colour t i a \<noteq> series_colour t j b)) \<and>
    list_all (\<lambda>s. case chart_colours t s of Inl e \<Rightarrow> False | Inr cs \<Rightarrow> distinct cs)
      [wire_series, pick local_get fast_engines, pick local_get family_engines, pick local_put fast_engines,
       pick local_put family_engines, rf2_all, rf2_master]"
proof -
  have k: "ka < length (hues t)" "kb < length (hues t)" "distinct (hues t)"
    using slot_hues [OF assms(2,1)] slot_hues [OF assms(3,1)] by simp_all
  have c: "series_colour t i a = Inr (hues t ! ka)" "series_colour t i b = Inr (hues t ! kb)" for i
    using assms(2,3) k by (simp_all add: series_colour_def row_at_def)
  have "ka \<noteq> kb" if "a \<noteq> b"
    using slot_inject [OF assms(2)] assms(3) that by blast
  then have "a \<noteq> b \<longrightarrow> (\<forall>i j. series_colour t i a \<noteq> series_colour t j b)"
    using k by (simp add: c nth_eq_iff_index_eq)
  moreover have "t = light_theme \<or> t = dark_theme"
    using assms(1) by (auto simp: theme_of_def dict_item_def themes_def split: if_splits)
  then have "list_all (\<lambda>s. case chart_colours t s of Inl e \<Rightarrow> False | Inr cs \<Rightarrow> distinct cs)
      [wire_series, pick local_get fast_engines, pick local_get family_engines, pick local_put fast_engines,
       pick local_put family_engines, rf2_all, rf2_master]"
    by (elim disjE)
      (simp_all add: chart_colours_def wire_series_def pick_def local_get_def local_put_def fast_engines_def family_engines_def
        rf2_all_def rf2_master_def series_colour_def slot_def row_at_def light_theme_def dark_theme_def)
  ultimately show ?thesis
    using c by blast
qed

theorem entity_colours_witness:
  "series_colour light_theme 0 ''Redis'' \<noteq> series_colour light_theme 4 ''KeyDB''"
proof -
  have "theme_of ''light'' = Inr light_theme"
    by (simp add: theme_of_def dict_item_def themes_def)
  moreover have "map_of slot ''Redis'' = Some 4" "map_of slot ''KeyDB'' = Some 5"
    by (simp_all add: slot_def)
  ultimately show ?thesis
    using entity_colours [of "''light''" light_theme "''Redis''" 4 "''KeyDB''" 5] by simp
qed

section \<open>Main programs\<close>

text \<open>
  C40. Both generators have one contract for their command line. If an argument is not a directory, they
  exit naming the first such argument, before anything is written. Otherwise nothing fails, and every
  directory, the script's own and those of the command line, receives every chart in both themes, each a
  well-formed document: six files of one generator, which prints a line for each with the number of directories,
  and eighteen of the other.
\<close>

theorem generators_write_all:
  assumes "log10_spec lg"
  shows "if list_all is_dir args then
      (\<exists>new. vdb_main lg is_dir own args w =
           (w @ new, [wrote_line name th (length (own # args)). (name, fn) \<leftarrow> vdb_charts lg, th \<leftarrow> [''light'', ''dark'']], Inr ()) \<and>
         length new = 6 * length (own # args) \<and>
         (\<forall>(name, fn) \<in> set (vdb_charts lg). \<forall>th \<in> {''light'', ''dark''}. \<forall>d \<in> set (own # args).
            \<exists>doc. rbind (dict_item palettes th) fn = Inr doc \<and> well_formed doc \<and> (d, name @ ''-'' @ th @ ''.svg'', doc) \<in> set new)) \<and>
      (\<exists>new names. mkcharts is_dir own args w = (w @ new, Some names, Inr ()) \<and> length new = 18 * length (own # args) \<and>
         (\<forall>(stem, fn) \<in> set (first_charts @ last_charts). \<forall>th \<in> {''light'', ''dark''}. \<forall>d \<in> set (own # args).
            \<exists>doc. fn th = Inr doc \<and> well_formed doc \<and> (d, stem @ ''-'' @ th @ ''.svg'', doc) \<in> set new))
    else (\<exists>a. find (\<lambda>d. \<not> is_dir d) args = Some a \<and>
      vdb_main lg is_dir own args w = (w, [], Inl (SystemExit (''not a directory: '' @ a))) \<and>
      mkcharts is_dir own args w = (w, None, Inl (SystemExit (''not a directory: '' @ a))))"
proof (cases "list_all is_dir args")
  case True
  with vdb_main_files [OF assms True, of own w] mkcharts_files [OF True, of own w] show ?thesis
    by simp
next
  case False
  with vdb_main_refuses [OF False, of lg own w] mkcharts_refuses [OF False, of own w] show ?thesis
    by auto
qed

theorem generators_write_all_witness:
  "\<exists>new lines. vdb_main (of_int \<circ> expo) (\<lambda>d. d = ''docs'') ''charts'' [''docs''] [] = (new, lines, Inr ()) \<and> length new = 12 \<and>
    hd lines = ''wrote pareto-light.svg  ->  2 location(s)''"
proof -
  have "wrote_line ''pareto'' ''light'' 2 = ''wrote pareto-light.svg  ->  2 location(s)''"
    by code_simp
  then have "hd [wrote_line name th (length [''charts'', ''docs'']). (name, fn) \<leftarrow> vdb_charts lg, th \<leftarrow> [''light'', ''dark'']] =
      ''wrote pareto-light.svg  ->  2 location(s)''" for lg
    by (simp add: vdb_charts_def flip: numeral_2_eq_2)
  then show ?thesis
    using generators_write_all [OF log10_spec_expo, of "\<lambda>d. d = ''docs''" "[''docs'']" "''charts''" "[]"] by auto
qed

end
