(* ===== verification/Spec2Isabelle.thy ===== *)
theory Spec2Isabelle
  imports Plugin Bench Grpc Scripts Charts
begin

text \<open>
  Verification of the Python programs of rostam-bench.

  \<^bold>\<open>The program.\<close> The repository benchmarks the Rostam vector database. Its Python code has three
  parts: a client plugin for VectorDBBench (\<open>vectordbbench/rostam/rostam.py\<close> with \<open>config.py\<close> and \<open>cli.py\<close>)
  that creates a collection over HTTP, loads vectors in chunks of a thousand over a binary wire with a
  permanent fallback to JSON, builds the index and searches; the SIFT-1M clients and harnesses
  (\<open>sift1m/*.py\<close>) that measure recall, latency and throughput of Rostam over a binary RPC and gRPC, and
  of Qdrant, RediSearch and hnswlib; and two chart generators. The Go servers, the shell drivers
  and the data files are not Python and not modelled.

  \<^bold>\<open>Shared theories.\<close> \<open>Prelude\<close>: Python exceptions as a datatype, results as sums, slices and
  dictionaries. \<open>Bytes\<close>: \<open>struct.pack\<close>/\<open>unpack\<close> of big-endian integers and the codec locales \<open>stream_codec\<close> and
  \<open>fixed_codec\<close>. \<open>Py_Text\<close>: decimal text, \<open>int()\<close>, joining, splitting, UTF-8. \<open>Json\<close>: values, \<open>json.dumps\<close>, \<open>int()\<close> of a
  value. \<open>Float_Bits\<close>: conversion between float32 and float64 on bit patterns. \<open>Py_Float\<close>: arithmetic of
  finite doubles as exact rationals followed by rounding to nearest even.

  \<^bold>\<open>The plugin.\<close> \<open>Wire\<close> has the encoders (\<open>binary_body\<close>, \<open>query_body\<close>, \<open>json_body\<close>) and input conversions;
  \<open>Wire_Codec\<close> the receiver's decoders of the documented layouts and the round trips. \<open>Config\<close> has
  \<open>RostamConfig\<close>, \<open>RostamHNSWConfig\<close> and the command line. \<open>Client\<close> has the class \<open>Rostam\<close>: the record \<open>rostam\<close>
  holds its attributes and every method is a function on the object and the world. \<open>Client_Steps\<close> has
  the step relation \<open>client_step\<close> of arbitrary method calls with its invariant, and the locale
  \<open>wire_negotiation\<close>, interpreted for the bulk and the query wire. \<open>Load\<close> and \<open>Server\<close> state what a server
  promises of the load routes (\<open>load_server\<close>, \<open>live_server\<close>) and show that a load stores each point once and
  completes; \<open>Request_Log\<close> counts the requests of a load; \<open>Search\<close> does the same for queries. \<open>Session\<close> has
  the abstract vector database \<open>spec_db\<close> and the contract \<open>vector_server\<close> of a server that stores and answers, and
  shows that sessions on the object refine sessions on the database. The theorems C1 to C8, C10, C11, C13 to C16
  and C34 are in \<open>Plugin\<close>. \<open>Smoke\<close> models \<open>vectordbbench/smoke_test.py\<close>, which drives the object through its whole life:
  reading a subset of the data, brute-force ground truth, construction with the old collection dropped, load, build,
  search, the assertions and the lines printed; the contract \<open>managed_server\<close> adds to \<open>vector_server\<close> what it needs of the server, and C9
  is its verdict.

  \<^bold>\<open>The SIFT-1M programs.\<close> \<open>Rpc_Client\<close> has the request frame, the receive loop and the decoding of a
  response; \<open>Rpc_Socket\<close> the contracts of a socket (\<open>byte_stream\<close>) and of a server behind it (\<open>rpc_server\<close>).
  \<open>Measure\<close> has the vector files, the timed loop, the summary and the worker; \<open>Measure_Facts\<close> their lemmas
  and the contract \<open>running_clock\<close>. \<open>Sift_Clients\<close> puts the two Rostam clients together, \<open>Engines\<close> the
  harnesses of Qdrant, Redis and hnswlib; \<open>Sift_Facts\<close> and \<open>Engine_Facts\<close> hold the contracts
  \<open>answering_engine\<close>, \<open>rpc_hits\<close>, \<open>polling\<close> and \<open>pipe_store\<close> with what follows from them. \<open>Report\<close> has the lines the
  programs print, as their f-strings build them, a reader for the rows and the contract \<open>console\<close> of printing;
  \<open>Report_Facts\<close> shows for every main program which lines a run prints, in which order, when nobody else prints
  (\<open>bench_console\<close> and its extensions for each service). The theorems C17 to C29, C31
  and C32 are in \<open>Bench\<close>. \<open>Scripts\<close> has the settings that the scripts read from their environment, with the defaults, and
  each script as it is started.

  \<^bold>\<open>The gRPC stubs.\<close> \<open>Proto\<close> has the protobuf wire format (variable-length integers, tagged fields) as instances of the
  codec locale. \<open>Vector_Pb2\<close> models \<open>sift1m/grpc_stubs/vector_pb2.py\<close>: the descriptor literal and the recorded spans, a reader
  of descriptors, the schema of \<open>vector.proto\<close>, the messages, and the contract \<open>message_runtime\<close> of the message classes, which
  the protobuf package builds at run time. \<open>Grpc_Stubs\<close> models \<open>vector_pb2_grpc.py\<close> (version check, \<open>VectorSearchStub\<close>, the
  servicer base class, \<open>add_VectorSearchServicer_to_server\<close>, the one-shot \<open>VectorSearch.Search\<close>) and \<open>new_stub\<close> of the gRPC
  client; \<open>grpc_runtime\<close> is what the grpc package promises of routes, calls and statuses, \<open>search_link\<close> and \<open>search_service\<close> put
  the parts together. In \<open>Grpc\<close>: the measurement of the gRPC client through all of it (C12), the stub against the
  servicer (C30), and the generated modules against the schema (C33).

  \<^bold>\<open>The chart generators.\<close> \<open>Svg_Text\<close> has the escaping and Python's number formats with what reads them back;
  \<open>Svg_Scan\<close> a scanner for XML documents and the texts that are neutral to it. \<open>Kv_Charts\<close> and \<open>Kv_Main\<close> model
  \<open>netkv/charts/mkcharts.py\<close> (geometry, themes, label placement, line and bar charts; the nine charts with their
  data, the files written and the names printed), \<open>Kv_Facts\<close> and \<open>Kv_Wf\<close> hold the lemmas on label placement,
  coordinates and colours and on the form of the documents. \<open>Vdb_Charts\<close> models
  \<open>vectordbbench/charts/make_charts.py\<close> (tables, SVG helpers, three charts, main program), \<open>Vdb_Wf\<close> and \<open>Vdb_Facts\<close> hold its
  lemmas. A document is a string, UTF-8 encoded. Evaluated on the data of the scripts, the definitions yield the
  SVG files committed beside them, byte for byte. The theorems C35 to C40 are in \<open>Charts\<close>: documents are
  well formed, labels do not collide, coordinates stay in the plot, colours follow the engine, the table of matched
  recall is the interpolation of the curves but for one entry, and each run writes every chart everywhere or
  nothing.

  \<^bold>\<open>Parameters.\<close> Code outside the repository is an argument of the definitions that use it: numpy is the
  records \<open>numpy\<close> and \<open>np_files\<close> with \<open>numpy_spec\<close> and \<open>np_files_spec\<close> for its documented behaviour; \<open>requests\<close>,
  the network and the HTTP server are a \<open>transport\<close>; printing is a \<open>printer\<close>, an operation on the world; sockets, clocks, the process pool, the Qdrant, Redis and hnswlib
  libraries are records or functions on an abstract world; the protobuf runtime is the record \<open>pb2\<close>, the grpc package the
  records \<open>channel\<close> and \<open>server_ops\<close>. \<open>repr\<close> of a float
  is an argument of \<open>json_dumps\<close>, \<open>sum\<close> of floats one of the summary (its algorithm differs between
  Python versions), \<open>math.log10\<close> one of the recall chart, with \<open>log10_spec\<close> for what is used of it. Every locale is interpreted, and the interpretations serve as the witnesses'
  servers, sockets and services.

  \<^bold>\<open>Termination and bounds.\<close> The load loop, the receive loop and the recursions over data are total
  functions. The throughput worker and the loops that wait for an index have no bound in the code;
  they are partial functions whose value \<open>None\<close> is not returning, and C25 and C28 show that they
  return under a running clock and a progressing service. Integers of the wires have their widths:
  \<open>struct\<close> raises outside them (C16), and the round trips are stated up to them. Floats on a wire are
  bit patterns and are never computed with.

  \<^bold>\<open>What is not modelled.\<close> Log output, and the line that \<open>make_charts.py\<close> prints for each chart; exception message texts beyond
  the ones the code writes (the one of the smoke test about an insert error is shortened); NaN, infinities and the sign of zero in the harness and chart arithmetic; strings
  outside Latin-1 (the charts' text excepted, which is kept as UTF-8). Of the packages that are not part of the
  repository (numpy, requests, grpc, protobuf, the clients of the other engines, click, VectorDBBench) only what the code
  relies on is stated, as the contracts above. The copies of \<open>read_fvecs\<close> and \<open>read_ivecs\<close> in the harnesses are one
  definition each.

  \<^bold>\<open>Plan.\<close> All Python programs of the repository are modelled up to the list above. What remains worthwhile is to
  strengthen what is proved: a bound on the distance of the label placement to the one in exact arithmetic, the
  success of whole runs of the harnesses (C12, C22 and C23 show it of the latency measurements, C25 and C28 of the
  workers and the build), and the summaries under the summation of a fixed Python version.
\<close>

end
